(* ===== verification/Prelude.thy ===== *)
theory Prelude
  imports Complex_Main
begin

text \<open>
  Shared vocabulary of the development: the Python floats the code compares, the exceptions
  its functions raise and the classes its handlers catch, sequencing of fallible calls over
  the sum type, traversals that stop at the first exception, splitting of strings, and the
  generic lemmas on lists that several components use.
\<close>

section \<open>Fact collections\<close>

named_theorems exn_simps \<open>which handler catches which exception\<close>
named_theorems flow_simps \<open>inversion of fallible sequencing\<close>


section \<open>Floating-point values\<close>

text \<open>
  A Python float (or a numpy float32) is a finite value, an infinity or a NaN. Finite values
  are exact rationals: rounding is not modelled, the comparisons and the special values are.
  A comparison with NaN is false, as in IEEE 754.
\<close>

datatype pyfloat = Fin rat | PInf | NInf | NaN

fun flt :: "pyfloat \<Rightarrow> pyfloat \<Rightarrow> bool" where
  "flt (Fin a) (Fin b) = (a < b)"
| "flt (Fin _) PInf = True"
| "flt NInf (Fin _) = True"
| "flt NInf PInf = True"
| "flt _ _ = False"

fun is_finite :: "pyfloat \<Rightarrow> bool" where
  "is_finite (Fin _) = True"
| "is_finite _ = False"

text \<open>Python's two-argument \<open>min(a, b)\<close>: \<open>b\<close> replaces \<open>a\<close> only when it is smaller.\<close>

definition pymin :: "pyfloat \<Rightarrow> pyfloat \<Rightarrow> pyfloat" where
  "pymin a b = (if flt b a then b else a)"

text \<open>The product with a positive rational (the code only scales by 10).\<close>

fun fscale :: "rat \<Rightarrow> pyfloat \<Rightarrow> pyfloat" where
  "fscale k (Fin a) = Fin (k * a)"
| "fscale k x = x"

lemma flt_trans: "flt a b \<Longrightarrow> flt b c \<Longrightarrow> flt a c"
  by (cases a; cases b; cases c) auto

lemma flt_irrefl [simp]: "\<not> flt a a"
  by (cases a) auto

lemma flt_asym: "flt a b \<Longrightarrow> \<not> flt b a"
  using flt_trans [of a b a] by auto

lemma flt_not_NaN: "flt a b \<Longrightarrow> a \<noteq> NaN \<and> b \<noteq> NaN"
  by (cases a; cases b) auto

lemma flt_between_finite:
  assumes "flt (Fin a) x" and "flt x (Fin b)"
  shows "\<exists>q. x = Fin q \<and> a < q \<and> q < b"
  using assms by (cases x) auto

lemma pymin_cases: "pymin a b = a \<or> pymin a b = b"
  by (simp add: pymin_def)

lemma pymin_not_above: "\<not> flt a (pymin a b) \<and> (b \<noteq> NaN \<longrightarrow> a \<noteq> NaN \<longrightarrow> \<not> flt b (pymin a b))"
  by (cases a; cases b) (auto simp: pymin_def)


section \<open>Exceptions\<close>

text \<open>
  The exceptions the modelled code raises or catches. \<open>SystemExit\<close> carries the exit status
  when it is an integer. \<open>OtherError\<close> stands for any further subclass of \<open>Exception\<close>
  that library code may raise.
\<close>

datatype exn =
    TemplateFileNotFound
  | EmptyTemplateStore
  | TemplateSchemaError
  | TemplateSpaceMismatch
  | ProtocolError
  | ConnectionError
  | TimeoutError
  | FileNotFoundError
  | OSError
  | ValueError
  | TypeError
  | OverflowError
  | AttributeError
  | IndexError
  | ModuleNotFoundError
  | DetectorFactoryError
  | SystemExit "int option"
  | KeyboardInterrupt
  | OtherError string

text \<open>\<open>TemplateStoreError\<close> and its four subclasses.\<close>

definition is_store_error :: "exn \<Rightarrow> bool" where
  "is_store_error e \<longleftrightarrow> e \<in> {TemplateFileNotFound, EmptyTemplateStore, TemplateSchemaError,
     TemplateSpaceMismatch}"

text \<open>The built-in \<open>OSError\<close> hierarchy.\<close>

definition is_os_error :: "exn \<Rightarrow> bool" where
  "is_os_error e \<longleftrightarrow> e \<in> {OSError, FileNotFoundError, ConnectionError, TimeoutError}"

text \<open>\<open>ValueError\<close> and its subclass of the wire protocol.\<close>

definition is_value_error :: "exn \<Rightarrow> bool" where
  "is_value_error e \<longleftrightarrow> e \<in> {ValueError, ProtocolError}"

text \<open>What \<open>except Exception\<close> catches: everything but the two that derive from
  \<open>BaseException\<close> directly.\<close>

fun is_exception :: "exn \<Rightarrow> bool" where
  "is_exception (SystemExit _) = False"
| "is_exception KeyboardInterrupt = False"
| "is_exception _ = True"

lemma store_error_is_exception [exn_simps]: "is_store_error e \<Longrightarrow> is_exception e"
  by (cases e) (auto simp: is_store_error_def)

lemma is_store_error_simps [simp]:
  "is_store_error TemplateFileNotFound" "is_store_error EmptyTemplateStore"
  "is_store_error TemplateSchemaError" "is_store_error TemplateSpaceMismatch"
  "\<not> is_store_error ValueError" "\<not> is_store_error TypeError" "\<not> is_store_error OSError"
  "\<not> is_store_error OverflowError" "\<not> is_store_error (SystemExit c)"
  "\<not> is_store_error (OtherError s)" "\<not> is_store_error FileNotFoundError"
  by (simp_all add: is_store_error_def)

lemma is_os_error_simps [simp]:
  "is_os_error OSError" "is_os_error FileNotFoundError" "is_os_error ConnectionError"
  "is_os_error TimeoutError" "\<not> is_os_error ValueError" "\<not> is_os_error TypeError"
  "\<not> is_os_error TemplateSchemaError" "\<not> is_os_error TemplateFileNotFound"
  by (simp_all add: is_os_error_def)


section \<open>Sequencing of fallible calls\<close>

text \<open>A call that may raise returns \<open>exn + 'a\<close>; the first exception ends the sequence.\<close>

fun bindE :: "'e + 'a \<Rightarrow> ('a \<Rightarrow> 'e + 'b) \<Rightarrow> 'e + 'b" where
  "bindE (Inl e) f = Inl e"
| "bindE (Inr x) f = f x"

lemma bindE_cong [fundef_cong]:
  assumes "m = n" and "\<And>x. n = Inr x \<Longrightarrow> f x = g x"
  shows "bindE m f = bindE n g"
  using assms by (cases n) auto

lemma bindE_Inr_iff [flow_simps]: "bindE m f = Inr y \<longleftrightarrow> (\<exists>x. m = Inr x \<and> f x = Inr y)"
  by (cases m) auto

lemma bindE_Inl_iff [flow_simps]:
  "bindE m f = Inl e \<longleftrightarrow> m = Inl e \<or> (\<exists>x. m = Inr x \<and> f x = Inl e)"
  by (cases m) auto

lemma bindE_assoc: "bindE (bindE m f) g = bindE m (\<lambda>x. bindE (f x) g)"
  by (cases m) auto

text \<open>
  A step of a stateful sequence: a call returned its new state and its outcome; an exception
  leaves with the state reached so far.
\<close>

fun thenS :: "'s \<times> ('e + 'a) \<Rightarrow> ('s \<Rightarrow> 'a \<Rightarrow> 's \<times> ('e + 'b)) \<Rightarrow> 's \<times> ('e + 'b)" where
  "thenS (s, Inl e) f = (s, Inl e)"
| "thenS (s, Inr x) f = f s x"

lemma thenS_Inr_iff [flow_simps]:
  "thenS m f = (s', Inr y) \<longleftrightarrow> (\<exists>s x. m = (s, Inr x) \<and> f s x = (s', Inr y))"
  by (cases m; cases "snd m") auto

lemma thenS_Inl_iff [flow_simps]:
  "thenS m f = (s', Inl e) \<longleftrightarrow> m = (s', Inl e) \<or> (\<exists>s x. m = (s, Inr x) \<and> f s x = (s', Inl e))"
  by (cases m; cases "snd m") auto

lemma thenS_pair: "thenS (s, x) f = (case x of Inl e \<Rightarrow> (s, Inl e) | Inr y \<Rightarrow> f s y)"
  by (cases x) auto

lemma thenS_assoc: "thenS (thenS m f) g = thenS m (\<lambda>s x. thenS (f s x) g)"
  by (cases m; cases "snd m") auto

text \<open>A list comprehension whose body may raise.\<close>

fun mapE :: "('a \<Rightarrow> 'e + 'b) \<Rightarrow> 'a list \<Rightarrow> 'e + 'b list" where
  "mapE f [] = Inr []"
| "mapE f (x # xs) = bindE (f x) (\<lambda>y. bindE (mapE f xs) (\<lambda>ys. Inr (y # ys)))"

lemma mapE_cong [fundef_cong]:
  assumes "xs = ys" and "\<And>x. x \<in> set ys \<Longrightarrow> f x = g x"
  shows "mapE f xs = mapE g ys"
  unfolding assms(1) using assms(2) by (induction ys) auto

lemma mapE_all_Inr: "(\<And>x. x \<in> set xs \<Longrightarrow> f x = Inr (g x)) \<Longrightarrow> mapE f xs = Inr (map g xs)"
  by (induction xs) auto

lemma mapE_Inr_iff: "mapE f xs = Inr ys \<longleftrightarrow> list_all2 (\<lambda>x y. f x = Inr y) xs ys"
  by (induction xs arbitrary: ys) (auto simp: flow_simps list_all2_Cons1)

lemma mapE_Inr_mem: "mapE f xs = Inr ys \<Longrightarrow> y \<in> set ys \<Longrightarrow> \<exists>x \<in> set xs. f x = Inr y"
  by (induction xs arbitrary: ys) (auto simp: flow_simps)

lemma mapE_Inr_length: "mapE f xs = Inr ys \<Longrightarrow> length ys = length xs"
  by (simp add: mapE_Inr_iff list_all2_lengthD)


section \<open>Lists and strings\<close>

text \<open>\<open>str.split\<close> on one character: the pieces between the separators, empty ones kept.\<close>

fun split_on :: "'a \<Rightarrow> 'a list \<Rightarrow> 'a list list" where
  "split_on c [] = [[]]"
| "split_on c (x # xs) =
     (if x = c then [] # split_on c xs
      else case split_on c xs of [] \<Rightarrow> [[x]] | p # ps \<Rightarrow> (x # p) # ps)"

lemma split_on_nonempty [simp]: "split_on c xs \<noteq> []"
  by (induction xs) (auto split: list.splits)

lemma split_on_no_sep: "c \<notin> set xs \<Longrightarrow> split_on c xs = [xs]"
  by (induction xs) auto

lemma split_on_append_sep: "c \<notin> set xs \<Longrightarrow> split_on c (xs @ c # ys) = xs # split_on c ys"
  by (induction xs) auto

text \<open>The last piece keeps whatever follows the last separator.\<close>

lemma split_on_append_no_sep:
  "c \<notin> set t \<Longrightarrow> \<exists>ps p. split_on c (s @ t) = ps @ [p @ t]"
proof (induction s)
  case Nil
  then show ?case by (auto simp: split_on_no_sep)
next
  case (Cons x s)
  then obtain ps p where sp: "split_on c (s @ t) = ps @ [p @ t]" by blast
  show ?case
  proof (cases "x = c")
    case True
    with sp have "split_on c ((x # s) @ t) = ([] # ps) @ [p @ t]" by simp
    then show ?thesis by blast
  next
    case False
    show ?thesis
    proof (cases ps)
      case Nil
      with sp False have "split_on c ((x # s) @ t) = [] @ [(x # p) @ t]" by simp
      then show ?thesis by blast
    next
      case (Cons q qs)
      with sp False have "split_on c ((x # s) @ t) = ((x # q) # qs) @ [p @ t]" by simp
      then show ?thesis by blast
    qed
  qed
qed

text \<open>The pieces a list of lists contributes to its concatenation, by position.\<close>

fun owners_of :: "nat \<Rightarrow> 'a list list \<Rightarrow> nat list" where
  "owners_of i [] = []"
| "owners_of i (xs # xss) = replicate (length xs) i @ owners_of (Suc i) xss"

lemma length_owners_of [simp]: "length (owners_of i xss) = length (concat xss)"
  by (induction xss arbitrary: i) auto

lemma owners_of_nth:
  "k < length (concat xss) \<Longrightarrow>
     i \<le> owners_of i xss ! k \<and> owners_of i xss ! k < i + length xss \<and>
     concat xss ! k \<in> set (xss ! (owners_of i xss ! k - i))"
proof (induction xss arbitrary: i k)
  case Nil
  then show ?case by simp
next
  case (Cons xs xss)
  show ?case
  proof (cases "k < length xs")
    case True
    then show ?thesis by (simp add: nth_append)
  next
    case False
    let ?j = "k - length xs"
    from False Cons.prems have "?j < length (concat xss)" by simp
    from Cons.IH [OF this, of "Suc i"] False show ?thesis
      by (simp add: nth_append)
  qed
qed

text \<open>The outcome of a state-passing call, from the value of its second component.\<close>

lemma pair_of_snd: "snd p = y \<Longrightarrow> p = (fst p, y)"
  by (cases p) simp

lemma find_Some_mem: "List.find P xs = Some x \<Longrightarrow> x \<in> set xs \<and> P x"
  by (induction xs) (auto split: if_splits)

lemma find_None_iff_all: "List.find P xs = None \<longleftrightarrow> (\<forall>x \<in> set xs. \<not> P x)"
  by (induction xs) auto

text \<open>Removing one of several distinct elements.\<close>

lemma length_filter_neq_distinct:
  "distinct xs \<Longrightarrow> x \<in> set xs \<Longrightarrow> length (filter (\<lambda>y. y \<noteq> x) xs) = length xs - 1"
proof (induction xs)
  case (Cons a xs)
  show ?case
  proof (cases "a = x")
    case True
    with Cons.prems have "filter (\<lambda>y. y \<noteq> x) xs = xs"
      by (auto simp: filter_id_conv)
    with True show ?thesis by simp
  next
    case False
    with Cons show ?thesis by (auto intro!: Suc_pred length_pos_if_in_set)
  qed
qed simp


section \<open>Dictionaries\<close>

text \<open>\<open>s.startswith(p)\<close>.\<close>

definition starts_with :: "'a list \<Rightarrow> 'a list \<Rightarrow> bool" where
  "starts_with s p \<longleftrightarrow> take (length p) s = p"

text \<open>A dictionary in the order of insertion: a key that is set again keeps its place.\<close>

fun dict_put :: "'k \<Rightarrow> 'v \<Rightarrow> ('k \<times> 'v) list \<Rightarrow> ('k \<times> 'v) list" where
  "dict_put k v [] = [(k, v)]"
| "dict_put k v ((k', v') # d) = (if k' = k then (k, v) # d else (k', v') # dict_put k v d)"

definition dict_of :: "('k \<times> 'v) list \<Rightarrow> ('k \<times> 'v) list" where
  "dict_of ps = fold (\<lambda>(k, v). dict_put k v) ps []"

lemma map_of_dict_put: "map_of (dict_put k v d) = (map_of d)(k \<mapsto> v)"
  by (induction d) (auto simp: fun_eq_iff)

text \<open>A repeated key has the last value given.\<close>

lemma map_of_dict_of: "map_of (dict_of ps) = map_of (rev ps)"
proof -
  have "map_of (fold (\<lambda>(k, v). dict_put k v) ps d) = map_of (rev ps @ d)" for d
  proof (induction ps arbitrary: d)
    case (Cons p ps)
    then show ?case by (cases p) (simp add: map_of_dict_put fun_eq_iff map_add_def split: option.splits)
  qed simp
  from this [of "[]"] show ?thesis by (simp add: dict_of_def)
qed

lemma dict_put_new: "k \<notin> set (map fst d) \<Longrightarrow> dict_put k v d = d @ [(k, v)]"
  by (induction d) auto

lemma dict_of_distinct:
  assumes "distinct (map fst ps)"
  shows "dict_of ps = ps"
proof -
  have "fold (\<lambda>(k, v). dict_put k v) ps d = d @ ps" if "distinct (map fst (d @ ps))" for d
    using that by (induction ps arbitrary: d) (auto simp: dict_put_new image_iff)
  from this [of "[]"] assms show ?thesis by (simp add: dict_of_def)
qed

end
