(* ===== verification/Json.thy ===== *)
theory Json
  imports Prelude
begin

text \<open>
  The values \<open>json.load\<close> and \<open>json.loads\<close> produce and the built-ins the code applies to
  them: \<open>dict.get\<close>, \<open>==\<close> against an integer, \<open>isinstance(_, int)\<close>, \<open>int()\<close>
  and \<open>str()\<close>. A character of a \<open>string\<close> is one code point (below 256).
\<close>

section \<open>Values\<close>

datatype json =
    JNull
  | JBool bool
  | JInt int
  | JFloat pyfloat
  | JStr string
  | JList "json list"
  | JObj "(string \<times> json) list"

type_synonym jdict = "(string \<times> json) list"

text \<open>\<open>payload.get(key)\<close> and \<open>payload.get(key, default)\<close>.\<close>

definition jget :: "jdict \<Rightarrow> string \<Rightarrow> json option" where
  "jget d k = map_of d k"

definition jget_or :: "jdict \<Rightarrow> string \<Rightarrow> json \<Rightarrow> json" where
  "jget_or d k v = (case map_of d k of None \<Rightarrow> v | Some w \<Rightarrow> w)"

lemma jget_simps [simp]:
  "jget [] k = None"
  "jget ((k', v) # d) k = (if k = k' then Some v else jget d k)"
  by (auto simp: jget_def)

lemma jget_or_jget: "jget_or d k v = (case jget d k of None \<Rightarrow> v | Some w \<Rightarrow> w)"
  by (simp add: jget_or_def jget_def)

lemma jget_or_simps [simp]:
  "jget_or [] k v = v"
  "jget_or ((k', w) # d) k v = (if k = k' then w else jget_or d k v)"
  by (auto simp: jget_or_def)

text \<open>
  \<open>value == n\<close> for an integer constant: \<open>bool\<close> is a subclass of \<open>int\<close> and floats
  compare by value, so \<open>True == 1\<close> and \<open>1.0 == 1\<close>.
\<close>

fun eq_int :: "json option \<Rightarrow> int \<Rightarrow> bool" where
  "eq_int (Some (JInt n)) k = (n = k)"
| "eq_int (Some (JBool b)) k = ((if b then 1 else 0) = k)"
| "eq_int (Some (JFloat (Fin q))) k = (q = of_int k)"
| "eq_int _ k = False"

text \<open>\<open>isinstance(value, int)\<close>, with the integer it is.\<close>

fun as_instance_int :: "json \<Rightarrow> int option" where
  "as_instance_int (JInt n) = Some n"
| "as_instance_int (JBool b) = Some (if b then 1 else 0)"
| "as_instance_int _ = None"

text \<open>\<open>isinstance(value, int) and not isinstance(value, bool)\<close>.\<close>

fun as_plain_int :: "json \<Rightarrow> int option" where
  "as_plain_int (JInt n) = Some n"
| "as_plain_int _ = None"


section \<open>Decimal text\<close>

definition digit_val :: "char \<Rightarrow> nat" where
  "digit_val c = of_char c - 48"

definition is_digit :: "char \<Rightarrow> bool" where
  "is_digit c \<longleftrightarrow> 48 \<le> (of_char c :: nat) \<and> (of_char c :: nat) \<le> 57"

definition digit_char :: "nat \<Rightarrow> char" where
  "digit_char d = char_of (48 + d)"

fun show_nat :: "nat \<Rightarrow> string" where
  "show_nat n =
     (if n < 10 then [digit_char n] else show_nat (n div 10) @ [digit_char (n mod 10)])"

declare show_nat.simps [simp del]

text \<open>\<open>str(i)\<close> of an integer.\<close>

definition show_int :: "int \<Rightarrow> string" where
  "show_int i = (if i < 0 then CHR ''-'' # show_nat (nat (- i)) else show_nat (nat i))"

text \<open>The digits of \<open>int(s)\<close>: single underscores may separate digits.\<close>

fun parse_digits :: "int \<Rightarrow> bool \<Rightarrow> string \<Rightarrow> int option" where
  "parse_digits acc after_digit [] = (if after_digit then Some acc else None)"
| "parse_digits acc after_digit (c # cs) =
     (if is_digit c then parse_digits (10 * acc + int (digit_val c)) True cs
      else if c = CHR ''_'' \<and> after_digit then parse_digits acc False cs
      else None)"

definition is_space :: "char \<Rightarrow> bool" where
  "is_space c \<longleftrightarrow> (of_char c :: nat) \<in> {9, 10, 11, 12, 13, 32}"

definition strip :: "string \<Rightarrow> string" where
  "strip s = rev (dropWhile is_space (rev (dropWhile is_space s)))"

definition parse_int :: "string \<Rightarrow> exn + int" where
  "parse_int s =
     (let t = strip s;
          r = (case t of
                 [] \<Rightarrow> None
               | c # cs \<Rightarrow>
                   if c = CHR ''-'' then map_option uminus (parse_digits 0 False cs)
                   else if c = CHR ''+'' then parse_digits 0 False cs
                   else parse_digits 0 False t)
      in case r of None \<Rightarrow> Inl ValueError | Some n \<Rightarrow> Inr n)"

text \<open>\<open>int(value)\<close>: truncates floats towards zero.\<close>

fun py_int :: "json \<Rightarrow> exn + int" where
  "py_int JNull = Inl TypeError"
| "py_int (JBool b) = Inr (if b then 1 else 0)"
| "py_int (JInt n) = Inr n"
| "py_int (JFloat (Fin q)) = Inr (if q < 0 then \<lceil>q\<rceil> else \<lfloor>q\<rfloor>)"
| "py_int (JFloat NaN) = Inl ValueError"
| "py_int (JFloat _) = Inl OverflowError"
| "py_int (JStr s) = parse_int s"
| "py_int (JList _) = Inl TypeError"
| "py_int (JObj _) = Inl TypeError"

text \<open>\<open>str(value)\<close>; the text of floats and containers comes from \<open>repr_of\<close>.\<close>

fun py_str :: "(json \<Rightarrow> string) \<Rightarrow> json \<Rightarrow> string" where
  "py_str repr_of JNull = ''None''"
| "py_str repr_of (JBool b) = (if b then ''True'' else ''False'')"
| "py_str repr_of (JInt n) = show_int n"
| "py_str repr_of (JStr s) = s"
| "py_str repr_of v = repr_of v"

lemma digit_char_props:
  assumes "d < 10"
  shows "is_digit (digit_char d)" and "digit_val (digit_char d) = d"
    and "\<not> is_space (digit_char d)"
    and "digit_char d \<noteq> CHR ''-''" and "digit_char d \<noteq> CHR ''+''"
proof -
  have v: "of_char (digit_char d) = 48 + d"
    using assms by (simp add: digit_char_def)
  show "is_digit (digit_char d)" "digit_val (digit_char d) = d" "\<not> is_space (digit_char d)"
    using assms by (auto simp: is_digit_def digit_val_def is_space_def v)
  have "(of_char (digit_char d) :: nat) \<noteq> 45" "(of_char (digit_char d) :: nat) \<noteq> 43"
    by (simp_all add: v)
  then show "digit_char d \<noteq> CHR ''-''" "digit_char d \<noteq> CHR ''+''"
    by auto
qed

lemma parse_digits_snoc:
  "parse_digits acc b s = Some n \<Longrightarrow> is_digit c \<Longrightarrow>
     parse_digits acc b (s @ [c]) = Some (10 * n + int (digit_val c))"
  by (induction acc b s rule: parse_digits.induct) (auto split: if_splits)

lemma show_nat_digits: "show_nat n \<noteq> [] \<and> (\<forall>c \<in> set (show_nat n). \<exists>d < 10. c = digit_char d)"
proof (induction n rule: show_nat.induct)
  case (1 n)
  moreover have "\<exists>d < 10. digit_char (n mod 10) = digit_char d"
    by (rule exI [of _ "n mod 10"]) simp
  ultimately show ?case by (subst (1 2) show_nat.simps) auto
qed

lemma parse_digits_show_nat: "parse_digits 0 False (show_nat n) = Some (int n)"
proof (induction n rule: show_nat.induct)
  case (1 n)
  show ?case
  proof (cases "n < 10")
    case True
    then show ?thesis
      by (subst show_nat.simps) (simp add: digit_char_props)
  next
    case False
    then have "parse_digits 0 False (show_nat (n div 10)) = Some (int (n div 10))"
      by (rule "1.IH")
    moreover have "10 * int (n div 10) + int (n mod 10) = int n" by presburger
    ultimately show ?thesis
      using parse_digits_snoc [of 0 False "show_nat (n div 10)" "int (n div 10)" "digit_char (n mod 10)"] False
      by (subst show_nat.simps) (simp add: digit_char_props)
  qed
qed

lemma strip_no_space: "(\<forall>c \<in> set s. \<not> is_space c) \<Longrightarrow> strip s = s"
proof -
  assume *: "\<forall>c \<in> set s. \<not> is_space c"
  have "dropWhile is_space t = t" if "set t \<subseteq> set s" for t
    using that * by (cases t) auto
  from this [of s] this [of "rev s"] show ?thesis by (simp add: strip_def)
qed

lemma show_int_not_space: "c \<in> set (show_int i) \<Longrightarrow> \<not> is_space c"
proof -
  assume c: "c \<in> set (show_int i)"
  have "\<not> is_space (CHR ''-'')" by (simp add: is_space_def)
  moreover have "\<not> is_space c" if "c \<in> set (show_nat n)" for n
    using that show_nat_digits [of n] digit_char_props(3) by auto
  ultimately show ?thesis using c by (auto simp: show_int_def split: if_splits)
qed

lemma parse_int_show_int: "parse_int (show_int i) = Inr i"
proof -
  have s: "strip (show_int i) = show_int i"
    by (rule strip_no_space) (use show_int_not_space in blast)
  show ?thesis
  proof (cases "i < 0")
    case True
    with s show ?thesis
      by (simp add: parse_int_def show_int_def parse_digits_show_nat)
  next
    case False
    obtain c cs where cc: "show_nat (nat i) = c # cs"
      using show_nat_digits [of "nat i"] by (cases "show_nat (nat i)") auto
    then have "c \<noteq> CHR ''-''" "c \<noteq> CHR ''+''"
      using show_nat_digits [of "nat i"] digit_char_props(4,5) by auto
    with s False cc parse_digits_show_nat [of "nat i"] show ?thesis
      by (simp add: parse_int_def show_int_def)
  qed
qed

lemma show_int_inj: "show_int i = show_int j \<longleftrightarrow> i = j"
  by (metis parse_int_show_int sum.inject(2))

end
