(* ===== verification/Config.thy ===== *)
theory Config
  imports Json
begin

text \<open>
  \<open>config.ini\<close> as \<open>configparser.ConfigParser\<close> presents it: the text of each option of each
  section, and the conversions \<open>getboolean\<close>, \<open>getint\<close> and \<open>getfloat\<close>.
\<close>

section \<open>Options\<close>

text \<open>
  An option that is not set is \<open>None\<close>; reading one whose \<open>%\<close> references cannot be resolved raises.
\<close>

type_synonym config = "string \<Rightarrow> string \<Rightarrow> (exn + string) option"

text \<open>The text of an option, where it can be read (\<open>readable_option\<close>).\<close>

definition readable_option :: "config \<Rightarrow> string \<Rightarrow> string \<Rightarrow> exn + unit" where
  "readable_option c sec opt = (case c sec opt of Some (Inl e) \<Rightarrow> Inl e | _ \<Rightarrow> Inr ())"

definition cfg_get :: "config \<Rightarrow> string \<Rightarrow> string \<Rightarrow> string \<Rightarrow> string" where
  "cfg_get c sec opt fallback = (case c sec opt of Some (Inr s) \<Rightarrow> s | _ \<Rightarrow> fallback)"

text \<open>\<open>str.strip()\<close> and \<open>str.lower()\<close> on code points below 256.\<close>

definition is_py_space :: "char \<Rightarrow> bool" where
  "is_py_space ch \<longleftrightarrow> (of_char ch :: nat) \<in> {9, 10, 11, 12, 13, 28, 29, 30, 31, 32, 133, 160}"

definition py_strip :: "string \<Rightarrow> string" where
  "py_strip s = rev (dropWhile is_py_space (rev (dropWhile is_py_space s)))"

definition lower_char :: "char \<Rightarrow> char" where
  "lower_char ch =
     (let n = (of_char ch :: nat) in
      if (65 \<le> n \<and> n \<le> 90) \<or> (192 \<le> n \<and> n \<le> 222 \<and> n \<noteq> 215) then char_of (n + 32) else ch)"

definition py_lower :: "string \<Rightarrow> string" where
  "py_lower s = map lower_char s"

definition parse_boolean :: "string \<Rightarrow> exn + bool" where
  "parse_boolean s =
     (let t = py_lower s in
      if t \<in> {''1'', ''yes'', ''true'', ''on''} then Inr True
      else if t \<in> {''0'', ''no'', ''false'', ''off''} then Inr False
      else Inl ValueError)"

definition cfg_boolean :: "config \<Rightarrow> string \<Rightarrow> string \<Rightarrow> bool \<Rightarrow> exn + bool" where
  "cfg_boolean c sec opt fallback =
     (case c sec opt of None \<Rightarrow> Inr fallback | Some r \<Rightarrow> bindE r parse_boolean)"

definition cfg_int :: "config \<Rightarrow> string \<Rightarrow> string \<Rightarrow> int \<Rightarrow> exn + int" where
  "cfg_int c sec opt fallback =
     (case c sec opt of None \<Rightarrow> Inr fallback | Some r \<Rightarrow> bindE r parse_int)"


section \<open>Decimal fractions\<close>

text \<open>The digits of a run, single underscores between them, or nothing when malformed.\<close>

definition split_at :: "(char \<Rightarrow> bool) \<Rightarrow> string \<Rightarrow> string \<times> string option" where
  "split_at P s = (case dropWhile (\<lambda>ch. \<not> P ch) s of
      [] \<Rightarrow> (s, None)
    | _ # rest \<Rightarrow> (takeWhile (\<lambda>ch. \<not> P ch) s, Some rest))"

lemma split_at_first:
  assumes "\<forall>c\<in>set a. \<not> P c" "P x"
  shows "split_at P (a @ x # b) = (a, Some b)"
  using assms by (simp add: split_at_def dropWhile_append takeWhile_append)

lemma split_at_none: "\<forall>c\<in>set a. \<not> P c \<Longrightarrow> split_at P a = (a, None)"
  by (simp add: split_at_def split: list.split) (metis dropWhile_eq_Nil_conv list.distinct(1))

definition signed :: "string \<Rightarrow> bool \<times> string" where
  "signed s = (case s of
      [] \<Rightarrow> (False, [])
    | ch # rest \<Rightarrow>
        if ch = CHR ''-'' then (True, rest) else if ch = CHR ''+'' then (False, rest) else (False, s))"

definition mantissa :: "string \<Rightarrow> rat option" where
  "mantissa s = (case split_at (\<lambda>ch. ch = CHR ''.'') s of
      (w, None) \<Rightarrow> map_option of_int (parse_digits 0 False w)
    | (w, Some f) \<Rightarrow>
        (let frac = filter (\<lambda>ch. ch \<noteq> CHR ''_'') f in
         case (if w = [] then Some 0 else parse_digits 0 False w,
               if f = [] then Some 0 else parse_digits 0 False f) of
           (Some a, Some b) \<Rightarrow>
             if w = [] \<and> f = [] then None
             else Some (of_int a + of_int b / 10 ^ length frac)
         | _ \<Rightarrow> None))"

text \<open>\<open>float(text)\<close>, exactly: a decimal with an optional exponent, an infinity or a NaN.\<close>

definition parse_float :: "string \<Rightarrow> exn + pyfloat" where
  "parse_float s =
     (let (neg, t) = signed (py_lower (py_strip s)) in
      if t \<in> {''inf'', ''infinity''} then Inr (if neg then NInf else PInf)
      else if t = ''nan'' then Inr NaN
      else
        (let (m, e) = split_at (\<lambda>ch. ch = CHR ''e'') t;
             ex = (case e of None \<Rightarrow> Some (False, 0)
                   | Some x \<Rightarrow> (let (eneg, d) = signed x
                                in map_option (\<lambda>n. (eneg, nat n)) (parse_digits 0 False d)))
         in case (mantissa m, ex) of
              (Some q, Some (eneg, n)) \<Rightarrow>
                (let v = (if eneg then q / 10 ^ n else q * 10 ^ n)
                 in Inr (Fin (if neg then - v else v)))
            | _ \<Rightarrow> Inl ValueError))"

definition cfg_float :: "config \<Rightarrow> string \<Rightarrow> string \<Rightarrow> pyfloat \<Rightarrow> exn + pyfloat" where
  "cfg_float c sec opt fallback =
     (case c sec opt of None \<Rightarrow> Inr fallback | Some r \<Rightarrow> bindE r parse_float)"

lemma parse_float_examples:
  "parse_float ''3.5'' = Inr (Fin (7 / 2))"
  "parse_float '' -2e1 '' = Inr (Fin (- 20))"
  "parse_float ''x'' = Inl ValueError"
  by code_simp+

text \<open>An option that is not set has its fallback.\<close>

lemma cfg_unset [simp]:
  "c sec opt = None \<Longrightarrow> cfg_get c sec opt d = d"
  "c sec opt = None \<Longrightarrow> readable_option c sec opt = Inr ()"
  "c sec opt = None \<Longrightarrow> cfg_boolean c sec opt b = Inr b"
  "c sec opt = None \<Longrightarrow> cfg_int c sec opt i = Inr i"
  "c sec opt = None \<Longrightarrow> cfg_float c sec opt f = Inr f"
  by (simp_all add: cfg_get_def readable_option_def cfg_boolean_def cfg_int_def cfg_float_def)

end
