(* ===== verification/Files.thy ===== *)
theory Files
  imports Json
begin

text \<open>
  The file system the program works on, \<open>paths_factory.py\<close>, and the write-beside-and-swap
  sequence of \<open>template_store._write_json\<close> with a fault at any of its system calls.
\<close>

section \<open>Paths\<close>

text \<open>
  A path is the list of its components. \<open>PurePath\<close> drops empty components and \<open>.\<close>, keeps
  \<open>..\<close>, and joining an absolute right-hand side discards the left one.
\<close>

type_synonym path = "string list"

definition path_parts :: "string \<Rightarrow> path" where
  "path_parts s = filter (\<lambda>p. p \<noteq> [] \<and> p \<noteq> ''.'') (split_on CHR ''/'' s)"

definition join_path :: "path \<Rightarrow> string \<Rightarrow> path" where
  "join_path p s = (case s of
      [] \<Rightarrow> p
    | c # _ \<Rightarrow> if c = CHR ''/'' then path_parts s else p @ path_parts s)"

text \<open>The directories of \<open>paths_factory.paths\<close> and the overrides from the environment.\<close>

record path_config =
  config_dir :: path
  dlib_data_dir :: path
  user_models_dir :: path
  log_path :: path
  data_dir :: path

definition default_paths :: "path \<Rightarrow> path_config" where
  "default_paths src_dir =
     \<lparr>config_dir = src_dir,
      dlib_data_dir = src_dir @ [''dlib-data''],
      user_models_dir = src_dir @ [''models''],
      log_path = src_dir,
      data_dir = src_dir\<rparr>"

text \<open>An unset or empty variable (\<open>os.environ.get\<close>) overrides nothing.\<close>

definition override_dir :: "(string \<Rightarrow> string option) \<Rightarrow> string \<Rightarrow> path \<Rightarrow> path" where
  "override_dir environ var p =
     (case environ var of None \<Rightarrow> p | Some s \<Rightarrow> if s = [] then p else path_parts s)"

definition apply_env_overrides :: "(string \<Rightarrow> string option) \<Rightarrow> path_config \<Rightarrow> path_config" where
  "apply_env_overrides environ r =
     \<lparr>config_dir = override_dir environ ''SECUREEYE_CONFIG_DIR'' (config_dir r),
      dlib_data_dir = override_dir environ ''SECUREEYE_DLIB_DATA_DIR'' (dlib_data_dir r),
      user_models_dir = override_dir environ ''SECUREEYE_MODELS_DIR'' (user_models_dir r),
      log_path = override_dir environ ''SECUREEYE_LOG_PATH'' (log_path r),
      data_dir = override_dir environ ''SECUREEYE_DATA_DIR'' (data_dir r)\<rparr>"

definition user_model_path :: "path_config \<Rightarrow> string \<Rightarrow> path" where
  "user_model_path ps user = join_path (user_models_dir ps) (user @ ''.dat'')"

definition config_file_path :: "path_config \<Rightarrow> path" where
  "config_file_path ps = join_path (config_dir ps) ''config.ini''"

definition snapshots_dir_path :: "path_config \<Rightarrow> path" where
  "snapshots_dir_path ps = join_path (log_path ps) ''snapshots''"

definition snapshot_path :: "path_config \<Rightarrow> string \<Rightarrow> path" where
  "snapshot_path ps snapshot = join_path (snapshots_dir_path ps) snapshot"

lemma join_path_plain:
  assumes "CHR ''/'' \<notin> set s" and "s \<noteq> []" and "s \<noteq> ''.''"
  shows "join_path p s = p @ [s]"
  using assms by (cases s) (auto simp: join_path_def path_parts_def split_on_no_sep)

lemma user_model_path_plain:
  assumes "CHR ''/'' \<notin> set user"
  shows "user_model_path ps user = user_models_dir ps @ [user @ ''.dat'']"
proof -
  have "user @ ''.dat'' \<noteq> ''.''" by (cases user) auto
  with assms show ?thesis
    unfolding user_model_path_def by (intro join_path_plain) auto
qed

text \<open>Whatever the name is, the file it leads to is a \<open>.dat\<close> file.\<close>

lemma user_model_path_suffix: "\<exists>ps' p. user_model_path ps user = ps' @ [p @ ''.dat'']"
proof -
  obtain qs q where q: "split_on CHR ''/'' (user @ ''.dat'') = qs @ [q @ ''.dat'']"
    using split_on_append_no_sep [of "CHR ''/''" "''.dat''" user] by auto
  have "q @ ''.dat'' \<noteq> ''.''" by (cases q) auto
  with q have parts: "path_parts (user @ ''.dat'') =
      filter (\<lambda>p. p \<noteq> [] \<and> p \<noteq> ''.'') qs @ [q @ ''.dat'']"
    by (simp add: path_parts_def)
  obtain c cs where cs: "user @ ''.dat'' = c # cs" by (cases "user @ ''.dat''") auto
  show ?thesis
  proof (cases "c = CHR ''/''")
    case True
    with cs have "user_model_path ps user = path_parts (user @ ''.dat'')"
      by (simp add: user_model_path_def join_path_def)
    with parts have "user_model_path ps user =
        filter (\<lambda>p. p \<noteq> [] \<and> p \<noteq> ''.'') qs @ [q @ ''.dat'']"
      by (simp only:)
    then show ?thesis by blast
  next
    case False
    with cs have "user_model_path ps user = user_models_dir ps @ path_parts (user @ ''.dat'')"
      by (simp add: user_model_path_def join_path_def)
    with parts have "user_model_path ps user =
        (user_models_dir ps @ filter (\<lambda>p. p \<noteq> [] \<and> p \<noteq> ''.'') qs) @ [q @ ''.dat'']"
      by simp
    then show ?thesis by blast
  qed
qed

text \<open>Without a slash in either name, two users never share a model file.\<close>

lemma user_model_path_inj:
  assumes "CHR ''/'' \<notin> set u" and "CHR ''/'' \<notin> set v"
  shows "user_model_path ps u = user_model_path ps v \<longleftrightarrow> u = v"
  using assms by (simp add: user_model_path_plain)


section \<open>Files and directories\<close>

text \<open>
  The content of a file, as far as reading it as JSON tells it apart: a JSON document, text
  that is not JSON, bytes that are not UTF-8, or a file \<open>open\<close> refuses to open.
\<close>

datatype content = Document json | NotJson | NotUtf8 | NoAccess

record inode =
  f_content :: content
  f_mode :: nat
  f_uid :: nat
  f_gid :: nat

record dir =
  d_uid :: nat
  d_gid :: nat
  d_mode :: nat

record fs =
  files :: "path \<Rightarrow> inode option"
  dirs :: "path \<Rightarrow> dir option"

text \<open>The effective user and group of the process, and the mode new directories get.\<close>

record process =
  euid :: nat
  egid :: nat
  umask_dir :: nat

definition parent :: "path \<Rightarrow> path" where
  "parent p = butlast p"

text \<open>\<open>Path.mkdir(parents=True, exist_ok=True)\<close>.\<close>

definition prefixes_of :: "path \<Rightarrow> path list" where
  "prefixes_of p = map (\<lambda>n. take n p) [0..<Suc (length p)]"

definition mkdir_parents :: "process \<Rightarrow> path \<Rightarrow> fs \<Rightarrow> fs" where
  "mkdir_parents pr p s = s\<lparr>dirs := (\<lambda>q.
     case dirs s q of
       Some d \<Rightarrow> Some d
     | None \<Rightarrow> if q \<in> set (prefixes_of p)
               then Some \<lparr>d_uid = euid pr, d_gid = egid pr, d_mode = umask_dir pr\<rparr> else None)\<rparr>"

definition put_file :: "path \<Rightarrow> inode \<Rightarrow> fs \<Rightarrow> fs" where
  "put_file p f s = s\<lparr>files := (files s)(p \<mapsto> f)\<rparr>"

definition remove_file :: "path \<Rightarrow> fs \<Rightarrow> fs" where
  "remove_file p s = s\<lparr>files := (files s)(p := None)\<rparr>"

definition update_file :: "path \<Rightarrow> (inode \<Rightarrow> inode) \<Rightarrow> fs \<Rightarrow> fs" where
  "update_file p g s = (case files s p of None \<Rightarrow> s | Some f \<Rightarrow> put_file p (g f) s)"

text \<open>\<open>os.replace(src, dst)\<close>.\<close>

definition replace_file :: "path \<Rightarrow> path \<Rightarrow> fs \<Rightarrow> fs" where
  "replace_file src dst s = (case files s src of
      None \<Rightarrow> s
    | Some f \<Rightarrow> s\<lparr>files := (files s)(src := None, dst \<mapsto> f)\<rparr>)"

lemma files_put_file [simp]: "files (put_file p f s) = (files s)(p \<mapsto> f)"
  by (simp add: put_file_def)

lemma files_remove_file [simp]: "files (remove_file p s) = (files s)(p := None)"
  by (simp add: remove_file_def)

lemma files_mkdir_parents [simp]: "files (mkdir_parents pr p s) = files s"
  by (simp add: mkdir_parents_def)

lemma files_update_file [simp]:
  "files (update_file p g s) = (files s)(p := map_option g (files s p))"
  by (auto simp: update_file_def fun_eq_iff split: option.splits)

lemma dirs_unchanged [simp]:
  "dirs (put_file p f s) = dirs s" "dirs (remove_file p s) = dirs s"
  "dirs (update_file p g s) = dirs s" "dirs (replace_file p q s) = dirs s"
  by (simp_all add: put_file_def remove_file_def update_file_def replace_file_def split: option.splits)

lemma mkdir_parents_self: "dirs (mkdir_parents pr p s) p \<noteq> None"
  by (auto simp: mkdir_parents_def prefixes_of_def split: option.splits)

lemma mkdir_parents_keeps: "dirs s q = Some d \<Longrightarrow> dirs (mkdir_parents pr p s) q = Some d"
  by (simp add: mkdir_parents_def)


section \<open>Writing a file beside its target and swapping it in\<close>

text \<open>
  The system calls of \<open>_write_json\<close>, in order. Any of them may raise; \<open>fails\<close> says which.
  \<open>Dump\<close> and \<open>Fsync\<close> work on the temporary file, which holds no complete document until the
  dump has finished.
\<close>

datatype write_call = Mkdir | Mkstemp | Dump | Fsync | Chmod | Chown | Swap

fun write_effect ::
    "process \<Rightarrow> path \<Rightarrow> path \<Rightarrow> json \<Rightarrow> write_call \<Rightarrow> fs \<Rightarrow> fs" where
  "write_effect pr tmp p v Mkdir s = mkdir_parents pr (parent p) s"
| "write_effect pr tmp p v Mkstemp s =
     put_file tmp \<lparr>f_content = NotJson, f_mode = 384, f_uid = euid pr, f_gid = egid pr\<rparr> s"
| "write_effect pr tmp p v Dump s = update_file tmp (f_content_update (\<lambda>_. Document v)) s"
| "write_effect pr tmp p v Fsync s = s"
| "write_effect pr tmp p v Chmod s = update_file tmp (f_mode_update (\<lambda>_. 384)) s"
| "write_effect pr tmp p v Chown s =
     (if euid pr = 0 then
        (case dirs s (parent p) of
           None \<Rightarrow> s
         | Some d \<Rightarrow> update_file tmp (\<lambda>f. f\<lparr>f_uid := d_uid d, f_gid := d_gid d\<rparr>) s)
      else s)"
| "write_effect pr tmp p v Swap s = replace_file tmp p s"

definition guarded_calls :: "write_call list" where
  "guarded_calls = [Dump, Fsync, Chmod, Chown, Swap]"

text \<open>
  The states the calls pass through; a failing call has no effect and ends the sequence.
  \<open>except BaseException: tmp_path.unlink(missing_ok=True); raise\<close> guards the calls after
  \<open>mkstemp\<close>.
\<close>

fun run_calls ::
    "(write_call \<Rightarrow> exn option) \<Rightarrow> (write_call \<Rightarrow> fs \<Rightarrow> fs) \<Rightarrow> write_call list \<Rightarrow> fs \<Rightarrow> fs \<times> (exn + unit)"
  where
  "run_calls fails eff [] s = (s, Inr ())"
| "run_calls fails eff (c # cs) s =
     (case fails c of
        Some e \<Rightarrow> (s, Inl e)
      | None \<Rightarrow> run_calls fails eff cs (eff c s))"

definition write_json ::
    "(write_call \<Rightarrow> exn option) \<Rightarrow> process \<Rightarrow> path \<Rightarrow> path \<Rightarrow> json \<Rightarrow> fs \<Rightarrow> fs \<times> (exn + unit)" where
  "write_json fails pr tmp p v s =
     (let eff = write_effect pr tmp p v in
      case run_calls fails eff [Mkdir, Mkstemp] s of
        (s1, Inl e) \<Rightarrow> (s1, Inl e)
      | (s1, Inr _) \<Rightarrow>
          (case run_calls fails eff guarded_calls s1 of
             (s2, Inl e) \<Rightarrow> (remove_file tmp s2, Inl e)
           | (s2, Inr _) \<Rightarrow> (s2, Inr ())))"

text \<open>The states a crash (power loss, \<open>SIGKILL\<close>) can leave behind: after any prefix of the calls.\<close>

definition crash_state ::
    "process \<Rightarrow> path \<Rightarrow> path \<Rightarrow> json \<Rightarrow> nat \<Rightarrow> fs \<Rightarrow> fs" where
  "crash_state pr tmp p v n s =
     fold (write_effect pr tmp p v) (take n ([Mkdir, Mkstemp] @ guarded_calls)) s"

text \<open>The file a completed write leaves at the target.\<close>

definition written_file :: "process \<Rightarrow> path \<Rightarrow> json \<Rightarrow> fs \<Rightarrow> inode" where
  "written_file pr p v s =
     (case dirs (mkdir_parents pr (parent p) s) (parent p) of
        Some d \<Rightarrow>
          \<lparr>f_content = Document v, f_mode = 384,
           f_uid = (if euid pr = 0 then d_uid d else euid pr),
           f_gid = (if euid pr = 0 then d_gid d else egid pr)\<rparr>
      | None \<Rightarrow> \<lparr>f_content = Document v, f_mode = 384, f_uid = euid pr, f_gid = egid pr\<rparr>)"

lemma written_file_content [simp]: "f_content (written_file pr p v s) = Document v"
  by (simp add: written_file_def split: option.splits)

lemma written_file_mode [simp]: "f_mode (written_file pr p v s) = 384"
  by (simp add: written_file_def split: option.splits)

lemma write_json_success:
  assumes "\<And>c. fails c = None" and "tmp \<noteq> p" and "files s tmp = None"
  shows "write_json fails pr tmp p v s =
     ((mkdir_parents pr (parent p) s)\<lparr>files := (files s)(p \<mapsto> written_file pr p v s)\<rparr>, Inr ())"
proof -
  have m: "dirs (mkdir_parents pr (parent p) s) (parent p) \<noteq> None" by (rule mkdir_parents_self)
  then obtain d where d: "dirs (mkdir_parents pr (parent p) s) (parent p) = Some d" by blast
  show ?thesis
    using assms d
    by (auto simp: write_json_def guarded_calls_def written_file_def replace_file_def
        update_file_def put_file_def fun_eq_iff)
qed

lemma files_mkdir_mkstemp:
  "run_calls fails (write_effect pr tmp p v) [Mkdir, Mkstemp] s = (s1, r) \<Longrightarrow> q \<noteq> tmp \<Longrightarrow>
     files s1 q = files s q"
  by (auto split: option.splits)

lemma guarded_calls_others:
  assumes "run_calls fails (write_effect pr tmp p v) cs s = (s2, r)" and "q \<noteq> tmp" and "q \<noteq> p"
  shows "files s2 q = files s q"
  using assms
proof (induction cs arbitrary: s)
  case (Cons c cs)
  have "files (write_effect pr tmp p v c s) q = files s q"
    using Cons.prems(2,3) by (cases c) (auto simp: replace_file_def split: option.splits)
  with Cons show ?case by (auto split: option.splits)
qed simp

lemma guarded_calls_before_swap:
  assumes "run_calls fails (write_effect pr tmp p v) cs s = (s2, Inl e)" and "q \<noteq> tmp"
    and "Swap \<notin> set (butlast cs)"
  shows "files s2 q = files s q"
  using assms
proof (induction cs arbitrary: s)
  case (Cons c cs)
  show ?case
  proof (cases "fails c")
    case None
    with Cons.prems(1) have "cs \<noteq> []" by auto
    with Cons.prems(3) have "c \<noteq> Swap" and "Swap \<notin> set (butlast cs)" by auto
    then have "files (write_effect pr tmp p v c s) q = files s q"
      using Cons.prems(2) by (cases c) (auto split: option.splits)
    with Cons None \<open>Swap \<notin> set (butlast cs)\<close> show ?thesis by auto
  next
    case (Some e)
    with Cons.prems show ?thesis by auto
  qed
qed simp

text \<open>
  A write that raises leaves every file as it was and no temporary file: the failure cases of
  the atomic-write property.
\<close>

lemma write_json_failure:
  assumes "write_json fails pr tmp p v s = (s', Inl e)" and "files s tmp = None"
  shows "files s' = files s"
proof (rule ext)
  fix q
  obtain s1 r1 where r1: "run_calls fails (write_effect pr tmp p v) [Mkdir, Mkstemp] s = (s1, r1)"
    by fastforce
  show "files s' q = files s q"
  proof (cases r1)
    case (Inl e1)
    with r1 assms show ?thesis
      by (auto simp: write_json_def split: option.splits)
  next
    case (Inr u)
    obtain s2 r2 where r2: "run_calls fails (write_effect pr tmp p v) guarded_calls s1 = (s2, r2)"
      by fastforce
    have swap: "Swap \<notin> set (butlast guarded_calls)" by (simp add: guarded_calls_def)
    from assms(1) r1 r2 Inr obtain e2 where e2: "r2 = Inl e2" "s' = remove_file tmp s2"
      by (cases r2) (auto simp: write_json_def Let_def simp del: run_calls.simps)
    show ?thesis
    proof (cases "q = tmp")
      case True
      with e2 assms(2) show ?thesis by simp
    next
      case False
      with guarded_calls_before_swap [OF _ False swap] r2 e2 files_mkdir_mkstemp [OF r1 False]
      show ?thesis by auto
    qed
  qed
qed

lemma write_json_others:
  assumes "write_json fails pr tmp p v s = (s', r)" and "q \<noteq> tmp" and "q \<noteq> p"
  shows "files s' q = files s q"
proof -
  obtain s1 r1 where r1: "run_calls fails (write_effect pr tmp p v) [Mkdir, Mkstemp] s = (s1, r1)"
    by fastforce
  obtain s2 r2 where r2: "run_calls fails (write_effect pr tmp p v) guarded_calls s1 = (s2, r2)"
    by fastforce
  have "files s1 q = files s q" and "files s2 q = files s1 q"
    using files_mkdir_mkstemp [OF r1 assms(2)] guarded_calls_others [OF r2 assms(2,3)] by auto
  then show ?thesis
    using assms(1,2) r1 r2
    by (cases r1; cases r2) (auto simp: write_json_def Let_def simp del: run_calls.simps)
qed

end
