(* ===== verification/Template_Store.thy ===== *)
theory Template_Store
  imports Config Files
begin

text \<open>
  \<open>auth/template_store.py\<close>: the versioned JSON file of a user's face templates. Parsing and
  validating the file, selecting the templates of one embedding space, serialising and writing
  a new set, and the ids that are never handed out twice while the file exists.
\<close>

section \<open>Data\<close>

text \<open>A float32 array as numpy hands it over: its shape and its values in row-major order.\<close>

record ndarray =
  nd_shape :: "nat list"
  nd_data :: "pyfloat list"

type_synonym vectors = "pyfloat list list"

record template =
  t_id :: int
  t_label :: string
  t_created :: int
  t_model_id :: string
  t_embeddings :: vectors

definition t_dim :: "template \<Rightarrow> nat" where
  "t_dim t = (case t_embeddings t of [] \<Rightarrow> 0 | r # _ \<Rightarrow> length r)"

record template_set =
  ts_model_id :: string
  ts_templates :: "template list"
  ts_matrix :: vectors
  ts_owners :: "nat list"

definition owner_of :: "template_set \<Rightarrow> int \<Rightarrow> template option" where
  "owner_of ts row =
     (if 0 \<le> row \<and> row < int (length (ts_owners ts))
      then Some (ts_templates ts ! (ts_owners ts ! nat row)) else None)"

text \<open>
  What the store takes from outside: \<open>np.asarray(_, dtype=np.float32)\<close> on a JSON value,
  \<open>str\<close> of floats and containers, the configured paths, the process, the name \<open>mkstemp\<close>
  picks beside a target and the faults of the system calls of a write.
\<close>

record store_env =
  np_asarray :: "json \<Rightarrow> exn + ndarray"
  repr_of :: "json \<Rightarrow> string"
  se_paths :: path_config
  se_process :: process
  se_tmp :: "path \<Rightarrow> path"
  se_fails :: "write_call \<Rightarrow> exn option"

definition STORE_VERSION :: int where
  "STORE_VERSION = 2"

definition LEGACY_MODEL_ID :: string where
  "LEGACY_MODEL_ID = ''dlib-resnet-v1''"

definition LEGACY_MODEL_IDS :: "string \<Rightarrow> string option" where
  "LEGACY_MODEL_IDS = [''dlib'' \<mapsto> LEGACY_MODEL_ID, ''mediapipe'' \<mapsto> ''mediapipe-landmarks-v1'']"

definition active_model_id :: "config \<Rightarrow> string" where
  "active_model_id c =
     (let pipeline = py_lower (py_strip (cfg_get c ''core'' ''pipeline'' ''legacy'')) in
      if pipeline \<noteq> ''legacy'' then py_strip (cfg_get c ''recognition'' ''model_id'' ''sface-2021dec'')
      else
        (let backend = py_lower (py_strip (cfg_get c ''core'' ''detector_backend'' ''dlib'')) in
         case LEGACY_MODEL_IDS backend of Some m \<Rightarrow> m | None \<Rightarrow> ''legacy-'' @ backend))"

text \<open>The options it reads, which raise where they cannot be resolved.\<close>

definition model_id_known :: "config \<Rightarrow> exn + unit" where
  "model_id_known c =
     bindE (readable_option c ''core'' ''pipeline'') (\<lambda>_.
       if py_lower (py_strip (cfg_get c ''core'' ''pipeline'' ''legacy'')) \<noteq> ''legacy''
       then readable_option c ''recognition'' ''model_id'' else readable_option c ''core'' ''detector_backend'')"


section \<open>Parsing\<close>

definition path_for :: "store_env \<Rightarrow> string \<Rightarrow> path" where
  "path_for env user = user_model_path (se_paths env) user"

text \<open>Bytes that are not UTF-8 raise \<open>UnicodeDecodeError\<close>, a \<open>ValueError\<close> the handlers do not name.\<close>

definition read_payload :: "fs \<Rightarrow> path \<Rightarrow> exn + json" where
  "read_payload s p = (case files s p of
      None \<Rightarrow> Inl TemplateFileNotFound
    | Some f \<Rightarrow> (case f_content f of
          Document v \<Rightarrow> Inr v
        | NotJson \<Rightarrow> Inl TemplateSchemaError
        | NotUtf8 \<Rightarrow> Inl ValueError
        | NoAccess \<Rightarrow> Inl OSError))"

text \<open>The loop of \<open>_parse_vectors\<close>; \<open>expected_dim\<close> is the size of the first encoding.\<close>

fun parse_vectors_loop ::
    "(json \<Rightarrow> exn + ndarray) \<Rightarrow> nat option \<Rightarrow> vectors \<Rightarrow> json list \<Rightarrow> exn + vectors" where
  "parse_vectors_loop asarray expected_dim vectors [] = Inr vectors"
| "parse_vectors_loop asarray expected_dim vectors (vector # rest) =
     bindE (asarray vector) (\<lambda>arr.
       let arr_size = length (nd_data arr) in
       if length (nd_shape arr) \<noteq> 1 then Inl TemplateSchemaError
       else if arr_size = 0 then Inl TemplateSchemaError
       else if \<not> list_all is_finite (nd_data arr) then Inl TemplateSchemaError
       else (case expected_dim of
           None \<Rightarrow> parse_vectors_loop asarray (Some arr_size) (vectors @ [nd_data arr]) rest
         | Some d \<Rightarrow>
             if d \<noteq> arr_size then Inl TemplateSchemaError
             else parse_vectors_loop asarray (Some d) (vectors @ [nd_data arr]) rest))"

definition parse_vectors :: "store_env \<Rightarrow> json list \<Rightarrow> exn + vectors" where
  "parse_vectors env data =
     bindE (parse_vectors_loop (np_asarray env) None [] data) (\<lambda>vectors.
       if vectors = [] then Inl TemplateSchemaError else Inr vectors)"

text \<open>\<open>isinstance(declared_dim, int) and declared_dim != vectors.shape[1]\<close>.\<close>

definition dim_conflicts :: "json option \<Rightarrow> nat \<Rightarrow> bool" where
  "dim_conflicts declared n = (case declared of
      None \<Rightarrow> False
    | Some v \<Rightarrow> (case as_instance_int v of None \<Rightarrow> False | Some d \<Rightarrow> d \<noteq> int n))"

text \<open>\<open>model_id\<close> may be missing or null, else it is a string; an empty one means the default.\<close>

definition entry_model_id :: "string \<Rightarrow> jdict \<Rightarrow> exn + string" where
  "entry_model_id default_model_id d = (case jget d ''model_id'' of
      None \<Rightarrow> Inr default_model_id
    | Some JNull \<Rightarrow> Inr default_model_id
    | Some (JStr m) \<Rightarrow> Inr (if m = [] then default_model_id else m)
    | Some _ \<Rightarrow> Inl TemplateSchemaError)"

definition parse_template :: "store_env \<Rightarrow> string \<Rightarrow> nat \<times> json \<Rightarrow> exn + template" where
  "parse_template env default_model_id = (\<lambda>(index, entry). case entry of
      JObj d \<Rightarrow>
        (case jget d ''data'' of
           Some (JList data) \<Rightarrow>
             bindE (parse_vectors env data) (\<lambda>vectors.
             if dim_conflicts (jget d ''dim'') (length (hd vectors)) then Inl TemplateSchemaError
             else
               bindE (entry_model_id default_model_id d) (\<lambda>model_id.
               bindE (py_int (jget_or d ''id'' (JInt (int index)))) (\<lambda>i.
               bindE (py_int (jget_or d ''created'' (jget_or d ''time'' (JInt 0)))) (\<lambda>created.
               Inr \<lparr>t_id = i,
                    t_label = py_str (repr_of env) (jget_or d ''label'' (JStr [])),
                    t_created = created,
                    t_model_id = model_id,
                    t_embeddings = vectors\<rparr>))))
         | _ \<Rightarrow> Inl TemplateSchemaError)
    | _ \<Rightarrow> Inl TemplateSchemaError)"

text \<open>\<open>_parse\<close>: a bare list is the legacy format, an object must be of version 2.\<close>

definition parse_store :: "store_env \<Rightarrow> string \<Rightarrow> json \<Rightarrow> exn + template list" where
  "parse_store env default_model_id payload =
     bindE
       (case payload of
          JList entries \<Rightarrow> Inr entries
        | JObj d \<Rightarrow>
            if \<not> eq_int (jget d ''version'') STORE_VERSION then Inl TemplateSchemaError
            else (case jget d ''templates'' of
                Some (JList entries) \<Rightarrow> Inr entries
              | _ \<Rightarrow> Inl TemplateSchemaError)
        | _ \<Rightarrow> Inl TemplateSchemaError)
       (\<lambda>entries.
          if entries = [] then Inl EmptyTemplateStore
          else mapE (parse_template env default_model_id) (enumerate 0 entries))"


section \<open>Loading\<close>

text \<open>\<open>_stack\<close>: one matrix of all encodings, and for each row the index of its template.\<close>

definition stack_templates :: "template list \<Rightarrow> exn + (vectors \<times> nat list)" where
  "stack_templates templates =
     (if \<exists>t \<in> set templates. t_dim t \<noteq> t_dim (hd templates) then Inl TemplateSchemaError
      else Inr (concat (map t_embeddings templates), owners_of 0 (map t_embeddings templates)))"

definition load :: "store_env \<Rightarrow> fs \<Rightarrow> string \<Rightarrow> string \<Rightarrow> exn + template_set" where
  "load env s user model_id =
     bindE (read_payload s (path_for env user)) (\<lambda>payload.
     bindE (parse_store env model_id payload) (\<lambda>templates.
     let matching = filter (\<lambda>t. t_model_id t = model_id) templates in
     if matching = [] then Inl TemplateSpaceMismatch
     else bindE (stack_templates matching) (\<lambda>(matrix, owners).
       Inr \<lparr>ts_model_id = model_id, ts_templates = matching, ts_matrix = matrix,
            ts_owners = owners\<rparr>)))"

definition load_all :: "store_env \<Rightarrow> fs \<Rightarrow> string \<Rightarrow> exn + template list" where
  "load_all env s user =
     bindE (read_payload s (path_for env user)) (parse_store env LEGACY_MODEL_ID)"

definition load_or_empty :: "store_env \<Rightarrow> fs \<Rightarrow> string \<Rightarrow> exn + template list" where
  "load_or_empty env s user = (case load_all env s user of
      Inl e \<Rightarrow> if e \<in> {TemplateFileNotFound, EmptyTemplateStore} then Inr [] else Inl e
    | Inr ts \<Rightarrow> Inr ts)"

definition find_template :: "template list \<Rightarrow> int \<Rightarrow> template option" where
  "find_template templates template_id = List.find (\<lambda>t. t_id t = template_id) templates"


section \<open>Ids\<close>

definition next_id :: "template list \<Rightarrow> int" where
  "next_id templates = (case templates of [] \<Rightarrow> -1 | _ \<Rightarrow> Max (set (map t_id templates))) + 1"

text \<open>The handler names \<open>TemplateStoreError\<close> and \<open>OSError\<close>; anything else escapes.\<close>

definition stored_next_id :: "fs \<Rightarrow> path \<Rightarrow> exn + int" where
  "stored_next_id s p = (case read_payload s p of
      Inl e \<Rightarrow> if is_store_error e \<or> is_os_error e then Inr 0 else Inl e
    | Inr (JObj d) \<Rightarrow>
        (case jget d ''next_id'' of
           Some v \<Rightarrow> (case as_plain_int v of Some n \<Rightarrow> Inr (if 0 < n then n else 0) | None \<Rightarrow> Inr 0)
         | None \<Rightarrow> Inr 0)
    | Inr _ \<Rightarrow> Inr 0)"

definition peek_next_id :: "store_env \<Rightarrow> fs \<Rightarrow> string \<Rightarrow> template list \<Rightarrow> exn + int" where
  "peek_next_id env s user templates =
     bindE (stored_next_id s (path_for env user)) (\<lambda>n. Inr (max (next_id templates) n))"


section \<open>Writing\<close>

definition serialize_template :: "template \<Rightarrow> json" where
  "serialize_template t = JObj
     [(''id'', JInt (t_id t)),
      (''label'', JStr (t_label t)),
      (''created'', JInt (t_created t)),
      (''model_id'', JStr (t_model_id t)),
      (''dim'', JInt (int (t_dim t))),
      (''data'', JList (map (\<lambda>r. JList (map JFloat r)) (t_embeddings t)))]"

definition store_payload :: "int \<Rightarrow> template list \<Rightarrow> json" where
  "store_payload nid templates = JObj
     [(''version'', JInt STORE_VERSION),
      (''next_id'', JInt nid),
      (''templates'', JList (map serialize_template templates))]"

definition save :: "store_env \<Rightarrow> string \<Rightarrow> template list \<Rightarrow> fs \<Rightarrow> fs \<times> (exn + unit)" where
  "save env user templates s =
     (let path = path_for env user in
      case stored_next_id s path of
        Inl e \<Rightarrow> (s, Inl e)
      | Inr n \<Rightarrow>
          write_json (se_fails env) (se_process env) (se_tmp env path) path
            (store_payload (max (next_id templates) n) templates) s)"

definition delete :: "store_env \<Rightarrow> string \<Rightarrow> fs \<Rightarrow> fs \<times> (exn + unit)" where
  "delete env user s =
     (case files s (path_for env user) of
        None \<Rightarrow> (s, Inl TemplateFileNotFound)
      | Some _ \<Rightarrow> (remove_file (path_for env user) s, Inr ()))"

text \<open>\<open>np.atleast_2d\<close>, and the rows of a two-dimensional array.\<close>

definition atleast_2d :: "ndarray \<Rightarrow> ndarray" where
  "atleast_2d a = (case nd_shape a of
      [] \<Rightarrow> a\<lparr>nd_shape := [1, 1]\<rparr>
    | [n] \<Rightarrow> a\<lparr>nd_shape := [1, n]\<rparr>
    | _ \<Rightarrow> a)"

definition rows_of :: "nat \<Rightarrow> nat \<Rightarrow> pyfloat list \<Rightarrow> vectors" where
  "rows_of n width data = map (\<lambda>i. take width (drop (i * width) data)) [0..<n]"

definition build_template ::
    "int \<Rightarrow> string \<Rightarrow> string \<Rightarrow> ndarray \<Rightarrow> int option \<Rightarrow> int \<Rightarrow> exn + template" where
  "build_template template_id model_id label embeddings created now =
     (let vectors = atleast_2d embeddings in
      case nd_shape vectors of
        [n, width] \<Rightarrow>
          if n = 0 \<or> width = 0 then Inl TemplateSchemaError
          else if \<not> list_all is_finite (nd_data vectors) then Inl TemplateSchemaError
          else Inr \<lparr>t_id = template_id,
                    t_label = label,
                    t_created = (case created of None \<Rightarrow> now | Some c \<Rightarrow> c),
                    t_model_id = model_id,
                    t_embeddings = rows_of n width (nd_data vectors)\<rparr>
      | _ \<Rightarrow> Inl TemplateSchemaError)"

text \<open>What \<open>append\<close> and \<open>replace_space\<close> do before they write: the old set and the new template.\<close>

definition prepare_template ::
    "store_env \<Rightarrow> string \<Rightarrow> string \<Rightarrow> string \<Rightarrow> ndarray \<Rightarrow> int option \<Rightarrow> int \<Rightarrow> fs
      \<Rightarrow> exn + (template list \<times> template)" where
  "prepare_template env user model_id label embeddings created now s =
     bindE (load_or_empty env s user) (\<lambda>existing.
     bindE (peek_next_id env s user existing) (\<lambda>i.
     bindE (build_template i model_id label embeddings created now) (\<lambda>t.
     Inr (existing, t))))"

definition append ::
    "store_env \<Rightarrow> string \<Rightarrow> string \<Rightarrow> string \<Rightarrow> ndarray \<Rightarrow> int option \<Rightarrow> int \<Rightarrow> fs
      \<Rightarrow> fs \<times> (exn + template)" where
  "append env user model_id label embeddings created now s =
     thenS (s, prepare_template env user model_id label embeddings created now s)
       (\<lambda>s (existing, t). thenS (save env user (existing @ [t]) s) (\<lambda>s' _. (s', Inr t)))"

definition replace_space ::
    "store_env \<Rightarrow> string \<Rightarrow> string \<Rightarrow> string \<Rightarrow> ndarray \<Rightarrow> int option \<Rightarrow> int \<Rightarrow> fs
      \<Rightarrow> fs \<times> (exn + template)" where
  "replace_space env user model_id label embeddings created now s =
     thenS (s, prepare_template env user model_id label embeddings created now s)
       (\<lambda>s (existing, t).
          let kept = filter (\<lambda>other. t_model_id other \<noteq> model_id) existing in
          thenS (save env user (kept @ [t]) s) (\<lambda>s' _. (s', Inr t)))"

end
