(* ===== verification/Store_Laws.thy ===== *)
theory Store_Laws
  imports Template_Store
begin

text \<open>
  What the template store promises: the contract its clients rely on as a locale, the
  well-formedness of templates, the round trip through the file, and the interpretation of the
  contract on the functions of \<open>Template_Store\<close>.
\<close>

section \<open>The contract of a template repository\<close>

text \<open>
  \<open>fetch\<close> reads a user's set, \<open>put\<close> replaces it, \<open>drop_all\<close> removes it. \<open>same\<close> tells
  which users share a set (two names may lead to one file).
\<close>

locale template_repo =
  fixes fetch :: "'s \<Rightarrow> 'u \<Rightarrow> exn + 't list"
    and put :: "'u \<Rightarrow> 't list \<Rightarrow> 's \<Rightarrow> 's \<times> (exn + unit)"
    and drop_all :: "'u \<Rightarrow> 's \<Rightarrow> 's \<times> (exn + unit)"
    and good :: "'t \<Rightarrow> bool"
    and invar :: "'s \<Rightarrow> bool"
    and same :: "'u \<Rightarrow> 'u \<Rightarrow> bool"
  assumes put_fetch: "invar s \<Longrightarrow> ts \<noteq> [] \<Longrightarrow> \<forall>t \<in> set ts. good t \<Longrightarrow>
      put u ts s = (s', Inr ()) \<Longrightarrow> fetch s' u = Inr ts"
    and put_frame: "invar s \<Longrightarrow> \<not> same u v \<Longrightarrow> put u ts s = (s', r) \<Longrightarrow> fetch s' v = fetch s v"
    and put_failed: "invar s \<Longrightarrow> put u ts s = (s', Inl e) \<Longrightarrow> fetch s' v = fetch s v"
    and put_invar: "invar s \<Longrightarrow> put u ts s = (s', r) \<Longrightarrow> invar s'"
    and drop_fetch: "invar s \<Longrightarrow> drop_all u s = (s', Inr ()) \<Longrightarrow> fetch s' u = Inl TemplateFileNotFound"
    and drop_frame: "invar s \<Longrightarrow> \<not> same u v \<Longrightarrow> drop_all u s = (s', r) \<Longrightarrow> fetch s' v = fetch s v"
    and drop_failed: "drop_all u s = (s', Inl e) \<Longrightarrow> s' = s"
    and drop_invar: "invar s \<Longrightarrow> drop_all u s = (s', r) \<Longrightarrow> invar s'"
    and fetch_good: "invar s \<Longrightarrow> fetch s u = Inr ts \<Longrightarrow> ts \<noteq> [] \<and> (\<forall>t \<in> set ts. good t)"
begin

text \<open>
  The way every client removes templates: keep those that satisfy \<open>P\<close>, and remove the whole
  set when none is left.
\<close>

lemma prune_fetch:
  assumes inv: "invar s" and ts: "fetch s u = Inr ts"
    and step: "(if filter P ts \<noteq> [] then put u (filter P ts) s else drop_all u s) = (s', Inr ())"
  shows "fetch s' u = (if filter P ts \<noteq> [] then Inr (filter P ts) else Inl TemplateFileNotFound)"
proof (cases "filter P ts = []")
  case True
  with step show ?thesis by (auto intro: drop_fetch [OF inv])
next
  case False
  have "\<forall>t \<in> set (filter P ts). good t" using fetch_good [OF inv ts] by auto
  with False step show ?thesis by (auto intro: put_fetch [OF inv])
qed

lemma prune_frame:
  assumes "invar s" and "\<not> same u v"
    and "(if filter P ts \<noteq> [] then put u (filter P ts) s else drop_all u s) = (s', r)"
  shows "fetch s' v = fetch s v"
  using assms by (auto split: if_splits intro: put_frame drop_frame)

text \<open>Adding one template, keeping those of the old set that satisfy \<open>P\<close>.\<close>

lemma extend_fetch:
  assumes inv: "invar s" and ts: "fetch s u = Inr ts \<or> ts = []" and "good t"
    and step: "put u (filter P ts @ [t]) s = (s', Inr ())"
  shows "fetch s' u = Inr (filter P ts @ [t])"
proof (rule put_fetch [OF inv _ _ step])
  show "filter P ts @ [t] \<noteq> []" by simp
  show "\<forall>x \<in> set (filter P ts @ [t]). good x"
    using ts fetch_good [OF inv] \<open>good t\<close> by auto
qed

end


section \<open>Well-formed templates\<close>

text \<open>
  \<open>np_exact env r\<close>: the row holds float32 values, so writing it as JSON floats and reading it
  back through numpy gives the same row. \<open>asarray_law\<close> is numpy's side: a one-dimensional
  result has as many values as its shape says, and they are float32 values.
\<close>

definition np_exact :: "store_env \<Rightarrow> pyfloat list \<Rightarrow> bool" where
  "np_exact env r \<longleftrightarrow>
     np_asarray env (JList (map JFloat r)) = Inr \<lparr>nd_shape = [length r], nd_data = r\<rparr>"

definition asarray_law :: "store_env \<Rightarrow> bool" where
  "asarray_law env \<longleftrightarrow> (\<forall>v arr. np_asarray env v = Inr arr \<longrightarrow> length (nd_shape arr) = 1 \<longrightarrow>
     np_exact env (nd_data arr))"

definition wf_row :: "store_env \<Rightarrow> nat \<Rightarrow> pyfloat list \<Rightarrow> bool" where
  "wf_row env n r \<longleftrightarrow> length r = n \<and> 0 < n \<and> list_all is_finite r \<and> np_exact env r"

definition wf_template :: "store_env \<Rightarrow> template \<Rightarrow> bool" where
  "wf_template env t \<longleftrightarrow> t_embeddings t \<noteq> [] \<and> t_model_id t \<noteq> [] \<and>
     (\<forall>r \<in> set (t_embeddings t). wf_row env (t_dim t) r)"

lemma wf_templateI:
  "vs \<noteq> [] \<Longrightarrow> \<forall>r \<in> set vs. wf_row env n r \<Longrightarrow> m \<noteq> [] \<Longrightarrow>
     wf_template env \<lparr>t_id = i, t_label = l, t_created = c, t_model_id = m, t_embeddings = vs\<rparr>"
  by (cases vs) (auto simp: wf_template_def t_dim_def wf_row_def)


section \<open>Parsing what was written\<close>

lemma parse_vectors_loop_rows:
  assumes "\<forall>r \<in> set rows. wf_row env n r" and "ed = None \<or> ed = Some n"
  shows "parse_vectors_loop (np_asarray env) ed acc (map (\<lambda>r. JList (map JFloat r)) rows) =
     Inr (acc @ rows)"
  using assms
proof (induction rows arbitrary: ed acc)
  case (Cons r rows)
  then have r: "length r = n" "0 < n" "list_all is_finite r"
      "np_asarray env (JList (map JFloat r)) = Inr \<lparr>nd_shape = [length r], nd_data = r\<rparr>"
    by (auto simp: wf_row_def np_exact_def)
  have "parse_vectors_loop (np_asarray env) (Some n) (acc @ [r])
      (map (\<lambda>r. JList (map JFloat r)) rows) = Inr ((acc @ [r]) @ rows)"
    using Cons.prems by (intro Cons.IH) auto
  with r Cons.prems(2) show ?case by (auto simp: Let_def)
qed simp

lemma parse_serialized_template:
  assumes "wf_template env t"
  shows "parse_template env d (i, serialize_template t) = Inr t"
proof -
  have rows: "\<forall>r \<in> set (t_embeddings t). wf_row env (t_dim t) r" and ne: "t_embeddings t \<noteq> []"
    and m: "t_model_id t \<noteq> []"
    using assms by (auto simp: wf_template_def)
  have v: "parse_vectors env (map (\<lambda>r. JList (map JFloat r)) (t_embeddings t)) = Inr (t_embeddings t)"
    using parse_vectors_loop_rows [OF rows, of None "[]"] ne by (simp add: parse_vectors_def)
  have "length (hd (t_embeddings t)) = t_dim t"
    using rows ne by (auto simp: wf_row_def)
  with v m show ?thesis
    by (simp add: parse_template_def serialize_template_def dim_conflicts_def entry_model_id_def
        jget_or_def split: option.splits)
qed

lemma parse_store_payload:
  assumes "\<forall>t \<in> set ts. wf_template env t" and "ts \<noteq> []"
  shows "parse_store env d (store_payload nid ts) = Inr ts"
proof -
  have "mapE (parse_template env d) (enumerate 0 (map serialize_template ts)) =
      Inr (map (\<lambda>p. ts ! fst p) (enumerate 0 (map serialize_template ts)))"
  proof (rule mapE_all_Inr)
    fix p assume "p \<in> set (enumerate 0 (map serialize_template ts))"
    then obtain i where "i < length ts" "p = (i, serialize_template (ts ! i))"
      by (auto simp: in_set_enumerate_eq)
    with assms(1) show "parse_template env d p = Inr (ts ! fst p)"
      by (simp add: parse_serialized_template)
  qed
  also have "map (\<lambda>p. ts ! fst p) (enumerate 0 (map serialize_template ts)) = ts"
    by (rule nth_equalityI) (auto simp: nth_enumerate_eq)
  finally show ?thesis
    using assms(2) by (simp add: parse_store_def store_payload_def)
qed

text \<open>Whatever the parser accepts is well formed.\<close>

lemma parse_vectors_loop_wf:
  assumes "parse_vectors_loop (np_asarray env) ed acc data = Inr vs" and "asarray_law env"
    and "\<forall>r \<in> set acc. ed = Some (length r) \<and> wf_row env (length r) r"
  shows "\<exists>n. \<forall>r \<in> set vs. wf_row env n r"
  using assms(1,3)
proof (induction data arbitrary: ed acc)
  case Nil
  then show ?case by (cases acc) (auto simp: wf_row_def)
next
  case (Cons v data)
  then obtain arr where arr: "np_asarray env v = Inr arr" and shape: "length (nd_shape arr) = 1"
    and size: "length (nd_data arr) \<noteq> 0" and fin: "list_all is_finite (nd_data arr)"
    and ed: "ed = None \<or> ed = Some (length (nd_data arr))"
    and rest: "parse_vectors_loop (np_asarray env) (Some (length (nd_data arr)))
        (acc @ [nd_data arr]) data = Inr vs"
    by (auto simp: flow_simps Let_def split: if_splits option.splits)
  have "wf_row env (length (nd_data arr)) (nd_data arr)"
    using arr shape size fin assms(2) by (simp add: wf_row_def asarray_law_def)
  with Cons.prems(2) ed
  have "\<forall>r \<in> set (acc @ [nd_data arr]). Some (length (nd_data arr)) = Some (length r) \<and>
      wf_row env (length r) r"
    by auto
  with rest show ?case by (rule Cons.IH)
qed

lemma parse_template_wf:
  assumes "parse_template env d p = Inr t" and "asarray_law env" and "d \<noteq> []"
  shows "wf_template env t"
proof -
  obtain i e where p: "p = (i, e)" by (cases p)
  from assms(1) obtain dict data where e: "e = JObj dict" "jget dict ''data'' = Some (JList data)"
    by (auto simp: parse_template_def p split: json.splits option.splits)
  from assms(1) obtain vs m j l c where vs: "parse_vectors env data = Inr vs"
    and m: "entry_model_id d dict = Inr m"
    and t: "t = \<lparr>t_id = j, t_label = l, t_created = c, t_model_id = m, t_embeddings = vs\<rparr>"
    by (auto simp: parse_template_def p e flow_simps split: if_splits)
  from m assms(3) have "m \<noteq> []"
    by (auto simp: entry_model_id_def split: option.splits json.splits if_splits)
  moreover from vs have "vs \<noteq> []" "parse_vectors_loop (np_asarray env) None [] data = Inr vs"
    by (auto simp: parse_vectors_def flow_simps split: if_splits)
  moreover from parse_vectors_loop_wf [OF this(2) assms(2)] obtain n where "\<forall>r \<in> set vs. wf_row env n r"
    by auto
  ultimately show ?thesis unfolding t by (intro wf_templateI)
qed

lemma parse_store_wf:
  assumes "parse_store env d v = Inr ts" and "asarray_law env" and "d \<noteq> []"
  shows "ts \<noteq> [] \<and> (\<forall>t \<in> set ts. wf_template env t)"
proof -
  from assms(1) obtain entries where ne: "entries \<noteq> []"
    and m: "mapE (parse_template env d) (enumerate 0 entries) = Inr ts"
    by (auto simp: parse_store_def flow_simps split: if_splits)
  have "wf_template env t" if "t \<in> set ts" for t
    using mapE_Inr_mem [OF m that] parse_template_wf [OF _ assms(2,3)] by auto
  moreover from mapE_Inr_length [OF m] ne have "ts \<noteq> []" by auto
  ultimately show ?thesis by blast
qed



section \<open>The store as a repository\<close>

text \<open>
  \<open>mkstemp\<close> picks names ending in \<open>.tmp\<close> that do not exist yet, so never a model file:
  \<open>tmp_law\<close>, and \<open>tmp_free\<close> as an invariant of the file system between operations.
\<close>

definition tmp_law :: "store_env \<Rightarrow> bool" where
  "tmp_law env \<longleftrightarrow> (\<forall>p user. se_tmp env p \<noteq> path_for env user)"

definition tmp_free :: "store_env \<Rightarrow> fs \<Rightarrow> bool" where
  "tmp_free env s \<longleftrightarrow> (\<forall>p. files s (se_tmp env p) = None)"

definition store_inv :: "store_env \<Rightarrow> fs \<Rightarrow> bool" where
  "store_inv env s \<longleftrightarrow> asarray_law env \<and> tmp_law env \<and> tmp_free env s"

definition same_file :: "store_env \<Rightarrow> string \<Rightarrow> string \<Rightarrow> bool" where
  "same_file env u v \<longleftrightarrow> path_for env u = path_for env v"

lemma write_json_Inr_faultless:
  assumes "write_json fails pr tmp p v s = (s', Inr ())"
  shows "fails c = None"
  using assms
  by (cases c) (auto simp: write_json_def guarded_calls_def Let_def split: option.splits)

text \<open>The state a successful \<open>save\<close> leaves.\<close>

lemma save_Inr:
  assumes "save env user ts s = (s', Inr ())" and "store_inv env s"
  obtains n where "stored_next_id s (path_for env user) = Inr n"
    and "files s' = (files s)(path_for env user \<mapsto>
      written_file (se_process env) (path_for env user) (store_payload (max (next_id ts) n) ts) s)"
proof -
  let ?p = "path_for env user"
  from assms(1) obtain n where n: "stored_next_id s ?p = Inr n"
    and w: "write_json (se_fails env) (se_process env) (se_tmp env ?p) ?p
        (store_payload (max (next_id ts) n) ts) s = (s', Inr ())"
    by (auto simp: save_def Let_def split: sum.splits)
  have tmp: "se_tmp env ?p \<noteq> ?p" "files s (se_tmp env ?p) = None"
    using assms(2) by (auto simp: store_inv_def tmp_law_def tmp_free_def)
  have "files s' = (files s)(?p \<mapsto>
      written_file (se_process env) ?p (store_payload (max (next_id ts) n) ts) s)"
    using w unfolding write_json_success [OF write_json_Inr_faultless [OF w] tmp] by auto
  with n show ?thesis by (rule that)
qed

lemma save_Inl:
  assumes "save env user ts s = (s', Inl e)" and "store_inv env s"
  shows "files s' = files s"
  using assms write_json_failure
  by (fastforce simp: save_def Let_def store_inv_def tmp_free_def split: sum.splits)

lemma read_payload_files: "files s p = files s' p \<Longrightarrow> read_payload s p = read_payload s' p"
  by (simp add: read_payload_def)

lemma load_all_files:
  "files s (path_for env u) = files s' (path_for env u) \<Longrightarrow> load_all env s u = load_all env s' u"
  by (simp add: load_all_def read_payload_def)

lemma tmp_free_update:
  assumes "tmp_law env" and "tmp_free env s" and "files s' = (files s)(path_for env u := x)"
  shows "tmp_free env s'"
  using assms by (auto simp: tmp_free_def tmp_law_def)

lemma LEGACY_MODEL_ID_nonempty [simp]: "LEGACY_MODEL_ID \<noteq> []"
  by (simp add: LEGACY_MODEL_ID_def)

lemma save_invar: "store_inv env s \<Longrightarrow> save env u ts s = (s', r) \<Longrightarrow> store_inv env s'"
proof (cases r)
  case (Inl e)
  assume "store_inv env s" "save env u ts s = (s', r)"
  with Inl show ?thesis by (auto dest: save_Inl simp: store_inv_def tmp_free_def)
next
  case (Inr x)
  assume inv: "store_inv env s" and "save env u ts s = (s', r)"
  with Inr have "save env u ts s = (s', Inr ())" by simp
  then obtain y where "files s' = (files s)(path_for env u := y)"
    using inv by (elim save_Inr) auto
  with inv show ?thesis by (auto simp: store_inv_def intro: tmp_free_update)
qed

lemma delete_cases:
  assumes "delete env u s = (s', r)"
  shows "(files s (path_for env u) = None \<and> s' = s \<and> r = Inl TemplateFileNotFound) \<or>
    (files s (path_for env u) \<noteq> None \<and> files s' = (files s)(path_for env u := None) \<and> r = Inr ())"
  using assms by (auto simp: delete_def split: option.splits)

interpretation repo: template_repo "load_all env" "save env" "delete env" "wf_template env"
    "store_inv env" "same_file env" for env
proof unfold_locales
  fix s s' u v ts r e
  show "load_all env s' u = Inr ts"
    if "store_inv env s" "ts \<noteq> []" "\<forall>t \<in> set ts. wf_template env t" "save env u ts s = (s', Inr ())"
    using that by (elim save_Inr) (auto simp: load_all_def read_payload_def parse_store_payload)
  show "load_all env s' v = load_all env s v"
    if "store_inv env s" "\<not> same_file env u v" "save env u ts s = (s', r)"
  proof (rule load_all_files)
    show "files s' (path_for env v) = files s (path_for env v)"
      using that by (cases r) (auto dest: save_Inl simp: same_file_def elim!: save_Inr)
  qed
  show "load_all env s' v = load_all env s v"
    if "store_inv env s" "save env u ts s = (s', Inl e)"
    using save_Inl [OF that(2,1)] by (intro load_all_files) simp
  show "store_inv env s'" if "store_inv env s" "save env u ts s = (s', r)"
    using that by (rule save_invar)
  show "load_all env s' u = Inl TemplateFileNotFound"
    if "store_inv env s" "delete env u s = (s', Inr ())"
    using delete_cases [OF that(2)] by (auto simp: load_all_def read_payload_def)
  show "load_all env s' v = load_all env s v"
    if "store_inv env s" "\<not> same_file env u v" "delete env u s = (s', r)"
    using delete_cases [OF that(3)] that(2) by (intro load_all_files) (auto simp: same_file_def)
  show "s' = s" if "delete env u s = (s', Inl e)"
    using delete_cases [OF that] by auto
  show "store_inv env s'" if "store_inv env s" "delete env u s = (s', r)"
    using delete_cases [OF that(2)] that(1) by (auto simp: store_inv_def intro: tmp_free_update)
  show "ts \<noteq> [] \<and> (\<forall>t \<in> set ts. wf_template env t)"
    if "store_inv env s" "load_all env s u = Inr ts"
    using that parse_store_wf [of env LEGACY_MODEL_ID]
    by (auto simp: load_all_def flow_simps store_inv_def)
qed


section \<open>Rows and their owners\<close>

lemma load_owner:
  assumes "load env s u m = Inr ts" and "k < length (ts_matrix ts)"
  shows "\<exists>t \<in> set (ts_templates ts).
    owner_of ts (int k) = Some t \<and> ts_matrix ts ! k \<in> set (t_embeddings t) \<and> t_model_id t = m"
proof -
  from assms(1) have ts: "ts_matrix ts = concat (map t_embeddings (ts_templates ts))"
    "ts_owners ts = owners_of 0 (map t_embeddings (ts_templates ts))"
    "\<forall>t \<in> set (ts_templates ts). t_model_id t = m"
    by (auto simp: load_def flow_simps Let_def stack_templates_def split: if_splits)
  let ?o = "ts_owners ts ! k"
  have "?o < length (ts_templates ts) \<and> ts_matrix ts ! k \<in> set (t_embeddings (ts_templates ts ! ?o))"
    using owners_of_nth [of k "map t_embeddings (ts_templates ts)" 0] assms(2) ts(1,2) by auto
  moreover have "owner_of ts (int k) = Some (ts_templates ts ! ?o)"
    using assms(2) ts by (simp add: owner_of_def)
  ultimately show ?thesis using ts(3) by auto
qed

lemma load_space: "load env s u m = Inr ts \<Longrightarrow> ts_model_id ts = m"
  by (auto simp: load_def flow_simps Let_def split: if_splits)

end
