(* ===== verification/Store_Samples.thy ===== *)
theory Store_Samples
  imports Store_Laws
begin

text \<open>
  A concrete store for the witnesses: a numpy that reads lists of floats, a root process and a
  file with two templates of different embedding spaces.
\<close>

section \<open>A sample store\<close>

text \<open>
  For the witnesses: numpy reads a list of JSON floats as a one-dimensional array and refuses
  anything else; the process is root; the temporary name is fixed.
\<close>

definition float_item :: "json \<Rightarrow> pyfloat option" where
  "float_item v = (case v of JFloat f \<Rightarrow> Some f | _ \<Rightarrow> None)"

fun float_items :: "json list \<Rightarrow> pyfloat list option" where
  "float_items [] = Some []"
| "float_items (v # vs) = (case float_item v of
      None \<Rightarrow> None
    | Some f \<Rightarrow> map_option (\<lambda>fs. f # fs) (float_items vs))"

definition sample_asarray :: "json \<Rightarrow> exn + ndarray" where
  "sample_asarray v = (case v of
      JList vs \<Rightarrow> (case float_items vs of
          Some xs \<Rightarrow> Inr \<lparr>nd_shape = [length xs], nd_data = xs\<rparr>
        | None \<Rightarrow> Inl ValueError)
    | _ \<Rightarrow> Inl ValueError)"

definition sample_env :: store_env where
  "sample_env = \<lparr>np_asarray = sample_asarray, repr_of = (\<lambda>_. []),
     se_paths = default_paths [''srv''],
     se_process = \<lparr>euid = 0, egid = 0, umask_dir = 493\<rparr>,
     se_tmp = (\<lambda>_. [''x.tmp'']), se_fails = (\<lambda>_. None)\<rparr>"

definition empty_fs :: fs where
  "empty_fs = \<lparr>files = (\<lambda>_. None), dirs = (\<lambda>_. None)\<rparr>"

definition vec :: "pyfloat list \<Rightarrow> ndarray" where
  "vec xs = \<lparr>nd_shape = [length xs], nd_data = xs\<rparr>"

definition sample_template :: "int \<Rightarrow> string \<Rightarrow> template" where
  "sample_template i m =
     \<lparr>t_id = i, t_label = ''a'', t_created = 7, t_model_id = m, t_embeddings = [[Fin 1]]\<rparr>"

definition sample_fs :: fs where
  "sample_fs = empty_fs\<lparr>files := [path_for sample_env ''al'' \<mapsto>
     \<lparr>f_content = Document (store_payload 5 [sample_template 3 ''m'', sample_template 1 ''n'']),
      f_mode = 384, f_uid = 0, f_gid = 0\<rparr>]\<rparr>"

lemma float_items_floats: "float_items (map JFloat xs) = Some xs"
  by (induction xs) (auto simp: float_item_def)

lemma sample_asarray_law: "asarray_law sample_env"
  by (auto simp: asarray_law_def np_exact_def sample_env_def sample_asarray_def float_items_floats
      split: json.splits option.splits)

lemma sample_np_exact: "np_exact sample_env r"
  by (simp add: np_exact_def sample_env_def sample_asarray_def float_items_floats)

lemma sample_tmp_law: "tmp_law sample_env"
  unfolding tmp_law_def
proof (intro allI)
  fix p user
  obtain ps' q where q: "path_for sample_env user = ps' @ [q @ ''.dat'']"
    using user_model_path_suffix unfolding path_for_def by blast
  have "q @ ''.dat'' \<noteq> ''x.tmp''"
  proof
    assume "q @ ''.dat'' = ''x.tmp''"
    then have "last (q @ ''.dat'') = last ''x.tmp''" by (rule arg_cong)
    then show False by simp
  qed
  then show "se_tmp sample_env p \<noteq> path_for sample_env user"
    unfolding q by (auto simp: sample_env_def append_eq_Cons_conv)
qed

lemma sample_inv:
  assumes "files s [''x.tmp''] = None"
  shows "store_inv sample_env s"
  using assms sample_asarray_law sample_tmp_law
  by (simp add: store_inv_def tmp_free_def sample_env_def)

lemma sample_path: "path_for sample_env ''al'' = [''srv'', ''models'', ''al.dat'']"
  by code_simp

lemma sample_fs_inv: "store_inv sample_env sample_fs" "store_inv sample_env empty_fs"
  by (rule sample_inv, simp add: sample_fs_def empty_fs_def sample_path)+

end
