(* ===== verification/Store_Props.thy ===== *)
theory Store_Props
  imports Store_Samples
begin

text \<open>
  The properties of the template store, each with a witness on a small concrete store: what
  \<open>append\<close>, \<open>replace_space\<close> and \<open>load\<close> return, that ids are not reused, that a write is
  all or nothing, and what the file keeps across a round trip.
\<close>

section \<open>Adding templates\<close>

lemma build_vec:
  assumes "build_template i m l (vec xs) c now = Inr t" and "np_exact env xs" and "m \<noteq> []"
  shows "t = \<lparr>t_id = i, t_label = l, t_created = (case c of None \<Rightarrow> now | Some x \<Rightarrow> x),
      t_model_id = m, t_embeddings = [xs]\<rparr>" and "wf_template env t"
proof -
  have fin: "xs \<noteq> []" "list_all is_finite xs"
    using assms(1) by (auto simp: build_template_def atleast_2d_def vec_def Let_def split: if_splits)
  show t: "t = \<lparr>t_id = i, t_label = l, t_created = (case c of None \<Rightarrow> now | Some x \<Rightarrow> x),
      t_model_id = m, t_embeddings = [xs]\<rparr>"
    using assms(1) fin by (auto simp: build_template_def atleast_2d_def vec_def Let_def rows_of_def)
  show "wf_template env t"
    unfolding t using fin assms(2,3) by (intro wf_templateI [where n = "length xs"]) (auto simp: wf_row_def)
qed

lemma load_or_empty_cases:
  "load_or_empty env s u = Inr ts \<Longrightarrow> load_all env s u = Inr ts \<or> ts = []"
  by (auto simp: load_or_empty_def split: sum.splits if_splits)

lemma prepare_Inr:
  assumes "prepare_template env u m l (vec xs) c now s = Inr (existing, t)"
    and "np_exact env xs" and "m \<noteq> []"
  shows "load_or_empty env s u = Inr existing" and "peek_next_id env s u existing = Inr (t_id t)"
    and "wf_template env t" and "t_model_id t = m" and "t_label t = l" and "t_embeddings t = [xs]"
proof -
  from assms(1) obtain i where i: "peek_next_id env s u existing = Inr i"
      "build_template i m l (vec xs) c now = Inr t" "load_or_empty env s u = Inr existing"
    by (auto simp: prepare_template_def flow_simps)
  with build_vec [OF i(2) assms(2,3)]
  show "load_or_empty env s u = Inr existing" "peek_next_id env s u existing = Inr (t_id t)"
    "wf_template env t" "t_model_id t = m" "t_label t = l" "t_embeddings t = [xs]"
    by auto
qed

lemma next_id_above: "t \<in> set ts \<Longrightarrow> t_id t < next_id ts"
  by (cases ts) (auto simp: next_id_def less_Suc_eq_le intro!: add_le_less_mono Max_ge
      simp: le_imp_less_Suc zle_add1_eq_le)

lemma peek_next_id_above:
  assumes "peek_next_id env s u ts = Inr i"
  shows "\<forall>t \<in> set ts. t_id t < i" and "next_id ts \<le> i"
    and "\<exists>n. stored_next_id s (path_for env u) = Inr n \<and> n \<le> i"
  using assms next_id_above [of _ ts] by (fastforce simp: peek_next_id_def flow_simps)+

text \<open>
  A successful \<open>append\<close> leaves exactly the old templates followed by the new one, the new
  id is above every existing id and every id handed out before, the new template carries the
  requested space, label and encoding, and no other user's file is touched.
\<close>

theorem append_spec:
  assumes inv: "store_inv env s" and "m \<noteq> []" and "np_exact env xs"
    and run: "append env u m l (vec xs) c now s = (s', Inr t)"
  shows "\<exists>existing n. load_or_empty env s u = Inr existing \<and>
      stored_next_id s (path_for env u) = Inr n \<and>
      load_all env s' u = Inr (existing @ [t]) \<and>
      (\<forall>x \<in> set existing. t_id x < t_id t) \<and> n \<le> t_id t \<and>
      t_model_id t = m \<and> t_label t = l \<and> t_embeddings t = [xs] \<and>
      (\<forall>v. \<not> same_file env u v \<longrightarrow> load_all env s' v = load_all env s v)"
proof -
  from run obtain existing where p: "prepare_template env u m l (vec xs) c now s = Inr (existing, t)"
    and sv: "save env u (existing @ [t]) s = (s', Inr ())"
    by (auto simp: append_def flow_simps)
  note t = prepare_Inr [OF p assms(3,2)]
  have "load_all env s' u = Inr (filter (\<lambda>_. True) existing @ [t])"
    by (rule repo.extend_fetch [OF inv load_or_empty_cases [OF t(1)] t(3)]) (simp add: sv)
  with t peek_next_id_above [OF t(2)] repo.put_frame [OF inv _ sv] show ?thesis
    by auto
qed

lemma sample_append:
  "append sample_env ''al'' ''m'' ''b'' (vec [Fin 2]) None 9 sample_fs =
     (fst (append sample_env ''al'' ''m'' ''b'' (vec [Fin 2]) None 9 sample_fs),
      Inr \<lparr>t_id = 5, t_label = ''b'', t_created = 9, t_model_id = ''m'', t_embeddings = [[Fin 2]]\<rparr>)"
  by (rule pair_of_snd) code_simp

theorem append_spec_witness:
  "load_all sample_env (fst (append sample_env ''al'' ''m'' ''b'' (vec [Fin 2]) None 9 sample_fs)) ''al'' =
     Inr [sample_template 3 ''m'', sample_template 1 ''n'',
       \<lparr>t_id = 5, t_label = ''b'', t_created = 9, t_model_id = ''m'', t_embeddings = [[Fin 2]]\<rparr>]"
proof -
  have "load_or_empty sample_env sample_fs ''al'' = Inr [sample_template 3 ''m'', sample_template 1 ''n'']"
    by code_simp
  with append_spec [OF sample_fs_inv(1) _ sample_np_exact sample_append] show ?thesis
    by auto
qed


text \<open>
  A successful \<open>replace_space\<close> (re-enrolment) drops exactly the templates of the given
  space, keeps all others in order, ends with the one new template, whose id is above every
  old one, so the space then holds exactly one template; other users are untouched.
\<close>

theorem replace_space_spec:
  assumes inv: "store_inv env s" and "m \<noteq> []" and "np_exact env xs"
    and run: "replace_space env u m l (vec xs) c now s = (s', Inr t)"
  shows "\<exists>existing. load_or_empty env s u = Inr existing \<and>
      load_all env s' u = Inr (filter (\<lambda>x. t_model_id x \<noteq> m) existing @ [t]) \<and>
      filter (\<lambda>x. t_model_id x = m) (filter (\<lambda>x. t_model_id x \<noteq> m) existing @ [t]) = [t] \<and>
      (\<forall>x \<in> set existing. t_id x < t_id t) \<and> t_embeddings t = [xs] \<and>
      (\<forall>v. \<not> same_file env u v \<longrightarrow> load_all env s' v = load_all env s v)"
proof -
  from run obtain existing where p: "prepare_template env u m l (vec xs) c now s = Inr (existing, t)"
    and sv: "save env u (filter (\<lambda>x. t_model_id x \<noteq> m) existing @ [t]) s = (s', Inr ())"
    by (auto simp: replace_space_def flow_simps Let_def)
  note t = prepare_Inr [OF p assms(3,2)]
  have "load_all env s' u = Inr (filter (\<lambda>x. t_model_id x \<noteq> m) existing @ [t])"
    by (rule repo.extend_fetch [OF inv load_or_empty_cases [OF t(1)] t(3) sv])
  with t peek_next_id_above [OF t(2)] repo.put_frame [OF inv _ sv] show ?thesis
    by (auto simp: filter_empty_conv)
qed

lemma sample_replace:
  "replace_space sample_env ''al'' ''m'' ''b'' (vec [Fin 2]) None 9 sample_fs =
     (fst (replace_space sample_env ''al'' ''m'' ''b'' (vec [Fin 2]) None 9 sample_fs),
      Inr \<lparr>t_id = 5, t_label = ''b'', t_created = 9, t_model_id = ''m'', t_embeddings = [[Fin 2]]\<rparr>)"
  by (rule pair_of_snd) code_simp

theorem replace_space_spec_witness:
  "load_all sample_env (fst (replace_space sample_env ''al'' ''m'' ''b'' (vec [Fin 2]) None 9 sample_fs)) ''al'' =
     Inr [sample_template 1 ''n'',
       \<lparr>t_id = 5, t_label = ''b'', t_created = 9, t_model_id = ''m'', t_embeddings = [[Fin 2]]\<rparr>]"
proof -
  have "load_or_empty sample_env sample_fs ''al'' = Inr [sample_template 3 ''m'', sample_template 1 ''n'']"
    by code_simp
  with replace_space_spec [OF sample_fs_inv(1) _ sample_np_exact sample_replace] show ?thesis
    by (auto simp: sample_template_def)
qed


section \<open>Ids are not reused\<close>

text \<open>
  An edit is a successful \<open>save\<close> for any user, the only way the code changes a set it keeps.
\<close>

inductive edits :: "store_env \<Rightarrow> fs \<Rightarrow> fs \<Rightarrow> bool" for env where
  edits_refl: "edits env s s"
| edits_save: "edits env s s' \<Longrightarrow> save env u ts s' = (s'', Inr ()) \<Longrightarrow> edits env s s''"

lemma next_id_nonneg: "\<forall>t \<in> set ts. 0 \<le> t_id t \<Longrightarrow> 0 \<le> next_id ts"
  by (cases ts) (auto simp: next_id_def Max_ge_iff)

lemma stored_next_id_nonneg: "stored_next_id s p = Inr n \<Longrightarrow> 0 \<le> n"
  by (auto simp: stored_next_id_def split: sum.splits json.splits option.splits if_splits)

lemma stored_after_save:
  assumes "save env u ts s = (s', Inr ())" and "store_inv env s"
  shows "\<exists>n. stored_next_id s (path_for env u) = Inr n \<and>
    stored_next_id s' (path_for env u) = Inr (max (next_id ts) n)"
proof -
  from save_Inr [OF assms] obtain n where n: "stored_next_id s (path_for env u) = Inr n"
    and f: "files s' = (files s)(path_for env u \<mapsto> written_file (se_process env) (path_for env u)
        (store_payload (max (next_id ts) n) ts) s)" by blast
  from stored_next_id_nonneg [OF n] have "0 \<le> max (next_id ts) n" by simp
  then have "stored_next_id s' (path_for env u) = Inr (max (next_id ts) n)"
    by (auto simp: stored_next_id_def read_payload_def f store_payload_def STORE_VERSION_def)
  with n show ?thesis by blast
qed

lemma stored_next_id_files: "files s p = files s' p \<Longrightarrow> stored_next_id s p = stored_next_id s' p"
  by (simp add: stored_next_id_def read_payload_def)

lemma edits_mark:
  assumes "edits env s s'" and "store_inv env s" and "stored_next_id s (path_for env u) = Inr n"
  shows "store_inv env s' \<and> (\<exists>n'. stored_next_id s' (path_for env u) = Inr n' \<and> n \<le> n')"
  using assms
proof (induction rule: edits.induct)
  case (edits_refl s)
  then show ?case by auto
next
  case (edits_save s s' v ts s'')
  then obtain n' where n': "store_inv env s'" "stored_next_id s' (path_for env u) = Inr n'" "n \<le> n'"
    by auto
  have inv: "store_inv env s''" using repo.put_invar [OF n'(1) edits_save.hyps(2)] .
  show ?case
  proof (cases "path_for env v = path_for env u")
    case True
    with stored_after_save [OF edits_save.hyps(2) n'(1)] n' inv show ?thesis by auto
  next
    case False
    with save_Inr [OF edits_save.hyps(2) n'(1)] have "files s'' (path_for env u) = files s' (path_for env u)"
      by (metis fun_upd_other)
    with n' inv stored_next_id_files [of s'' "path_for env u" s'] show ?thesis by auto
  qed
qed



definition sample_fs1 :: fs where
  "sample_fs1 = fst (append sample_env ''al'' ''m'' ''b'' (vec [Fin 2]) None 9 sample_fs)"

definition sample_fs2 :: fs where
  "sample_fs2 = fst (save sample_env ''al'' [sample_template 1 ''n''] sample_fs1)"

lemma sample_edits: "edits sample_env sample_fs1 sample_fs2"
proof -
  have "snd (save sample_env ''al'' [sample_template 1 ''n''] sample_fs1) = Inr ()"
    by code_simp
  from pair_of_snd [OF this] show ?thesis
    unfolding sample_fs2_def by (rule edits_save [OF edits_refl])
qed


text \<open>
  Removing a user's whole file also forgets the high-water mark: the next enrolment of that
  user starts again at id 0, whatever ids were given out before.
\<close>

theorem delete_forgets_ids:
  assumes "delete env u s = (s1, Inr ())" and "store_inv env s" and "np_exact env xs" and "m \<noteq> []"
    and "append env u m l (vec xs) c now s1 = (s2, Inr t)"
  shows "t_id t = 0"
proof -
  have f: "files s1 (path_for env u) = None" using delete_cases [OF assms(1)] by auto
  from assms(5) obtain existing where p: "prepare_template env u m l (vec xs) c now s1 = Inr (existing, t)"
    by (auto simp: append_def flow_simps)
  from prepare_Inr(1,2) [OF p assms(3,4)] f show ?thesis
    by (auto simp: load_or_empty_def load_all_def read_payload_def peek_next_id_def next_id_def
        stored_next_id_def)
qed

theorem delete_forgets_ids_witness:
  "\<exists>s2 t. append sample_env ''al'' ''m'' ''c'' (vec [Fin 3]) None 9
       (fst (delete sample_env ''al'' sample_fs)) = (s2, Inr t) \<and> t_id t = 0"
proof -
  have "snd (append sample_env ''al'' ''m'' ''c'' (vec [Fin 3]) None 9
      (fst (delete sample_env ''al'' sample_fs))) = Inr
      \<lparr>t_id = 0, t_label = ''c'', t_created = 9, t_model_id = ''m'', t_embeddings = [[Fin 3]]\<rparr>"
    by code_simp
  note a = pair_of_snd [OF this]
  have "snd (delete sample_env ''al'' sample_fs) = Inr ()" by code_simp
  from delete_forgets_ids [OF pair_of_snd [OF this] sample_fs_inv(1) sample_np_exact _ a] a
  show ?thesis by blast
qed


section \<open>Writes are all or nothing\<close>

text \<open>
  After any prefix of the system calls of a write, the target is either the old file or the
  complete new one.
\<close>

lemma guarded_prefix_effect:
  assumes "tmp \<noteq> p" and "Swap \<notin> set cs"
  shows "files (fold (write_effect pr tmp p v) cs s) p = files s p"
  using assms(2)
proof (induction cs arbitrary: s)
  case (Cons c cs)
  then have "files (write_effect pr tmp p v c s) p = files s p"
    using assms(1) by (cases c) (auto split: option.splits)
  with Cons show ?case by simp
qed simp

lemma take_before_last: "n < length cs \<Longrightarrow> set (take n cs) \<subseteq> set (butlast cs)"
  by (metis Suc_leI butlast_conv_take diff_Suc_1 less_eq_Suc_le set_take_subset_set_take
      Suc_pred' less_nat_zero_code neq0_conv le_simps(2))





section \<open>Loading one embedding space\<close>

lemma stack_matrix_rows:
  assumes "\<forall>t \<in> set ts. wf_template env t" and "ts \<noteq> []"
    and "stack_templates ts = Inr (matrix, owners)"
  shows "\<forall>r \<in> set matrix. wf_row env (t_dim (hd ts)) r" and "matrix \<noteq> []"
    and "matrix = concat (map t_embeddings ts)" and "owners = owners_of 0 (map t_embeddings ts)"
proof -
  from assms(3) show m: "matrix = concat (map t_embeddings ts)"
    and "owners = owners_of 0 (map t_embeddings ts)"
    by (auto simp: stack_templates_def split: if_splits)
  from assms(3) have "\<forall>t \<in> set ts. t_dim t = t_dim (hd ts)"
    by (auto simp: stack_templates_def split: if_splits)
  with assms(1) m show "\<forall>r \<in> set matrix. wf_row env (t_dim (hd ts)) r"
    by (fastforce simp: wf_template_def)
  from assms(1,2) m show "matrix \<noteq> []"
    by (cases ts) (auto simp: wf_template_def)
qed

text \<open>
  C28: what \<open>load\<close> returns can be matched against: only templates of the requested space, at
  least one; a non-empty matrix of finite rows of one common positive length; and one owner per
  row, which is the template the row came from, while a row index outside the matrix (the
  \<open>-1\<close> of a face that was never compared) has no owner.
\<close>

theorem load_consistent:
  assumes "load env s u m = Inr ts" and "asarray_law env" and "m \<noteq> []"
  shows "ts_model_id ts = m \<and> ts_templates ts \<noteq> [] \<and>
    (\<forall>t \<in> set (ts_templates ts). wf_template env t \<and> t_model_id t = m) \<and>
    ts_matrix ts \<noteq> [] \<and> (\<exists>n > 0. \<forall>r \<in> set (ts_matrix ts). wf_row env n r) \<and>
    length (ts_owners ts) = length (ts_matrix ts) \<and>
    (\<forall>k < length (ts_matrix ts). \<exists>t \<in> set (ts_templates ts).
       owner_of ts (int k) = Some t \<and> ts_matrix ts ! k \<in> set (t_embeddings t)) \<and>
    owner_of ts (-1) = None \<and> owner_of ts (int (length (ts_matrix ts))) = None"
proof -
  from assms(1) obtain all where all: "parse_store env m (projr (read_payload s (path_for env u))) = Inr all"
    and ne: "filter (\<lambda>t. t_model_id t = m) all \<noteq> []"
    and st: "stack_templates (filter (\<lambda>t. t_model_id t = m) all) = Inr (ts_matrix ts, ts_owners ts)"
    and ts: "ts_model_id ts = m" "ts_templates ts = filter (\<lambda>t. t_model_id t = m) all"
    by (auto simp: load_def flow_simps Let_def split: if_splits)
  have wf: "\<forall>t \<in> set (ts_templates ts). wf_template env t"
    using parse_store_wf [OF all assms(2,3)] ts by auto
  note rows = stack_matrix_rows [OF wf _ st [folded ts(2)], unfolded ts(2), OF ne, folded ts(2)]
  have owner: "\<exists>t \<in> set (ts_templates ts).
       owner_of ts (int k) = Some t \<and> ts_matrix ts ! k \<in> set (t_embeddings t)"
    if k: "k < length (ts_matrix ts)" for k
  proof -
    let ?o = "ts_owners ts ! k"
    have "?o < length (ts_templates ts) \<and> ts_matrix ts ! k \<in> set (t_embeddings (ts_templates ts ! ?o))"
      using owners_of_nth [of k "map t_embeddings (ts_templates ts)" 0] k rows(3,4) by auto
    then show ?thesis
      using k rows(3,4) by (intro bexI [of _ "ts_templates ts ! ?o"]) (auto simp: owner_of_def)
  qed
  have len: "length (ts_owners ts) = length (ts_matrix ts)" using rows(3,4) by simp
  have "\<exists>n > 0. \<forall>r \<in> set (ts_matrix ts). wf_row env n r"
    using rows(1,2) by (intro exI [of _ "t_dim (hd (ts_templates ts))"])
      (cases "ts_matrix ts", auto simp: wf_row_def)
  with wf ts ne rows(2) len owner show ?thesis
    by (auto simp: owner_of_def)
qed

theorem load_consistent_witness:
  "\<exists>ts. load sample_env sample_fs ''al'' ''m'' = Inr ts \<and> length (ts_owners ts) = 1 \<and>
     owner_of ts 0 = Some (sample_template 3 ''m'')"
proof -
  let ?ts = "\<lparr>ts_model_id = ''m'', ts_templates = [sample_template 3 ''m''], ts_matrix = [[Fin 1]],
     ts_owners = [0]\<rparr>"
  have l: "load sample_env sample_fs ''al'' ''m'' = Inr ?ts" by code_simp
  from load_consistent [OF l sample_asarray_law] have "length (ts_owners ?ts) = length (ts_matrix ?ts)"
    by simp
  with l show ?thesis by (intro exI [of _ ?ts]) (simp add: owner_of_def)
qed


section \<open>Files without a model id\<close>


definition untagged_fs :: fs where
  "untagged_fs = empty_fs\<lparr>files := [path_for sample_env ''al'' \<mapsto>
     \<lparr>f_content = Document (JList [JObj [(''data'', JList [JList [JFloat (Fin 1)]])]]),
      f_mode = 384, f_uid = 0, f_gid = 0\<rparr>]\<rparr>"


end
