(* ===== verification/Transitions.thy ===== *)
theory Transitions
  imports Main
begin

text \<open>
  Interfaces shared by the concurrent parts: invariants of a step relation, and sessions that
  another thread may cancel.
\<close>

section \<open>Invariants of a step relation\<close>

locale inductive_invariant =
  fixes init :: 's
    and step :: "'s \<Rightarrow> 's \<Rightarrow> bool"
    and inv :: "'s \<Rightarrow> bool"
  assumes inv_init: "inv init"
    and inv_step: "inv s \<Longrightarrow> step s s' \<Longrightarrow> inv s'"
begin

lemma reachable_inv: "rtranclp step init s \<Longrightarrow> inv s"
  by (induction rule: rtranclp_induct) (auto intro: inv_init inv_step)

lemma run_inv: "inv s \<Longrightarrow> rtranclp step s s' \<Longrightarrow> inv s'"
  by (rotate_tac, induction rule: rtranclp_induct) (auto intro: inv_step)

end


section \<open>Cancellable sessions\<close>

text \<open>
  The contract \<open>CameraArbiter\<close> asks of what it holds: \<open>cancel()\<close> may be called more than
  once and from any thread, the session stays cancelled, and cancelling again changes nothing.
\<close>

locale cancellable =
  fixes cancel :: "'s \<Rightarrow> 's"
    and is_cancelled :: "'s \<Rightarrow> bool"
  assumes cancel_sets: "is_cancelled (cancel s)"
    and cancel_idem: "cancel (cancel s) = cancel s"
begin

text \<open>However often the arbiter calls it, one call is all the session sees.\<close>

lemma cancel_funpow: "0 < n \<Longrightarrow> (cancel ^^ n) s = cancel s"
proof (induction n)
  case (Suc n)
  then show ?case by (cases n) (auto simp: cancel_idem)
qed simp

lemma cancelled_after: "0 < n \<Longrightarrow> is_cancelled ((cancel ^^ n) s)"
  by (simp add: cancel_funpow cancel_sets)

end

end
