(* ===== verification/Camera.thy ===== *)
theory Camera
  imports Prelude Transitions
begin

text \<open>
  \<open>authd/camera.py\<close>: the arbiter that lets one session at a time hold the camera. Each thread
  runs under the condition's lock from one wait to the next, so a step of the system is one
  such stretch: entering \<open>acquire\<close>, waking up inside it, or \<open>release\<close>.
\<close>

section \<open>Uses and their priority\<close>

datatype camera_use = AUTH | MANAGE

text \<open>A login has priority over a management session.\<close>

instantiation camera_use :: linorder
begin

definition less_camera_use :: "camera_use \<Rightarrow> camera_use \<Rightarrow> bool" where
  "less_camera_use u v \<longleftrightarrow> u = MANAGE \<and> v = AUTH"

definition less_eq_camera_use :: "camera_use \<Rightarrow> camera_use \<Rightarrow> bool" where
  "less_eq_camera_use u v \<longleftrightarrow> u = MANAGE \<or> v = AUTH"

instance
proof
  fix u v w :: camera_use
  show "(u < v) = (u \<le> v \<and> \<not> v \<le> u)"
    by (cases u; cases v) (auto simp: less_camera_use_def less_eq_camera_use_def)
  show "u \<le> u" by (cases u) (auto simp: less_eq_camera_use_def)
  show "u \<le> v \<Longrightarrow> v \<le> w \<Longrightarrow> u \<le> w"
    by (cases u; cases v; cases w) (auto simp: less_eq_camera_use_def)
  show "u \<le> v \<Longrightarrow> v \<le> u \<Longrightarrow> u = v" by (cases u; cases v) (auto simp: less_eq_camera_use_def)
  show "u \<le> v \<or> v \<le> u" by (cases u; cases v) (auto simp: less_eq_camera_use_def)
qed

end


section \<open>State\<close>

text \<open>
  A waiter is a thread inside \<open>self._cond.wait\<close>; \<open>w_woken\<close> says that a \<open>notify_all\<close> has
  happened since it started to wait. \<open>cancel_calls\<close> records the sessions whose \<open>cancel()\<close>
  the arbiter has called. Sessions and threads are numbered.
\<close>

record waiter =
  w_use :: camera_use
  w_session :: nat
  w_woken :: bool

record arbiter =
  holder :: "(camera_use \<times> nat) option"
  auth_waiting :: nat
  waiters :: "nat \<Rightarrow> waiter option"
  cancel_calls :: "nat list"

definition init_arbiter :: arbiter where
  "init_arbiter = \<lparr>holder = None, auth_waiting = 0, waiters = (\<lambda>_. None), cancel_calls = []\<rparr>"

definition can_take :: "arbiter \<Rightarrow> camera_use \<Rightarrow> bool" where
  "can_take a u = (case holder a of
      Some _ \<Rightarrow> False
    | None \<Rightarrow> u = AUTH \<or> auth_waiting a = 0)"

definition notify_all :: "arbiter \<Rightarrow> arbiter" where
  "notify_all a = a\<lparr>waiters := (\<lambda>t. map_option (w_woken_update (\<lambda>_. True)) (waiters a t))\<rparr>"


section \<open>Operations\<close>

text \<open>\<open>Crashed\<close> is the \<open>TypeError\<close> of \<open>self._holder[0]\<close> on \<open>None\<close>.\<close>

datatype outcome = Granted | TimedOut | Blocked | Crashed

text \<open>The \<open>finally\<close> block of \<open>acquire\<close>.\<close>

definition leave :: "camera_use \<Rightarrow> arbiter \<Rightarrow> arbiter" where
  "leave u a = (if u = AUTH then notify_all (a\<lparr>auth_waiting := auth_waiting a - 1\<rparr>) else a)"

text \<open>
  From the head of the \<open>while\<close> loop to the next \<open>wait\<close> or return; \<open>expired\<close> says whether the
  deadline has passed when the loop looks at the clock.
\<close>

definition try_take :: "camera_use \<Rightarrow> nat \<Rightarrow> bool \<Rightarrow> arbiter \<Rightarrow> outcome \<times> arbiter" where
  "try_take u session expired a =
     (if can_take a u then (Granted, leave u (a\<lparr>holder := Some (u, session)\<rparr>))
      else
        (case (u, holder a) of
           (AUTH, None) \<Rightarrow> (Crashed, leave u a)
         | (AUTH, Some (MANAGE, s)) \<Rightarrow>
             (let a' = a\<lparr>cancel_calls := cancel_calls a @ [s]\<rparr>
              in if expired then (TimedOut, leave u a') else (Blocked, a'))
         | _ \<Rightarrow> if expired then (TimedOut, leave u a) else (Blocked, a)))"

definition park :: "nat \<Rightarrow> camera_use \<Rightarrow> nat \<Rightarrow> outcome \<times> arbiter \<Rightarrow> outcome \<times> arbiter" where
  "park t u session r = (case r of
      (Blocked, a) \<Rightarrow>
        (Blocked, a\<lparr>waiters := (waiters a)(t \<mapsto> \<lparr>w_use = u, w_session = session, w_woken = False\<rparr>)\<rparr>)
    | _ \<Rightarrow> r)"

text \<open>Entering \<open>acquire\<close>: an AUTH request counts itself first.\<close>

definition acquire_enter ::
    "nat \<Rightarrow> camera_use \<Rightarrow> nat \<Rightarrow> bool \<Rightarrow> arbiter \<Rightarrow> outcome \<times> arbiter" where
  "acquire_enter t u session expired a =
     park t u session (try_take u session expired
       (if u = AUTH then a\<lparr>auth_waiting := auth_waiting a + 1\<rparr> else a))"

text \<open>Returning from \<open>wait\<close> (notified, timed out or spuriously) to the head of the loop.\<close>

definition acquire_wake :: "nat \<Rightarrow> waiter \<Rightarrow> bool \<Rightarrow> arbiter \<Rightarrow> outcome \<times> arbiter" where
  "acquire_wake t w expired a =
     park t (w_use w) (w_session w)
       (try_take (w_use w) (w_session w) expired (a\<lparr>waiters := (waiters a)(t := None)\<rparr>))"

definition release :: "nat \<Rightarrow> arbiter \<Rightarrow> arbiter" where
  "release session a = (case holder a of
      Some (u, s) \<Rightarrow> if s = session then notify_all (a\<lparr>holder := None\<rparr>) else a
    | None \<Rightarrow> a)"

definition holder_use :: "arbiter \<Rightarrow> camera_use option" where
  "holder_use a = map_option fst (holder a)"

inductive arb_step :: "arbiter \<Rightarrow> arbiter \<Rightarrow> bool" where
  step_enter: "waiters a t = None \<Longrightarrow> acquire_enter t u session expired a = (r, a') \<Longrightarrow> arb_step a a'"
| step_wake: "waiters a t = Some w \<Longrightarrow> acquire_wake t w expired a = (r, a') \<Longrightarrow> arb_step a a'"
| step_release: "arb_step a (release session a)"


section \<open>The invariant\<close>

definition auth_waiters :: "arbiter \<Rightarrow> nat set" where
  "auth_waiters a = {t. \<exists>w. waiters a t = Some w \<and> w_use w = AUTH}"

text \<open>
  The counter counts the AUTH threads in \<open>wait\<close>; whoever could take the camera has been woken;
  a MANAGE holder that keeps a login waiting has been cancelled.
\<close>

definition count_ok :: "arbiter \<Rightarrow> bool" where
  "count_ok a \<longleftrightarrow> finite (dom (waiters a)) \<and> auth_waiting a = card (auth_waiters a)"

definition woken_ok :: "arbiter \<Rightarrow> bool" where
  "woken_ok a \<longleftrightarrow> (\<forall>t w. waiters a t = Some w \<longrightarrow> can_take a (w_use w) \<longrightarrow> w_woken w)"

definition cancel_ok :: "arbiter \<Rightarrow> bool" where
  "cancel_ok a \<longleftrightarrow> (\<forall>s. holder a = Some (MANAGE, s) \<longrightarrow> auth_waiters a \<noteq> {} \<longrightarrow> s \<in> set (cancel_calls a))"

definition arb_inv :: "arbiter \<Rightarrow> bool" where
  "arb_inv a \<longleftrightarrow> count_ok a \<and> woken_ok a \<and> cancel_ok a"

lemma notify_all_simps [simp]:
  "holder (notify_all a) = holder a" "auth_waiting (notify_all a) = auth_waiting a"
  "cancel_calls (notify_all a) = cancel_calls a"
  "waiters (notify_all a) t = map_option (w_woken_update (\<lambda>_. True)) (waiters a t)"
  "dom (waiters (notify_all a)) = dom (waiters a)"
  by (auto simp: notify_all_def dom_def)

lemma auth_waiters_notify [simp]: "auth_waiters (notify_all a) = auth_waiters a"
  by (auto simp: auth_waiters_def)

lemma woken_notify [simp]: "woken_ok (notify_all a)"
  by (auto simp: woken_ok_def)

lemma auth_waiters_simps [simp]:
  "auth_waiters (a\<lparr>holder := h\<rparr>) = auth_waiters a"
  "auth_waiters (a\<lparr>auth_waiting := n\<rparr>) = auth_waiters a"
  "auth_waiters (a\<lparr>cancel_calls := c\<rparr>) = auth_waiters a"
  "auth_waiters (a\<lparr>waiters := (waiters a)(t := None)\<rparr>) = auth_waiters a - {t}"
  "auth_waiters (a\<lparr>waiters := (waiters a)(t \<mapsto> w)\<rparr>) =
     (if w_use w = AUTH then insert t (auth_waiters a) else auth_waiters a - {t})"
  by (auto simp: auth_waiters_def split: if_splits)

lemma finite_waiters: "finite (dom (waiters a)) \<Longrightarrow> finite (auth_waiters a)"
  by (rule finite_subset [of _ "dom (waiters a)"]) (auto simp: auth_waiters_def)

lemma finite_auth_waiters: "count_ok a \<Longrightarrow> finite (auth_waiters a)"
  by (rule finite_subset [of _ "dom (waiters a)"]) (auto simp: count_ok_def auth_waiters_def)

text \<open>Inside the loop, the running thread counts itself but is not among the waiters.\<close>

definition entered :: "camera_use \<Rightarrow> nat \<Rightarrow> arbiter \<Rightarrow> bool" where
  "entered u t a \<longleftrightarrow> finite (dom (waiters a)) \<and> waiters a t = None \<and>
     auth_waiting a = card (auth_waiters a) + (if u = AUTH then 1 else 0) \<and>
     (u = MANAGE \<longrightarrow> woken_ok a) \<and> cancel_ok a"

lemma not_auth_waiter: "waiters a t = None \<Longrightarrow> t \<notin> auth_waiters a"
  by (simp add: auth_waiters_def)

lemma cancel_ok_simps [simp]:
  "cancel_ok (a\<lparr>auth_waiting := n\<rparr>) = cancel_ok a"
  "cancel_ok (notify_all a) = cancel_ok a"
  "cancel_ok (a\<lparr>holder := None\<rparr>)"
  "cancel_ok (a\<lparr>holder := Some (AUTH, s)\<rparr>)"
  "holder a = Some (MANAGE, s) \<Longrightarrow> cancel_ok (a\<lparr>cancel_calls := cancel_calls a @ [s]\<rparr>)"
  by (auto simp: cancel_ok_def)

lemma woken_held: "holder a \<noteq> None \<Longrightarrow> woken_ok a"
  by (auto simp: woken_ok_def can_take_def)

lemma granted_inv:
  assumes "entered u t a" and "can_take a u"
  shows "arb_inv (leave u (a\<lparr>holder := Some (u, s)\<rparr>))"
proof (cases u)
  case AUTH
  with assms show ?thesis
    by (auto simp: leave_def arb_inv_def entered_def count_ok_def)
next
  case MANAGE
  with assms have "auth_waiters a = {}"
    using finite_waiters [of a] by (auto simp: entered_def can_take_def split: option.splits)
  with MANAGE assms show ?thesis
    by (auto simp: leave_def arb_inv_def entered_def count_ok_def cancel_ok_def intro: woken_held)
qed

lemma left_inv: "entered u t a \<Longrightarrow> arb_inv (leave u a)"
  by (cases u) (auto simp: leave_def arb_inv_def entered_def count_ok_def)

lemma parked_inv:
  assumes "entered u t a" and "holder a \<noteq> None \<or> \<not> can_take a u"
    and "u = AUTH \<Longrightarrow> holder a \<noteq> None"
    and "\<And>s. u = AUTH \<Longrightarrow> holder a = Some (MANAGE, s) \<Longrightarrow> s \<in> set (cancel_calls a)"
  shows "arb_inv (a\<lparr>waiters := (waiters a)(t \<mapsto> \<lparr>w_use = u, w_session = s, w_woken = b\<rparr>)\<rparr>)"
    (is "arb_inv ?a")
proof -
  have fin: "finite (auth_waiters a)"
    using assms(1) by (simp add: entered_def finite_waiters)
  have "count_ok ?a"
    using assms(1) fin not_auth_waiter [of a t] by (auto simp: entered_def count_ok_def)
  moreover have "woken_ok ?a"
    using assms(1-3) by (cases u) (auto simp: entered_def woken_ok_def can_take_def split: option.splits)
  moreover have "cancel_ok ?a"
    using assms(1,4) by (auto simp: entered_def cancel_ok_def split: if_splits)
  ultimately show ?thesis by (simp add: arb_inv_def)
qed

lemma entered_cancel:
  "entered u t a \<Longrightarrow> holder a = Some (MANAGE, s) \<Longrightarrow>
     entered u t (a\<lparr>cancel_calls := cancel_calls a @ [s]\<rparr>)"
  by (auto simp: entered_def woken_ok_def can_take_def)

lemma try_take_outcomes:
  assumes "try_take u s x a = (r, a')"
  shows "(r = Granted \<and> can_take a u \<and> a' = leave u (a\<lparr>holder := Some (u, s)\<rparr>)) \<or>
    (\<not> can_take a u \<and> r = (if x then TimedOut else Blocked) \<and>
       (\<exists>b. a' = (if x then leave u b else b) \<and>
         (if u = AUTH \<and> holder_use a = Some MANAGE
          then b = a\<lparr>cancel_calls := cancel_calls a @ [snd (the (holder a))]\<rparr> else b = a)))"
  using assms
  by (cases "holder a"; cases u)
     (auto simp: try_take_def can_take_def holder_use_def split: if_splits camera_use.splits)

lemma entered_inv: "entered u t a \<Longrightarrow> arb_inv (snd (park t u s (try_take u s x a)))"
proof -
  assume e: "entered u t a"
  obtain r a' where tt: "try_take u s x a = (r, a')" by fastforce
  from try_take_outcomes [OF this] show ?thesis
  proof (elim disjE conjE exE)
    assume "r = Granted" "can_take a u" "a' = leave u (a\<lparr>holder := Some (u, s)\<rparr>)"
    with e show ?thesis by (simp add: tt park_def granted_inv)
  next
    fix b
    assume nt: "\<not> can_take a u" and r: "r = (if x then TimedOut else Blocked)"
      and a': "a' = (if x then leave u b else b)"
      and b: "if u = AUTH \<and> holder_use a = Some MANAGE
          then b = a\<lparr>cancel_calls := cancel_calls a @ [snd (the (holder a))]\<rparr> else b = a"
    have eb: "entered u t b"
      using b e entered_cancel [OF e] by (auto simp: holder_use_def split: if_splits)
    show ?thesis
    proof (cases x)
      case True
      from left_inv [OF eb] show ?thesis unfolding tt by (simp add: r a' True park_def)
    next
      case False
      have "arb_inv (b\<lparr>waiters := (waiters b)(t \<mapsto> \<lparr>w_use = u, w_session = s, w_woken = False\<rparr>)\<rparr>)"
      proof (rule parked_inv [OF eb])
        show "holder b \<noteq> None \<or> \<not> can_take b u"
          using nt b by (cases "holder a") (auto simp: can_take_def holder_use_def split: if_splits)
        show "u = AUTH \<Longrightarrow> holder b \<noteq> None"
          using nt b by (cases "holder a") (auto simp: can_take_def split: if_splits)
        show "\<And>s. u = AUTH \<Longrightarrow> holder b = Some (MANAGE, s) \<Longrightarrow> s \<in> set (cancel_calls b)"
          using b by (auto simp: holder_use_def split: if_splits)
      qed
      then show ?thesis unfolding tt by (simp add: r a' False park_def)
    qed
  qed
qed

lemma enter_entered:
  "arb_inv a \<Longrightarrow> waiters a t = None \<Longrightarrow>
     entered u t (if u = AUTH then a\<lparr>auth_waiting := auth_waiting a + 1\<rparr> else a)"
  by (cases u) (auto simp: arb_inv_def entered_def count_ok_def)

lemma wake_entered:
  assumes "arb_inv a" and "waiters a t = Some w"
  shows "entered (w_use w) t (a\<lparr>waiters := (waiters a)(t := None)\<rparr>)"
proof -
  have fin: "finite (auth_waiters a)"
    using assms(1) by (simp add: arb_inv_def finite_auth_waiters)
  have "card (auth_waiters a) = card (auth_waiters a - {t}) + (if w_use w = AUTH then 1 else 0)"
  proof (cases "w_use w")
    case AUTH
    with assms(2) have "t \<in> auth_waiters a" by (simp add: auth_waiters_def)
    with fin have "Suc (card (auth_waiters a - {t})) = card (auth_waiters a)" by (rule card_Suc_Diff1)
    with AUTH show ?thesis by simp
  next
    case MANAGE
    with assms(2) have "t \<notin> auth_waiters a" by (simp add: auth_waiters_def)
    with MANAGE show ?thesis by simp
  qed
  with assms show ?thesis
    by (auto simp: arb_inv_def entered_def count_ok_def woken_ok_def cancel_ok_def can_take_def
        split: option.splits)
qed

lemma release_inv: "arb_inv a \<Longrightarrow> arb_inv (release s a)"
  by (auto simp: release_def arb_inv_def count_ok_def split: option.splits)

lemma arb_inv_step: "arb_inv a \<Longrightarrow> arb_step a a' \<Longrightarrow> arb_inv a'"
proof (erule arb_step.cases)
  fix b t u s x r b'
  assume "arb_inv a" "a = b" "a' = b'" "waiters b t = None" "acquire_enter t u s x b = (r, b')"
  with entered_inv [OF enter_entered, of b t u s x] show "arb_inv a'"
    by (simp add: acquire_enter_def)
next
  fix b t w x r b'
  assume "arb_inv a" "a = b" "a' = b'" "waiters b t = Some w" "acquire_wake t w x b = (r, b')"
  with entered_inv [OF wake_entered, of b t w "w_session w" x] show "arb_inv a'"
    by (simp add: acquire_wake_def)
qed (auto intro: release_inv)

interpretation arb_sys: inductive_invariant init_arbiter arb_step arb_inv
proof
  show "arb_inv init_arbiter"
    by (simp add: arb_inv_def count_ok_def woken_ok_def cancel_ok_def init_arbiter_def auth_waiters_def)
qed (rule arb_inv_step)


section \<open>Properties\<close>

text \<open>An attempt to get the camera: a first entry, or a waiter's next turn.\<close>

definition attempt :: "nat \<Rightarrow> camera_use \<Rightarrow> nat \<Rightarrow> bool \<Rightarrow> arbiter \<Rightarrow> outcome \<times> arbiter" where
  "attempt t u session expired a = (case waiters a t of
      None \<Rightarrow> acquire_enter t u session expired a
    | Some w \<Rightarrow> acquire_wake t w expired a)"

definition attempt_use :: "nat \<Rightarrow> camera_use \<Rightarrow> arbiter \<Rightarrow> camera_use" where
  "attempt_use t u a = (case waiters a t of None \<Rightarrow> u | Some w \<Rightarrow> w_use w)"

lemma fst_park: "fst (park t u s r) = fst r"
  by (auto simp: park_def split: prod.splits outcome.splits)

lemma park_granted: "park t u s r = (Granted, a') \<longleftrightarrow> r = (Granted, a')"
  by (auto simp: park_def split: prod.splits outcome.splits)

lemma try_take_granted:
  "try_take u s x a = (Granted, a') \<Longrightarrow> can_take a u \<and> holder a' = Some (u, s)"
  by (drule try_take_outcomes) (auto simp: leave_def split: if_splits)

lemma try_take_returns: "fst (try_take u s x a) \<noteq> Crashed \<and> (x \<longrightarrow> fst (try_take u s x a) \<noteq> Blocked)"
  using try_take_outcomes [of u s x a "fst (try_take u s x a)" "snd (try_take u s x a)"]
  by (auto split: if_splits)

text \<open>
  C4: mutual exclusion and priority. In every reachable state the camera is granted only while
  nobody holds it, and to a management session only while no login is waiting for it.
\<close>

theorem camera_exclusive:
  assumes "arb_step\<^sup>*\<^sup>* init_arbiter a" and "attempt t u s x a = (Granted, a')"
  shows "holder a = None \<and> holder_use a' = Some (attempt_use t u a) \<and>
    (attempt_use t u a = MANAGE \<longrightarrow> auth_waiters a = {})"
proof (cases "waiters a t")
  case None
  with assms(2) have "try_take u s x (if u = AUTH then a\<lparr>auth_waiting := auth_waiting a + 1\<rparr> else a)
      = (Granted, a')"
    by (simp add: attempt_def acquire_enter_def park_granted)
  note take = try_take_granted [OF this]
  have "arb_inv a" by (rule arb_sys.reachable_inv [OF assms(1)])
  then have "auth_waiting a = card (auth_waiters a)" "finite (auth_waiters a)"
    by (auto simp: arb_inv_def count_ok_def finite_waiters)
  with take None show ?thesis
    by (cases u) (auto simp: can_take_def holder_use_def attempt_use_def split: option.splits)
next
  case (Some w)
  with assms(2) have "try_take (w_use w) (w_session w) x (a\<lparr>waiters := (waiters a)(t := None)\<rparr>)
      = (Granted, a')"
    by (simp add: attempt_def acquire_wake_def park_granted)
  note take = try_take_granted [OF this]
  have inv: "arb_inv a" by (rule arb_sys.reachable_inv [OF assms(1)])
  from Some take wake_entered [OF inv Some] not_auth_waiter [of a t] show ?thesis
    using inv
    by (cases "w_use w")
       (auto simp: can_take_def holder_use_def attempt_use_def arb_inv_def count_ok_def
         finite_waiters split: option.splits)
qed

text \<open>
  C5: no wake-up is lost. A thread that still sleeps in \<open>wait\<close> without a pending notification
  could not take the camera: somebody holds it, or it is a management session and a login is
  waiting. When the camera is free every waiting login has been woken and its next turn is
  granted, even after its deadline.
\<close>

theorem no_lost_wakeup:
  assumes "arb_step\<^sup>*\<^sup>* init_arbiter a" and "waiters a t = Some w"
  shows "(w_woken w \<or> holder a \<noteq> None \<or> (w_use w = MANAGE \<and> auth_waiters a \<noteq> {})) \<and>
    (holder a = None \<longrightarrow> w_use w = AUTH \<longrightarrow> w_woken w \<and> fst (attempt t u s x a) = Granted)"
proof -
  have inv: "arb_inv a" by (rule arb_sys.reachable_inv [OF assms(1)])
  then have "w_woken w \<or> \<not> can_take a (w_use w)"
    using assms(2) by (auto simp: arb_inv_def woken_ok_def)
  moreover have "auth_waiting a = card (auth_waiters a)"
    using inv by (simp add: arb_inv_def count_ok_def)
  ultimately show ?thesis
    using assms(2)
    by (cases "w_use w")
       (auto simp: can_take_def attempt_def acquire_wake_def fst_park try_take_def
         split: option.splits)
qed

text \<open>
  C6: a login pre-empts. Whenever a login waits while a management session holds the camera,
  the session's \<open>cancel()\<close> has been called. No attempt fails on a missing holder, and
  none waits past its deadline.
\<close>

theorem login_preempts:
  assumes "arb_step\<^sup>*\<^sup>* init_arbiter a"
  shows "(\<forall>m. holder a = Some (MANAGE, m) \<and> auth_waiters a \<noteq> {} \<longrightarrow> m \<in> set (cancel_calls a)) \<and>
    fst (attempt t u s x a) \<noteq> Crashed \<and> fst (attempt t u s True a) \<in> {Granted, TimedOut}"
proof -
  have "arb_inv a" by (rule arb_sys.reachable_inv [OF assms(1)])
  then have "cancel_ok a" by (simp add: arb_inv_def)
  moreover have "fst (attempt t u s x a) \<noteq> Crashed" for x
    by (auto simp: attempt_def acquire_enter_def acquire_wake_def fst_park try_take_returns
        split: option.splits)
  moreover have "fst (attempt t u s True a) \<noteq> Blocked"
    by (auto simp: attempt_def acquire_enter_def acquire_wake_def fst_park try_take_returns
        split: option.splits)
  ultimately show ?thesis
    by (cases "fst (attempt t u s True a)") (auto simp: cancel_ok_def)
qed


section \<open>Witnesses\<close>

text \<open>A management session holds the camera, then a login arrives and waits.\<close>

definition managed :: arbiter where
  "managed = snd (acquire_enter 1 MANAGE 7 False init_arbiter)"

definition contended :: arbiter where
  "contended = snd (acquire_enter 2 AUTH 8 False managed)"

lemma managed_reachable: "arb_step\<^sup>*\<^sup>* init_arbiter managed"
  unfolding managed_def
  by (rule r_into_rtranclp, rule step_enter [of _ 1 MANAGE 7 False "Granted"])
     (auto simp: init_arbiter_def acquire_enter_def try_take_def can_take_def park_def leave_def)

lemma managed_state: "managed = \<lparr>holder = Some (MANAGE, 7), auth_waiting = 0, waiters = (\<lambda>_. None),
    cancel_calls = []\<rparr>"
  by (simp add: managed_def init_arbiter_def acquire_enter_def try_take_def can_take_def park_def
      leave_def)

lemma contended_state: "contended = \<lparr>holder = Some (MANAGE, 7), auth_waiting = 1,
    waiters = [2 \<mapsto> \<lparr>w_use = AUTH, w_session = 8, w_woken = False\<rparr>], cancel_calls = [7]\<rparr>"
  by (simp add: contended_def managed_state acquire_enter_def try_take_def can_take_def park_def)

lemma contended_reachable: "arb_step\<^sup>*\<^sup>* init_arbiter contended"
proof (rule rtranclp.rtrancl_into_rtrancl [OF managed_reachable])
  show "arb_step managed contended"
    by (rule step_enter [of _ 2 AUTH 8 False "Blocked"])
       (auto simp: managed_state contended_state acquire_enter_def try_take_def can_take_def park_def)
qed

lemma released_reachable: "arb_step\<^sup>*\<^sup>* init_arbiter (release 7 contended)"
  by (rule rtranclp.rtrancl_into_rtrancl [OF contended_reachable step_release])

theorem camera_exclusive_witness:
  "holder init_arbiter = None \<and> holder_use managed = Some MANAGE \<and> auth_waiters init_arbiter = {}"
proof -
  have "attempt 1 MANAGE 7 False init_arbiter = (Granted, managed)"
    by (simp add: attempt_def managed_state init_arbiter_def acquire_enter_def try_take_def
        can_take_def park_def leave_def)
  from camera_exclusive [OF rtranclp.rtrancl_refl this] show ?thesis
    by (simp add: attempt_use_def init_arbiter_def)
qed

theorem no_lost_wakeup_witness:
  "fst (attempt 2 AUTH 8 True (release 7 contended)) = Granted"
  using no_lost_wakeup [OF released_reachable, of 2 "\<lparr>w_use = AUTH, w_session = 8, w_woken = True\<rparr>"
      AUTH 8 True]
  by (simp add: release_def contended_state notify_all_def)

theorem login_preempts_witness: "7 \<in> set (cancel_calls contended) \<and>
    fst (attempt 3 MANAGE 9 True contended) \<in> {Granted, TimedOut}"
  using login_preempts [OF contended_reachable, of 3 MANAGE 9 False]
  by (auto simp: contended_state auth_waiters_def)

end
