(* ===== verification/Access.thy ===== *)
theory Access
  imports Prelude
begin

text \<open>
  \<open>authd/access.py\<close>: which uid may act for which user. The password database is a partial
  function from user names to uids, \<open>None\<close> where \<open>pwd.getpwnam\<close> raises \<open>KeyError\<close>; the
  peer credentials are the three 32-bit integers \<open>SO_PEERCRED\<close> returns.
\<close>

type_synonym passwd = "string \<Rightarrow> int option"

record ucred =
  cred_pid :: int
  cred_uid :: int
  cred_gid :: int

definition peer_uid :: "ucred \<Rightarrow> int" where
  "peer_uid creds = cred_uid creds"

definition may_act_for :: "passwd \<Rightarrow> int \<Rightarrow> string \<Rightarrow> bool" where
  "may_act_for getpwnam uid username =
     (if uid = 0 then True
      else case getpwnam username of
        Some pw_uid \<Rightarrow> pw_uid = uid
      | None \<Rightarrow> False)"

lemma may_act_for_iff:
  "may_act_for getpwnam uid username \<longleftrightarrow> uid = 0 \<or> getpwnam username = Some uid"
  by (auto simp: may_act_for_def split: option.splits)

end
