(* ===== verification/Protocol.thy ===== *)
theory Protocol
  imports Json "HOL-Library.Word"
begin

text \<open>
  \<open>authd/protocol.py\<close>: framing over a stream socket and validation of the v1 and v2 requests.
\<close>

type_synonym byte = "8 word"

definition PROTO_VERSION :: int where "PROTO_VERSION = 1"
definition MAX_PAYLOAD :: nat where "MAX_PAYLOAD = 4096"
definition DEFAULT_DEADLINE_MS :: int where "DEFAULT_DEADLINE_MS = 2500"
definition MANAGE_VERSION :: int where "MANAGE_VERSION = 2"
definition MAX_EVENT_PAYLOAD :: nat where "MAX_EVENT_PAYLOAD = 64 * 1024"
definition DEFAULT_TEST_DURATION_MS :: int where "DEFAULT_TEST_DURATION_MS = 15000"

definition MANAGE_TYPES :: "string list" where
  "MANAGE_TYPES = [''models_list'', ''models_remove'', ''models_clear'', ''enroll'', ''test'']"

text \<open>The JSON text codec: \<open>json.dumps(...).encode\<close> and \<open>json.loads(...decode)\<close>.\<close>

record codec =
  dumps :: "json \<Rightarrow> byte list"
  loads :: "byte list \<Rightarrow> json option"

text \<open>What the codec promises for the objects the daemon exchanges.\<close>

definition codec_law :: "codec \<Rightarrow> jdict \<Rightarrow> bool" where
  "codec_law c d \<longleftrightarrow> loads c (dumps c (JObj d)) = Some (JObj d) \<and> dumps c (JObj d) \<noteq> []"


section \<open>The connection\<close>

text \<open>
  What the peer delivers and when (in milliseconds of the monotonic clock): bytes, the end of
  the stream (an empty chunk, which stays), or an error of the socket. An empty list is a
  silent peer. \<open>so_timeout\<close> is the socket's timeout; \<open>wire\<close> the bytes sent, \<open>sent\<close> the
  payloads they encode, and \<open>send_fails n\<close> the failure of the n-th write, if it fails.
\<close>

record conn =
  clock :: nat
  arrivals :: "(nat \<times> (exn + byte list)) list"
  so_timeout :: nat
  wire :: "byte list"
  sent :: "jdict list"
  writes :: nat
  send_fails :: "nat \<Rightarrow> exn option"

text \<open>\<open>conn.recv(k)\<close> with the socket timeout: the clock only moves while it waits.\<close>

definition recv :: "nat \<Rightarrow> conn \<Rightarrow> conn \<times> (exn + byte list)" where
  "recv k c = (case arrivals c of
      [] \<Rightarrow> (c\<lparr>clock := clock c + so_timeout c\<rparr>, Inl TimeoutError)
    | (t, x) # rest \<Rightarrow>
        if clock c + so_timeout c < t
        then (c\<lparr>clock := clock c + so_timeout c\<rparr>, Inl TimeoutError)
        else
          let now = max (clock c) t
          in case x of
               Inl e \<Rightarrow> (c\<lparr>clock := now\<rparr>, Inl e)
             | Inr bs \<Rightarrow>
                 (c\<lparr>clock := now,
                    arrivals := (if bs = [] then arrivals c
                                 else if length bs \<le> k then rest else (t, Inr (drop k bs)) # rest)\<rparr>,
                  Inr (take k bs)))"

text \<open>\<open>remaining <= 0\<close> of a read with a deadline.\<close>

definition expired :: "nat option \<Rightarrow> conn \<Rightarrow> bool" where
  "expired deadline c = (case deadline of None \<Rightarrow> False | Some d \<Rightarrow> d \<le> clock c)"

lemma expired_iff: "expired deadline c \<longleftrightarrow> (\<exists>d. deadline = Some d \<and> d \<le> clock c)"
  by (auto simp: expired_def split: option.splits)

function read_exact :: "nat option \<Rightarrow> nat \<Rightarrow> conn \<Rightarrow> conn \<times> (exn + byte list)" where
  "read_exact deadline need c =
     (if need = 0 then (c, Inr [])
      else if expired deadline c then (c, Inl TimeoutError)
      else
        case recv need (case deadline of Some d \<Rightarrow> c\<lparr>so_timeout := d - clock c\<rparr> | None \<Rightarrow> c) of
          (c', Inl e) \<Rightarrow> (c', Inl e)
        | (c', Inr []) \<Rightarrow> (c', Inl ConnectionError)
        | (c', Inr (b # bs)) \<Rightarrow>
            thenS (read_exact deadline (need - length (b # bs)) c')
              (\<lambda>c'' data. (c'', Inr ((b # bs) @ data))))"
  by pat_completeness auto
termination by (relation "measure (\<lambda>(d, n, c). n)") auto

declare read_exact.simps [simp del]

text \<open>\<open>struct.pack("!I", n)\<close> and \<open>struct.unpack("!I", header)\<close>.\<close>

definition pack_be32 :: "nat \<Rightarrow> byte list" where
  "pack_be32 n = map (\<lambda>k. word_of_nat (n div 2 ^ k)) [24, 16, 8, 0]"

definition unpack_be32 :: "byte list \<Rightarrow> nat" where
  "unpack_be32 bs = fold (\<lambda>b acc. acc * 256 + unat b) bs 0"

definition read_frame :: "codec \<Rightarrow> nat option \<Rightarrow> conn \<Rightarrow> conn \<times> (exn + jdict)" where
  "read_frame cd deadline c =
     thenS (read_exact deadline 4 c) (\<lambda>c1 header.
       let size = unpack_be32 header
       in if size < 1 \<or> MAX_PAYLOAD < size then (c1, Inl ProtocolError)
          else thenS (read_exact deadline size c1) (\<lambda>c2 body.
            (c2, case loads cd body of
                   None \<Rightarrow> Inl ProtocolError
                 | Some (JObj d) \<Rightarrow> Inr d
                 | Some _ \<Rightarrow> Inl ProtocolError)))"

definition frame_bytes :: "codec \<Rightarrow> jdict \<Rightarrow> nat \<Rightarrow> exn + byte list" where
  "frame_bytes cd payload max_payload =
     (let data = dumps cd (JObj payload)
      in if max_payload < length data then Inl ProtocolError
         else Inr (pack_be32 (length data) @ data))"

definition write_frame :: "codec \<Rightarrow> jdict \<Rightarrow> nat \<Rightarrow> conn \<Rightarrow> conn \<times> (exn + unit)" where
  "write_frame cd payload max_payload c =
     (case frame_bytes cd payload max_payload of
        Inl e \<Rightarrow> (c, Inl e)
      | Inr bytes \<Rightarrow>
          (case send_fails c (writes c) of
             Some e \<Rightarrow> (c\<lparr>writes := writes c + 1\<rparr>, Inl e)
           | None \<Rightarrow> (c\<lparr>writes := writes c + 1, wire := wire c @ bytes, sent := sent c @ [payload]\<rparr>,
                      Inr ())))"


section \<open>Requests\<close>

record auth_request =
  ar_id :: string
  ar_username :: string
  ar_service :: string
  ar_tty :: string
  ar_rhost :: string
  ar_deadline_ms :: int

definition str_field :: "(json \<Rightarrow> string) \<Rightarrow> jdict \<Rightarrow> string \<Rightarrow> string" where
  "str_field repr_of d key = py_str repr_of (jget_or d key (JStr []))"

text \<open>\<open>repr_of\<close> is the text \<open>str()\<close> gives a float, list or object.\<close>

definition validate_auth_request :: "(json \<Rightarrow> string) \<Rightarrow> jdict \<Rightarrow> exn + auth_request" where
  "validate_auth_request repr_of payload =
     (if \<not> eq_int (jget payload ''v'') PROTO_VERSION then Inl ProtocolError
      else if jget payload ''type'' \<noteq> Some (JStr ''auth_request'') then Inl ProtocolError
      else
        let request_id = py_str repr_of (jget_or payload ''request_id'' (jget_or payload ''id'' (JStr [])));
            username = str_field repr_of payload ''username'';
            service = str_field repr_of payload ''service'';
            tty = str_field repr_of payload ''tty'';
            rhost = str_field repr_of payload ''rhost''
        in
          case py_int (jget_or payload ''deadline_ms'' (JInt DEFAULT_DEADLINE_MS)) of
            Inl e \<Rightarrow> Inl (if e = TypeError \<or> is_value_error e then ProtocolError else e)
          | Inr deadline_ms \<Rightarrow>
              if \<not> (1 \<le> length request_id \<and> length request_id \<le> 64) then Inl ProtocolError
              else if \<not> (1 \<le> length username \<and> length username \<le> 64) then Inl ProtocolError
              else if 64 < length service \<or> 128 < length tty \<or> 256 < length rhost
              then Inl ProtocolError
              else if \<not> (100 \<le> deadline_ms \<and> deadline_ms \<le> 30000) then Inl ProtocolError
              else Inr \<lparr>ar_id = request_id, ar_username = username, ar_service = service,
                        ar_tty = tty, ar_rhost = rhost, ar_deadline_ms = deadline_ms\<rparr>)"

record manage_request =
  mr_id :: string
  mr_type :: string
  mr_username :: string
  mr_model :: "int option"
  mr_label :: string
  mr_replace :: bool
  mr_preview :: bool
  mr_duration_ms :: int

text \<open>\<open>_flag\<close>\<close>

definition flag :: "jdict \<Rightarrow> string \<Rightarrow> exn + bool" where
  "flag payload key = (case jget_or payload key (JBool False) of
      JBool b \<Rightarrow> Inr b
    | _ \<Rightarrow> Inl ProtocolError)"

text \<open>A string of 1 to 64 characters.\<close>

definition short_str :: "json option \<Rightarrow> exn + string" where
  "short_str v = (case v of
      Some (JStr s) \<Rightarrow> (if 1 \<le> length s \<and> length s \<le> 64 then Inr s else Inl ProtocolError)
    | _ \<Rightarrow> Inl ProtocolError)"

text \<open>\<open>kind not in MANAGE_TYPES\<close> hashes the kind: lists and objects raise \<open>TypeError\<close>.\<close>

definition manage_kind :: "json option \<Rightarrow> exn + string" where
  "manage_kind v = (case v of
      Some (JStr s) \<Rightarrow> (if s \<in> set MANAGE_TYPES then Inr s else Inl ProtocolError)
    | Some (JList _) \<Rightarrow> Inl TypeError
    | Some (JObj _) \<Rightarrow> Inl TypeError
    | _ \<Rightarrow> Inl ProtocolError)"

definition model_field :: "jdict \<Rightarrow> exn + int" where
  "model_field payload = (case jget payload ''model'' of
      None \<Rightarrow> Inl ProtocolError
    | Some v \<Rightarrow>
        (case as_plain_int v of
           Some m \<Rightarrow> (if m < 0 then Inl ProtocolError else Inr m)
         | None \<Rightarrow> Inl ProtocolError))"

definition duration_field :: "jdict \<Rightarrow> exn + int" where
  "duration_field payload =
     (case as_plain_int (jget_or payload ''duration_ms'' (JInt DEFAULT_TEST_DURATION_MS)) of
        Some n \<Rightarrow> (if 1000 \<le> n \<and> n \<le> 60000 then Inr n else Inl ProtocolError)
      | None \<Rightarrow> Inl ProtocolError)"

definition base_request :: "string \<Rightarrow> string \<Rightarrow> string \<Rightarrow> manage_request" where
  "base_request kind request_id username =
     \<lparr>mr_id = request_id, mr_type = kind, mr_username = username, mr_model = None, mr_label = [],
      mr_replace = False, mr_preview = False, mr_duration_ms = DEFAULT_TEST_DURATION_MS\<rparr>"

text \<open>The four \<open>if kind ...\<close> blocks that fill the type's own fields.\<close>

definition manage_fields :: "jdict \<Rightarrow> manage_request \<Rightarrow> exn + manage_request" where
  "manage_fields payload req =
     (let kind = mr_type req in
      bindE (if kind = ''models_remove''
             then bindE (model_field payload) (\<lambda>m. Inr (req\<lparr>mr_model := Some m\<rparr>))
             else Inr req) (\<lambda>req.
      bindE (if kind = ''enroll'' \<or> kind = ''test''
             then bindE (flag payload ''preview'') (\<lambda>b. Inr (req\<lparr>mr_preview := b\<rparr>))
             else Inr req) (\<lambda>req.
      bindE (if kind = ''enroll''
             then bindE (short_str (jget payload ''label'')) (\<lambda>label.
                  bindE (flag payload ''replace'') (\<lambda>b.
                    Inr (req\<lparr>mr_label := label, mr_replace := b\<rparr>)))
             else Inr req) (\<lambda>req.
      if kind = ''test''
      then bindE (duration_field payload) (\<lambda>n. Inr (req\<lparr>mr_duration_ms := n\<rparr>))
      else Inr req))))"

definition validate_manage_request :: "jdict \<Rightarrow> exn + manage_request" where
  "validate_manage_request payload =
     (if \<not> eq_int (jget payload ''v'') MANAGE_VERSION then Inl ProtocolError
      else
        bindE (manage_kind (jget payload ''type'')) (\<lambda>kind.
        bindE (short_str (jget payload ''request_id'')) (\<lambda>request_id.
        bindE (short_str (jget payload ''username'')) (\<lambda>username.
          manage_fields payload (base_request kind request_id username)))))"

end
