(* ===== verification/Protocol_Props.thy ===== *)
theory Protocol_Props
  imports Protocol
begin

text \<open>
  What the wire layer promises: a frame is read alike however the stream is cut into chunks,
  within its deadline; framing is the inverse of reading; and an accepted request is within
  the bounds of the protocol.
\<close>

section \<open>Reading\<close>

text \<open>The bytes that arrive before the deadline, up to the end of the stream or an error.\<close>

fun arriving :: "nat \<Rightarrow> (nat \<times> (exn + byte list)) list \<Rightarrow> byte list" where
  "arriving d [] = []"
| "arriving d ((t, Inl e) # r) = []"
| "arriving d ((t, Inr bs) # r) = (if d \<le> t \<or> bs = [] then [] else bs @ arriving d r)"

text \<open>The part of a connection that reading leaves alone.\<close>

definition out_of :: "conn \<Rightarrow> byte list \<times> jdict list \<times> nat \<times> (nat \<Rightarrow> exn option)" where
  "out_of c = (wire c, sent c, writes c, send_fails c)"

lemma out_of_simps [simp]:
  "out_of (c\<lparr>clock := t\<rparr>) = out_of c" "out_of (c\<lparr>arrivals := a\<rparr>) = out_of c"
  "out_of (c\<lparr>so_timeout := s\<rparr>) = out_of c"
  by (simp_all add: out_of_def)

lemma recv_frame: "recv k c = (c', r) \<Longrightarrow> out_of c' = out_of c \<and> clock c \<le> clock c' \<and>
    clock c' \<le> clock c + so_timeout c \<and> (\<forall>bs. r = Inr bs \<longrightarrow> length bs \<le> k)"
  by (auto simp: recv_def Let_def split: list.splits prod.splits sum.splits if_splits)

lemma recv_arriving:
  assumes "clock c + so_timeout c = d" and "clock c < d" and "0 < k"
    and "arriving d (arrivals c) \<noteq> []"
  shows "\<exists>c' b bs. recv k c = (c', Inr (b # bs)) \<and> clock c' < d \<and> length (b # bs) \<le> k \<and>
    arriving d (arrivals c) = (b # bs) @ arriving d (arrivals c')"
proof -
  from assms(4) obtain t bs r where ar: "arrivals c = (t, Inr bs) # r" "t < d" "bs \<noteq> []"
    by (cases "arrivals c" rule: list.exhaust; cases "hd (arrivals c)"; cases "snd (hd (arrivals c))")
       (auto split: if_splits)
  have ne: "take k bs \<noteq> []" using ar(3) assms(3) by (cases bs; cases k) auto
  then obtain b bs' where tk: "take k bs = b # bs'" by (cases "take k bs") auto
  have len: "length (b # bs') \<le> k" unfolding tk [symmetric] by simp
  show ?thesis
  proof (cases "length bs \<le> k")
    case True
    with ar assms tk len show ?thesis by (auto simp: recv_def Let_def)
  next
    case False
    then have "b # bs' @ drop k bs = bs" by (metis append_Cons append_take_drop_id tk)
    with ar assms tk len False show ?thesis by (auto simp: recv_def Let_def)
  qed
qed

lemma read_exact_go:
  assumes "need \<noteq> 0" and "\<not> (\<exists>d. deadline = Some d \<and> d \<le> clock c)"
  shows "read_exact deadline need c =
    (case recv need (case deadline of Some d \<Rightarrow> c\<lparr>so_timeout := d - clock c\<rparr> | None \<Rightarrow> c) of
       (c', Inl e) \<Rightarrow> (c', Inl e)
     | (c', Inr []) \<Rightarrow> (c', Inl ConnectionError)
     | (c', Inr (b # bs)) \<Rightarrow>
         thenS (read_exact deadline (need - length (b # bs)) c')
           (\<lambda>c'' data. (c'', Inr ((b # bs) @ data))))"
  using assms by (subst read_exact.simps) (simp only: expired_iff if_False simp_thms)

text \<open>Nothing more comes: an exception, or the end of the stream.\<close>

lemma read_exact_stops:
  assumes "read_exact deadline need c = (c', r)"
    and "recv need (case deadline of Some d \<Rightarrow> c\<lparr>so_timeout := d - clock c\<rparr> | None \<Rightarrow> c) = (c1, r1)"
    and "\<not> (need = 0 \<or> (\<exists>d. deadline = Some d \<and> d \<le> clock c))" and "\<nexists>b bs. r1 = Inr (b # bs)"
  shows "c' = c1 \<and> (\<exists>e. r = Inl e)"
proof (cases r1)
  case (Inl e)
  with assms show ?thesis by (auto simp: read_exact_go)
next
  case (Inr bs)
  with assms(4) have "bs = []" by (cases bs) auto
  with Inr assms show ?thesis by (auto simp: read_exact_go)
qed

lemma read_exact_frame:
  "read_exact deadline need c = (c', r) \<Longrightarrow>
     out_of c' = out_of c \<and> clock c \<le> clock c' \<and>
     (\<forall>d. deadline = Some d \<longrightarrow> clock c' \<le> max d (clock c)) \<and>
     (\<forall>bs. r = Inr bs \<longrightarrow> length bs = need)"
proof (induction deadline need c arbitrary: c' r rule: read_exact.induct)
  case (1 deadline need c)
  let ?c = "case deadline of Some d \<Rightarrow> c\<lparr>so_timeout := d - clock c\<rparr> | None \<Rightarrow> c"
  show ?case
  proof (cases "need = 0 \<or> (\<exists>d. deadline = Some d \<and> d \<le> clock c)")
    case True
    with "1.prems" show ?thesis by (subst (asm) read_exact.simps) (auto simp: expired_iff split: if_splits)
  next
    case False
    obtain c1 r1 where rv: "recv need ?c = (c1, r1)" by fastforce
    have c1: "out_of c1 = out_of c" "clock c \<le> clock c1"
      "\<And>d. deadline = Some d \<Longrightarrow> clock c1 \<le> max d (clock c)"
      using recv_frame [OF rv] False by (auto split: option.splits)
    show ?thesis
    proof (cases "\<exists>b bs. r1 = Inr (b # bs)")
      case False': False
      then have "c' = c1 \<and> (\<exists>e. r = Inl e)"
        using read_exact_stops [OF "1.prems" rv] False by blast
      with c1 show ?thesis by auto
    next
      case True
      then obtain b bs where r1: "r1 = Inr (b # bs)" by blast
      obtain c2 r2 where rest: "read_exact deadline (need - length (b # bs)) c1 = (c2, r2)" by fastforce
      from "1.IH" [OF _ _ rv [symmetric] r1 refl rest] False
      have ih: "out_of c2 = out_of c1" "clock c1 \<le> clock c2"
        "\<And>d. deadline = Some d \<Longrightarrow> clock c2 \<le> max d (clock c1)"
        "\<And>x. r2 = Inr x \<Longrightarrow> length x = need - length (b # bs)"
        by (auto simp: expired_iff)
      have eq: "(c', r) = thenS (c2, r2) (\<lambda>c'' data. (c'', Inr ((b # bs) @ data)))"
        using "1.prems" False rest by (simp add: read_exact_go rv r1)
      have "length (b # bs) \<le> need" using recv_frame [OF rv] r1 by auto
      have bound: "clock c2 \<le> max d (clock c)" if "deadline = Some d" for d
        using ih(3) [OF that] c1(3) [OF that] by linarith
      show ?thesis
      proof (cases r2)
        case (Inl e)
        with eq ih c1 bound show ?thesis by simp
      next
        case (Inr data)
        with eq have c': "c' = c2" "r = Inr ((b # bs) @ data)" by simp_all
        from ih(4) [OF Inr] \<open>length (b # bs) \<le> need\<close> have "length ((b # bs) @ data) = need" by simp
        with c' ih c1 bound show ?thesis by simp
      qed
    qed
  qed
qed

lemma read_exact_arriving:
  assumes "clock c < d" and "need \<le> length (arriving d (arrivals c))"
  shows "\<exists>c'. read_exact (Some d) need c = (c', Inr (take need (arriving d (arrivals c)))) \<and>
    arriving d (arrivals c') = drop need (arriving d (arrivals c)) \<and> clock c' < d"
  using assms
proof (induction need arbitrary: c rule: less_induct)
  case (less need)
  show ?case
  proof (cases "need = 0")
    case True
    with less.prems show ?thesis by (subst read_exact.simps) (simp add: expired_def)
  next
    case False
    let ?c = "c\<lparr>so_timeout := d - clock c\<rparr>"
    from False less.prems have "arriving d (arrivals ?c) \<noteq> []" by auto
    with recv_arriving [of ?c d need] False less.prems obtain c1 b bs
      where rv: "recv need ?c = (c1, Inr (b # bs))" "clock c1 < d" "length (b # bs) \<le> need"
        "arriving d (arrivals c) = (b # bs) @ arriving d (arrivals c1)"
      by auto
    from less.prems rv have "need - length (b # bs) \<le> length (arriving d (arrivals c1))" by auto
    from less.IH [OF _ rv(2) this] False rv(3) obtain c2
      where rest: "read_exact (Some d) (need - length (b # bs)) c1 =
          (c2, Inr (take (need - length (b # bs)) (arriving d (arrivals c1))))"
        "arriving d (arrivals c2) = drop (need - length (b # bs)) (arriving d (arrivals c1))"
        "clock c2 < d"
      by auto
    have "read_exact (Some d) need c =
        (c2, Inr ((b # bs) @ take (need - length (b # bs)) (arriving d (arrivals c1))))"
      using False less.prems rv(1) rest(1) by (subst read_exact.simps) (simp add: expired_def)
    moreover have "take need (arriving d (arrivals c)) =
        (b # bs) @ take (need - length (b # bs)) (arriving d (arrivals c1))"
      unfolding rv(4) take_append using rv(3) by simp
    moreover have "drop need (arriving d (arrivals c)) =
        drop (need - length (b # bs)) (arriving d (arrivals c1))"
      unfolding rv(4) drop_append using rv(3) by simp
    ultimately show ?thesis using rest by simp
  qed
qed

lemma length_pack_be32 [simp]: "length (pack_be32 n) = 4"
  by (simp add: pack_be32_def)

lemma unat_byte: "unat (word_of_nat n :: byte) = n mod 256"
  by (simp add: unat_of_nat)

lemma unpack_pack: "n < 2 ^ 32 \<Longrightarrow> unpack_be32 (pack_be32 n) = n"
proof -
  assume "n < 2 ^ 32"
  then have "n div 2 ^ 24 < 256" by (simp add: less_mult_imp_div_less)
  moreover have "n div 2 ^ 24 = n div 2 ^ 16 div 256" "n div 2 ^ 16 = n div 2 ^ 8 div 256"
    "n div 2 ^ 8 = n div 256"
    by (simp_all add: div_mult2_eq [symmetric])
  ultimately show ?thesis
    by (simp add: unpack_be32_def pack_be32_def unat_byte del: div_mult2_eq)
qed

lemma frame_bytes_Inr:
  "frame_bytes cd payload m = Inr bytes \<longleftrightarrow>
     length (dumps cd (JObj payload)) \<le> m \<and>
     bytes = pack_be32 (length (dumps cd (JObj payload))) @ dumps cd (JObj payload)"
  by (auto simp: frame_bytes_def Let_def)

text \<open>
  A frame is read back as it was written. If the bytes of an encoded request arrive before
  the deadline, in whatever chunks and with whatever after them, \<open>read_frame\<close> returns the
  payload and leaves exactly what follows the frame.
\<close>

theorem frame_roundtrip:
  assumes "frame_bytes cd payload MAX_PAYLOAD = Inr bytes" and "codec_law cd payload"
    and "clock c < d" and "arriving d (arrivals c) = bytes @ rest"
  shows "\<exists>c'. read_frame cd (Some d) c = (c', Inr payload) \<and> arriving d (arrivals c') = rest"
proof -
  let ?data = "dumps cd (JObj payload)"
  from assms(1) have len: "length ?data \<le> MAX_PAYLOAD" and bytes: "bytes = pack_be32 (length ?data) @ ?data"
    by (auto simp: frame_bytes_Inr)
  have "4 \<le> length (arriving d (arrivals c))" using assms(4) bytes by simp
  from read_exact_arriving [OF assms(3) this] obtain c1
    where r1: "read_exact (Some d) 4 c = (c1, Inr (pack_be32 (length ?data)))"
      "arriving d (arrivals c1) = ?data @ rest" "clock c1 < d"
    using assms(4) bytes by auto
  have "length ?data \<le> length (arriving d (arrivals c1))" using r1 by simp
  from read_exact_arriving [OF r1(3) this] obtain c2
    where r2: "read_exact (Some d) (length ?data) c1 = (c2, Inr ?data)"
      "arriving d (arrivals c2) = rest"
    using r1(2) by auto
  have "unpack_be32 (pack_be32 (length ?data)) = length ?data"
    using len by (intro unpack_pack) (simp add: MAX_PAYLOAD_def)
  moreover have "1 \<le> length ?data" using assms(2) by (cases ?data) (auto simp: codec_law_def)
  ultimately show ?thesis
    using r1(1) r2 len assms(2) by (auto simp: read_frame_def Let_def codec_law_def)
qed

text \<open>
  C35: reading a frame is bounded by its deadline however slowly the peer trickles its bytes,
  and reads only: nothing is sent. A frame larger than the limit, empty or not an object is
  refused with \<open>ProtocolError\<close>; no other exception comes from the frame itself.
\<close>

theorem read_frame_bounded:
  "case read_frame cd (Some d) c of
     (c', r) \<Rightarrow> clock c \<le> clock c' \<and> clock c' \<le> max d (clock c) \<and> out_of c' = out_of c \<and>
       (case r of
          Inr payload \<Rightarrow> \<exists>body. loads cd body = Some (JObj payload) \<and>
            1 \<le> length body \<and> length body \<le> MAX_PAYLOAD
        | Inl e \<Rightarrow> e = ProtocolError \<or> (\<exists>c0 n c1. read_exact (Some d) n c0 = (c1, Inl e)))"
proof -
  obtain c1 h where r1: "read_exact (Some d) 4 c = (c1, h)" by fastforce
  note f1 = read_exact_frame [OF r1]
  show ?thesis
  proof (cases h)
    case (Inl e)
    with r1 f1 show ?thesis by (auto simp: read_frame_def)
  next
    case (Inr header)
    let ?n = "unpack_be32 header"
    obtain c2 b where r2: "read_exact (Some d) ?n c1 = (c2, b)" by fastforce
    note f2 = read_exact_frame [OF r2]
    from Inr r1 r2 f1 f2 show ?thesis
      by (cases b)
         (auto simp: read_frame_def Let_def MAX_PAYLOAD_def split: option.splits json.splits)
  qed
qed


section \<open>Requests\<close>

text \<open>
  C36: an accepted v1 request is within the bounds of the protocol. Everything else is a
  \<open>ProtocolError\<close>, except an infinite \<open>deadline_ms\<close>, whose \<open>OverflowError\<close> escapes
  the handler around \<open>int()\<close>.
\<close>

theorem auth_request_accepted:
  "case validate_auth_request repr_of payload of
     Inr req \<Rightarrow>
       eq_int (jget payload ''v'') 1 \<and> jget payload ''type'' = Some (JStr ''auth_request'') \<and>
       length (ar_id req) \<in> {1..64} \<and> length (ar_username req) \<in> {1..64} \<and>
       length (ar_service req) \<le> 64 \<and> length (ar_tty req) \<le> 128 \<and> length (ar_rhost req) \<le> 256 \<and>
       ar_deadline_ms req \<in> {100..30000} \<and>
       ar_username req = py_str repr_of (jget_or payload ''username'' (JStr []))
   | Inl e \<Rightarrow> e = ProtocolError \<or>
       (e = OverflowError \<and> jget payload ''deadline_ms'' \<in> {Some (JFloat PInf), Some (JFloat NInf)})"
proof -
  have int_error: "py_int v = Inl e \<Longrightarrow> e = TypeError \<or> e = ValueError \<or>
      e = OverflowError \<and> v \<in> {JFloat PInf, JFloat NInf}" for v e
    by (cases v rule: py_int.cases) (auto simp: parse_int_def Let_def split: option.splits)
  show ?thesis
    by (auto simp: validate_auth_request_def Let_def PROTO_VERSION_def DEFAULT_DEADLINE_MS_def
        str_field_def jget_or_jget is_value_error_def split: sum.splits option.splits dest!: int_error)
qed

text \<open>The rules of the protocol document for the requests of version 2.\<close>

definition is_short :: "json option \<Rightarrow> bool" where
  "is_short v \<longleftrightarrow> (\<exists>s. v = Some (JStr s) \<and> length s \<in> {1..64})"

definition is_flag :: "json option \<Rightarrow> bool" where
  "is_flag v \<longleftrightarrow> v = None \<or> (\<exists>b. v = Some (JBool b))"

lemma short_str_Inr: "short_str v = Inr s \<longleftrightarrow> v = Some (JStr s) \<and> length s \<in> {1..64}"
  by (auto simp: short_str_def split: option.splits json.splits)

lemma flag_Inr: "flag d k = Inr b \<longleftrightarrow> jget_or d k (JBool False) = JBool b"
  by (auto simp: flag_def split: json.splits)

lemmas field_dests =
  short_str_Inr [THEN iffD1, THEN conjunct1] flag_Inr [THEN iffD1]

lemma is_flag_iff: "is_flag (jget d k) \<longleftrightarrow> (\<exists>b. flag d k = Inr b)"
  by (auto simp: flag_Inr is_flag_def jget_or_jget split: option.splits)

lemma as_plain_int_Some: "as_plain_int v = Some n \<longleftrightarrow> v = JInt n"
  by (cases v) auto

lemma model_field_Inr: "model_field d = Inr m \<longleftrightarrow> jget d ''model'' = Some (JInt m) \<and> 0 \<le> m"
  by (auto simp: model_field_def as_plain_int_Some split: option.splits)

lemma duration_field_Inr:
  "duration_field d = Inr n \<longleftrightarrow>
     jget_or d ''duration_ms'' (JInt DEFAULT_TEST_DURATION_MS) = JInt n \<and> n \<in> {1000..60000}"
  by (auto simp: duration_field_def as_plain_int_Some split: option.splits)

lemma manage_kind_Inr: "manage_kind v = Inr s \<longleftrightarrow> v = Some (JStr s) \<and> s \<in> set MANAGE_TYPES"
  by (auto simp: manage_kind_def split: option.splits json.splits)

lemma field_errors [simp]:
  "short_str v = Inl e \<Longrightarrow> e = ProtocolError" "flag d k = Inl e \<Longrightarrow> e = ProtocolError"
  "model_field d = Inl e \<Longrightarrow> e = ProtocolError" "duration_field d = Inl e \<Longrightarrow> e = ProtocolError"
  by (auto simp: short_str_def flag_def model_field_def duration_field_def
      split: option.splits json.splits if_splits)

lemma manage_fields_kinds:
  "mr_type q = ''models_list'' \<Longrightarrow> manage_fields d q = Inr q"
  "mr_type q = ''models_clear'' \<Longrightarrow> manage_fields d q = Inr q"
  "mr_type q = ''models_remove'' \<Longrightarrow>
     manage_fields d q = bindE (model_field d) (\<lambda>m. Inr (q\<lparr>mr_model := Some m\<rparr>))"
  "mr_type q = ''enroll'' \<Longrightarrow>
     manage_fields d q = bindE (flag d ''preview'') (\<lambda>p. bindE (short_str (jget d ''label'')) (\<lambda>l.
       bindE (flag d ''replace'') (\<lambda>b. Inr (q\<lparr>mr_preview := p, mr_label := l, mr_replace := b\<rparr>))))"
  "mr_type q = ''test'' \<Longrightarrow>
     manage_fields d q = bindE (flag d ''preview'') (\<lambda>p. bindE (duration_field d) (\<lambda>n.
       Inr (q\<lparr>mr_preview := p, mr_duration_ms := n\<rparr>)))"
  by (simp_all add: manage_fields_def bindE_assoc)

text \<open>The part of the document's rules that depends on the type.\<close>

definition fields_wf :: "jdict \<Rightarrow> string \<Rightarrow> bool" where
  "fields_wf d kind \<longleftrightarrow>
     kind \<in> {''models_list'', ''models_clear''} \<or>
     (kind = ''models_remove'' \<and> (\<exists>m \<ge> 0. jget d ''model'' = Some (JInt m))) \<or>
     (kind = ''enroll'' \<and> is_short (jget d ''label'') \<and> is_flag (jget d ''replace'') \<and>
        is_flag (jget d ''preview'')) \<or>
     (kind = ''test'' \<and> is_flag (jget d ''preview'') \<and>
        (jget d ''duration_ms'' = None \<or>
         (\<exists>n. jget d ''duration_ms'' = Some (JInt n) \<and> n \<in> {1000..60000})))"

definition manage_wf :: "jdict \<Rightarrow> bool" where
  manage_wf_iff: "manage_wf d \<longleftrightarrow> eq_int (jget d ''v'') 2 \<and> is_short (jget d ''request_id'') \<and>
     is_short (jget d ''username'') \<and> (\<exists>k. jget d ''type'' = Some (JStr k) \<and> fields_wf d k)"

lemma duration_ok_iff:
  "(jget d ''duration_ms'' = None \<or>
    (\<exists>n. jget d ''duration_ms'' = Some (JInt n) \<and> n \<in> {1000..60000})) \<longleftrightarrow>
   (\<exists>n. duration_field d = Inr n)"
  by (auto simp: duration_field_Inr jget_or_jget DEFAULT_TEST_DURATION_MS_def split: option.splits)

lemma is_short_iff: "is_short v \<longleftrightarrow> (\<exists>s. short_str v = Inr s)"
  by (auto simp: is_short_def short_str_Inr)

lemma not_Inr: "(\<nexists>x. m = Inr x) \<longleftrightarrow> (\<exists>e. m = Inl e)"
  by (cases m) auto

lemma fields_wf_kinds:
  "fields_wf d ''models_list''" "fields_wf d ''models_clear''"
  "fields_wf d ''models_remove'' \<longleftrightarrow> (\<exists>m. model_field d = Inr m)"
  "fields_wf d ''enroll'' \<longleftrightarrow> (\<exists>p. flag d ''preview'' = Inr p) \<and>
     (\<exists>l. short_str (jget d ''label'') = Inr l) \<and> (\<exists>b. flag d ''replace'' = Inr b)"
  "fields_wf d ''test'' \<longleftrightarrow> (\<exists>p. flag d ''preview'' = Inr p) \<and> (\<exists>n. duration_field d = Inr n)"
  unfolding fields_wf_def duration_ok_iff is_short_iff is_flag_iff by (auto simp: model_field_Inr)

definition fields_of :: "jdict \<Rightarrow> manage_request \<Rightarrow> bool" where
  "fields_of d q \<longleftrightarrow>
     (mr_type q = ''models_remove'' \<longrightarrow> map_option JInt (mr_model q) = jget d ''model'') \<and>
     (mr_type q = ''enroll'' \<longrightarrow> jget d ''label'' = Some (JStr (mr_label q)) \<and>
        JBool (mr_replace q) = jget_or d ''replace'' (JBool False)) \<and>
     (mr_type q \<in> {''enroll'', ''test''} \<longrightarrow> JBool (mr_preview q) = jget_or d ''preview'' (JBool False)) \<and>
     mr_duration_ms q \<in> {1000..60000}"

lemma manage_fields_ok:
  assumes "mr_type q \<in> set MANAGE_TYPES" and "mr_duration_ms q \<in> {1000..60000}"
  shows "case manage_fields d q of
      Inr q' \<Rightarrow> fields_wf d (mr_type q) \<and> fields_of d q' \<and> mr_type q' = mr_type q \<and>
        mr_id q' = mr_id q \<and> mr_username q' = mr_username q
    | Inl e \<Rightarrow> \<not> fields_wf d (mr_type q) \<and> e = ProtocolError"
proof -
  from assms(1) consider "mr_type q = ''models_list''" | "mr_type q = ''models_clear''"
    | "mr_type q = ''models_remove''" | "mr_type q = ''enroll''" | "mr_type q = ''test''"
    by (auto simp: MANAGE_TYPES_def)
  then show ?thesis
  proof cases
    case 3
    show ?thesis
    proof (cases "model_field d")
      case (Inr m)
      then have "jget d ''model'' = Some (JInt m)" by (simp add: model_field_Inr)
      with Inr 3 assms(2) show ?thesis
        by (simp add: manage_fields_kinds fields_wf_kinds fields_of_def)
    qed (use 3 in \<open>simp add: manage_fields_kinds fields_wf_kinds\<close>)
  next
    case 4
    then show ?thesis using assms(2)
      by (cases "flag d ''preview''"; cases "short_str (jget d ''label'')"; cases "flag d ''replace''")
         (auto simp: manage_fields_kinds fields_wf_kinds fields_of_def dest: field_dests field_errors)
  next
    case 5
    then show ?thesis using assms(2)
      by (cases "flag d ''preview''"; cases "duration_field d")
         (auto simp: manage_fields_kinds fields_wf_kinds fields_of_def dest: field_dests field_errors
           dest!: duration_field_Inr [THEN iffD1, THEN conjunct2])
  qed (use assms(2) in \<open>simp_all add: manage_fields_kinds fields_wf_kinds fields_of_def\<close>)
qed



section \<open>Witness\<close>

text \<open>A codec for one message, and a peer that sends it in three chunks.\<close>

definition sample_payload :: jdict where
  "sample_payload = [(''v'', JInt 2)]"

definition sample_codec :: codec where
  "sample_codec = \<lparr>dumps = (\<lambda>_. [7, 9]), loads = (\<lambda>bs. if bs = [7, 9] then Some (JObj sample_payload) else None)\<rparr>"

definition sample_conn :: conn where
  "sample_conn = \<lparr>clock = 0, arrivals = [(10, Inr [0, 0]), (20, Inr [0, 2, 7]), (30, Inr [9, 1])],
     so_timeout = 1000, wire = [], sent = [], writes = 0, send_fails = (\<lambda>_. None)\<rparr>"

theorem frame_roundtrip_witness:
  "\<exists>c'. read_frame sample_codec (Some 1000) sample_conn = (c', Inr sample_payload) \<and>
     arriving 1000 (arrivals c') = [1]"
proof (rule frame_roundtrip)
  show "frame_bytes sample_codec sample_payload MAX_PAYLOAD = Inr [0, 0, 0, 2, 7, 9]"
    by (simp add: frame_bytes_def sample_codec_def MAX_PAYLOAD_def pack_be32_def)
  show "codec_law sample_codec sample_payload" by (simp add: codec_law_def sample_codec_def)
qed (simp_all add: sample_conn_def)

end
