(* ===== verification/Pipeline.thy ===== *)
theory Pipeline
  imports Template_Store
begin

text \<open>
  \<open>auth/interfaces.py\<close>, \<open>auth/matching.py\<close>, \<open>auth/pipeline.py\<close>, the two backends under
  \<open>auth/legacy\<close> with \<open>detectors/mediapipe_detector.py\<close> and \<open>detectors/dlib_detector.py\<close>, and
  \<open>auth/detector_factory.py\<close>: detect, liveness, recognise, match. What numpy, dlib and
  MediaPipe compute is a parameter; what the code does with it is modelled.
\<close>

section \<open>Interfaces\<close>

text \<open>An image array: height, width, channels (\<open>None\<close> for grayscale) and its bytes.\<close>

record frame =
  fr_height :: nat
  fr_width :: nat
  fr_channels :: "nat option"
  fr_pixels :: "nat list"

type_synonym bbox = "int \<times> int \<times> int \<times> int"

record face =
  f_bbox :: bbox
  f_landmarks :: ndarray
  f_score :: pyfloat

definition no_landmarks :: ndarray where
  "no_landmarks = \<lparr>nd_shape = [0, 2], nd_data = []\<rparr>"

text \<open>\<open>Face(...)\<close> with the check of \<open>__post_init__\<close>.\<close>

definition make_face :: "bbox \<Rightarrow> ndarray \<Rightarrow> pyfloat \<Rightarrow> exn + face" where
  "make_face box landmarks score =
     (if length (nd_shape landmarks) \<noteq> 2 \<or> nd_shape landmarks ! 1 \<noteq> 2 then Inl ValueError
      else Inr \<lparr>f_bbox = box, f_landmarks = landmarks, f_score = score\<rparr>)"

definition has_landmarks :: "face \<Rightarrow> bool" where
  "has_landmarks f \<longleftrightarrow> nd_shape (f_landmarks f) ! 0 > 0"

record liveness_result =
  lv_passed :: bool
  lv_score :: pyfloat
  lv_detail :: string

record embedding =
  e_vector :: ndarray
  e_model_id :: string
  e_dim :: nat

definition make_embedding :: "ndarray \<Rightarrow> string \<Rightarrow> nat \<Rightarrow> exn + embedding" where
  "make_embedding v model_id dimension =
     (if length (nd_shape v) \<noteq> 1 then Inl ValueError
      else if nd_shape v ! 0 \<noteq> dimension then Inl ValueError
      else Inr \<lparr>e_vector = v, e_model_id = model_id, e_dim = dimension\<rparr>)"

text \<open>\<open>np.ravel\<close>\<close>

definition ravel :: "ndarray \<Rightarrow> ndarray" where
  "ravel v = \<lparr>nd_shape = [length (nd_data v)], nd_data = nd_data v\<rparr>"

text \<open>
  The numerical kernels: the distance of two vectors, \<open>argmin\<close> of a non-empty list,
  \<open>norm\<close>, division by a scalar, and the dot product. A row of the wrong length makes
  the subtraction raise.
\<close>

record numeric =
  np_dist :: "pyfloat list \<Rightarrow> pyfloat list \<Rightarrow> pyfloat"
  np_argmin :: "pyfloat list \<Rightarrow> nat"
  np_norm :: "pyfloat list \<Rightarrow> pyfloat"
  np_divide :: "pyfloat list \<Rightarrow> pyfloat \<Rightarrow> pyfloat list"
  np_dot :: "pyfloat list \<Rightarrow> pyfloat list \<Rightarrow> pyfloat"

definition normalized :: "numeric \<Rightarrow> ndarray \<Rightarrow> string \<Rightarrow> exn + embedding" where
  "normalized np v model_id =
     (let flat = ravel v; norm = np_norm np (nd_data flat) in
      if norm = Fin 0 then Inl ValueError
      else make_embedding (flat\<lparr>nd_data := np_divide np (nd_data flat) norm\<rparr>) model_id
             (nd_shape flat ! 0))"

text \<open>\<open>np.clip\<close> passes NaN through.\<close>

definition clip_unit :: "pyfloat \<Rightarrow> pyfloat" where
  "clip_unit x = (if flt x (Fin (-1)) then Fin (-1) else if flt (Fin 1) x then Fin 1 else x)"

definition cosine :: "numeric \<Rightarrow> embedding \<Rightarrow> embedding \<Rightarrow> exn + pyfloat" where
  "cosine np a b =
     (if e_model_id a \<noteq> e_model_id b then Inl ValueError
      else Inr (clip_unit (np_dot np (nd_data (e_vector a)) (nd_data (e_vector b)))))"


section \<open>Contracts\<close>

text \<open>
  A detector returns its faces strongest first, on the frames \<open>ok\<close> on which its scores are
  numbers. A caller that stops at the first face with some property has the strongest one.
\<close>

locale detector_contract =
  fixes detect :: "frame \<Rightarrow> exn + face list"
    and ok :: "frame \<Rightarrow> bool"
  assumes strongest_first: "ok fr \<Longrightarrow> detect fr = Inr faces \<Longrightarrow>
    sorted_wrt (\<lambda>a b. \<not> flt (f_score a) (f_score b)) faces"
begin

lemma first_is_strongest:
  assumes "ok fr" and "detect fr = Inr faces" and "List.find P faces = Some x"
    and "y \<in> set faces" and "P y"
  shows "\<not> flt (f_score x) (f_score y)"
proof -
  from assms(1,2) have "sorted_wrt (\<lambda>a b. \<not> flt (f_score a) (f_score b)) faces"
    by (rule strongest_first)
  with assms(3-5) show ?thesis
    by (induction faces) (auto split: if_splits)
qed

end

text \<open>A recognizer embeds into its own space, at its own dimension.\<close>

locale recognizer_contract =
  fixes embed :: "frame \<Rightarrow> face \<Rightarrow> exn + embedding"
    and model_id :: string
    and dimension :: nat
  assumes embed_space: "embed fr f = Inr e \<Longrightarrow>
    e_model_id e = model_id \<and> e_dim e = dimension \<and> nd_shape (e_vector e) = [dimension]"
begin

lemma embed_comparable:
  "embed fr f = Inr a \<Longrightarrow> embed fr' f' = Inr b \<Longrightarrow> \<exists>c. cosine np a b = Inr c"
  by (auto simp: cosine_def dest: embed_space)

end

lemma make_embedding_space:
  "make_embedding v m n = Inr e \<Longrightarrow> e_model_id e = m \<and> e_dim e = n \<and> nd_shape (e_vector e) = [n]"
  by (cases "nd_shape v") (auto simp: make_embedding_def split: if_splits)


section \<open>Matching\<close>

definition best_match :: "numeric \<Rightarrow> vectors \<Rightarrow> pyfloat list \<Rightarrow> exn + (nat \<times> pyfloat)" where
  "best_match np known v =
     (if \<exists>row \<in> set known. length row \<noteq> length v \<and> length v \<noteq> 1 \<and> length row \<noteq> 1 then Inl ValueError
      else if known = [] then Inl ValueError
      else
        let dists = map (\<lambda>row. np_dist np row v) known;
            i = np_argmin np dists
        in Inr (i, dists ! i))"

definition is_match :: "pyfloat \<Rightarrow> pyfloat \<Rightarrow> bool" where
  "is_match distance threshold \<longleftrightarrow> flt (Fin 0) distance \<and> flt distance threshold"


section \<open>The stages and the pipeline\<close>

record pipeline_bundle =
  b_backend :: string
  b_detect :: "frame \<Rightarrow> exn + face list"
  b_model_id :: string
  b_dim :: nat
  b_embed :: "frame \<Rightarrow> face \<Rightarrow> exn + embedding"
  b_liveness :: "(frame \<Rightarrow> face \<Rightarrow> exn + liveness_result) option"
  b_legacy_face_detector :: bool
  b_legacy_pose_predictor :: bool

text \<open>A raw dlib handle is modelled by whether the bundle has it.\<close>

record pipeline =
  pl_bundle :: pipeline_bundle
  pl_templates :: template_set
  pl_threshold :: pyfloat

record face_match =
  fm_face :: face
  fm_row :: int
  fm_distance :: pyfloat
  fm_accepted :: bool
  fm_liveness :: "liveness_result option"

definition make_pipeline :: "pipeline_bundle \<Rightarrow> template_set \<Rightarrow> pyfloat \<Rightarrow> exn + pipeline" where
  "make_pipeline b ts threshold =
     (if ts_model_id ts \<noteq> b_model_id b then Inl ValueError
      else Inr \<lparr>pl_bundle = b, pl_templates = ts, pl_threshold = threshold\<rparr>)"

definition pl_detect :: "pipeline \<Rightarrow> frame \<Rightarrow> exn + face list" where
  "pl_detect p fr = b_detect (pl_bundle p) fr"

definition embed_and_compare ::
    "numeric \<Rightarrow> pipeline \<Rightarrow> frame \<Rightarrow> face \<Rightarrow> liveness_result option \<Rightarrow> exn + face_match" where
  "embed_and_compare np p fr f lv =
     bindE (b_embed (pl_bundle p) fr f) (\<lambda>e.
     bindE (best_match np (ts_matrix (pl_templates p)) (nd_data (e_vector e))) (\<lambda>(row, distance).
     Inr \<lparr>fm_face = f, fm_row = int row, fm_distance = distance,
          fm_accepted = is_match distance (pl_threshold p), fm_liveness = lv\<rparr>))"

definition pl_match :: "numeric \<Rightarrow> pipeline \<Rightarrow> frame \<Rightarrow> face \<Rightarrow> exn + face_match" where
  "pl_match np p fr f =
     (case b_liveness (pl_bundle p) of
        None \<Rightarrow> embed_and_compare np p fr f None
      | Some check \<Rightarrow>
          bindE (check fr f) (\<lambda>lv.
            if \<not> lv_passed lv
            then Inr \<lparr>fm_face = f, fm_row = -1, fm_distance = PInf, fm_accepted = False,
                      fm_liveness = Some lv\<rparr>
            else embed_and_compare np p fr f (Some lv)))"

text \<open>\<open>scan\<close>, run to its end: the matches in the order of detection.\<close>

definition scan :: "numeric \<Rightarrow> pipeline \<Rightarrow> frame \<Rightarrow> frame option \<Rightarrow> exn + face_match list" where
  "scan np p fr detect_frame =
     bindE (pl_detect p (case detect_frame of None \<Rightarrow> fr | Some d \<Rightarrow> d)) (mapE (pl_match np p fr))"

definition pl_owner_of :: "pipeline \<Rightarrow> face_match \<Rightarrow> template option" where
  "pl_owner_of p m = owner_of (pl_templates p) (fm_row m)"


section \<open>The dlib backend\<close>

text \<open>
  One detection of dlib: its rectangle and, from the CNN detector only, a confidence. The
  loaded models are the functions they compute.
\<close>

record rect =
  r_left :: int
  r_top :: int
  r_width :: int
  r_height :: int

record dlib_models =
  dl_detector :: "frame \<Rightarrow> exn + (rect \<times> pyfloat option) list"
  dl_pose :: "frame \<Rightarrow> int \<times> int \<times> int \<times> int \<Rightarrow> exn + ndarray"
  dl_descriptor :: "frame \<Rightarrow> ndarray \<Rightarrow> exn + ndarray"

definition DLIB_DESCRIPTOR_DIM :: nat where "DLIB_DESCRIPTOR_DIM = 128"

definition rect_to_bbox :: "rect \<Rightarrow> bbox" where
  "rect_to_bbox r = (r_left r, r_top r, r_width r, r_height r)"

text \<open>The corners of \<open>dlib.rectangle\<close>, inclusive on both ends.\<close>

definition bbox_to_rect :: "bbox \<Rightarrow> int \<times> int \<times> int \<times> int" where
  "bbox_to_rect b = (case b of (x, y, w, h) \<Rightarrow> (x, y, x + w - 1, y + h - 1))"

text \<open>\<open>faces.sort(key=score, reverse=True)\<close>: stable, strongest first.\<close>

fun insert_by_score :: "face \<Rightarrow> face list \<Rightarrow> face list" where
  "insert_by_score f [] = [f]"
| "insert_by_score f (g # gs) =
     (if flt (f_score f) (f_score g) then g # insert_by_score f gs else f # g # gs)"

definition sort_by_score :: "face list \<Rightarrow> face list" where
  "sort_by_score faces = foldr insert_by_score faces []"

definition dlib_face :: "rect \<times> pyfloat option \<Rightarrow> exn + face" where
  "dlib_face found =
     make_face (rect_to_bbox (fst found)) no_landmarks
       (case snd found of None \<Rightarrow> Fin 1 | Some c \<Rightarrow> c)"

definition dlib_detect :: "dlib_models \<Rightarrow> frame \<Rightarrow> exn + face list" where
  "dlib_detect m fr =
     bindE (dl_detector m fr) (\<lambda>found. bindE (mapE dlib_face found) (\<lambda>faces. Inr (sort_by_score faces)))"

definition dlib_embed :: "dlib_models \<Rightarrow> frame \<Rightarrow> face \<Rightarrow> exn + embedding" where
  "dlib_embed m fr f =
     bindE (dl_pose m fr (bbox_to_rect (f_bbox f))) (\<lambda>shape.
     bindE (dl_descriptor m fr shape) (\<lambda>descriptor.
       make_embedding (ravel descriptor) LEGACY_MODEL_ID DLIB_DESCRIPTOR_DIM))"


section \<open>The MediaPipe backend\<close>

text \<open>
  The numpy kernels of the landmark embedding: arithmetic with a scalar, mean, standard deviation
  and norm, evenly spaced points from zero, and the interpolation of a curve at points, which
  raises on an empty curve.
\<close>

record mp_kernels =
  mk_minus :: "pyfloat \<Rightarrow> pyfloat \<Rightarrow> pyfloat"
  mk_divide :: "pyfloat \<Rightarrow> pyfloat \<Rightarrow> pyfloat"
  mk_mean :: "pyfloat list \<Rightarrow> pyfloat"
  mk_std :: "pyfloat list \<Rightarrow> pyfloat"
  mk_norm :: "pyfloat list \<Rightarrow> pyfloat"
  mk_linspace :: "int \<Rightarrow> nat \<Rightarrow> pyfloat list"
  mk_interp :: "pyfloat list \<Rightarrow> pyfloat list \<Rightarrow> pyfloat list \<Rightarrow> exn + pyfloat list"

text \<open>
  MediaPipe: the boxes of the detections (truncated to integers), the landmarks of the faces, and
  the colour conversions of OpenCV.
\<close>

type_synonym landmark = "pyfloat \<times> pyfloat \<times> pyfloat"

record mp_models =
  mp_detector :: "frame \<Rightarrow> exn + (int \<times> int \<times> int \<times> int) list"
  mp_landmarker :: "frame \<Rightarrow> exn + landmark list list"
  mp_gray2rgb :: "frame \<Rightarrow> exn + frame"
  mp_bgr2rgb :: "frame \<Rightarrow> exn + frame"
  mp_kernels :: mp_kernels

definition to_rgb :: "mp_models \<Rightarrow> frame \<Rightarrow> exn + frame" where
  "to_rgb m fr = (if fr_channels fr = None then mp_gray2rgb m fr else mp_bgr2rgb m fr)"

text \<open>\<open>frame[y1:y2, x1:x2]\<close> of an array that is stored row by row.\<close>

definition face_slice :: "frame \<Rightarrow> nat \<Rightarrow> nat \<Rightarrow> nat \<Rightarrow> nat \<Rightarrow> frame" where
  "face_slice fr x1 y1 x2 y2 =
     (let ch = (case fr_channels fr of None \<Rightarrow> 1 | Some n \<Rightarrow> n) in
      fr\<lparr>fr_height := y2 - y1, fr_width := x2 - x1,
         fr_pixels := concat (map (\<lambda>y. take ((x2 - x1) * ch) (drop ((y * fr_width fr + x1) * ch) (fr_pixels fr))) [y1..<y2])\<rparr>)"

definition EMBEDDING_SIZE :: nat where "EMBEDDING_SIZE = 128"

definition MEDIAPIPE_EMBEDDING_DIM :: nat where "MEDIAPIPE_EMBEDDING_DIM = 128"

text \<open>Clipping one detection to the frame.\<close>

definition mp_clip :: "frame \<Rightarrow> int \<times> int \<times> int \<times> int \<Rightarrow> bbox" where
  "mp_clip fr d = (case d of (ox, oy, dw, dh) \<Rightarrow>
     let x = max 0 ox; y = max 0 oy
     in (x, y, max 0 (min dw (int (fr_width fr) - x)), max 0 (min dh (int (fr_height fr) - y))))"

definition mp_boxes :: "mp_models \<Rightarrow> frame \<Rightarrow> exn + bbox list" where
  "mp_boxes m fr =
     bindE (to_rgb m fr) (\<lambda>rgb. bindE (mp_detector m rgb) (\<lambda>detections.
       Inr (filter (\<lambda>(x, y, w, h). 0 < w \<and> 0 < h) (map (mp_clip fr) detections))))"

definition zero_embedding :: ndarray where
  "zero_embedding = \<lparr>nd_shape = [EMBEDDING_SIZE], nd_data = replicate EMBEDDING_SIZE (Fin 0)\<rparr>"

text \<open>
  The landmarks as one vector, centred, scaled to unit deviation, resampled to 128 values and
  normalised; a deviation or norm of zero or NaN is left alone.
\<close>

definition landmarks_to_embedding :: "mp_kernels \<Rightarrow> landmark list \<Rightarrow> exn + ndarray" where
  "landmarks_to_embedding mk landmarks =
     (let raw = concat (map (\<lambda>(x, y, z). [x, y, z]) landmarks);
          raw = map (\<lambda>v. mk_minus mk v (mk_mean mk raw)) raw;
          std = mk_std mk raw;
          raw = (if flt (Fin 0) std then map (\<lambda>v. mk_divide mk v std) raw else raw);
          size_1 = int (length raw) - 1
      in bindE
           (if length raw = EMBEDDING_SIZE then Inr raw
            else mk_interp mk (mk_linspace mk size_1 EMBEDDING_SIZE) (mk_linspace mk size_1 (length raw)) raw)
           (\<lambda>v. let norm = mk_norm mk v; v = (if flt (Fin 0) norm then map (\<lambda>x. mk_divide mk x norm) v else v)
                in Inr \<lparr>nd_shape = [length v], nd_data = v\<rparr>))"

definition mp_encode :: "mp_models \<Rightarrow> frame \<Rightarrow> bbox \<Rightarrow> exn + ndarray" where
  "mp_encode m fr box = (case box of (x, y, w, h) \<Rightarrow>
     let x1 = max 0 x; y1 = max 0 y;
         x2 = min (int (fr_width fr)) (x1 + max 0 w);
         y2 = min (int (fr_height fr)) (y1 + max 0 h)
     in if x2 \<le> x1 \<or> y2 \<le> y1 then Inr zero_embedding
        else
          let face_img = face_slice fr (nat x1) (nat y1) (nat x2) (nat y2) in
          if fr_pixels face_img = [] then Inr zero_embedding
          else bindE (to_rgb m face_img) (\<lambda>rgb. bindE (mp_landmarker m rgb) (\<lambda>faces.
            case faces of
              [] \<Rightarrow> Inr zero_embedding
            | landmarks # _ \<Rightarrow> landmarks_to_embedding (mp_kernels m) landmarks)))"

definition mediapipe_detect :: "mp_models \<Rightarrow> frame \<Rightarrow> exn + face list" where
  "mediapipe_detect m fr =
     bindE (mp_boxes m fr) (mapE (\<lambda>box. make_face box no_landmarks (Fin 1)))"

definition MEDIAPIPE_MODEL_ID :: string where
  "MEDIAPIPE_MODEL_ID = the (LEGACY_MODEL_IDS ''mediapipe'')"

definition mediapipe_embed :: "mp_models \<Rightarrow> frame \<Rightarrow> face \<Rightarrow> exn + embedding" where
  "mediapipe_embed m fr f =
     bindE (mp_encode m fr (f_bbox f)) (\<lambda>v.
       make_embedding (ravel v) MEDIAPIPE_MODEL_ID MEDIAPIPE_EMBEDDING_DIM)"


section \<open>The factory\<close>

text \<open>
  Loading the models of a backend: which dlib data files exist, and what the constructors of
  the two model sets return. The cache maps a backend and its \<open>use_cnn\<close> to a bundle.
\<close>

record loaders =
  ld_is_file :: "path \<Rightarrow> bool"
  ld_data_dir :: path
  ld_dlib :: "bool \<Rightarrow> exn + dlib_models"
  ld_mediapipe :: "exn + mp_models"

type_synonym pipeline_cache = "string \<times> bool \<Rightarrow> pipeline_bundle option"

definition dlib_model_files :: "string list" where
  "dlib_model_files =
     [''shape_predictor_5_face_landmarks.dat'', ''mmod_human_face_detector.dat'',
      ''dlib_face_recognition_resnet_model_v1.dat'']"

text \<open>\<open>DlibDetector.__init__\<close>: all three files are checked before dlib sees them.\<close>

definition load_dlib :: "loaders \<Rightarrow> bool \<Rightarrow> exn + dlib_models" where
  "load_dlib ld cnn =
     (if \<exists>name \<in> set dlib_model_files. \<not> ld_is_file ld (ld_data_dir ld @ [name])
      then Inl FileNotFoundError
      else ld_dlib ld cnn)"

definition backend_of :: "config \<Rightarrow> string" where
  "backend_of c = py_lower (py_strip (cfg_get c ''core'' ''detector_backend'' ''dlib''))"

definition cache_key :: "config \<Rightarrow> exn + (string \<times> bool)" where
  "cache_key c = bindE (readable_option c ''core'' ''detector_backend'') (\<lambda>_.
     bindE (cfg_boolean c ''core'' ''use_cnn'' False) (\<lambda>cnn. Inr (backend_of c, cnn)))"

definition dlib_bundle :: "dlib_models \<Rightarrow> pipeline_bundle" where
  "dlib_bundle m =
     \<lparr>b_backend = ''dlib'', b_detect = dlib_detect m, b_model_id = LEGACY_MODEL_ID,
      b_dim = DLIB_DESCRIPTOR_DIM, b_embed = dlib_embed m, b_liveness = None,
      b_legacy_face_detector = True, b_legacy_pose_predictor = True\<rparr>"

definition mediapipe_bundle :: "mp_models \<Rightarrow> pipeline_bundle" where
  "mediapipe_bundle m =
     \<lparr>b_backend = ''mediapipe'', b_detect = mediapipe_detect m, b_model_id = MEDIAPIPE_MODEL_ID,
      b_dim = MEDIAPIPE_EMBEDDING_DIM, b_embed = mediapipe_embed m, b_liveness = None,
      b_legacy_face_detector = False, b_legacy_pose_predictor = False\<rparr>"

definition build_pipeline :: "loaders \<Rightarrow> config \<Rightarrow> exn + pipeline_bundle" where
  "build_pipeline ld c =
     bindE (readable_option c ''core'' ''detector_backend'') (\<lambda>_.
      let backend = backend_of c in
      if backend = ''dlib'' then
        bindE (cfg_boolean c ''core'' ''use_cnn'' False) (\<lambda>cnn.
        bindE (load_dlib ld cnn) (\<lambda>m. Inr (dlib_bundle m)))
      else if backend = ''mediapipe'' then bindE (ld_mediapipe ld) (\<lambda>m. Inr (mediapipe_bundle m))
      else Inl DetectorFactoryError)"

definition create_pipeline ::
    "loaders \<Rightarrow> config \<Rightarrow> pipeline_cache \<Rightarrow> pipeline_cache \<times> (exn + pipeline_bundle)" where
  "create_pipeline ld c cache = (case cache_key c of
      Inl e \<Rightarrow> (cache, Inl e)
    | Inr key \<Rightarrow>
        (case cache key of
           Some b \<Rightarrow> (cache, Inr b)
         | None \<Rightarrow>
             (case build_pipeline ld c of
                Inl e \<Rightarrow> (cache, Inl e)
              | Inr b \<Rightarrow> (cache(key \<mapsto> b), Inr b))))"

end
