(* ===== verification/Pipeline_Props.thy ===== *)
theory Pipeline_Props
  imports Pipeline Store_Samples
begin

text \<open>
  The backends keep the contracts of their interfaces, and a face is accepted only when it is
  live, nearer than the threshold to one of the user's own encodings, and nearest to that one.
\<close>

section \<open>Laws of numpy\<close>

text \<open>
  \<open>np.argmin\<close> of a non-empty list: the position of a value no other is below, the first NaN
  when there is one.
\<close>

definition argmin_law :: "numeric \<Rightarrow> bool" where
  "argmin_law np \<longleftrightarrow> (\<forall>xs. xs \<noteq> [] \<longrightarrow> np_argmin np xs < length xs \<and>
     (\<forall>x \<in> set xs. \<not> flt x (xs ! np_argmin np xs)) \<and>
     (NaN \<in> set xs \<longrightarrow> xs ! np_argmin np xs = NaN))"

lemma best_match_Inr:
  assumes "argmin_law np" and "best_match np known v = Inr (i, d)"
  shows "i < length known \<and> d = np_dist np (known ! i) v \<and>
    (\<forall>row \<in> set known. \<not> flt (np_dist np row v) d) \<and>
    (\<forall>row \<in> set known. np_dist np row v = NaN \<longrightarrow> d = NaN)"
proof -
  let ?ds = "map (\<lambda>row. np_dist np row v) known"
  from assms(2) have "known \<noteq> []" "i = np_argmin np ?ds" "d = ?ds ! i"
    by (auto simp: best_match_def Let_def split: if_splits)
  moreover from this assms(1) have "i < length ?ds" "\<forall>x \<in> set ?ds. \<not> flt x (?ds ! i)"
    "NaN \<in> set ?ds \<longrightarrow> ?ds ! i = NaN"
    by (auto simp: argmin_law_def)
  ultimately show ?thesis by (auto simp: image_iff) metis
qed


section \<open>The backends keep the contracts\<close>

text \<open>The scores a dlib detection run returns are numbers.\<close>

definition dlib_scores_ok :: "dlib_models \<Rightarrow> frame \<Rightarrow> bool" where
  "dlib_scores_ok m fr \<longleftrightarrow> (\<forall>found. dl_detector m fr = Inr found \<longrightarrow> Some NaN \<notin> snd ` set found)"

lemma set_insert_by_score [simp]: "set (insert_by_score f gs) = insert f (set gs)"
  by (induction gs) auto

lemma set_sort_by_score [simp]: "set (sort_by_score fs) = set fs"
  by (induction fs) (auto simp: sort_by_score_def)

lemma flt_total: "a \<noteq> NaN \<Longrightarrow> b \<noteq> NaN \<Longrightarrow> flt a b \<or> flt b a \<or> a = b"
  by (cases a; cases b) auto

lemma insert_by_score_sorted:
  assumes "sorted_wrt (\<lambda>a b. \<not> flt (f_score a) (f_score b)) gs"
    and "\<forall>g \<in> set (f # gs). f_score g \<noteq> NaN"
  shows "sorted_wrt (\<lambda>a b. \<not> flt (f_score a) (f_score b)) (insert_by_score f gs)"
  using assms
proof (induction gs)
  case (Cons g gs)
  then show ?case
    using flt_total [of "f_score f" "f_score g"]
    by (auto dest: flt_asym flt_trans)
qed simp

lemma sort_by_score_sorted:
  "\<forall>f \<in> set fs. f_score f \<noteq> NaN \<Longrightarrow>
     sorted_wrt (\<lambda>a b. \<not> flt (f_score a) (f_score b)) (sort_by_score fs)"
proof (induction fs)
  case (Cons f fs)
  then show ?case
    using insert_by_score_sorted [of "sort_by_score fs" f] by (simp add: sort_by_score_def)
       (metis set_sort_by_score sort_by_score_def)
qed (simp add: sort_by_score_def)

lemma make_face_Inr: "make_face b no_landmarks s = Inr \<lparr>f_bbox = b, f_landmarks = no_landmarks, f_score = s\<rparr>"
  by (simp add: make_face_def no_landmarks_def)

lemma dlib_detect_ok:
  "dlib_detect m fr = Inr faces \<Longrightarrow> dlib_scores_ok m fr \<Longrightarrow>
     sorted_wrt (\<lambda>a b. \<not> flt (f_score a) (f_score b)) faces"
  by (auto simp: dlib_detect_def flow_simps dlib_scores_ok_def dlib_face_def make_face_Inr
      intro!: sort_by_score_sorted dest!: mapE_Inr_mem split: option.splits)
    (metis image_eqI snd_conv)

lemma mediapipe_scores:
  "mediapipe_detect m fr = Inr faces \<Longrightarrow> f \<in> set faces \<Longrightarrow> f_score f = Fin 1"
  by (auto simp: mediapipe_detect_def flow_simps make_face_Inr dest!: mapE_Inr_mem)

interpretation dlib_det: detector_contract "dlib_detect m" "dlib_scores_ok m" for m
  by unfold_locales (rule dlib_detect_ok)

interpretation mediapipe_det: detector_contract "mediapipe_detect m" "\<lambda>_. True" for m
proof
  fix fr faces
  assume d: "mediapipe_detect m fr = Inr faces"
  have "sorted_wrt (\<lambda>a b. \<not> flt (f_score a) (f_score b)) fs" if "\<forall>f \<in> set fs. f_score f = Fin 1" for fs
    using that by (induction fs) auto
  with mediapipe_scores [OF d] show "sorted_wrt (\<lambda>a b. \<not> flt (f_score a) (f_score b)) faces" by blast
qed

interpretation dlib_rec: recognizer_contract "dlib_embed m" LEGACY_MODEL_ID DLIB_DESCRIPTOR_DIM for m
  by unfold_locales (auto simp: dlib_embed_def flow_simps dest: make_embedding_space)

interpretation mediapipe_rec:
  recognizer_contract "mediapipe_embed m" MEDIAPIPE_MODEL_ID MEDIAPIPE_EMBEDDING_DIM for m
  by unfold_locales (auto simp: mediapipe_embed_def flow_simps dest: make_embedding_space)


section \<open>Accepted faces\<close>

lemma pl_match_cases:
  assumes "pl_match np p fr f = Inr m"
  shows "(\<exists>check lv. b_liveness (pl_bundle p) = Some check \<and> check fr f = Inr lv \<and> \<not> lv_passed lv \<and>
      m = \<lparr>fm_face = f, fm_row = -1, fm_distance = PInf, fm_accepted = False, fm_liveness = Some lv\<rparr>) \<or>
    (\<exists>e i. (\<forall>check. b_liveness (pl_bundle p) = Some check \<longrightarrow> (\<exists>lv. check fr f = Inr lv \<and> lv_passed lv)) \<and>
      b_embed (pl_bundle p) fr f = Inr e \<and>
      best_match np (ts_matrix (pl_templates p)) (nd_data (e_vector e)) = Inr (i, fm_distance m) \<and>
      fm_face m = f \<and> fm_row m = int i \<and>
      fm_accepted m = is_match (fm_distance m) (pl_threshold p))"
  using assms
  by (auto simp: pl_match_def embed_and_compare_def flow_simps split: option.splits if_splits)

text \<open>
  What an accepted face amounts to: live, and strictly between zero and the threshold from the
  nearest of the user's encodings, whose owner is one of the user's templates of that space.
\<close>

definition face_accepted ::
    "numeric \<Rightarrow> template_set \<Rightarrow> pipeline_bundle \<Rightarrow> pyfloat \<Rightarrow> frame \<Rightarrow> face \<Rightarrow> nat \<Rightarrow> pyfloat \<Rightarrow> bool" where
  "face_accepted np ts b thr fr f q d \<longleftrightarrow>
     (\<exists>e t. b_embed b fr f = Inr e \<and> q < length (ts_matrix ts) \<and>
        d = np_dist np (ts_matrix ts ! q) (nd_data (e_vector e)) \<and> flt (Fin 0) d \<and> flt d thr \<and>
        (\<forall>row \<in> set (ts_matrix ts). np_dist np row (nd_data (e_vector e)) \<noteq> NaN \<and>
           \<not> flt (np_dist np row (nd_data (e_vector e))) d) \<and>
        owner_of ts (int q) = Some t \<and> t \<in> set (ts_templates ts) \<and> t_model_id t = b_model_id b \<and>
        ts_matrix ts ! q \<in> set (t_embeddings t)) \<and>
     (b_liveness b = None \<or>
      (\<exists>check lv. b_liveness b = Some check \<and> check fr f = Inr lv \<and> lv_passed lv))"

lemma accepted_face:
  assumes "argmin_law np" and "load env s user mid = Inr ts" and "make_pipeline b ts thr = Inr p"
    and "pl_match np p fr f = Inr m" and "fm_accepted m"
  shows "\<exists>q. fm_row m = int q \<and> face_accepted np ts b thr fr f q (fm_distance m)"
proof -
  from assms(3) have p: "p = \<lparr>pl_bundle = b, pl_templates = ts, pl_threshold = thr\<rparr>"
    and sp: "ts_model_id ts = b_model_id b"
    by (auto simp: make_pipeline_def split: if_splits)
  from pl_match_cases [OF assms(4)] assms(5) obtain e i
    where e: "b_embed b fr f = Inr e"
      and bm: "best_match np (ts_matrix ts) (nd_data (e_vector e)) = Inr (i, fm_distance m)"
      and row: "fm_row m = int i" and acc: "is_match (fm_distance m) thr"
      and live: "\<forall>check. b_liveness b = Some check \<longrightarrow> (\<exists>lv. check fr f = Inr lv \<and> lv_passed lv)"
    unfolding p by auto
  note near = best_match_Inr [OF assms(1) bm]
  from acc have d: "flt (Fin 0) (fm_distance m)" "flt (fm_distance m) thr" by (simp_all add: is_match_def)
  then have "fm_distance m \<noteq> NaN" using flt_not_NaN by blast
  with near have rows: "\<forall>row \<in> set (ts_matrix ts). np_dist np row (nd_data (e_vector e)) \<noteq> NaN \<and>
      \<not> flt (np_dist np row (nd_data (e_vector e))) (fm_distance m)"
    by auto
  have i: "i < length (ts_matrix ts)" using near by blast
  from load_owner [OF assms(2) i] load_space [OF assms(2)] sp obtain t
    where t: "t \<in> set (ts_templates ts)" "owner_of ts (int i) = Some t"
      "ts_matrix ts ! i \<in> set (t_embeddings t)" "t_model_id t = b_model_id b"
    by auto
  have "face_accepted np ts b thr fr f i (fm_distance m)"
    using e near d rows t live unfolding face_accepted_def by (cases "b_liveness b") auto
  with row show ?thesis by blast
qed

text \<open>
  C3: soundness of a match. A face is accepted only if it passed the liveness check (when the
  bundle has one) and its embedding lies strictly between zero and the threshold from the
  nearest of the user's encodings: the matched row has that distance, no row is nearer, none
  of the distances is NaN, and the row has an owner among the templates of the pipeline's space.
\<close>

theorem match_sound:
  assumes "argmin_law np" and "load env s user mid = Inr ts" and "make_pipeline b ts thr = Inr p"
    and "pl_match np p fr f = Inr m" and "fm_accepted m"
  shows "\<exists>e q t. b_embed b fr f = Inr e \<and> fm_row m = int q \<and> q < length (ts_matrix ts) \<and>
    fm_distance m = np_dist np (ts_matrix ts ! q) (nd_data (e_vector e)) \<and>
    flt (Fin 0) (fm_distance m) \<and> flt (fm_distance m) thr \<and>
    (\<forall>row \<in> set (ts_matrix ts). let d = np_dist np row (nd_data (e_vector e)) in
       d \<noteq> NaN \<and> \<not> flt d (fm_distance m)) \<and>
    pl_owner_of p m = Some t \<and> t \<in> set (ts_templates ts) \<and> t_model_id t = b_model_id b \<and>
    ts_matrix ts ! q \<in> set (t_embeddings t) \<and>
    (b_liveness b = None \<or> (\<exists>check lv. b_liveness b = Some check \<and> check fr f = Inr lv \<and> lv_passed lv))"
proof -
  from accepted_face [OF assms] obtain q
    where q: "fm_row m = int q" "face_accepted np ts b thr fr f q (fm_distance m)" by blast
  moreover have "pl_templates p = ts" using assms(3) by (auto simp: make_pipeline_def split: if_splits)
  ultimately show ?thesis by (auto simp: face_accepted_def pl_owner_of_def Let_def)
qed

text \<open>
  Degenerate distances are refused whatever the threshold: an embedding identical to a
  stored encoding (distance zero, as between the zero vectors MediaPipe yields when it finds no
  landmarks) when distances are not negative, and a comparison in which any distance is NaN.
\<close>

theorem degenerate_rejected:
  assumes "argmin_law np" and "pl_match np p fr f = Inr m" and "b_embed (pl_bundle p) fr f = Inr e"
    and "row \<in> set (ts_matrix (pl_templates p))"
    and "np_dist np row (nd_data (e_vector e)) = NaN \<or>
      np_dist np row (nd_data (e_vector e)) = Fin 0 \<and> (\<forall>a b. \<not> flt (np_dist np a b) (Fin 0))"
  shows "\<not> fm_accepted m"
  using pl_match_cases [OF assms(2)]
proof
  assume "\<exists>e i. (\<forall>check. b_liveness (pl_bundle p) = Some check \<longrightarrow> (\<exists>lv. check fr f = Inr lv \<and> lv_passed lv)) \<and>
      b_embed (pl_bundle p) fr f = Inr e \<and>
      best_match np (ts_matrix (pl_templates p)) (nd_data (e_vector e)) = Inr (i, fm_distance m) \<and>
      fm_face m = f \<and> fm_row m = int i \<and>
      fm_accepted m = is_match (fm_distance m) (pl_threshold p)"
  with assms(3) obtain i where
    bm: "best_match np (ts_matrix (pl_templates p)) (nd_data (e_vector e)) = Inr (i, fm_distance m)"
    and acc: "fm_accepted m = is_match (fm_distance m) (pl_threshold p)"
    by auto
  from best_match_Inr [OF assms(1) bm] assms(4,5)
  have "\<not> flt (Fin 0) (fm_distance m)" by auto
  with acc show ?thesis by (simp add: is_match_def)
qed auto

text \<open>
  On a dlib bundle the first face that satisfies any test, in the order of detection, is
  the strongest face that does: its score is below no other's.
\<close>

theorem dlib_first_is_strongest:
  assumes "dlib_scores_ok m fr" and "b_detect (dlib_bundle m) fr = Inr faces"
    and "List.find P faces = Some x" and "y \<in> set faces" and "P y"
  shows "\<not> flt (f_score x) (f_score y)"
  using dlib_det.first_is_strongest [of m fr faces P x y] assms by (simp add: dlib_bundle_def)

lemma mediapipe_box_inside:
  assumes "b_detect (mediapipe_bundle m) fr = Inr faces" and "f \<in> set faces"
  shows "case f_bbox f of (x, y, w, h) \<Rightarrow>
    0 \<le> x \<and> 0 \<le> y \<and> 0 < w \<and> 0 < h \<and> x + w \<le> int (fr_width fr) \<and> y + h \<le> int (fr_height fr)"
proof -
  from assms obtain boxes where b: "mp_boxes m fr = Inr boxes" "f_bbox f \<in> set boxes"
    by (auto simp: mediapipe_bundle_def mediapipe_detect_def flow_simps make_face_Inr
        dest!: mapE_Inr_mem)
  then obtain ds where ds: "boxes = filter (\<lambda>(x, y, w, h). 0 < w \<and> 0 < h) (map (mp_clip fr) ds)"
    by (auto simp: mp_boxes_def flow_simps)
  from b(2) [unfolded ds]
  have "f_bbox f \<in> mp_clip fr ` set ds" "case f_bbox f of (x, y, w, h) \<Rightarrow> 0 < w \<and> 0 < h" by auto
  then obtain d where "f_bbox f = mp_clip fr d" "case mp_clip fr d of (x, y, w, h) \<Rightarrow> 0 < w \<and> 0 < h"
    by (metis imageE)
  then show ?thesis by (cases d) (auto simp: mp_clip_def Let_def max_def min_def split: if_splits)
qed

text \<open>
  Whatever MediaPipe reports, every box the backend hands on is a non-empty rectangle inside
  the frame.
\<close>

theorem mediapipe_boxes_inside:
  assumes "b_detect (mediapipe_bundle m) fr = Inr faces" and "f \<in> set faces"
  shows "case f_bbox f of (x, y, w, h) \<Rightarrow>
    0 \<le> x \<and> 0 \<le> y \<and> 0 < w \<and> 0 < h \<and> x + w \<le> int (fr_width fr) \<and> y + h \<le> int (fr_height fr)"
  by (rule mediapipe_box_inside [OF assms])


section \<open>The factory\<close>

lemma legacy_ids:
  "LEGACY_MODEL_IDS ''dlib'' = Some LEGACY_MODEL_ID"
  "LEGACY_MODEL_IDS ''mediapipe'' = Some MEDIAPIPE_MODEL_ID"
  by (simp_all add: LEGACY_MODEL_IDS_def MEDIAPIPE_MODEL_ID_def)

lemma build_pipeline_space:
  "build_pipeline ld c = Inr b \<Longrightarrow>
     b_backend b = backend_of c \<and> Some (b_model_id b) = LEGACY_MODEL_IDS (backend_of c) \<and>
     (b_embed b fr f = Inr e \<longrightarrow> e_model_id e = b_model_id b \<and> e_dim e = b_dim b \<and>
        nd_shape (e_vector e) = [b_dim b])"
  by (auto simp: build_pipeline_def Let_def flow_simps dlib_bundle_def mediapipe_bundle_def
      legacy_ids dest: dlib_rec.embed_space mediapipe_rec.embed_space split: if_splits)

text \<open>
  The pipeline the factory builds produces exactly the embedding space the store selects
  for the same configuration, and every embedding it yields is in that space, at its dimension.
\<close>

theorem built_pipeline_space:
  assumes "build_pipeline ld c = Inr b"
    and "py_lower (py_strip (cfg_get c ''core'' ''pipeline'' ''legacy'')) = ''legacy''"
  shows "b_model_id b = active_model_id c \<and>
    (\<forall>fr f. case b_embed b fr f of Inl _ \<Rightarrow> True
      | Inr e \<Rightarrow> e_model_id e = active_model_id c \<and> nd_shape (e_vector e) = [b_dim b])"
proof -
  have "Some (b_model_id b) = LEGACY_MODEL_IDS (backend_of c)"
    using build_pipeline_space [OF assms(1)] by blast
  from this [symmetric] have "b_model_id b = active_model_id c"
    using assms(2) by (simp add: active_model_id_def backend_of_def Let_def)
  with build_pipeline_space [OF assms(1)] show ?thesis by (auto split: sum.splits)
qed

text \<open>
  The factory builds each backend once. After a successful call, any call with a
  configuration of the same key returns the same bundle whatever the loaders would now do and
  leaves the cache alone; a failed call leaves the cache as it was.
\<close>

theorem pipeline_built_once:
  assumes "cache_key c' = cache_key c"
  shows "case create_pipeline ld c cache of
     (cache', Inl e) \<Rightarrow> cache' = cache
   | (cache', Inr b) \<Rightarrow> create_pipeline ld' c' cache' = (cache', Inr b)"
  using assms by (auto simp: create_pipeline_def split: sum.splits option.splits)


section \<open>Witnesses\<close>

text \<open>A recognizer whose vectors are single numbers, and a store with one of them.\<close>

definition first_min :: "pyfloat list \<Rightarrow> nat" where
  "first_min xs =
     (if NaN \<in> set xs then length (takeWhile (\<lambda>x. x \<noteq> NaN) xs)
      else length (takeWhile (\<lambda>x. \<exists>y \<in> set xs. flt y x) xs))"

definition sample_numeric :: numeric where
  "sample_numeric = \<lparr>np_dist = (\<lambda>a b. case (a, b) of ([Fin x], [Fin y]) \<Rightarrow> Fin \<bar>x - y\<bar> | _ \<Rightarrow> NaN),
     np_argmin = first_min, np_norm = (\<lambda>_. Fin 1), np_divide = (\<lambda>xs _. xs), np_dot = (\<lambda>_ _. Fin 0)\<rparr>"

lemma takeWhile_stops:
  "\<exists>x \<in> set xs. \<not> P x \<Longrightarrow> length (takeWhile P xs) < length xs \<and> \<not> P (xs ! length (takeWhile P xs))"
  by (induction xs) auto

lemma some_least: "xs \<noteq> [] \<Longrightarrow> \<exists>x \<in> set xs. \<not> (\<exists>y \<in> set xs. flt y x)"
proof (induction xs)
  case (Cons a xs)
  show ?case
  proof (cases "xs = []")
    case False
    with Cons.IH obtain x where x: "x \<in> set xs" "\<forall>y \<in> set xs. \<not> flt y x" by auto
    show ?thesis
    proof (cases "flt a x")
      case True
      have "\<not> flt y a" if "y \<in> set xs" for y
        using x(2) that flt_trans [OF _ True, of y] by blast
      then show ?thesis by auto
    qed (use x in auto)
  qed simp
qed simp

lemma first_min_law: "argmin_law sample_numeric"
  unfolding argmin_law_def
proof (intro allI impI conjI)
  fix xs :: "pyfloat list"
  assume ne: "xs \<noteq> []"
  let ?i = "np_argmin sample_numeric xs"
  have i: "?i < length xs \<and> (if NaN \<in> set xs then xs ! ?i = NaN else \<not> (\<exists>y \<in> set xs. flt y (xs ! ?i)))"
    using takeWhile_stops [of xs "\<lambda>x. x \<noteq> NaN"]
      takeWhile_stops [of xs "\<lambda>x. \<exists>y \<in> set xs. flt y x"] some_least [OF ne]
    by (auto simp: sample_numeric_def first_min_def)
  then show "?i < length xs" by blast
  show "xs ! ?i = NaN" if "NaN \<in> set xs" using i that by simp
  show "\<forall>x \<in> set xs. \<not> flt x (xs ! ?i)"
  proof (cases "NaN \<in> set xs")
    case True
    with i have "xs ! ?i = NaN" by simp
    then show ?thesis using flt_not_NaN by auto
  qed (use i in auto)
qed

definition sample_frame :: frame where
  "sample_frame = \<lparr>fr_height = 4, fr_width = 6, fr_channels = None, fr_pixels = replicate 24 200\<rparr>"

definition sample_face :: "pyfloat \<Rightarrow> face" where
  "sample_face s = \<lparr>f_bbox = (1, 1, 2, 2), f_landmarks = no_landmarks, f_score = s\<rparr>"

definition sample_bundle :: "rat \<Rightarrow> pipeline_bundle" where
  "sample_bundle q = \<lparr>b_backend = ''dlib'', b_detect = (\<lambda>_. Inr [sample_face (Fin 2)]),
     b_model_id = ''m'', b_dim = 1,
     b_embed = (\<lambda>_ _. make_embedding \<lparr>nd_shape = [1], nd_data = [Fin q]\<rparr> ''m'' 1),
     b_liveness = Some (\<lambda>_ _. Inr \<lparr>lv_passed = True, lv_score = Fin 1, lv_detail = []\<rparr>),
     b_legacy_face_detector = True, b_legacy_pose_predictor = True\<rparr>"

definition sample_set :: template_set where
  "sample_set = \<lparr>ts_model_id = ''m'', ts_templates = [sample_template 3 ''m''], ts_matrix = [[Fin 1]],
      ts_owners = [0]\<rparr>"

definition sample_pipeline :: "rat \<Rightarrow> pipeline" where
  "sample_pipeline q = \<lparr>pl_bundle = sample_bundle q, pl_templates = sample_set, pl_threshold = Fin (1/2)\<rparr>"

lemma sample_load: "load sample_env sample_fs ''al'' ''m'' = Inr sample_set"
  by code_simp

definition sample_match :: "rat \<Rightarrow> bool \<Rightarrow> face_match" where
  "sample_match d ok = \<lparr>fm_face = sample_face (Fin 2), fm_row = 0, fm_distance = Fin d, fm_accepted = ok,
     fm_liveness = Some \<lparr>lv_passed = True, lv_score = Fin 1, lv_detail = []\<rparr>\<rparr>"

text \<open>A near face is accepted, and the owner of the matched row is the stored template.\<close>

theorem match_sound_witness:
  "\<exists>t. pl_owner_of (sample_pipeline (5/4)) (sample_match (1/4) True) = Some t \<and> t_model_id t = ''m''"
proof -
  have "make_pipeline (sample_bundle (5/4)) sample_set (Fin (1/2)) = Inr (sample_pipeline (5/4))"
    by (simp add: make_pipeline_def sample_pipeline_def sample_set_def sample_bundle_def)
  moreover have "pl_match sample_numeric (sample_pipeline (5/4)) sample_frame (sample_face (Fin 2)) =
      Inr (sample_match (1/4) True)"
    by code_simp
  ultimately show ?thesis
    using match_sound [OF first_min_law sample_load, of "sample_bundle (5/4)" "Fin (1/2)"
        "sample_pipeline (5/4)" sample_frame "sample_face (Fin 2)" "sample_match (1/4) True"]
    by (auto simp: sample_match_def sample_bundle_def)
qed

text \<open>The very encoding that is stored is refused.\<close>

theorem degenerate_rejected_witness: "\<not> fm_accepted (sample_match 0 False)"
proof (rule degenerate_rejected [OF first_min_law, of "sample_pipeline 1" sample_frame "sample_face (Fin 2)"])
  show "pl_match sample_numeric (sample_pipeline 1) sample_frame (sample_face (Fin 2)) =
      Inr (sample_match 0 False)"
    by code_simp
  show "b_embed (pl_bundle (sample_pipeline 1)) sample_frame (sample_face (Fin 2)) =
      Inr \<lparr>e_vector = \<lparr>nd_shape = [1], nd_data = [Fin 1]\<rparr>, e_model_id = ''m'', e_dim = 1\<rparr>"
    by code_simp
  show "[Fin 1] \<in> set (ts_matrix (pl_templates (sample_pipeline 1)))"
    by (simp add: sample_pipeline_def sample_set_def)
  have "\<not> flt (np_dist sample_numeric a b) (Fin 0)" for a b
    by (auto simp: sample_numeric_def split: list.splits pyfloat.splits)
  then show "np_dist sample_numeric [Fin 1] (nd_data (e_vector \<lparr>e_vector = \<lparr>nd_shape = [1],
      nd_data = [Fin 1]\<rparr>, e_model_id = ''m'', e_dim = 1\<rparr>)) = NaN \<or>
    np_dist sample_numeric [Fin 1] (nd_data (e_vector \<lparr>e_vector = \<lparr>nd_shape = [1],
      nd_data = [Fin 1]\<rparr>, e_model_id = ''m'', e_dim = 1\<rparr>)) = Fin 0 \<and>
    (\<forall>a b. \<not> flt (np_dist sample_numeric a b) (Fin 0))"
    by (simp add: sample_numeric_def)
qed

definition sample_dlib :: dlib_models where
  "sample_dlib = \<lparr>dl_detector = (\<lambda>_. Inr [
       (\<lparr>r_left = 0, r_top = 0, r_width = 2, r_height = 2\<rparr>, Some (Fin (1/2))),
       (\<lparr>r_left = 1, r_top = 1, r_width = 3, r_height = 3\<rparr>, Some (Fin 3))]),
     dl_pose = (\<lambda>_ _. Inr \<lparr>nd_shape = [5, 2], nd_data = replicate 10 (Fin 1)\<rparr>),
     dl_descriptor = (\<lambda>_ _. Inr \<lparr>nd_shape = [128], nd_data = replicate 128 (Fin 1)\<rparr>)\<rparr>"

definition sample_faces :: "face list" where
  "sample_faces = [\<lparr>f_bbox = (1, 1, 3, 3), f_landmarks = no_landmarks, f_score = Fin 3\<rparr>,
     \<lparr>f_bbox = (0, 0, 2, 2), f_landmarks = no_landmarks, f_score = Fin (1/2)\<rparr>]"

theorem dlib_first_is_strongest_witness:
  "\<not> flt (f_score (sample_faces ! 0)) (f_score (sample_faces ! 1))"
proof (rule dlib_first_is_strongest [of sample_dlib sample_frame sample_faces "\<lambda>_. True"])
  show "dlib_scores_ok sample_dlib sample_frame"
    by (auto simp: dlib_scores_ok_def sample_dlib_def)
  show "b_detect (dlib_bundle sample_dlib) sample_frame = Inr sample_faces" by code_simp
qed (simp_all add: sample_faces_def)

definition sample_mp :: mp_models where
  "sample_mp = \<lparr>mp_detector = (\<lambda>_. Inr [(-2, 1, 30, 2), (9, 0, 4, 4)]), mp_landmarker = (\<lambda>_. Inr []),
     mp_gray2rgb = Inr, mp_bgr2rgb = Inr,
     mp_kernels = \<lparr>mk_minus = (\<lambda>a _. a), mk_divide = (\<lambda>a _. a), mk_mean = (\<lambda>_. Fin 0), mk_std = (\<lambda>_. Fin 0),
       mk_norm = (\<lambda>_. Fin 0), mk_linspace = (\<lambda>_ n. replicate n (Fin 0)), mk_interp = (\<lambda>x _ _. Inr x)\<rparr>\<rparr>"

theorem mediapipe_boxes_inside_witness:
  "case f_bbox \<lparr>f_bbox = (0, 1, 6, 2), f_landmarks = no_landmarks, f_score = Fin 1\<rparr> of (x, y, w, h) \<Rightarrow>
    0 \<le> x \<and> 0 \<le> y \<and> 0 < w \<and> 0 < h \<and> x + w \<le> int (fr_width sample_frame) \<and> y + h \<le> int (fr_height sample_frame)"
proof (rule mediapipe_boxes_inside [of sample_mp])
  show "b_detect (mediapipe_bundle sample_mp) sample_frame =
      Inr [\<lparr>f_bbox = (0, 1, 6, 2), f_landmarks = no_landmarks, f_score = Fin 1\<rparr>]"
    by code_simp
qed simp

definition sample_loaders :: loaders where
  "sample_loaders = \<lparr>ld_is_file = (\<lambda>_. True), ld_data_dir = [''d''], ld_dlib = (\<lambda>_. Inr sample_dlib),
     ld_mediapipe = Inr sample_mp\<rparr>"

theorem built_pipeline_space_witness:
  "b_model_id (dlib_bundle sample_dlib) = active_model_id (\<lambda>_ _. None)"
proof -
  have "build_pipeline sample_loaders (\<lambda>_ _. None) = Inr (dlib_bundle sample_dlib)"
    by (simp add: build_pipeline_def backend_of_def cfg_get_def cfg_boolean_def load_dlib_def
        sample_loaders_def py_strip_def py_lower_def lower_char_def is_py_space_def)
  moreover have "py_lower (py_strip (cfg_get (\<lambda>_ _. None) ''core'' ''pipeline'' ''legacy'')) = ''legacy''"
    by code_simp
  ultimately show ?thesis using built_pipeline_space by blast
qed

text \<open>Once built, the bundle is there even when the data files are gone.\<close>

theorem pipeline_built_once_witness:
  "snd (create_pipeline (sample_loaders\<lparr>ld_is_file := (\<lambda>_. False)\<rparr>) (\<lambda>_ _. None)
     (fst (create_pipeline sample_loaders (\<lambda>_ _. None) (\<lambda>_. None)))) = Inr (dlib_bundle sample_dlib)"
proof -
  let ?c = "(\<lambda>_ _. None) :: config"
  have "create_pipeline sample_loaders ?c (\<lambda>_. None) =
      ([(''dlib'', False) \<mapsto> dlib_bundle sample_dlib], Inr (dlib_bundle sample_dlib))"
    by (simp add: create_pipeline_def cache_key_def build_pipeline_def backend_of_def cfg_get_def
        cfg_boolean_def load_dlib_def sample_loaders_def py_strip_def py_lower_def lower_char_def
        is_py_space_def)
  with pipeline_built_once [where c = ?c and c' = ?c and ld = sample_loaders and cache = "\<lambda>_. None"
      and ld' = "sample_loaders\<lparr>ld_is_file := (\<lambda>_. False)\<rparr>"]
  show ?thesis by simp
qed

end
