(* ===== verification/Capture.thy ===== *)
theory Capture
  imports Pipeline Transitions
begin

text \<open>
  \<open>auth/frame_ops.py\<close> and \<open>auth/capture.py\<close>: what a frame read from the camera is worth
  (black, dark or usable), its scaling and rotation, the report a session gives of it, and the
  stream that lets go of the camera once. With them the state the three kinds of session share:
  a cancel event that any thread may set and the stream it then releases.
\<close>

section \<open>Frame operations\<close>

text \<open>The OpenCV operations: an 8-bin histogram, resizing, rotating and CLAHE.\<close>

record cv =
  cv_hist :: "frame \<Rightarrow> nat list"
  cv_resize :: "pyfloat \<Rightarrow> frame \<Rightarrow> frame"
  cv_rot_ccw :: "frame \<Rightarrow> frame"
  cv_rot_cw :: "frame \<Rightarrow> frame"
  cv_clahe :: "frame \<Rightarrow> frame"

definition darkness_percent :: "cv \<Rightarrow> frame \<Rightarrow> rat \<times> nat" where
  "darkness_percent cv gsframe =
     (let hist = cv_hist cv gsframe; hist_total = sum_list hist in
      if hist_total = 0 then (100, 0)
      else (of_nat (hist ! 0) / of_nat hist_total * 100, hist_total))"

definition maybe_scale :: "cv \<Rightarrow> frame \<Rightarrow> frame \<Rightarrow> pyfloat \<Rightarrow> frame \<times> frame" where
  "maybe_scale cv fr gs scaling_factor =
     (if scaling_factor = Fin 1 then (fr, gs)
      else (cv_resize cv scaling_factor fr, cv_resize cv scaling_factor gs))"

definition apply_rotation_mode :: "cv \<Rightarrow> frame \<Rightarrow> frame \<Rightarrow> int \<Rightarrow> int \<Rightarrow> frame \<times> frame" where
  "apply_rotation_mode cv fr gs rotate_mode frame_number =
     (if rotate_mode = 1 then
        (if frame_number mod 3 = 1 then (cv_rot_ccw cv fr, cv_rot_ccw cv gs)
         else if frame_number mod 3 = 2 then (cv_rot_cw cv fr, cv_rot_cw cv gs)
         else (fr, gs))
      else if rotate_mode = 2 then
        (if frame_number mod 2 = 0 then (cv_rot_ccw cv fr, cv_rot_ccw cv gs)
         else (cv_rot_cw cv fr, cv_rot_cw cv gs))
      else (fr, gs))"


section \<open>Captured frames and reports\<close>

datatype frame_state = BLACK | DARK | NO_FACE | MULTIPLE | FACE | MATCH

fun state_value :: "frame_state \<Rightarrow> string" where
  "state_value BLACK = ''black''"
| "state_value DARK = ''dark''"
| "state_value NO_FACE = ''no_face''"
| "state_value MULTIPLE = ''multiple''"
| "state_value FACE = ''face''"
| "state_value MATCH = ''match''"

record captured_frame =
  cf_index :: int
  cf_raw :: frame
  cf_frame :: frame
  cf_gsframe :: frame
  cf_darkness :: rat
  cf_state :: "frame_state option"

definition usable :: "captured_frame \<Rightarrow> bool" where
  "usable c \<longleftrightarrow> cf_state c = None"

record frame_report =
  rp_index :: int
  rp_elapsed :: rat
  rp_state :: frame_state
  rp_darkness :: rat
  rp_dark_threshold :: pyfloat
  rp_faces :: "(rat \<times> rat \<times> rat \<times> rat) list"
  rp_distance :: "pyfloat option"
  rp_certainty :: "pyfloat option"

text \<open>\<open>round(x, n)\<close>: to the nearest multiple, ties to the even one.\<close>

definition round_half_even :: "rat \<Rightarrow> int" where
  "round_half_even q =
     (let f = \<lfloor>q\<rfloor>; r = q - of_int f in
      if r < 1/2 then f else if 1/2 < r then f + 1 else if even f then f else f + 1)"

definition round_to :: "nat \<Rightarrow> rat \<Rightarrow> rat" where
  "round_to n q = of_int (round_half_even (q * 10 ^ n)) / 10 ^ n"

fun fround :: "nat \<Rightarrow> pyfloat \<Rightarrow> pyfloat" where
  "fround n (Fin q) = Fin (round_to n q)"
| "fround n x = x"

definition json_opt :: "pyfloat option \<Rightarrow> json" where
  "json_opt x = (case x of None \<Rightarrow> JNull | Some v \<Rightarrow> JFloat v)"

definition box_json :: "rat \<times> rat \<times> rat \<times> rat \<Rightarrow> json" where
  "box_json b = (case b of (x, y, w, h) \<Rightarrow> JList (map (\<lambda>v. JFloat (Fin (round_to 4 v))) [x, y, w, h]))"

definition report_to_dict :: "frame_report \<Rightarrow> json" where
  "report_to_dict r = JObj
     [(''index'', JInt (rp_index r)), (''elapsed'', JFloat (Fin (round_to 3 (rp_elapsed r)))),
      (''state'', JStr (state_value (rp_state r))),
      (''darkness'', JFloat (Fin (round_to 1 (rp_darkness r)))),
      (''dark_threshold'', JFloat (rp_dark_threshold r)),
      (''faces'', JList (map box_json (rp_faces r))),
      (''distance'', json_opt (map_option (fround 3) (rp_distance r))),
      (''certainty'', json_opt (rp_certainty r))]"

definition normalized_boxes :: "face list \<Rightarrow> frame \<Rightarrow> (rat \<times> rat \<times> rat \<times> rat) list" where
  "normalized_boxes faces fr =
     (let height = of_nat (fr_height fr); width = of_nat (fr_width fr) in
      if width = 0 \<or> height = 0 then []
      else map (\<lambda>f. case f_bbox f of (x, y, w, h) \<Rightarrow>
             (of_int x / width, of_int y / height, of_int w / width, of_int h / height)) faces)"


section \<open>The stream\<close>

text \<open>\<open>sm_closes\<close> counts the calls of \<open>video_capture.release\<close>; an exception it raises is swallowed.\<close>

record stream =
  sm_dark_threshold :: pyfloat
  sm_rotate :: int
  sm_transform :: bool
  sm_index :: int
  sm_released :: bool
  sm_scaling_factor :: pyfloat
  sm_native_height :: rat
  sm_closes :: nat

text \<open>Division of a float by a non-zero finite one.\<close>

fun fdiv :: "pyfloat \<Rightarrow> rat \<Rightarrow> pyfloat" where
  "fdiv (Fin a) k = Fin (a / k)"
| "fdiv PInf k = (if 0 < k then PInf else NInf)"
| "fdiv NInf k = (if 0 < k then NInf else PInf)"
| "fdiv NaN k = NaN"

text \<open>
  \<open>FrameStream(config, transform)\<close>. The camera factory opens the device, or raises (also
  \<open>SystemExit\<close>); an open device answers \<open>internal.get\<close> for its width and height.
\<close>

record camera =
  cam_width :: rat
  cam_height :: rat

definition make_stream :: "config \<Rightarrow> (config \<Rightarrow> exn + camera) \<Rightarrow> bool \<Rightarrow> exn + stream" where
  "make_stream c capture_factory transform =
     bindE (cfg_float c ''video'' ''dark_threshold'' (Fin 60)) (\<lambda>threshold.
     bindE (cfg_int c ''video'' ''rotate'' 0) (\<lambda>rotate.
     bindE (capture_factory c) (\<lambda>cam.
     bindE (cfg_float c ''video'' ''max_height'' (Fin 320)) (\<lambda>max_height.
       let prop = (if rotate = 2 then cam_width cam else cam_height cam);
           native = (if prop = 0 then 1 else prop);
           scale = fdiv max_height native
       in Inr \<lparr>sm_dark_threshold = threshold, sm_rotate = rotate, sm_transform = transform,
               sm_index = 0, sm_released = False,
               sm_scaling_factor = (if scale = Fin 0 then Fin 1 else scale),
               sm_native_height = native, sm_closes = 0\<rparr>))))"

text \<open>
  \<open>read\<close>, given what \<open>video_capture.read_frame\<close> returned or raised: the colour frame and
  its grayscale copy.
\<close>

definition stream_read ::
    "cv \<Rightarrow> exn + (frame \<times> frame) \<Rightarrow> stream \<Rightarrow> stream \<times> (exn + captured_frame)" where
  "stream_read cv read_frame s =
     (let s = s\<lparr>sm_index := sm_index s + 1\<rparr> in
      (s, case read_frame of
            Inl e \<Rightarrow> Inl e
          | Inr (raw, gs) \<Rightarrow>
              let gs = cv_clahe cv gs; (darkness, hist_total) = darkness_percent cv gs in
              if hist_total = 0 \<or> darkness = 100 then
                Inr \<lparr>cf_index = sm_index s, cf_raw = raw, cf_frame = raw, cf_gsframe = gs,
                     cf_darkness = darkness, cf_state = Some BLACK\<rparr>
              else if flt (sm_dark_threshold s) (Fin darkness) then
                Inr \<lparr>cf_index = sm_index s, cf_raw = raw, cf_frame = raw, cf_gsframe = gs,
                     cf_darkness = darkness, cf_state = Some DARK\<rparr>
              else
                let (fr, gs) = (if sm_transform s
                                then case maybe_scale cv raw gs (sm_scaling_factor s) of (f, g) \<Rightarrow>
                                       apply_rotation_mode cv f g (sm_rotate s) (sm_index s)
                                else (raw, gs))
                in Inr \<lparr>cf_index = sm_index s, cf_raw = raw, cf_frame = fr, cf_gsframe = gs,
                        cf_darkness = darkness, cf_state = None\<rparr>))"

definition stream_release :: "stream \<Rightarrow> stream" where
  "stream_release s =
     (if sm_released s then s else s\<lparr>sm_released := True, sm_closes := sm_closes s + 1\<rparr>)"


section \<open>Sessions\<close>

text \<open>
  The part of a session other threads see: the cancel event, and the stream while
  \<open>self._stream\<close> refers to it (\<open>exposed\<close>). \<open>reports\<close> are those the observer got.
\<close>

record session =
  cancelled :: bool
  stream :: "stream option"
  exposed :: bool
  reports :: "frame_report list"

definition new_session :: session where
  "new_session = \<lparr>cancelled = False, stream = None, exposed = False, reports = []\<rparr>"

definition cancel :: "session \<Rightarrow> session" where
  "cancel s =
     (let s = s\<lparr>cancelled := True\<rparr> in
      if exposed s then s\<lparr>stream := map_option stream_release (stream s)\<rparr> else s)"

definition release_stream :: "session \<Rightarrow> session" where
  "release_stream s = s\<lparr>stream := map_option stream_release (stream s)\<rparr>"

text \<open>Opening: the stream is published, and released at once if a cancel came before it.\<close>

definition open_stream :: "stream \<Rightarrow> session \<Rightarrow> session" where
  "open_stream sm s =
     (let s = s\<lparr>stream := Some sm, exposed := True\<rparr> in if cancelled s then release_stream s else s)"

text \<open>The \<open>finally\<close> block of a session.\<close>

definition close_stream :: "session \<Rightarrow> session" where
  "close_stream s = release_stream (s\<lparr>exposed := False\<rparr>)"

text \<open>
  What one turn of a session's loop meets: a \<open>cancel()\<close> by another thread before the check at
  its head, while the camera is read, or while the frame is processed; the time since the loop
  began (at the check of the clock and at the report); what the camera returns; and whether the
  observer raises.
\<close>

record tick =
  tk_cancel :: bool
  tk_elapsed :: rat
  tk_cancel_read :: bool
  tk_read :: "exn + (frame \<times> frame)"
  tk_cancel_work :: bool
  tk_report_at :: rat
  tk_observer_raises :: bool

definition cancel_if :: "bool \<Rightarrow> session \<Rightarrow> session" where
  "cancel_if b s = (if b then cancel s else s)"

definition session_read :: "cv \<Rightarrow> tick \<Rightarrow> session \<Rightarrow> session \<times> (exn + captured_frame)" where
  "session_read cv tk s = (case stream s of
      None \<Rightarrow> (s, Inl AttributeError)
    | Some sm \<Rightarrow>
        (case stream_read cv (tk_read tk) sm of
           (sm, r) \<Rightarrow> (cancel_if (tk_cancel_read tk) (s\<lparr>stream := Some sm\<rparr>), r)))"

text \<open>\<open>_report\<close>: nothing without an observer; an observer that raises cancels the session.\<close>

definition report :: "bool \<Rightarrow> tick \<Rightarrow> frame_report \<Rightarrow> session \<Rightarrow> session" where
  "report observed tk rp s =
     (if \<not> observed then s
      else cancel_if (tk_observer_raises tk) (s\<lparr>reports := reports s @ [rp]\<rparr>))"

end
