(* ===== verification/Capture_Props.thy ===== *)
theory Capture_Props
  imports Capture Pipeline_Props
begin

text \<open>
  Laws of the camera stream and of cancelling a session, which the three kinds of session
  share, and what a frame is classified as.
\<close>

section \<open>The stream\<close>

text \<open>The device has been closed once if the stream is released, and not at all otherwise.\<close>

definition stream_ok :: "stream \<Rightarrow> bool" where
  "stream_ok sm \<longleftrightarrow> sm_closes sm = (if sm_released sm then 1 else 0)"

text \<open>
  What every step of a session keeps: its stream is sound, and a stream that a cancelled session
  still shows is released.
\<close>

definition session_ok :: "session \<Rightarrow> bool" where
  "session_ok s \<longleftrightarrow> (\<forall>sm. stream s = Some sm \<longrightarrow> stream_ok sm \<and>
     (exposed s \<longrightarrow> cancelled s \<longrightarrow> sm_released sm))"

lemma stream_release_simps [simp]:
  "sm_released (stream_release sm)" "stream_ok (stream_release sm) = stream_ok sm"
  "stream_release (stream_release sm) = stream_release sm"
  "sm_dark_threshold (stream_release sm) = sm_dark_threshold sm"
  by (auto simp: stream_release_def stream_ok_def)

lemma cancel_simps [simp]:
  "cancelled (cancel s)" "cancelled s \<Longrightarrow> cancelled (cancel_if b s)" "exposed (cancel s) = exposed s"
  "exposed (cancel_if b s) = exposed s" "reports (cancel s) = reports s"
  "reports (cancel_if b s) = reports s" "cancel_if False s = s" "cancel_if True s = cancel s"
  "stream (cancel s) = None \<longleftrightarrow> stream s = None" "stream (cancel_if b s) = None \<longleftrightarrow> stream s = None"
  by (auto simp: cancel_def cancel_if_def Let_def)

lemma session_ok_new [simp]: "session_ok new_session"
  by (simp add: session_ok_def new_session_def)

lemma session_ok_cancel [intro]: "session_ok s \<Longrightarrow> session_ok (cancel s)"
  by (auto simp: session_ok_def cancel_def Let_def)

lemma session_ok_cancel_if [intro]: "session_ok s \<Longrightarrow> session_ok (cancel_if b s)"
  by (auto simp: cancel_if_def)

lemma session_ok_open: "stream_ok sm \<Longrightarrow> session_ok (open_stream sm s)"
  by (auto simp: open_stream_def session_ok_def release_stream_def Let_def)

lemma session_ok_report [intro]: "session_ok s \<Longrightarrow> session_ok (report b tk rp s)"
  by (auto simp: report_def session_ok_def cancel_if_def cancel_def Let_def)

lemma report_simps [simp]:
  "exposed (report b tk rp s) = exposed s" "cancelled s \<Longrightarrow> cancelled (report b tk rp s)"
  "stream (report b tk rp s) = None \<longleftrightarrow> stream s = None"
  by (auto simp: report_def)

lemma stream_read_keeps:
  "stream_read cv rf sm = (sm', r) \<Longrightarrow> sm' = sm\<lparr>sm_index := sm_index sm + 1\<rparr>"
  by (auto simp: stream_read_def Let_def)

lemma session_ok_read:
  assumes "session_ok s" and "session_read cv tk s = (s', r)"
  shows "session_ok s' \<and> exposed s' = exposed s \<and> (cancelled s \<longrightarrow> cancelled s') \<and>
    (stream s' = None \<longleftrightarrow> stream s = None) \<and> reports s' = reports s"
proof (cases "stream s")
  case (Some sm)
  let ?s = "s\<lparr>stream := Some (sm\<lparr>sm_index := sm_index sm + 1\<rparr>)\<rparr>"
  obtain x where "stream_read cv (tk_read tk) sm = (sm\<lparr>sm_index := sm_index sm + 1\<rparr>, x)"
    using stream_read_keeps by (metis surj_pair)
  with Some assms(2) have s': "s' = cancel_if (tk_cancel_read tk) ?s"
    by (auto simp: session_read_def)
  have "session_ok ?s" using assms(1) Some by (simp add: session_ok_def stream_ok_def)
  then have "session_ok s'" unfolding s' by blast
  with s' Some show ?thesis by simp
qed (use assms in \<open>simp add: session_read_def\<close>)

text \<open>After the \<open>finally\<close> block the stream, if one was opened, has closed the device once.\<close>

definition closed :: "session \<Rightarrow> bool" where
  "closed s \<longleftrightarrow> \<not> exposed s \<and> (\<forall>sm. stream s = Some sm \<longrightarrow> sm_released sm \<and> sm_closes sm = 1)"

lemma closed_close: "session_ok s \<Longrightarrow> closed (close_stream s)"
proof -
  assume "session_ok s"
  then have "stream_ok (stream_release sm)" if "stream s = Some sm" for sm
    using that by (simp add: session_ok_def)
  moreover have "sm_closes (stream_release sm) = 1" if "stream_ok (stream_release sm)" for sm
    using that unfolding stream_ok_def by simp
  ultimately show ?thesis by (auto simp: closed_def close_stream_def release_stream_def)
qed

lemma stream_ok_make: "make_stream c f t = Inr sm \<Longrightarrow> stream_ok sm \<and> \<not> sm_released sm"
  by (auto simp: make_stream_def flow_simps Let_def stream_ok_def)

text \<open>A session is what the arbiter may hold.\<close>

lemma cancel_twice: "cancel (cancel s) = cancel s"
  by (cases s; cases "stream s") (auto simp: cancel_def Let_def)

interpretation session_cancel: cancellable cancel cancelled
  by unfold_locales (simp_all add: cancel_twice)

text \<open>
  Cancelling is idempotent and releases: however often a session is cancelled, it stays
  cancelled, the stream it shows is released and its device has been closed exactly once.
\<close>

theorem cancel_closes_once:
  assumes "0 < n" and "session_ok s"
  shows "(cancel ^^ n) s = cancel s \<and> cancelled ((cancel ^^ n) s) \<and>
    (case (exposed s, stream ((cancel ^^ n) s)) of
       (True, Some sm) \<Rightarrow> sm_released sm \<and> sm_closes sm = 1 | _ \<Rightarrow> True)"
proof -
  have n: "(cancel ^^ n) s = cancel s" by (rule session_cancel.cancel_funpow [OF assms(1)])
  have "session_ok (cancel s)" using assms(2) by auto
  then have "sm_released sm \<and> sm_closes sm = 1" if "exposed s" "stream (cancel s) = Some sm" for sm
    using that by (auto simp: session_ok_def stream_ok_def)
  then show ?thesis unfolding n by (auto split: option.splits bool.splits)
qed


section \<open>Classification of frames\<close>

text \<open>
  A frame is black when its histogram is empty or all of it is in the darkest bin, dark when
  the share of that bin is over the threshold, and usable otherwise; only a usable frame is
  scaled and rotated. The index counts the reads, also those that raise.
\<close>

theorem read_classifies:
  assumes "stream_read cv (Inr (raw, gs)) sm = (sm', Inr cf)"
  shows "cf_index cf = sm_index sm + 1 \<and> sm_index sm' = sm_index sm + 1 \<and> cf_raw cf = raw \<and>
    (let hist = cv_hist cv (cv_clahe cv gs); total = sum_list hist;
         share = of_nat (hist ! 0) / of_nat total * 100
     in cf_state cf = (if total = 0 \<or> share = 100 then Some BLACK
                       else if flt (sm_dark_threshold sm) (Fin share) then Some DARK else None) \<and>
        (cf_state cf \<noteq> None \<longrightarrow> cf_frame cf = raw \<and> cf_gsframe cf = cv_clahe cv gs) \<and>
        (sm_transform sm = False \<longrightarrow> cf_frame cf = raw))"
  using assms
  by (auto simp: stream_read_def Let_def darkness_percent_def split: if_splits prod.splits)

text \<open>
  The boxes of a report lie in the unit square whenever the faces' boxes lie in the frame,
  as those of the MediaPipe backend always do.
\<close>

theorem reported_boxes_in_unit_square:
  assumes "b_detect (mediapipe_bundle m) fr = Inr faces" and "(x, y, w, h) \<in> set (normalized_boxes faces fr)"
  shows "0 \<le> x \<and> 0 \<le> y \<and> 0 < w \<and> 0 < h \<and> x + w \<le> 1 \<and> y + h \<le> 1"
proof -
  from assms(2) obtain f a b c d where f: "f \<in> set faces" "f_bbox f = (a, b, c, d)"
    and dims: "0 < fr_width fr" "0 < fr_height fr"
    and box: "x = of_int a / of_nat (fr_width fr)" "y = of_int b / of_nat (fr_height fr)"
      "w = of_int c / of_nat (fr_width fr)" "h = of_int d / of_nat (fr_height fr)"
    by (auto simp: normalized_boxes_def Let_def split: if_splits prod.splits)
  have inside: "0 \<le> a" "0 \<le> b" "0 < c" "0 < d" "a + c \<le> int (fr_width fr)" "b + d \<le> int (fr_height fr)"
    using mediapipe_box_inside [OF assms(1) f(1)] f(2) by auto
  then have "(of_int (a + c) :: rat) \<le> of_int (int (fr_width fr))"
    "(of_int (b + d) :: rat) \<le> of_int (int (fr_height fr))"
    by (simp_all only: of_int_le_iff)
  then show ?thesis
    using inside dims unfolding box
    by (simp add: add_divide_distrib [symmetric] divide_le_eq)
qed


section \<open>Witnesses\<close>

text \<open>An image library whose histogram counts the pixels below 32, and an open stream.\<close>

definition sample_cv :: cv where
  "sample_cv = \<lparr>cv_hist = (\<lambda>f. [length (filter (\<lambda>p. p < 32) (fr_pixels f)),
       length (filter (\<lambda>p. \<not> p < 32) (fr_pixels f))]),
     cv_resize = (\<lambda>_ f. f), cv_rot_ccw = (\<lambda>f. f), cv_rot_cw = (\<lambda>f. f), cv_clahe = (\<lambda>f. f)\<rparr>"

definition sample_stream :: stream where
  "sample_stream = \<lparr>sm_dark_threshold = Fin 60, sm_rotate = 0, sm_transform = True, sm_index = 0,
     sm_released = False, sm_scaling_factor = Fin 1, sm_native_height = 480, sm_closes = 0\<rparr>"

theorem cancel_closes_once_witness:
  "(cancel ^^ 3) (open_stream sample_stream new_session) = cancel (open_stream sample_stream new_session)"
  using cancel_closes_once [of 3 "open_stream sample_stream new_session"]
  by (simp add: session_ok_open sample_stream_def stream_ok_def)

definition dark_frame :: frame where
  "dark_frame = \<lparr>fr_height = 1, fr_width = 4, fr_channels = None, fr_pixels = [0, 1, 2, 200]\<rparr>"

theorem read_classifies_witness:
  "\<exists>cf. snd (stream_read sample_cv (Inr (dark_frame, dark_frame)) sample_stream) = Inr cf \<and>
     cf_index cf = 1 \<and> cf_state cf = Some DARK"
proof -
  let ?cf = "\<lparr>cf_index = 1, cf_raw = dark_frame, cf_frame = dark_frame, cf_gsframe = dark_frame,
    cf_darkness = 75, cf_state = Some DARK\<rparr>"
  have r: "stream_read sample_cv (Inr (dark_frame, dark_frame)) sample_stream =
      (sample_stream\<lparr>sm_index := 1\<rparr>, Inr ?cf)"
    by code_simp
  from read_classifies [OF r] have "cf_index ?cf = sm_index sample_stream + 1" by blast
  with r show ?thesis by (simp add: sample_stream_def)
qed

theorem reported_boxes_in_unit_square_witness:
  "(0::rat) \<le> 0 \<and> (0::rat) \<le> 1/4 \<and> (0::rat) < 1 \<and> (0::rat) < 1/2 \<and> (0::rat) + 1 \<le> 1 \<and> (1/4::rat) + 1/2 \<le> 1 \<and>
    (0, 1/4, 1, 1/2) \<in> set (normalized_boxes (projr (mediapipe_detect sample_mp sample_frame)) sample_frame)"
proof -
  let ?faces = "[\<lparr>f_bbox = (0, 1, 6, 2), f_landmarks = no_landmarks, f_score = Fin 1\<rparr>]"
  have d: "b_detect (mediapipe_bundle sample_mp) sample_frame = Inr ?faces" by code_simp
  have m: "(0, 1/4, 1, 1/2) \<in> set (normalized_boxes ?faces sample_frame)"
    by (simp add: normalized_boxes_def sample_frame_def)
  have "mediapipe_detect sample_mp sample_frame = Inr ?faces" using d by (simp add: mediapipe_bundle_def)
  with reported_boxes_in_unit_square [OF d m] m show ?thesis by simp
qed

end
