(* ===== verification/Rubberstamps.thy ===== *)
theory Rubberstamps
  imports Capture "HOL-Library.AList"
begin

text \<open>
  \<open>rubberstamps/__init__.py\<close>, \<open>hotkey.py\<close> and \<open>nod.py\<close>: the extra checks after a match.
  A rule names a stamp, a timeout, a fail mode and options; \<open>execute\<close> runs the rules in order and
  always leaves by an exception, \<open>SystemExit 0\<close> when none refused.
\<close>

section \<open>Rules\<close>

text \<open>\<open>\w\<close> on code points below 256; \<open>\s\<close> is \<open>is_py_space\<close>.\<close>

definition is_word :: "char \<Rightarrow> bool" where
  "is_word ch =
     (let n = (of_char ch :: nat) in
      (48 \<le> n \<and> n \<le> 57) \<or> (65 \<le> n \<and> n \<le> 90) \<or> (97 \<le> n \<and> n \<le> 122) \<or>
      n \<in> {95, 170, 178, 179, 181, 185, 186, 188, 189, 190} \<or>
      (192 \<le> n \<and> n \<noteq> 215 \<and> n \<noteq> 247))"

definition is_letter :: "char \<Rightarrow> bool" where
  "is_letter ch =
     (let n = (of_char ch :: nat) in (65 \<le> n \<and> n \<le> 90) \<or> (97 \<le> n \<and> n \<le> 122))"

text \<open>A non-empty run of characters of one class, and what follows it.\<close>

definition take_run :: "(char \<Rightarrow> bool) \<Rightarrow> string \<Rightarrow> (string \<times> string) option" where
  "take_run P s = (if takeWhile P s = [] then None else Some (takeWhile P s, dropWhile P s))"

text \<open>
  \<open>^(\w+)\s+([\w\.]+)\s+([a-z]+)(.*)?$\<close>, ignoring case. Neighbouring classes are disjoint up to
  the last group, so the greedy runs are the only match.
\<close>

record rule_parts =
  rl_stamp :: string
  rl_timeout :: string
  rl_mode :: string
  rl_options :: string

definition parse_rule :: "string \<Rightarrow> rule_parts option" where
  "parse_rule rule =
     Option.bind (take_run is_word rule) (\<lambda>(stamp, r1).
     Option.bind (take_run is_py_space r1) (\<lambda>(_, r2).
     Option.bind (take_run (\<lambda>ch. is_word ch \<or> ch = CHR ''.'') r2) (\<lambda>(tmo, r3).
     Option.bind (take_run is_py_space r3) (\<lambda>(_, r4).
     Option.bind (take_run is_letter r4) (\<lambda>(mode, rest).
       Some \<lparr>rl_stamp = stamp, rl_timeout = tmo, rl_mode = mode, rl_options = rest\<rparr>)))))"

text \<open>\<open>str.split()\<close>: the non-empty pieces between runs of white space.\<close>

fun split_ws :: "string \<Rightarrow> string list" where
  "split_ws [] = []"
| "split_ws (ch # s) =
     (if is_py_space ch then split_ws s
      else case s of
          [] \<Rightarrow> [[ch]]
        | next # _ \<Rightarrow>
            if is_py_space next then [ch] # split_ws s
            else (case split_ws s of [] \<Rightarrow> [[ch]] | p # ps \<Rightarrow> (ch # p) # ps))"

datatype optval = OInt int | OFloat pyfloat | OBool bool | OStr string

type_synonym options = "(string \<times> optval) list"

fun truthy :: "optval \<Rightarrow> bool" where
  "truthy (OInt n) = (n \<noteq> 0)"
| "truthy (OFloat f) = (f \<noteq> Fin 0)"
| "truthy (OBool b) = b"
| "truthy (OStr s) = (s \<noteq> [])"

text \<open>The value of an option, converted to the type of its default (\<open>bool\<close> is an \<open>int\<close>).\<close>

fun convert :: "optval \<Rightarrow> string \<Rightarrow> exn + optval" where
  "convert (OInt _) s = bindE (parse_int s) (\<lambda>n. Inr (OInt n))"
| "convert (OBool _) s = bindE (parse_int s) (\<lambda>n. Inr (OInt n))"
| "convert (OFloat _) s = bindE (parse_float s) (\<lambda>f. Inr (OFloat f))"
| "convert (OStr _) s = Inr (OStr s)"

definition set_option :: "options \<Rightarrow> string \<Rightarrow> exn + options" where
  "set_option opts raw = (case split_on (CHR ''='') raw of
      [key, value] \<Rightarrow>
        (case map_of opts key of
           None \<Rightarrow> Inr opts
         | Some old \<Rightarrow> bindE (convert old value) (\<lambda>new. Inr (AList.update key new opts)))
    | _ \<Rightarrow> Inl ValueError)"

fun set_options :: "options \<Rightarrow> string list \<Rightarrow> exn + options" where
  "set_options opts [] = Inr opts"
| "set_options opts (raw # raws) = bindE (set_option opts raw) (\<lambda>opts. set_options opts raws)"


section \<open>The two stamps\<close>

datatype stamp_class = Hotkey | Nod

fun declare_config :: "stamp_class \<Rightarrow> options" where
  "declare_config Hotkey = [(''abort_key'', OStr ''esc''), (''confirm_key'', OStr ''enter'')]"
| "declare_config Nod = [(''min_distance'', OInt 6), (''min_directions'', OInt 2)]"

text \<open>
  What a stamp meets while it runs: whether the keyboard module is there and takes the hotkeys,
  the key seen at each poll; and, for nodding, the frames with the faces and landmarks in them.
  A landmark record holds the eyes' horizontal positions and the position of the nose.
\<close>

record nod_points =
  eye_l :: int
  eye_r :: int
  nose_x :: int
  nose_y :: int

record nod_tick =
  nt_time :: rat
  nt_read :: "exn + unit"
  nt_faces :: "exn + nat"
  nt_points :: "exn + nod_points"

record stamp_input =
  si_keyboard :: bool
  si_add_hotkey :: "string \<Rightarrow> exn option"
  si_pressed :: "nat \<Rightarrow> string"
  si_ticks :: "nod_tick list"

text \<open>The polling loop of \<open>hotkey.run\<close>: a tenth of a second per turn.\<close>

function hotkey_loop :: "(nat \<Rightarrow> string) \<Rightarrow> bool \<Rightarrow> rat \<Rightarrow> nat \<Rightarrow> bool" where
  "hotkey_loop pressed failsafe time_left i =
     (if 0 < time_left then
        (if pressed i = ''abort'' then False
         else if pressed i = ''confirm'' then True
         else hotkey_loop pressed failsafe (time_left - 1/10) (i + 1))
      else \<not> failsafe)"
  by pat_completeness auto
termination
proof (relation "measure (\<lambda>(p, f, q, i). nat \<lceil>q * 10\<rceil>)", goal_cases)
  case (2 pressed failsafe time_left i)
  have "\<lceil>(time_left - 1/10) * 10\<rceil> = \<lceil>time_left * 10\<rceil> - 1"
    by (simp add: left_diff_distrib)
  moreover have "0 < \<lceil>time_left * 10\<rceil>" using 2 by simp
  ultimately show ?case by simp
qed simp

declare hotkey_loop.simps [simp del]

definition opt_float :: "options \<Rightarrow> string \<Rightarrow> pyfloat" where
  "opt_float opts k = (case map_of opts k of
      Some (OFloat f) \<Rightarrow> f | Some (OInt n) \<Rightarrow> Fin (of_int n) | _ \<Rightarrow> NaN)"

definition opt_int :: "options \<Rightarrow> string \<Rightarrow> int" where
  "opt_int opts k = (case map_of opts k of Some (OInt n) \<Rightarrow> n | _ \<Rightarrow> 0)"

definition opt_str :: "options \<Rightarrow> string \<Rightarrow> string" where
  "opt_str opts k = (case map_of opts k of Some (OStr s) \<Rightarrow> s | _ \<Rightarrow> [])"

definition opt_true :: "options \<Rightarrow> string \<Rightarrow> bool" where
  "opt_true opts k = (case map_of opts k of Some v \<Rightarrow> truthy v | None \<Rightarrow> False)"

definition run_hotkey :: "options \<Rightarrow> stamp_input \<Rightarrow> exn + bool" where
  "run_hotkey opts inp =
     bindE (py_int (JFloat (opt_float opts ''timeout''))) (\<lambda>_.
     if \<not> si_keyboard inp then Inl (SystemExit (Some 1))
     else case si_add_hotkey inp (opt_str opts ''abort_key'') of
       Some e \<Rightarrow> Inl e
     | None \<Rightarrow>
         (case si_add_hotkey inp (opt_str opts ''confirm_key'') of
            Some e \<Rightarrow> Inl e
          | None \<Rightarrow>
              (case opt_float opts ''timeout'' of
                 Fin q \<Rightarrow> Inr (hotkey_loop (si_pressed inp) (opt_true opts ''failsafe'') q 0)
               | _ \<Rightarrow> Inl ValueError)))"

text \<open>The state of \<open>nod.run\<close> between frames; \<open>-1\<close> marks a nose not yet seen.\<close>

record nod_state =
  last_reldist :: rat
  last_x :: int
  last_y :: int
  nods_x :: "bool list"
  nods_y :: "bool list"

definition init_nod :: nod_state where
  "init_nod = \<lparr>last_reldist = -1, last_x = -1, last_y = -1, nods_x = [], nods_y = []\<rparr>"

text \<open>One axis in one frame: a movement over the threshold against the last recorded one counts.\<close>

definition record_nod :: "int \<Rightarrow> rat \<Rightarrow> int \<Rightarrow> int \<Rightarrow> bool list \<Rightarrow> bool list" where
  "record_nod mindist avg_reldist last_point nosepoint nods =
     (let last_point = (if last_point = -1 then nosepoint else last_point);
          movement = of_int (nosepoint - last_point) * 100 / max avg_reldist 1
      in if movement < - of_int mindist \<or> of_int mindist < movement
         then (if nods = [] then [movement < 0]
               else if last nods \<noteq> (movement < 0) then nods @ [movement < 0] else nods)
         else nods)"

text \<open>One frame with one face: the verdict, if an axis has enough movements, and the new state.\<close>

definition nod_frame :: "options \<Rightarrow> nod_points \<Rightarrow> nod_state \<Rightarrow> bool option \<times> nod_state" where
  "nod_frame opts pts st =
     (let reldist = of_int (eye_l pts - eye_r pts);
          avg_reldist = (last_reldist st + reldist) / 2;
          mindist = opt_int opts ''min_distance'';
          enough = opt_int opts ''min_directions'';
          xs = record_nod mindist avg_reldist (last_x st) (nose_x pts) (nods_x st);
          ys = record_nod mindist avg_reldist (last_y st) (nose_y pts) (nods_y st);
          st' = \<lparr>last_reldist = reldist, last_x = nose_x pts, last_y = nose_y pts,
                 nods_x = xs, nods_y = ys\<rparr>
      in (if enough \<le> int (length xs) then Some False
          else if enough \<le> int (length ys) then Some True else None, st'))"

text \<open>\<open>None\<close>: the frames given do not reach a verdict or the timeout.\<close>

fun nod_loop :: "options \<Rightarrow> nod_state \<Rightarrow> nod_tick list \<Rightarrow> (exn + bool) option" where
  "nod_loop opts st [] = None"
| "nod_loop opts st (tk # tks) =
     (if flt (Fin (nt_time tk)) (opt_float opts ''timeout'') then
        (case bindE (nt_read tk) (\<lambda>_. nt_faces tk) of
           Inl e \<Rightarrow> Some (Inl e)
         | Inr n \<Rightarrow>
             if n \<noteq> 1 then nod_loop opts st tks
             else case nt_points tk of
               Inl e \<Rightarrow> Some (Inl e)
             | Inr pts \<Rightarrow>
                 (case nod_frame opts pts st of
                    (Some b, _) \<Rightarrow> Some (Inr b)
                  | (None, st') \<Rightarrow> nod_loop opts st' tks))
      else Some (Inr (\<not> opt_true opts ''failsafe'')))"

definition run_stamp :: "stamp_class \<Rightarrow> options \<Rightarrow> stamp_input \<Rightarrow> (exn + bool) option" where
  "run_stamp cls opts inp = (case cls of
      Hotkey \<Rightarrow> Some (run_hotkey opts inp)
    | Nod \<Rightarrow> nod_loop opts init_nod (si_ticks inp))"


section \<open>Running the rules\<close>

text \<open>
  The directory of stamps (each name, and whether it is a regular file), what loading a module
  other than the two stamps raises (it then has no class of its name), and the inputs of the
  stamp of each rule, by position.
\<close>

record stamp_env =
  sv_listing :: "(string \<times> bool) list"
  sv_load :: "string \<Rightarrow> exn option"
  sv_input :: "nat \<Rightarrow> stamp_input"

definition installed_stamps :: "stamp_env \<Rightarrow> string list" where
  "installed_stamps sv =
     map (\<lambda>(name, _). hd (split_on (CHR ''.'') name))
       (filter (\<lambda>(name, is_file). is_file \<and> name \<notin> {''__init__.py'', ''.gitignore''}) (sv_listing sv))"

definition load_stamp :: "stamp_env \<Rightarrow> string \<Rightarrow> exn + stamp_class option" where
  "load_stamp sv name =
     (if name = ''hotkey'' then Inr (Some Hotkey)
      else if name = ''nod'' then Inr (Some Nod)
      else case sv_load sv name of Some e \<Rightarrow> Inl e | None \<Rightarrow> Inr None)"

text \<open>\<open>re.sub("[a-zA-Z]", "", _)\<close> and \<open>float\<close>.\<close>

definition base_options :: "rule_parts \<Rightarrow> exn + options" where
  "base_options r =
     bindE (parse_float (filter (\<lambda>ch. \<not> is_letter ch) (rl_timeout r))) (\<lambda>f.
       Inr [(''timeout'', OFloat f), (''failsafe'', OBool (rl_mode r \<noteq> ''faildeadly''))])"

text \<open>
  What one rule does: it is passed over, it ran with a verdict, it raises past \<open>execute\<close>, or it
  has not come to an end.
\<close>

datatype rule_result = Skipped | Verdict bool | Escapes exn | Running

definition run_rule :: "stamp_env \<Rightarrow> nat \<Rightarrow> string \<Rightarrow> rule_result" where
  "run_rule sv i raw =
     (let rule = py_strip raw in
      if length rule \<le> 1 then Skipped
      else case parse_rule rule of
        None \<Rightarrow> Skipped
      | Some r \<Rightarrow>
          if rl_stamp r \<notin> set (installed_stamps sv) then Skipped
          else case load_stamp sv (rl_stamp r) of
            Inl e \<Rightarrow> Escapes e
          | Inr None \<Rightarrow> Skipped
          | Inr (Some cls) \<Rightarrow>
              (case bindE (base_options r) (\<lambda>opts.
                      set_options (opts @ declare_config cls) (split_ws (rl_options r))) of
                 Inl e \<Rightarrow> Escapes e
               | Inr opts \<Rightarrow>
                   (case run_stamp cls opts (sv_input sv i) of
                      None \<Rightarrow> Running
                    | Some (Inr b) \<Rightarrow> Verdict b
                    | Some (Inl e) \<Rightarrow> if is_exception e then Skipped else Escapes e)))"

fun run_rules :: "stamp_env \<Rightarrow> nat \<Rightarrow> string list \<Rightarrow> exn option" where
  "run_rules sv i [] = Some (SystemExit (Some 0))"
| "run_rules sv i (raw # raws) = (case run_rule sv i raw of
      Skipped \<Rightarrow> run_rules sv (i + 1) raws
    | Verdict b \<Rightarrow> if b then run_rules sv (i + 1) raws else Some (SystemExit (Some 15))
    | Escapes e \<Rightarrow> Some e
    | Running \<Rightarrow> None)"

text \<open>\<open>execute\<close>: the exception it leaves by; \<open>None\<close> while a stamp still waits.\<close>

definition execute :: "stamp_env \<Rightarrow> config \<Rightarrow> exn option" where
  "execute sv c = (case cfg_boolean c ''debug'' ''verbose_stamps'' False of
      Inl e \<Rightarrow> Some e
    | Inr _ \<Rightarrow>
        (case c ''rubberstamps'' ''stamp_rules'' of
           None \<Rightarrow> Some (OtherError ''NoOptionError'')
         | Some (Inl e) \<Rightarrow> Some e
         | Some (Inr raw_rules) \<Rightarrow> run_rules sv 0 (split_on ((CHR 0x0A)) raw_rules)))"

end
