(* ===== verification/Rubberstamps_Props.thy ===== *)
theory Rubberstamps_Props
  imports Rubberstamps
begin

text \<open>
  What the stamps decide: the first refusal ends the login, a key press decides the hotkey
  stamp before its timeout does, and nodding needs alternating movements.
\<close>

section \<open>The rules\<close>

definition stamp_rules :: "config \<Rightarrow> string list" where
  "stamp_rules c = (case c ''rubberstamps'' ''stamp_rules'' of
      Some (Inr s) \<Rightarrow> split_on (CHR 0x0A) s | _ \<Rightarrow> [])"

text \<open>A rule that lets the next one run.\<close>

definition passes :: "stamp_env \<Rightarrow> nat \<Rightarrow> string \<Rightarrow> bool" where
  "passes sv i raw \<longleftrightarrow> run_rule sv i raw \<in> {Skipped, Verdict True}"

lemma run_rules_decides:
  assumes "run_rules sv k raws = Some e"
  shows "((\<forall>i < length raws. passes sv (k + i) (raws ! i)) \<and> e = SystemExit (Some 0)) \<or>
    (\<exists>i < length raws. (\<forall>j < i. passes sv (k + j) (raws ! j)) \<and>
       (run_rule sv (k + i) (raws ! i) = Verdict False \<and> e = SystemExit (Some 15) \<or>
        run_rule sv (k + i) (raws ! i) = Escapes e))"
  using assms
proof (induction raws arbitrary: k)
  case (Cons raw raws)
  show ?case
  proof (cases "passes sv k raw")
    case True
    with Cons.prems have "run_rules sv (k + 1) raws = Some e" by (auto simp: passes_def)
    from Cons.IH [OF this]
    consider (all) "\<forall>i < length raws. passes sv (k + 1 + i) (raws ! i)" "e = SystemExit (Some 0)"
      | (first) i where "i < length raws" "\<forall>j < i. passes sv (k + 1 + j) (raws ! j)"
          "run_rule sv (k + 1 + i) (raws ! i) = Verdict False \<and> e = SystemExit (Some 15) \<or>
           run_rule sv (k + 1 + i) (raws ! i) = Escapes e"
      by blast
    then show ?thesis
    proof cases
      case all
      have "passes sv (k + i) ((raw # raws) ! i)" if "i < length (raw # raws)" for i
        using that all(1) True by (cases i) auto
      with all(2) show ?thesis by blast
    next
      case (first i)
      have "passes sv (k + j) ((raw # raws) ! j)" if "j < Suc i" for j
        using that first(2) True by (cases j) auto
      with first(1,3) show ?thesis by (intro disjI2 exI [of _ "Suc i"]) auto
    qed
  next
    case False
    with Cons.prems show ?thesis
      by (intro disjI2 exI [of _ 0]) (auto simp: passes_def split: rule_result.splits if_splits)
  qed
qed simp



section \<open>The hotkey stamp\<close>

definition decisive :: "string \<Rightarrow> bool" where
  "decisive key \<longleftrightarrow> key = ''abort'' \<or> key = ''confirm''"

lemma hotkey_loop_decided:
  "hotkey_loop pressed fs q i =
     (case List.find (\<lambda>j. decisive (pressed j)) [i..<i + nat \<lceil>q * 10\<rceil>] of
        Some j \<Rightarrow> pressed j = ''confirm''
      | None \<Rightarrow> \<not> fs)"
proof (induction pressed fs q i rule: hotkey_loop.induct)
  case (1 pressed fs q i)
  show ?case
  proof (cases "0 < q")
    case True
    have shift: "\<lceil>(q - 1/10) * 10\<rceil> = \<lceil>q * 10\<rceil> - 1" by (simp add: left_diff_distrib)
    have pos: "0 < \<lceil>q * 10\<rceil>" using True by simp
    then have "i + nat \<lceil>q * 10\<rceil> = i + 1 + nat \<lceil>(q - 1/10) * 10\<rceil>" unfolding shift by linarith
    moreover have "i < i + nat \<lceil>q * 10\<rceil>" using pos by simp
    ultimately have up: "[i..<i + nat \<lceil>q * 10\<rceil>] = i # [i + 1..<i + 1 + nat \<lceil>(q - 1/10) * 10\<rceil>]"
      by (simp only: upt_conv_Cons Suc_eq_plus1)
    show ?thesis
      using True 1 unfolding up
      by (subst hotkey_loop.simps) (auto simp: decisive_def)
  next
    case False
    then have "\<lceil>q * 10\<rceil> \<le> 0" by simp
    then have "nat \<lceil>q * 10\<rceil> = 0" by simp
    with False show ?thesis by (subst hotkey_loop.simps) simp
  qed
qed

text \<open>
  The hotkey stamp ends after at most ten polls per second of its timeout; the first
  decisive key it sees decides, confirm for yes and abort for no, and without one the fail
  mode does.
\<close>

theorem hotkey_decides:
  assumes "opt_float opts ''timeout'' = Fin q" and "si_keyboard inp"
    and "\<forall>k. si_add_hotkey inp k = None"
  shows "run_stamp Hotkey opts inp = Some (Inr (
    case List.find (\<lambda>j. decisive (si_pressed inp j)) [0..<nat \<lceil>q * 10\<rceil>] of
      Some j \<Rightarrow> si_pressed inp j = ''confirm''
    | None \<Rightarrow> \<not> opt_true opts ''failsafe''))"
  using assms hotkey_loop_decided [of "si_pressed inp" "opt_true opts ''failsafe''" q 0]
  by (simp add: run_stamp_def run_hotkey_def)


section \<open>The nod stamp\<close>

fun alternating :: "bool list \<Rightarrow> bool" where
  "alternating [] = True"
| "alternating [b] = True"
| "alternating (a # b # bs) = (a \<noteq> b \<and> alternating (b # bs))"

lemma alternating_snoc: "alternating bs \<Longrightarrow> bs \<noteq> [] \<Longrightarrow> last bs \<noteq> b \<Longrightarrow> alternating (bs @ [b])"
  by (induction bs rule: alternating.induct) auto

definition nod_ok :: "nod_state \<Rightarrow> bool" where
  "nod_ok st \<longleftrightarrow> alternating (nods_x st) \<and> alternating (nods_y st)"

lemma record_nod_alternating:
  "alternating nods \<Longrightarrow> alternating (record_nod d avg l n nods)"
  by (auto simp: record_nod_def Let_def alternating_snoc)

lemma nod_frame_ok: "nod_ok st \<Longrightarrow> nod_ok (snd (nod_frame opts pts st))"
  by (auto simp: nod_frame_def nod_ok_def Let_def record_nod_alternating)

text \<open>The states the stamp reaches from frames with one face.\<close>

fun nod_states :: "options \<Rightarrow> nod_state \<Rightarrow> nod_points list \<Rightarrow> nod_state" where
  "nod_states opts st [] = st"
| "nod_states opts st (p # ps) = nod_states opts (snd (nod_frame opts p st)) ps"

lemma nod_states_append:
  "nod_states opts st (ps @ qs) = nod_states opts (nod_states opts st ps) qs"
  by (induction ps arbitrary: st) auto

lemma nod_states_ok: "nod_ok st \<Longrightarrow> nod_ok (nod_states opts st ps)"
  by (induction ps arbitrary: st) (auto intro: nod_frame_ok)

lemma nod_loop_True:
  assumes "nod_loop opts st tks = Some (Inr True)"
  shows "opt_true opts ''failsafe'' = False \<or>
    (\<exists>ps p. set (p # ps) \<subseteq> {q. \<exists>tk \<in> set tks. nt_points tk = Inr q} \<and>
       fst (nod_frame opts p (nod_states opts st ps)) = Some True)"
  using assms
proof (induction opts st tks rule: nod_loop.induct)
  case (2 opts st tk tks)
  show ?case
  proof (cases "flt (Fin (nt_time tk)) (opt_float opts ''timeout'')")
    case False
    with 2(3) show ?thesis by simp
  next
    case within: True
    from 2(3) within obtain n where n: "bindE (nt_read tk) (\<lambda>_. nt_faces tk) = Inr n"
      by (auto split: sum.splits)
    show ?thesis
    proof (cases "n = 1")
      case False
      with 2(3) within n have "nod_loop opts st tks = Some (Inr True)" by simp
      from 2(1) [OF within n False this] show ?thesis by fastforce
    next
      case True
      with 2(3) within n obtain pts where pts: "nt_points tk = Inr pts" by (auto split: sum.splits)
      obtain v st' where nf: "nod_frame opts pts st = (v, st')" by fastforce
      show ?thesis
      proof (cases v)
        case (Some b)
        with 2(3) within n True pts nf have "b = True" by simp
        with Some nf pts show ?thesis
          by (intro disjI2 exI [of _ "[]"] exI [of _ pts]) auto
      next
        case None
        with 2(3) within n True pts nf have "nod_loop opts st' tks = Some (Inr True)" by simp
        from 2(2) [OF within n _ pts nf [symmetric] None this] True
        consider "\<not> opt_true opts ''failsafe''"
          | ps p where "set (p # ps) \<subseteq> {q. \<exists>tk \<in> set tks. nt_points tk = Inr q}"
            "fst (nod_frame opts p (nod_states opts st' ps)) = Some True"
          by auto
        then show ?thesis
        proof cases
          case (2 ps p)
          then show ?thesis using nf pts
            by (intro disjI2 exI [of _ "pts # ps"] exI [of _ p]) auto
        qed simp
      qed
    qed
  qed
qed simp

text \<open>
  A nod confirms only after \<open>min_directions\<close> vertical movements of alternating direction,
  while fewer horizontal ones were seen; otherwise the stamp can only return true by running
  into its timeout in the \<open>faildeadly\<close> mode.
\<close>

theorem nod_confirms:
  assumes "run_stamp Nod opts inp = Some (Inr True)"
  shows "\<not> opt_true opts ''failsafe'' \<or>
    (\<exists>pts. set pts \<subseteq> {q. \<exists>tk \<in> set (si_ticks inp). nt_points tk = Inr q} \<and>
       (let st = nod_states opts init_nod pts in
          alternating (nods_y st) \<and> opt_int opts ''min_directions'' \<le> int (length (nods_y st)) \<and>
          int (length (nods_x st)) < opt_int opts ''min_directions''))"
proof -
  from nod_loop_True [of opts init_nod "si_ticks inp"] assms
  consider "\<not> opt_true opts ''failsafe''"
    | ps p where "set (p # ps) \<subseteq> {q. \<exists>tk \<in> set (si_ticks inp). nt_points tk = Inr q}"
      "fst (nod_frame opts p (nod_states opts init_nod ps)) = Some True"
    by (auto simp: run_stamp_def)
  then show ?thesis
  proof cases
    case (2 ps p)
    let ?st = "nod_states opts init_nod (ps @ [p])"
    have st: "?st = snd (nod_frame opts p (nod_states opts init_nod ps))"
      by (simp add: nod_states_append)
    have "nod_ok ?st" by (intro nod_states_ok) (simp add: nod_ok_def init_nod_def)
    moreover have "opt_int opts ''min_directions'' \<le> int (length (nods_y ?st)) \<and>
        int (length (nods_x ?st)) < opt_int opts ''min_directions''"
      using 2(2) unfolding st by (auto simp: nod_frame_def Let_def split: if_splits)
    ultimately show ?thesis
      using 2(1) by (intro disjI2 exI [of _ "ps @ [p]"]) (auto simp: nod_ok_def Let_def)
  qed simp
qed


section \<open>Stamps that fail\<close>

text \<open>
  A stamp that raises does not refuse: when running it ends with any exception but
  \<open>SystemExit\<close> or \<open>KeyboardInterrupt\<close>, its rule is passed over, and the remaining rules alone
  decide, although the result was set to false before the call.
\<close>

theorem failing_stamp_passes:
  assumes "parse_rule (py_strip raw) = Some r" and "rl_stamp r \<in> set (installed_stamps sv)"
    and "load_stamp sv (rl_stamp r) = Inr (Some cls)" and "base_options r = Inr base"
    and "set_options (base @ declare_config cls) (split_ws (rl_options r)) = Inr opts"
    and "run_stamp cls opts (sv_input sv i) = Some (Inl e)" and "is_exception e"
  shows "run_rules sv i (raw # raws) = run_rules sv (i + 1) raws"
  using assms by (simp add: run_rule_def Let_def)


section \<open>Witnesses\<close>

text \<open>Two installed stamps; the user presses a key at the third poll, then nods.\<close>

definition one_rule :: config where
  "one_rule sec opt =
     (if sec = ''rubberstamps'' \<and> opt = ''stamp_rules'' then Some (Inr ''hotkey 1s failsafe'') else None)"

definition sample_points :: "int \<Rightarrow> nod_points" where
  "sample_points y = \<lparr>eye_l = 30, eye_r = 10, nose_x = 50, nose_y = y\<rparr>"

definition sample_nod_tick :: "rat \<Rightarrow> int \<Rightarrow> nod_tick" where
  "sample_nod_tick t y = \<lparr>nt_time = t, nt_read = Inr (), nt_faces = Inr 1, nt_points = Inr (sample_points y)\<rparr>"

definition sample_input :: "string \<Rightarrow> exn option \<Rightarrow> stamp_input" where
  "sample_input key fault = \<lparr>si_keyboard = True, si_add_hotkey = (\<lambda>_. fault),
     si_pressed = (\<lambda>i. if i < 2 then ''none'' else key),
     si_ticks = [sample_nod_tick 0 40, sample_nod_tick 1 60, sample_nod_tick 2 45]\<rparr>"

definition sample_stamps :: "string \<Rightarrow> exn option \<Rightarrow> stamp_env" where
  "sample_stamps key fault =
     \<lparr>sv_listing = [(''__init__.py'', True), (''__pycache__'', False), (''hotkey.py'', True), (''nod.py'', True)],
      sv_load = (\<lambda>_. None), sv_input = (\<lambda>_. sample_input key fault)\<rparr>"

definition sample_options :: options where
  "sample_options = [(''timeout'', OFloat (Fin 1)), (''failsafe'', OBool True),
     (''abort_key'', OStr ''esc''), (''confirm_key'', OStr ''enter'')]"

definition nod_options :: options where
  "nod_options = [(''timeout'', OFloat (Fin 5)), (''failsafe'', OBool True),
     (''min_distance'', OInt 6), (''min_directions'', OInt 2)]"


theorem hotkey_decides_witness: "run_stamp Hotkey sample_options (sample_input ''confirm'' None) = Some (Inr True)"
proof -
  have find: "List.find (\<lambda>j. decisive (si_pressed (sample_input ''confirm'' None) j)) [0..<10] = Some 2"
    by code_simp
  have "opt_float sample_options ''timeout'' = Fin 1" by (simp add: opt_float_def sample_options_def)
  moreover have "si_keyboard (sample_input ''confirm'' None)"
    "\<forall>k. si_add_hotkey (sample_input ''confirm'' None) k = None"
    by (simp_all add: sample_input_def)
  moreover have "si_pressed (sample_input ''confirm'' None) 2 = ''confirm''" by code_simp
  ultimately show ?thesis
    using hotkey_decides [of sample_options 1 "sample_input ''confirm'' None"]
    by (simp add: find del: upt_Suc)
qed

theorem nod_confirms_witness:
  "\<exists>pts. let st = nod_states nod_options init_nod pts in
     alternating (nods_y st) \<and> 2 \<le> length (nods_y st) \<and> length (nods_x st) < 2"
proof -
  have "run_stamp Nod nod_options (sample_input ''none'' None) = Some (Inr True)" by code_simp
  from nod_confirms [OF this] show ?thesis
    by (auto simp: opt_true_def opt_int_def nod_options_def Let_def)
qed

theorem failing_stamp_passes_witness:
  "run_rules (sample_stamps ''none'' (Some ValueError)) 0 [''hotkey 1s failsafe''] = Some (SystemExit (Some 0))"
proof -
  let ?sv = "sample_stamps ''none'' (Some ValueError)"
  have "run_rules ?sv 0 [''hotkey 1s failsafe''] = run_rules ?sv (0 + 1) []"
  proof (rule failing_stamp_passes)
    show "parse_rule (py_strip ''hotkey 1s failsafe'') =
        Some \<lparr>rl_stamp = ''hotkey'', rl_timeout = ''1s'', rl_mode = ''failsafe'', rl_options = []\<rparr>"
      by code_simp
    show "base_options \<lparr>rl_stamp = ''hotkey'', rl_timeout = ''1s'', rl_mode = ''failsafe'', rl_options = []\<rparr> =
        Inr [(''timeout'', OFloat (Fin 1)), (''failsafe'', OBool True)]"
      by code_simp
    show "run_stamp Hotkey sample_options (sv_input ?sv 0) = Some (Inl ValueError)" by code_simp
  qed (code_simp+)
  then show ?thesis by simp
qed

end
