(* ===== verification/Session.thy ===== *)
theory Session
  imports Rubberstamps
begin

text \<open>
  \<open>auth/session.py\<close>, \<open>auth/errors.py\<close> and \<open>auth/types.py\<close>: one login attempt. \<open>run\<close> loads the
  user's templates, builds the pipeline, opens the camera and looks at frames until a face is
  accepted (then the stamps decide), the time is up, the session is cancelled, or something
  raises. Its loop is a recursion over the turns it gets to take; \<open>None\<close> is a session still
  running when these are used up. What is printed for the user is left out.
\<close>

section \<open>Exit codes and statistics\<close>

datatype exit_code =
    SUCCESS | NO_FACE_MODEL | TIMEOUT_REACHED | ABORT | TOO_DARK | INVALID_DEVICE | RUBBERSTAMP
  | TEMPLATE_MODEL_MISMATCH

fun code :: "exit_code \<Rightarrow> int" where
  "code SUCCESS = 0"
| "code NO_FACE_MODEL = 10"
| "code TIMEOUT_REACHED = 11"
| "code ABORT = 12"
| "code TOO_DARK = 13"
| "code INVALID_DEVICE = 14"
| "code RUBBERSTAMP = 15"
| "code TEMPLATE_MODEL_MISMATCH = 16"

lemma code_inj: "code a = code b \<longleftrightarrow> a = b"
  by (cases a; cases b) auto

record stats =
  st_frames :: nat
  st_valid_frames :: nat
  st_dark_tries :: nat
  st_black_tries :: nat
  st_lowest_certainty :: pyfloat

definition init_stats :: stats where
  "init_stats = \<lparr>st_frames = 0, st_valid_frames = 0, st_dark_tries = 0, st_black_tries = 0,
     st_lowest_certainty = Fin 10\<rparr>"


section \<open>The surroundings\<close>

text \<open>
  The configuration as read (or the parser's exception), the stored templates, the loaders and
  the process-wide cache of pipelines, the camera and the image operations, the stamps, whether
  there is an observer, and whether writing a snapshot or the end report raises.
\<close>

record auth_env =
  ae_config :: "exn + config"
  ae_store :: store_env
  ae_fs :: fs
  ae_loaders :: loaders
  ae_cache :: pipeline_cache
  ae_numeric :: numeric
  ae_cv :: cv
  ae_camera :: "config \<Rightarrow> exn + camera"
  ae_stamps :: stamp_env
  ae_observed :: bool
  ae_snapshot :: "string \<Rightarrow> frame list \<Rightarrow> stats \<Rightarrow> exn + unit"
  ae_end_report :: "exn + unit"

text \<open>The options \<open>_run_loop\<close> reads before anything else.\<close>

record auth_options =
  ao_save_failed :: bool
  ao_save_successful :: bool
  ao_end_report :: bool
  ao_timeout :: int
  ao_certainty :: pyfloat

definition read_options :: "config \<Rightarrow> exn + auth_options" where
  "read_options c =
     bindE (cfg_boolean c ''snapshots'' ''save_failed'' False) (\<lambda>sf.
     bindE (cfg_boolean c ''snapshots'' ''save_successful'' False) (\<lambda>ss.
     bindE (cfg_boolean c ''debug'' ''end_report'' False) (\<lambda>er.
     bindE (cfg_int c ''video'' ''timeout'' 4) (\<lambda>tmo.
     bindE (cfg_float c ''video'' ''certainty'' (Fin (7/2))) (\<lambda>cert.
       Inr \<lparr>ao_save_failed = sf, ao_save_successful = ss, ao_end_report = er, ao_timeout = tmo,
            ao_certainty = fscale (1/10) cert\<rparr>)))))"

text \<open>
  \<open>_init_detector_async\<close>: the worker turns every \<open>Exception\<close> into an error text; what it does
  not catch leaves neither a bundle nor an error, and the caller fails on the missing bundle.
\<close>

definition init_detector :: "auth_env \<Rightarrow> config \<Rightarrow> pipeline_bundle option \<times> bool" where
  "init_detector env c = (case snd (create_pipeline (ae_loaders env) c (ae_cache env)) of
      Inr b \<Rightarrow> (Some b, False)
    | Inl e \<Rightarrow> (None, is_exception e))"


section \<open>One frame\<close>

text \<open>
  Matching the faces of a frame in order, up to the first accepted one: it, the lowest
  certainty so far, and the nearest distance in this frame.
\<close>

fun match_faces ::
    "numeric \<Rightarrow> pipeline \<Rightarrow> frame \<Rightarrow> face list \<Rightarrow> pyfloat \<Rightarrow> pyfloat option \<Rightarrow>
     exn + (face_match option \<times> pyfloat \<times> pyfloat option)" where
  "match_faces np p fr [] lowest best = Inr (None, lowest, best)"
| "match_faces np p fr (f # fs) lowest best =
     bindE (pl_match np p fr f) (\<lambda>m.
       let (lowest, best) =
         (if 0 \<le> fm_row m
          then (pymin lowest (fm_distance m),
                Some (case best of None \<Rightarrow> fm_distance m | Some b \<Rightarrow> pymin b (fm_distance m)))
          else (lowest, best))
       in if fm_accepted m then Inr (Some m, lowest, best)
          else match_faces np p fr fs lowest best)"

definition face_state :: "face list \<Rightarrow> face_match option \<Rightarrow> frame_state" where
  "face_state faces accepted =
     (if accepted \<noteq> None then MATCH
      else if faces = [] then NO_FACE
      else if 1 < length faces then MULTIPLE else FACE)"

text \<open>\<open>_run_rubberstamps_if_enabled\<close>: the code to return, if the stamps ran; \<open>None\<close> outside
  while a stamp still waits.\<close>

definition run_rubberstamps ::
    "auth_env \<Rightarrow> config \<Rightarrow> pipeline_bundle \<Rightarrow> (exn + int option) option" where
  "run_rubberstamps env c b = (case cfg_boolean c ''rubberstamps'' ''enabled'' False of
      Inl e \<Rightarrow> Some (Inl e)
    | Inr enabled \<Rightarrow>
        if \<not> enabled then Some (Inr None)
        else if \<not> b_legacy_face_detector b \<or> \<not> b_legacy_pose_predictor b
        then Some (Inr (Some (code RUBBERSTAMP)))
        else case execute (ae_stamps env) c of
          None \<Rightarrow> None
        | Some (SystemExit (Some n)) \<Rightarrow> Some (Inr (Some n))
        | Some (SystemExit None) \<Rightarrow> Some (Inr (Some (code RUBBERSTAMP)))
        | Some e \<Rightarrow> Some (Inl e))"

text \<open>The variables of the loop.\<close>

record loop_state =
  lp_stats :: stats
  lp_snapframes :: "frame list"
  lp_dark_total :: rat

definition init_loop :: loop_state where
  "init_loop = \<lparr>lp_stats = init_stats, lp_snapframes = [], lp_dark_total = 0\<rparr>"

text \<open>
  A turn ends with a code to return, an exception, the next turn, or in a stamp that waits.
\<close>

datatype turn_end = Return int | Raise exn | Next loop_state | Waits

text \<open>The head of the loop: the cancel event, then the clock.\<close>

definition check_timeout ::
    "auth_env \<Rightarrow> auth_options \<Rightarrow> loop_state \<Rightarrow> turn_end" where
  "check_timeout env ao lp =
     (case (if ao_save_failed ao then ae_snapshot env ''FAILED'' (lp_snapframes lp) (lp_stats lp)
            else Inr ()) of
        Inl e \<Rightarrow> Raise e
      | Inr _ \<Rightarrow>
          Return (if st_dark_tries (lp_stats lp) = st_valid_frames (lp_stats lp)
                  then code TOO_DARK else code TIMEOUT_REACHED))"

text \<open>After a face was accepted: the report, the snapshot, the stamps, and success.\<close>

definition accept ::
    "auth_env \<Rightarrow> config \<Rightarrow> auth_options \<Rightarrow> pipeline_bundle \<Rightarrow> loop_state \<Rightarrow> turn_end" where
  "accept env c ao b lp =
     (case bindE (if ao_end_report ao then ae_end_report env else Inr ()) (\<lambda>_.
             if ao_save_successful ao
             then ae_snapshot env ''SUCCESSFUL'' (lp_snapframes lp) (lp_stats lp) else Inr ()) of
        Inl e \<Rightarrow> Raise e
      | Inr _ \<Rightarrow>
          (case run_rubberstamps env c b of
             None \<Rightarrow> Waits
           | Some (Inl e) \<Rightarrow> Raise e
           | Some (Inr (Some n)) \<Rightarrow> Return n
           | Some (Inr None) \<Rightarrow> Return (code SUCCESS)))"

definition frame_report_of ::
    "captured_frame \<Rightarrow> tick \<Rightarrow> pyfloat \<Rightarrow> frame_state \<Rightarrow> face list \<Rightarrow> pyfloat option \<Rightarrow>
     pyfloat option \<Rightarrow> frame_report" where
  "frame_report_of cf tk threshold st faces distance certainty =
     \<lparr>rp_index = cf_index cf, rp_elapsed = tk_report_at tk, rp_state = st,
      rp_darkness = cf_darkness cf, rp_dark_threshold = threshold,
      rp_faces = normalized_boxes faces (cf_frame cf),
      rp_distance = map_option (fscale 10) distance,
      rp_certainty = map_option (fscale 10) certainty\<rparr>"

text \<open>Processing a usable frame.\<close>

definition search_frame ::
    "auth_env \<Rightarrow> config \<Rightarrow> auth_options \<Rightarrow> pipeline \<Rightarrow> pyfloat \<Rightarrow> tick \<Rightarrow> captured_frame \<Rightarrow>
     session \<Rightarrow> loop_state \<Rightarrow> session \<times> turn_end" where
  "search_frame env c ao p threshold tk cf s lp =
     (case bindE (pl_detect p (cf_gsframe cf)) (\<lambda>faces.
             bindE (match_faces (ae_numeric env) p (cf_frame cf) faces
                      (st_lowest_certainty (lp_stats lp)) None) (\<lambda>r. Inr (faces, r))) of
        Inl e \<Rightarrow> (s, Raise e)
      | Inr (faces, accepted, lowest, best) \<Rightarrow>
          let lp = lp\<lparr>lp_stats := (lp_stats lp)\<lparr>st_lowest_certainty := lowest\<rparr>\<rparr>;
              s = report (ae_observed env) tk
                    (frame_report_of cf tk threshold (face_state faces accepted) faces best
                       (Some (ao_certainty ao))) s
          in (s, if accepted \<noteq> None then accept env c ao (pl_bundle p) lp else Next lp))"

definition auth_turn ::
    "auth_env \<Rightarrow> config \<Rightarrow> auth_options \<Rightarrow> pipeline \<Rightarrow> pyfloat \<Rightarrow> tick \<Rightarrow>
     session \<Rightarrow> loop_state \<Rightarrow> session \<times> turn_end" where
  "auth_turn env c ao p threshold tk s lp =
     (let s = cancel_if (tk_cancel tk) s in
      if cancelled s then (s, Return (code TIMEOUT_REACHED))
      else
        let st = (lp_stats lp)\<lparr>st_frames := st_frames (lp_stats lp) + 1\<rparr>; lp = lp\<lparr>lp_stats := st\<rparr> in
        if of_int (ao_timeout ao) < tk_elapsed tk then (s, check_timeout env ao lp)
        else
          case session_read (ae_cv env) tk s of
            (s, Inl e) \<Rightarrow> (s, Raise e)
          | (s, Inr cf) \<Rightarrow>
              let s = cancel_if (tk_cancel_work tk) s;
                  lp = (if (ao_save_failed ao \<or> ao_save_successful ao) \<and> length (lp_snapframes lp) < 3
                        then lp\<lparr>lp_snapframes := lp_snapframes lp @ [cf_raw cf]\<rparr> else lp)
              in
              if cf_state cf = Some BLACK then
                (report (ae_observed env) tk (frame_report_of cf tk threshold BLACK [] None None) s,
                 Next (lp\<lparr>lp_stats := st\<lparr>st_black_tries := st_black_tries st + 1\<rparr>\<rparr>))
              else
                let st = st\<lparr>st_valid_frames := st_valid_frames st + 1\<rparr>;
                    lp = lp\<lparr>lp_dark_total := lp_dark_total lp + cf_darkness cf, lp_stats := st\<rparr>
                in
                if cf_state cf = Some DARK then
                  (report (ae_observed env) tk (frame_report_of cf tk threshold DARK [] None None) s,
                   Next (lp\<lparr>lp_stats := st\<lparr>st_dark_tries := st_dark_tries st + 1\<rparr>\<rparr>))
                else search_frame env c ao p threshold tk cf s lp)"

fun auth_loop ::
    "auth_env \<Rightarrow> config \<Rightarrow> auth_options \<Rightarrow> pipeline \<Rightarrow> pyfloat \<Rightarrow> tick list \<Rightarrow>
     session \<Rightarrow> loop_state \<Rightarrow> session \<times> (exn + int) option" where
  "auth_loop env c ao p threshold [] s lp = (s, None)"
| "auth_loop env c ao p threshold (tk # tks) s lp =
     (case auth_turn env c ao p threshold tk s lp of
        (s, Return n) \<Rightarrow> (s, Some (Inr n))
      | (s, Raise e) \<Rightarrow> (s, Some (Inl e))
      | (s, Waits) \<Rightarrow> (s, None)
      | (s, Next lp) \<Rightarrow> auth_loop env c ao p threshold tks s lp)"


section \<open>The session\<close>

text \<open>The \<open>finally\<close> block runs when the loop ends.\<close>

definition finish :: "session \<times> (exn + int) option \<Rightarrow> session \<times> (exn + int) option" where
  "finish r = (case r of (s, None) \<Rightarrow> (s, None) | (s, Some x) \<Rightarrow> (close_stream s, Some x))"

text \<open>\<open>exposure\<close> is read after the stream is open and before the \<open>try\<close> block.\<close>

definition run_loop ::
    "auth_env \<Rightarrow> config \<Rightarrow> template_set \<Rightarrow> tick list \<Rightarrow> session \<Rightarrow> session \<times> (exn + int) option" where
  "run_loop env c templates tks s = (case read_options c of
      Inl e \<Rightarrow> (s, Some (Inl e))
    | Inr ao \<Rightarrow>
        (case init_detector env c of
           (_, True) \<Rightarrow> (s, Some (Inr 1))
         | (None, False) \<Rightarrow> (s, Some (Inl AttributeError))
         | (Some b, False) \<Rightarrow>
             (case make_pipeline b templates (ao_certainty ao) of
                Inl e \<Rightarrow> (s, Some (if is_value_error e then Inr (code TEMPLATE_MODEL_MISMATCH) else Inl e))
              | Inr p \<Rightarrow>
                  (case make_stream c (ae_camera env) True of
                     Inl e \<Rightarrow> (s, Some (Inl e))
                   | Inr sm \<Rightarrow>
                       let s = open_stream sm s in
                       (case cfg_int c ''video'' ''exposure'' (-1) of
                          Inl e \<Rightarrow> (s, Some (Inl e))
                        | Inr _ \<Rightarrow>
                            finish (auth_loop env c ao p (sm_dark_threshold sm) tks s init_loop))))))"

definition run ::
    "auth_env \<Rightarrow> string \<Rightarrow> tick list \<Rightarrow> session \<Rightarrow> session \<times> (exn + int) option" where
  "run env user tks s =
     (if user = [] then (s, Some (Inr (code ABORT)))
      else case ae_config env of
        Inl e \<Rightarrow> (s, Some (Inl e))
      | Inr c \<Rightarrow>
          (case bindE (model_id_known c) (\<lambda>_. load (ae_store env) (ae_fs env) user (active_model_id c)) of
             Inl e \<Rightarrow> (s, Some (if e = TemplateSpaceMismatch then Inr (code TEMPLATE_MODEL_MISMATCH)
                            else if is_store_error e then Inr (code NO_FACE_MODEL) else Inl e))
           | Inr templates \<Rightarrow>
               (case cfg_boolean c ''debug'' ''gtk_stdout'' False of
                  Inl e \<Rightarrow> (s, Some (Inl e))
                | Inr _ \<Rightarrow> run_loop env c templates tks s)))"

end
