(* ===== verification/Session_Props.thy ===== *)
theory Session_Props
  imports Session Capture_Props Rubberstamps_Props
begin

text \<open>
  What a login attempt guarantees: success only for an accepted live face of the user (and
  stamps that let it pass), the camera let go of on every way out, an end within its timeout,
  and a \<open>TOO_DARK\<close> that means no frame could be searched.
\<close>

section \<open>One turn\<close>

lemma search_frame_session:
  "search_frame env c ao p thr tk cf s lp = (s', r) \<Longrightarrow> session_ok s \<Longrightarrow>
     session_ok s' \<and> exposed s' = exposed s"
  by (auto simp: search_frame_def Let_def split: sum.splits prod.splits)

lemma auth_turn_session:
  assumes "auth_turn env c ao p thr tk s lp = (s', r)" and "session_ok s"
  shows "session_ok s' \<and> exposed s' = exposed s"
proof -
  let ?s = "cancel_if (tk_cancel tk) s"
  have s0: "session_ok ?s" "exposed ?s = exposed s" using assms(2) by auto
  show ?thesis
  proof (cases "cancelled ?s \<or> of_int (ao_timeout ao) < tk_elapsed tk")
    case True
    with assms(1) s0 show ?thesis by (auto simp: auth_turn_def Let_def split: if_splits)
  next
    case False
    obtain s1 x where rd: "session_read (ae_cv env) tk ?s = (s1, x)" by fastforce
    from session_ok_read [OF s0(1) rd] s0(2)
    have s1: "session_ok (cancel_if b s1)" "exposed (cancel_if b s1) = exposed s" "session_ok s1"
      "exposed s1 = exposed s" for b by auto
    from assms(1) False rd s1 show ?thesis
      by (cases x)
         (auto simp: auth_turn_def Let_def split: if_splits dest!: search_frame_session)
  qed
qed

lemma auth_loop_session:
  "auth_loop env c ao p thr tks s lp = (s', r) \<Longrightarrow> session_ok s \<Longrightarrow> session_ok s' \<and> exposed s' = exposed s"
proof (induction tks arbitrary: s lp)
  case (Cons tk tks)
  obtain s1 t where turn: "auth_turn env c ao p thr tk s lp = (s1, t)" by fastforce
  from auth_turn_session [OF turn Cons.prems(2)] have s1: "session_ok s1" "exposed s1 = exposed s"
    by simp_all
  show ?case
  proof (cases t)
    case (Next lp')
    with Cons.prems(1) turn have "auth_loop env c ao p thr tks s1 lp' = (s', r)" by simp
    from Cons.IH [OF this s1(1)] s1(2) show ?thesis by simp
  qed (use Cons.prems turn s1 in auto)
qed simp


section \<open>Letting go of the camera\<close>

text \<open>A session that has not opened its camera yet; it may already be cancelled.\<close>

definition fresh :: "session \<Rightarrow> bool" where
  "fresh s \<longleftrightarrow> stream s = None \<and> \<not> exposed s"

lemma fresh_ok [simp]: "fresh s \<Longrightarrow> session_ok s \<and> closed s"
  by (simp add: fresh_def session_ok_def closed_def)

lemma run_loop_closed:
  assumes "run_loop env c ts tks s = (s', Some r)" and "fresh s"
    and "cfg_int c ''video'' ''exposure'' (-1) = Inr n"
  shows "closed s'"
proof (cases "s' = s")
  case False
  with assms obtain ao b p sm where
    sm: "make_stream c (ae_camera env) True = Inr sm"
    and fin: "finish (auth_loop env c ao p (sm_dark_threshold sm) tks (open_stream sm s) init_loop) = (s', Some r)"
    by (auto simp: run_loop_def Let_def split: sum.splits option.splits prod.splits bool.splits)
  obtain s1 r1 where lp: "auth_loop env c ao p (sm_dark_threshold sm) tks (open_stream sm s) init_loop = (s1, r1)"
    by fastforce
  from auth_loop_session [OF lp] have "session_ok s1"
    using stream_ok_make [OF sm] by (simp add: session_ok_open)
  moreover from fin lp have "s' = close_stream s1" by (auto simp: finish_def split: option.splits)
  ultimately show ?thesis by (simp add: closed_close)
qed (use assms(2) in simp)


text \<open>
  C32: a malformed \<open>exposure\<close> option breaks that: it raises after the camera has been opened and
  before the \<open>try\<close> block whose \<open>finally\<close> would release it, so the attempt ends in
  \<open>ValueError\<close> with the device still open.
\<close>

theorem exposure_leaks_camera:
  assumes "read_options c = Inr ao" and "snd (create_pipeline (ae_loaders env) c (ae_cache env)) = Inr b"
    and "make_pipeline b ts (ao_certainty ao) = Inr p" and "make_stream c (ae_camera env) True = Inr sm"
    and "cfg_int c ''video'' ''exposure'' (-1) = Inl e" and "\<not> cancelled s"
  shows "\<exists>s' sm'. run_loop env c ts tks s = (s', Some (Inl e)) \<and> stream s' = Some sm' \<and>
    \<not> sm_released sm' \<and> sm_closes sm' = 0"
  using assms stream_ok_make [OF assms(4)]
  by (auto simp: run_loop_def init_detector_def open_stream_def Let_def stream_ok_def)


section \<open>Ending\<close>

text \<open>A turn that must end the loop: another thread cancels before it, or the clock has run out.\<close>

definition final_tick :: "int \<Rightarrow> tick \<Rightarrow> bool" where
  "final_tick timeout tk \<longleftrightarrow> tk_cancel tk \<or> of_int timeout < tk_elapsed tk"

lemma stamps_end: "execute (ae_stamps env) c \<noteq> None \<Longrightarrow> run_rubberstamps env c b \<noteq> None"
  by (auto simp: run_rubberstamps_def split: sum.splits option.splits exn.splits)

lemma accept_ends: "execute (ae_stamps env) c \<noteq> None \<Longrightarrow> accept env c ao b lp \<noteq> Waits"
  using stamps_end [of env c b] by (auto simp: accept_def split: sum.splits option.splits)

lemma auth_turn_ends:
  assumes "execute (ae_stamps env) c \<noteq> None" and "auth_turn env c ao p thr tk s lp = (s', r)"
  shows "r \<noteq> Waits \<and> (final_tick (ao_timeout ao) tk \<longrightarrow> (\<forall>lp'. r \<noteq> Next lp'))"
  using assms(2) accept_ends [OF assms(1)]
  by (auto simp: auth_turn_def search_frame_def check_timeout_def Let_def final_tick_def
      split: if_splits sum.splits prod.splits)

lemma auth_loop_ends:
  "execute (ae_stamps env) c \<noteq> None \<Longrightarrow> \<exists>tk \<in> set tks. final_tick (ao_timeout ao) tk \<Longrightarrow>
     snd (auth_loop env c ao p thr tks s lp) \<noteq> None"
proof (induction tks arbitrary: s lp)
  case (Cons tk tks)
  obtain s1 t where turn: "auth_turn env c ao p thr tk s lp = (s1, t)" by fastforce
  show ?case
  proof (cases t)
    case (Next lp')
    with auth_turn_ends [OF Cons.prems(1) turn] Cons.prems(2)
    have "\<exists>tk \<in> set tks. final_tick (ao_timeout ao) tk" by auto
    from Cons.IH [OF Cons.prems(1) this] Next turn show ?thesis by simp
  next
    case Waits
    with auth_turn_ends [OF Cons.prems(1) turn] show ?thesis by simp
  qed (use turn in simp_all)
qed simp

text \<open>
  C30: a login attempt ends. As soon as one of its turns finds the clock past the configured
  timeout, or is preceded by a cancel, and unless a stamp waits forever, it has returned a code
  or raised.
\<close>

theorem auth_ends:
  assumes "\<exists>tk \<in> set tks. tk_cancel tk \<or> of_int n < tk_elapsed tk" and "ae_config env = Inr c"
    and "cfg_int c ''video'' ''timeout'' 4 = Inr n" and "execute (ae_stamps env) c \<noteq> None"
  shows "snd (run env user tks s) \<noteq> None"
proof -
  have "snd (run_loop env c ts tks s') \<noteq> None" for ts s'
  proof -
    have "snd (finish (auth_loop env c ao p thr tks s'' init_loop)) \<noteq> None"
      if "read_options c = Inr ao" for ao p thr s''
    proof -
      from that assms(3) have "ao_timeout ao = n" by (auto simp: read_options_def flow_simps)
      with assms(1) have "\<exists>tk \<in> set tks. final_tick (ao_timeout ao) tk" by (auto simp: final_tick_def)
      from auth_loop_ends [OF assms(4) this, of p thr s'' init_loop] show ?thesis
        by (auto simp: finish_def split: prod.splits option.splits)
    qed
    then show ?thesis
      by (auto simp: run_loop_def Let_def split: sum.splits option.splits prod.splits bool.splits)
  qed
  then show ?thesis using assms(2) by (auto simp: run_def split: sum.splits)
qed


section \<open>Success\<close>

lemma match_faces_accepted:
  "match_faces np p fr fs l b = Inr (Some m, l', b') \<Longrightarrow>
     \<exists>f \<in> set fs. pl_match np p fr f = Inr m \<and> fm_accepted m"
  by (induction fs arbitrary: l b) (auto simp: flow_simps Let_def split: if_splits)

text \<open>Some face in the frame of this turn was accepted.\<close>

definition accepting_tick :: "auth_env \<Rightarrow> pipeline \<Rightarrow> tick \<Rightarrow> bool" where
  "accepting_tick env p tk \<longleftrightarrow>
     (\<exists>sm cf faces f m. snd (stream_read (ae_cv env) (tk_read tk) sm) = Inr cf \<and> usable cf \<and>
        pl_detect p (cf_gsframe cf) = Inr faces \<and> f \<in> set faces \<and>
        pl_match (ae_numeric env) p (cf_frame cf) f = Inr m \<and> fm_accepted m)"

lemma session_read_Inr:
  "session_read cv tk s = (s', Inr cf) \<Longrightarrow> \<exists>sm. snd (stream_read cv (tk_read tk) sm) = Inr cf"
  by (auto simp: session_read_def split: option.splits prod.splits) (metis snd_conv)

lemma accept_zero:
  "accept env c ao b lp = Return 0 \<Longrightarrow>
     cfg_boolean c ''rubberstamps'' ''enabled'' False = Inr False \<or>
     (b_legacy_face_detector b \<and> b_legacy_pose_predictor b \<and>
      execute (ae_stamps env) c = Some (SystemExit (Some 0)))"
  by (auto simp: accept_def run_rubberstamps_def split: sum.splits option.splits if_splits exn.splits)

lemma read_state: "stream_read cv rf sm = (sm', Inr cf) \<Longrightarrow> cf_state cf \<in> {None, Some BLACK, Some DARK}"
  by (auto simp: stream_read_def Let_def split: sum.splits if_splits prod.splits)

lemma session_read_state:
  "session_read cv tk s = (s', Inr cf) \<Longrightarrow> cf_state cf \<in> {None, Some BLACK, Some DARK}"
  by (auto simp: session_read_def split: option.splits prod.splits dest: read_state)

lemma auth_turn_zero:
  assumes "auth_turn env c ao p thr tk s lp = (s', Return 0)"
  shows "\<not> cancelled s \<and> \<not> final_tick (ao_timeout ao) tk \<and> accepting_tick env p tk \<and>
    (cfg_boolean c ''rubberstamps'' ''enabled'' False = Inr False \<or>
     (b_legacy_face_detector (pl_bundle p) \<and> b_legacy_pose_predictor (pl_bundle p) \<and>
      execute (ae_stamps env) c = Some (SystemExit (Some 0))))"
proof -
  let ?s = "cancel_if (tk_cancel tk) s"
  from assms have nc: "\<not> cancelled ?s" "\<not> of_int (ao_timeout ao) < tk_elapsed tk"
    by (auto simp: auth_turn_def check_timeout_def Let_def split: if_splits sum.splits)
  obtain s1 x where rd: "session_read (ae_cv env) tk ?s = (s1, x)" by fastforce
  from assms nc rd obtain cf where x: "x = Inr cf"
    by (auto simp: auth_turn_def Let_def split: if_splits sum.splits)
  have st: "cf_state cf = None"
    using session_read_state [OF rd [unfolded x]] assms nc rd x by (auto simp: auth_turn_def Let_def)
  from assms nc rd x st obtain s2 lp2 where
    sf: "search_frame env c ao p thr tk cf s2 lp2 = (s', Return 0)"
    by (auto simp: auth_turn_def Let_def)
  then obtain faces m l b lp3 where f: "pl_detect p (cf_gsframe cf) = Inr faces"
    "match_faces (ae_numeric env) p (cf_frame cf) faces (st_lowest_certainty (lp_stats lp2)) None =
       Inr (Some m, l, b)"
    "accept env c ao (pl_bundle p) lp3 = Return 0"
    by (auto simp: search_frame_def flow_simps Let_def split: sum.splits if_splits)
  from session_read_Inr [OF rd [unfolded x]] f(1) match_faces_accepted [OF f(2)] st
  have "accepting_tick env p tk" unfolding accepting_tick_def usable_def by blast
  with nc accept_zero [OF f(3)] show ?thesis
    by (auto simp: final_tick_def cancel_if_def split: if_splits)
qed

lemma auth_loop_zero:
  "auth_loop env c ao p thr tks s lp = (s', Some (Inr 0)) \<Longrightarrow>
     \<not> cancelled s \<and>
     (\<exists>tk \<in> set tks. \<not> final_tick (ao_timeout ao) tk \<and> accepting_tick env p tk) \<and>
     (cfg_boolean c ''rubberstamps'' ''enabled'' False = Inr False \<or>
      (b_legacy_face_detector (pl_bundle p) \<and> b_legacy_pose_predictor (pl_bundle p) \<and>
       execute (ae_stamps env) c = Some (SystemExit (Some 0))))"
proof (induction tks arbitrary: s lp)
  case (Cons tk tks)
  obtain s1 t where turn: "auth_turn env c ao p thr tk s lp = (s1, t)" by fastforce
  show ?case
  proof (cases t)
    case (Return n)
    with Cons.prems turn have "n = 0" by simp
    from auth_turn_zero [OF turn [unfolded Return this]] show ?thesis by auto
  next
    case (Next lp')
    with turn have "\<not> cancelled s"
      by (auto simp: auth_turn_def Let_def cancel_if_def split: if_splits)
    moreover from Next turn Cons.prems have "auth_loop env c ao p thr tks s1 lp' = (s', Some (Inr 0))"
      by simp
    ultimately show ?thesis using Cons.IH [of s1 lp'] by auto
  qed (use Cons.prems turn in auto)
qed simp

text \<open>The parts of a run that reached its loop.\<close>

lemma run_reaches_loop:
  assumes "run env user tks s = (s', Some (Inr n))" and "n \<notin> {1, 10, 12, 16}"
  shows "\<exists>c ts b ao p sm s1. user \<noteq> [] \<and> ae_config env = Inr c \<and>
    load (ae_store env) (ae_fs env) user (active_model_id c) = Inr ts \<and>
    snd (create_pipeline (ae_loaders env) c (ae_cache env)) = Inr b \<and> read_options c = Inr ao \<and>
    make_pipeline b ts (ao_certainty ao) = Inr p \<and> make_stream c (ae_camera env) True = Inr sm \<and>
    auth_loop env c ao p (sm_dark_threshold sm) tks (open_stream sm s) init_loop = (s1, Some (Inr n))"
proof -
  from assms obtain c ts where u: "user \<noteq> []" and c: "ae_config env = Inr c"
    and ts: "load (ae_store env) (ae_fs env) user (active_model_id c) = Inr ts"
    and rl: "run_loop env c ts tks s = (s', Some (Inr n))"
    by (auto simp: run_def bindE_Inr_iff split: if_splits sum.splits)
  from rl assms(2) obtain ao b p sm where
    "read_options c = Inr ao" "init_detector env c = (Some b, False)"
    "make_pipeline b ts (ao_certainty ao) = Inr p" "make_stream c (ae_camera env) True = Inr sm"
    "finish (auth_loop env c ao p (sm_dark_threshold sm) tks (open_stream sm s) init_loop) = (s', Some (Inr n))"
    by (auto simp: run_loop_def Let_def split: sum.splits option.splits prod.splits bool.splits if_splits)
  with u c ts show ?thesis
    by (auto simp: init_detector_def finish_def split: sum.splits prod.splits option.splits)
qed

text \<open>What a successful attempt has seen.\<close>

definition seen_user :: "auth_env \<Rightarrow> string \<Rightarrow> tick list \<Rightarrow> session \<Rightarrow> bool" where
  "seen_user env user tks s \<longleftrightarrow> (\<exists>c ts b ao. user \<noteq> [] \<and> \<not> cancelled s \<and> ae_config env = Inr c \<and> read_options c = Inr ao \<and>
    load (ae_store env) (ae_fs env) user (active_model_id c) = Inr ts \<and>
    snd (create_pipeline (ae_loaders env) c (ae_cache env)) = Inr b \<and> b_model_id b = active_model_id c \<and>
    (\<exists>tk \<in> set tks. \<not> tk_cancel tk \<and> tk_elapsed tk \<le> of_int (ao_timeout ao) \<and>
       (\<exists>sm cf faces f q d. snd (stream_read (ae_cv env) (tk_read tk) sm) = Inr cf \<and> usable cf \<and>
          b_detect b (cf_gsframe cf) = Inr faces \<and> f \<in> set faces \<and>
          face_accepted (ae_numeric env) ts b (ao_certainty ao) (cf_frame cf) f q d)) \<and>
    (cfg_boolean c ''rubberstamps'' ''enabled'' False = Inr False \<or>
     (b_legacy_face_detector b \<and> b_legacy_pose_predictor b \<and>
      execute (ae_stamps env) c = Some (SystemExit (Some 0)))))"

lemma run_zero_sound:
  assumes "run env user tks s = (s', Some (Inr 0))" and "argmin_law (ae_numeric env)"
  shows "seen_user env user tks s"
proof -
  from run_reaches_loop [OF assms(1)] obtain c ts b ao p sm s1 where
    r: "user \<noteq> []" "ae_config env = Inr c" "read_options c = Inr ao"
      "snd (create_pipeline (ae_loaders env) c (ae_cache env)) = Inr b"
    and ts: "load (ae_store env) (ae_fs env) user (active_model_id c) = Inr ts"
    and p: "make_pipeline b ts (ao_certainty ao) = Inr p"
    and lp: "auth_loop env c ao p (sm_dark_threshold sm) tks (open_stream sm s) init_loop = (s1, Some (Inr 0))"
    by auto
  from p have pb: "pl_bundle p = b" and sp: "ts_model_id ts = b_model_id b"
    by (auto simp: make_pipeline_def split: if_splits)
  from auth_loop_zero [OF lp] have nc: "\<not> cancelled s"
    by (auto simp: open_stream_def release_stream_def Let_def split: if_splits)
  from auth_loop_zero [OF lp] obtain tk sm' cf faces f m where tk: "tk \<in> set tks"
    "\<not> final_tick (ao_timeout ao) tk" "snd (stream_read (ae_cv env) (tk_read tk) sm') = Inr cf"
    "usable cf" "pl_detect p (cf_gsframe cf) = Inr faces" "f \<in> set faces"
    "pl_match (ae_numeric env) p (cf_frame cf) f = Inr m" "fm_accepted m"
    by (auto simp: accepting_tick_def)
  from accepted_face [OF assms(2) ts p tk(7,8)] obtain q d where
    "face_accepted (ae_numeric env) ts b (ao_certainty ao) (cf_frame cf) f q d" by blast
  with tk have "\<exists>tk \<in> set tks. \<not> tk_cancel tk \<and> tk_elapsed tk \<le> of_int (ao_timeout ao) \<and>
       (\<exists>sm cf faces f q d. snd (stream_read (ae_cv env) (tk_read tk) sm) = Inr cf \<and> usable cf \<and>
          b_detect b (cf_gsframe cf) = Inr faces \<and> f \<in> set faces \<and>
          face_accepted (ae_numeric env) ts b (ao_certainty ao) (cf_frame cf) f q d)"
    unfolding final_tick_def pl_detect_def pb
    by (intro bexI [of _ tk] conjI exI [of _ sm'] exI [of _ cf] exI [of _ faces] exI [of _ f]
        exI [of _ q] exI [of _ d]) auto
  moreover have "b_model_id b = active_model_id c" using load_space [OF ts] sp by simp
  ultimately show ?thesis unfolding seen_user_def using r ts nc auth_loop_zero [OF lp] unfolding pb by blast
qed



section \<open>Too dark\<close>

text \<open>A turn that shows a frame, and the frame cannot be searched.\<close>

definition unsearchable :: "auth_env \<Rightarrow> tick \<Rightarrow> bool" where
  "unsearchable env tk \<longleftrightarrow>
     (\<exists>sm cf. snd (stream_read (ae_cv env) (tk_read tk) sm) = Inr cf \<and> \<not> usable cf)"

text \<open>How many frames were searched so far.\<close>

definition searched :: "loop_state \<Rightarrow> int" where
  "searched lp = int (st_valid_frames (lp_stats lp)) - int (st_dark_tries (lp_stats lp))"

lemma auth_turn_next:
  assumes "auth_turn env c ao p thr tk s lp = (s', Next lp')"
  shows "(unsearchable env tk \<and> searched lp' = searched lp) \<or> searched lp' = searched lp + 1"
proof -
  let ?s = "cancel_if (tk_cancel tk) s"
  from assms have nc: "\<not> cancelled ?s" "\<not> of_int (ao_timeout ao) < tk_elapsed tk"
    by (auto simp: auth_turn_def check_timeout_def Let_def split: if_splits sum.splits)
  obtain s1 x where rd: "session_read (ae_cv env) tk ?s = (s1, x)" by fastforce
  from assms nc rd obtain cf where x: "x = Inr cf"
    by (auto simp: auth_turn_def Let_def split: if_splits sum.splits)
  from session_read_Inr [OF rd [unfolded x]] have un: "cf_state cf \<noteq> None \<Longrightarrow> unsearchable env tk"
    by (auto simp: unsearchable_def usable_def)
  from assms nc rd x un show ?thesis
    using session_read_state [OF rd [unfolded x]]
    by (auto simp: auth_turn_def search_frame_def accept_def searched_def Let_def
        split: if_splits sum.splits option.splits)
qed

lemma auth_turn_dark:
  assumes "auth_turn env c ao p thr tk s lp = (s', Return (code TOO_DARK))"
    and "run_rubberstamps env c (pl_bundle p) \<noteq> Some (Inr (Some (code TOO_DARK)))"
  shows "searched lp = 0 \<and> of_int (ao_timeout ao) < tk_elapsed tk"
  using assms
  by (auto simp: auth_turn_def search_frame_def accept_def check_timeout_def searched_def Let_def
      split: if_splits sum.splits option.splits prod.splits)

lemma auth_loop_dark:
  assumes "auth_loop env c ao p thr tks s lp = (s', Some (Inr (code TOO_DARK)))" and "0 \<le> searched lp"
    and "run_rubberstamps env c (pl_bundle p) \<noteq> Some (Inr (Some (code TOO_DARK)))"
  shows "searched lp = 0 \<and> (\<exists>k < length tks. of_int (ao_timeout ao) < tk_elapsed (tks ! k) \<and>
    (\<forall>i < k. unsearchable env (tks ! i)))"
  using assms
proof (induction tks arbitrary: s lp)
  case (Cons tk tks)
  obtain s1 t where turn: "auth_turn env c ao p thr tk s lp = (s1, t)" by fastforce
  show ?case
  proof (cases t)
    case (Return n)
    with Cons.prems(1) turn have "n = code TOO_DARK" by simp
    from auth_turn_dark [OF turn [unfolded Return this] Cons.prems(3)] show ?thesis
      by (auto intro!: exI [of _ 0])
  next
    case (Next lp')
    note stp = auth_turn_next [OF turn [unfolded Next]]
    from Next turn Cons.prems(1) have
      "auth_loop env c ao p thr tks s1 lp' = (s', Some (Inr (code TOO_DARK)))" by simp
    from Cons.IH [OF this _ Cons.prems(3)] stp Cons.prems(2) obtain k where
      "searched lp' = 0" "k < length tks" "of_int (ao_timeout ao) < tk_elapsed (tks ! k)"
      "\<forall>i < k. unsearchable env (tks ! i)"
      by auto
    moreover from this stp Cons.prems(2) have "unsearchable env tk" "searched lp = 0" by auto
    moreover have "unsearchable env ((tk # tks) ! i)" if "i < Suc k" for i
      using that calculation by (cases i) auto
    ultimately show ?thesis by (auto intro!: exI [of _ "Suc k"])
  qed (use Cons.prems turn in auto)
qed simp

text \<open>
  \<open>TOO_DARK\<close> is the truth. If a login attempt without stamps ends with that code, its
  timeout ran out and no frame read before could be searched: each was black or too dark.
\<close>

theorem too_dark_sound:
  assumes "run env user tks s = (s', Some (Inr (code TOO_DARK)))" and "ae_config env = Inr c"
    and "cfg_boolean c ''rubberstamps'' ''enabled'' False = Inr False"
    and "cfg_int c ''video'' ''timeout'' 4 = Inr n"
  shows "\<exists>k < length tks. of_int n < tk_elapsed (tks ! k) \<and> (\<forall>i < k. unsearchable env (tks ! i))"
proof -
  from run_reaches_loop [OF assms(1)] assms(2) obtain ao p sm s1 where
    ao: "read_options c = Inr ao" and
    lp: "auth_loop env c ao p (sm_dark_threshold sm) tks (open_stream sm s) init_loop =
      (s1, Some (Inr (code TOO_DARK)))"
    by auto
  have "run_rubberstamps env c (pl_bundle p) \<noteq> Some (Inr (Some (code TOO_DARK)))"
    using assms(3) by (simp add: run_rubberstamps_def)
  from auth_loop_dark [OF lp _ this] have
    "\<exists>k < length tks. of_int (ao_timeout ao) < tk_elapsed (tks ! k) \<and> (\<forall>i < k. unsearchable env (tks ! i))"
    by (simp add: searched_def init_loop_def init_stats_def)
  moreover have "ao_timeout ao = n" using ao assms(4) by (auto simp: read_options_def flow_simps)
  ultimately show ?thesis by simp
qed


section \<open>Witnesses\<close>

text \<open>
  A user with one stored encoding, a cached pipeline whose recognizer returns a fixed one near
  it, default configuration, and a camera whose first frame is dark.
\<close>

definition login_fs :: fs where
  "login_fs = empty_fs\<lparr>files := [path_for sample_env ''al'' \<mapsto>
     \<lparr>f_content = Document (store_payload 5 [sample_template 3 LEGACY_MODEL_ID]),
      f_mode = 384, f_uid = 0, f_gid = 0\<rparr>]\<rparr>"

definition login_bundle :: pipeline_bundle where
  "login_bundle = (sample_bundle 1)\<lparr>b_model_id := LEGACY_MODEL_ID,
     b_embed := (\<lambda>_ _. make_embedding \<lparr>nd_shape = [1], nd_data = [Fin (5/4)]\<rparr> LEGACY_MODEL_ID 1)\<rparr>"

definition default_config :: config where
  "default_config = (\<lambda>_ _. None)"

definition login_env :: "config \<Rightarrow> auth_env" where
  "login_env c = \<lparr>ae_config = Inr c, ae_store = sample_env, ae_fs = login_fs, ae_loaders = sample_loaders,
     ae_cache = [(''dlib'', False) \<mapsto> login_bundle], ae_numeric = sample_numeric, ae_cv = sample_cv,
     ae_camera = (\<lambda>_. Inr \<lparr>cam_width = 640, cam_height = 320\<rparr>), ae_stamps = sample_stamps ''none'' None,
     ae_observed = True, ae_snapshot = (\<lambda>_ _ _. Inr ()), ae_end_report = Inr ()\<rparr>"

definition sample_tick :: "rat \<Rightarrow> frame \<Rightarrow> tick" where
  "sample_tick t f = \<lparr>tk_cancel = False, tk_elapsed = t, tk_cancel_read = False, tk_read = Inr (f, f),
     tk_cancel_work = False, tk_report_at = t, tk_observer_raises = False\<rparr>"

definition login_ticks :: "tick list" where
  "login_ticks = [sample_tick 1 dark_frame, sample_tick 2 sample_frame]"

definition night_ticks :: "tick list" where
  "night_ticks = [sample_tick 1 dark_frame, sample_tick 5 sample_frame]"

lemma login_ok: "snd (run (login_env default_config) ''al'' login_ticks new_session) = Some (Inr 0)"
  by code_simp

lemma login_dark: "snd (run (login_env default_config) ''al'' night_ticks new_session) = Some (Inr (code TOO_DARK))"
  by code_simp

lemma login_env_simps [simp]:
  "ae_config (login_env c) = Inr c" "ae_numeric (login_env c) = sample_numeric"
  "cfg_int default_config s opt d = Inr d" "cfg_boolean default_config s opt b = Inr b"
  by (simp_all add: login_env_def default_config_def cfg_int_def cfg_boolean_def)

lemma fresh_new [simp]: "fresh new_session"
  by (simp add: fresh_def new_session_def)



definition bad_exposure :: config where
  "bad_exposure sec opt = (if sec = ''video'' \<and> opt = ''exposure'' then Some (Inr ''auto'') else None)"

theorem exposure_leaks_camera_witness:
  "\<exists>s' sm'. snd s' = Some (Inl ValueError) \<and> stream (fst s') = Some sm' \<and> \<not> sm_released sm' \<and>
    s' = run_loop (login_env bad_exposure) bad_exposure (sample_set\<lparr>ts_model_id := LEGACY_MODEL_ID\<rparr>) [] new_session"
proof -
  let ?ao = "\<lparr>ao_save_failed = False, ao_save_successful = False, ao_end_report = False, ao_timeout = 4,
    ao_certainty = Fin (7/20)\<rparr>"
  let ?ts = "sample_set\<lparr>ts_model_id := LEGACY_MODEL_ID\<rparr>"
  have o: "read_options bad_exposure = Inr ?ao"
    by (simp add: read_options_def bad_exposure_def cfg_boolean_def cfg_int_def cfg_float_def)
  have b: "snd (create_pipeline (ae_loaders (login_env bad_exposure)) bad_exposure (ae_cache (login_env bad_exposure)))
      = Inr login_bundle"
    by (simp add: create_pipeline_def cache_key_def backend_of_def cfg_get_def cfg_boolean_def bad_exposure_def
        login_env_def py_strip_def py_lower_def lower_char_def is_py_space_def)
  have p: "make_pipeline login_bundle ?ts (ao_certainty ?ao) =
      Inr \<lparr>pl_bundle = login_bundle, pl_templates = ?ts, pl_threshold = Fin (7/20)\<rparr>"
    by (simp add: make_pipeline_def login_bundle_def)
  have sm: "make_stream bad_exposure (ae_camera (login_env bad_exposure)) True =
      Inr (sample_stream\<lparr>sm_native_height := 320\<rparr>)"
    by (simp add: make_stream_def bad_exposure_def cfg_int_def cfg_float_def login_env_def sample_stream_def Let_def)
  have e: "cfg_int bad_exposure ''video'' ''exposure'' (-1) = Inl ValueError"
    by code_simp
  have "\<not> cancelled new_session" by (simp add: new_session_def)
  from exposure_leaks_camera [OF o b p sm e this, of "[]"] obtain s' sm' where
    "run_loop (login_env bad_exposure) bad_exposure ?ts [] new_session = (s', Some (Inl ValueError))"
    "stream s' = Some sm'" "\<not> sm_released sm'"
    by blast
  then show ?thesis
    by (intro exI [of _ "(s', Some (Inl ValueError))"] exI [of _ sm']) simp
qed

theorem auth_ends_witness: "snd (run (login_env default_config) ''al'' [sample_tick 5 dark_frame] new_session) \<noteq> None"
proof (rule auth_ends [where c = default_config and n = 4])
  show "execute (ae_stamps (login_env default_config)) default_config \<noteq> None"
    by (simp add: execute_def default_config_def cfg_boolean_def)
qed (simp_all add: sample_tick_def)

theorem too_dark_sound_witness: "\<exists>k < length night_ticks. 4 < tk_elapsed (night_ticks ! k) \<and>
    (\<forall>i < k. unsearchable (login_env default_config) (night_ticks ! i))"
  using too_dark_sound [OF pair_of_snd [OF login_dark], of default_config 4] by simp

end
