(* ===== verification/Enrollment.thy ===== *)
theory Enrollment
  imports Capture
begin

text \<open>
  \<open>auth/enrollment.py\<close>: capturing one face and storing it. The capture looks at no more than
  \<open>max_frames\<close> frames; nothing is written unless it succeeds and the session is not cancelled.
\<close>

datatype enroll_result =
    E_SUCCESS | E_NO_FACE | E_MULTIPLE_FACES | E_TOO_DARK | E_BLACK_FRAMES | E_MODEL_MISMATCH
  | E_CANCELLED

fun enroll_value :: "enroll_result \<Rightarrow> string" where
  "enroll_value E_SUCCESS = ''success''"
| "enroll_value E_NO_FACE = ''no_face''"
| "enroll_value E_MULTIPLE_FACES = ''multiple_faces''"
| "enroll_value E_TOO_DARK = ''too_dark''"
| "enroll_value E_BLACK_FRAMES = ''black_frames''"
| "enroll_value E_MODEL_MISMATCH = ''model_mismatch''"
| "enroll_value E_CANCELLED = ''cancelled''"

definition MAX_FRAMES :: nat where "MAX_FRAMES = 60"

record enroll_outcome =
  eo_result :: enroll_result
  eo_embedding :: "embedding option"
  eo_template :: "template option"
  eo_valid_frames :: nat
  eo_dark_tries :: nat
  eo_avg_darkness :: rat

text \<open>\<open>EnrollOutcome(result)\<close> with the defaults of the other fields.\<close>

definition bare_outcome :: "enroll_result \<Rightarrow> enroll_outcome" where
  "bare_outcome r = \<lparr>eo_result = r, eo_embedding = None, eo_template = None, eo_valid_frames = 0,
     eo_dark_tries = 0, eo_avg_darkness = 0\<rparr>"

record enroll_env =
  ee_config :: config
  ee_bundle :: pipeline_bundle
  ee_cv :: cv
  ee_camera :: "config \<Rightarrow> exn + camera"
  ee_observed :: bool
  ee_max_frames :: nat
  ee_store :: store_env

text \<open>The variables of the capture loop, and how a turn ends it.\<close>

record enroll_state =
  es_valid_frames :: nat
  es_dark_tries :: nat
  es_dark_total :: rat
  es_saw_multiple :: bool

definition init_enroll :: enroll_state where
  "init_enroll = \<lparr>es_valid_frames = 0, es_dark_tries = 0, es_dark_total = 0, es_saw_multiple = False\<rparr>"

datatype enroll_turn_end = E_Stop | E_Raise exn | E_Found face frame enroll_state | E_Next enroll_state

definition enroll_report ::
    "enroll_env \<Rightarrow> tick \<Rightarrow> pyfloat \<Rightarrow> captured_frame \<Rightarrow> frame_state \<Rightarrow> face list \<Rightarrow> session \<Rightarrow> session" where
  "enroll_report env tk threshold cf st faces s =
     report (ee_observed env) tk
       \<lparr>rp_index = cf_index cf, rp_elapsed = tk_report_at tk, rp_state = st,
        rp_darkness = cf_darkness cf, rp_dark_threshold = threshold,
        rp_faces = normalized_boxes faces (cf_frame cf), rp_distance = None, rp_certainty = None\<rparr> s"

text \<open>\<open>except (Exception, SystemExit)\<close> around the read.\<close>

definition read_handler :: "exn \<Rightarrow> bool" where
  "read_handler e \<longleftrightarrow> (case e of SystemExit _ \<Rightarrow> True | _ \<Rightarrow> is_exception e)"

definition enroll_turn ::
    "enroll_env \<Rightarrow> pyfloat \<Rightarrow> tick \<Rightarrow> session \<Rightarrow> enroll_state \<Rightarrow> session \<times> enroll_turn_end" where
  "enroll_turn env threshold tk s st =
     (let s = cancel_if (tk_cancel tk) s in
      if cancelled s then (s, E_Stop)
      else
        case session_read (ee_cv env) tk s of
          (s, Inl e) \<Rightarrow> (s, if read_handler e \<and> cancelled s then E_Stop else E_Raise e)
        | (s, Inr cf) \<Rightarrow>
            let s = cancel_if (tk_cancel_work tk) s in
            if cf_state cf = Some BLACK then
              (enroll_report env tk threshold cf BLACK [] s, E_Next st)
            else
              let st = st\<lparr>es_dark_total := es_dark_total st + cf_darkness cf,
                          es_valid_frames := es_valid_frames st + 1\<rparr>
              in
              if cf_state cf = Some DARK then
                (enroll_report env tk threshold cf DARK [] s,
                 E_Next (st\<lparr>es_dark_tries := es_dark_tries st + 1\<rparr>))
              else
                case b_detect (ee_bundle env) (cf_gsframe cf) of
                  Inl e \<Rightarrow> (s, E_Raise e)
                | Inr faces \<Rightarrow>
                    let state = (if faces = [] then NO_FACE
                                 else if 1 < length faces then MULTIPLE else FACE);
                        s = enroll_report env tk threshold cf state faces s
                    in if length faces = 1 then (s, E_Found (hd faces) (cf_frame cf) st)
                       else (s, E_Next (st\<lparr>es_saw_multiple :=
                              (es_saw_multiple st \<or> 1 < length faces)\<rparr>)))"

text \<open>
  The outcome once the loop is over, with the face found, if any. Embedding it may raise.
\<close>

definition enroll_verdict ::
    "enroll_env \<Rightarrow> session \<Rightarrow> (face \<times> frame) option \<Rightarrow> enroll_state \<Rightarrow> exn + enroll_outcome" where
  "enroll_verdict env s found st =
     (if cancelled s then Inr (bare_outcome E_CANCELLED)
      else
        let stats = (\<lambda>r. (bare_outcome r)\<lparr>eo_valid_frames := es_valid_frames st,
              eo_dark_tries := es_dark_tries st,
              eo_avg_darkness := (if es_valid_frames st = 0 then 0
                                  else es_dark_total st / of_nat (es_valid_frames st))\<rparr>)
        in case found of
          None \<Rightarrow>
            Inr (stats (if es_saw_multiple st then E_MULTIPLE_FACES
                        else if es_valid_frames st = 0 then E_BLACK_FRAMES
                        else if es_valid_frames st = es_dark_tries st then E_TOO_DARK
                        else E_NO_FACE))
        | Some (f, fr) \<Rightarrow>
            bindE (b_embed (ee_bundle env) fr f) (\<lambda>e.
              Inr ((stats E_SUCCESS)\<lparr>eo_embedding := Some e\<rparr>)))"

fun enroll_loop ::
    "enroll_env \<Rightarrow> pyfloat \<Rightarrow> nat \<Rightarrow> tick list \<Rightarrow> session \<Rightarrow> enroll_state \<Rightarrow>
     session \<times> (exn + enroll_outcome) option" where
  "enroll_loop env threshold 0 tks s st = (s, Some (enroll_verdict env s None st))"
| "enroll_loop env threshold (Suc n) [] s st = (s, None)"
| "enroll_loop env threshold (Suc n) (tk # tks) s st =
     (case enroll_turn env threshold tk s st of
        (s, E_Stop) \<Rightarrow> (s, Some (Inr (bare_outcome E_CANCELLED)))
      | (s, E_Raise e) \<Rightarrow> (s, Some (Inl e))
      | (s, E_Found f fr st) \<Rightarrow> (s, Some (enroll_verdict env s (Some (f, fr)) st))
      | (s, E_Next st) \<Rightarrow> enroll_loop env threshold n tks s st)"

text \<open>
  \<open>capture(settle_s)\<close>: \<open>settle_cancel\<close> says whether another thread cancels while the session
  waits for the user to get ready.
\<close>

definition enroll_capture ::
    "enroll_env \<Rightarrow> rat \<Rightarrow> bool \<Rightarrow> tick list \<Rightarrow> session \<Rightarrow> session \<times> (exn + enroll_outcome) option" where
  "enroll_capture env settle settle_cancel tks s =
     (case make_stream (ee_config env) (ee_camera env) False of
        Inl e \<Rightarrow> (s, Some (Inl e))
      | Inr sm \<Rightarrow>
          let s = open_stream sm s;
              s = cancel_if (0 < settle \<and> settle_cancel) s
          in if 0 < settle \<and> cancelled s
             then (close_stream s, Some (Inr (bare_outcome E_CANCELLED)))
             else case enroll_loop env (sm_dark_threshold sm) (ee_max_frames env) tks s init_enroll of
               (s, None) \<Rightarrow> (s, None)
             | (s, Some r) \<Rightarrow> (close_stream s, Some r))"

text \<open>
  \<open>run\<close>: \<open>late_cancel\<close> is a cancel by another thread between the end of the capture and the
  check before the write; \<open>now\<close> is the time of the write.
\<close>

definition enroll_run ::
    "enroll_env \<Rightarrow> string \<Rightarrow> string \<Rightarrow> bool \<Rightarrow> tick list \<Rightarrow> bool \<Rightarrow> int \<Rightarrow> session \<Rightarrow> fs \<Rightarrow>
     session \<times> fs \<times> (exn + enroll_outcome) option" where
  "enroll_run env user label replace tks late_cancel now s fs =
     (let model_id = active_model_id (ee_config env) in
      case model_id_known (ee_config env) of Inl e \<Rightarrow> (s, fs, Some (Inl e)) | Inr _ \<Rightarrow>
      if b_model_id (ee_bundle env) \<noteq> model_id
      then (s, fs, Some (Inr (bare_outcome E_MODEL_MISMATCH)))
      else
        case enroll_capture env 0 False tks s of
          (s, None) \<Rightarrow> (s, fs, None)
        | (s, Some (Inl e)) \<Rightarrow> (s, fs, Some (Inl e))
        | (s, Some (Inr out)) \<Rightarrow>
            if eo_result out \<noteq> E_SUCCESS then (s, fs, Some (Inr out))
            else
              let s = cancel_if late_cancel s in
              if cancelled s then (s, fs, Some (Inr (bare_outcome E_CANCELLED)))
              else
                case (if replace then replace_space else append) (ee_store env) user model_id label
                       (e_vector (the (eo_embedding out))) None now fs of
                  (fs, Inl e) \<Rightarrow> (s, fs, Some (Inl e))
                | (fs, Inr t) \<Rightarrow> (s, fs, Some (Inr (out\<lparr>eo_template := Some t\<rparr>))))"

end
