(* ===== verification/Probe.thy ===== *)
theory Probe
  imports Enrollment
begin

text \<open>
  \<open>auth/recognition_probe.py\<close>: matching every frame for a while and reporting the distances,
  without any effect on files. It ends when its duration is over or it is cancelled.
\<close>

datatype probe_result = COMPLETED | NO_MODELS | MODEL_MISMATCH | CANCELLED

fun probe_value :: "probe_result \<Rightarrow> string" where
  "probe_value COMPLETED = ''completed''"
| "probe_value NO_MODELS = ''no_models''"
| "probe_value MODEL_MISMATCH = ''model_mismatch''"
| "probe_value CANCELLED = ''cancelled''"

record probe_outcome =
  po_result :: probe_result
  po_frames :: nat
  po_matched_frames :: nat
  po_best_distance :: "pyfloat option"

definition bare_probe :: "probe_result \<Rightarrow> probe_outcome" where
  "bare_probe r = \<lparr>po_result = r, po_frames = 0, po_matched_frames = 0, po_best_distance = None\<rparr>"

record probe_env =
  pe_config :: config
  pe_bundle :: pipeline_bundle
  pe_numeric :: numeric
  pe_cv :: cv
  pe_camera :: "config \<Rightarrow> exn + camera"
  pe_observed :: bool
  pe_duration :: rat
  pe_store :: store_env

record probe_state =
  ps_frames :: nat
  ps_matched_frames :: nat
  ps_best :: "pyfloat option"

definition init_probe :: probe_state where
  "init_probe = \<lparr>ps_frames = 0, ps_matched_frames = 0, ps_best = None\<rparr>"

text \<open>The running minimum of \<open>min(best, distance)\<close>.\<close>

definition nearer :: "pyfloat option \<Rightarrow> pyfloat \<Rightarrow> pyfloat option" where
  "nearer best d = Some (case best of None \<Rightarrow> d | Some b \<Rightarrow> pymin b d)"

text \<open>All faces of a frame: the nearest distance and whether any was accepted.\<close>

fun probe_faces ::
    "numeric \<Rightarrow> pipeline \<Rightarrow> frame \<Rightarrow> face list \<Rightarrow> pyfloat option \<Rightarrow> bool \<Rightarrow>
     exn + (pyfloat option \<times> bool)" where
  "probe_faces np p fr [] best accepted = Inr (best, accepted)"
| "probe_faces np p fr (f # fs) best accepted =
     bindE (pl_match np p fr f) (\<lambda>m.
       probe_faces np p fr fs (if 0 \<le> fm_row m then nearer best (fm_distance m) else best)
         (accepted \<or> fm_accepted m))"

definition probe_face_state :: "face list \<Rightarrow> bool \<Rightarrow> frame_state" where
  "probe_face_state faces accepted =
     (if accepted then MATCH else if faces = [] then NO_FACE
      else if 1 < length faces then MULTIPLE else FACE)"

definition probe_report ::
    "probe_env \<Rightarrow> tick \<Rightarrow> pyfloat \<Rightarrow> captured_frame \<Rightarrow> frame_state \<Rightarrow> face list \<Rightarrow> pyfloat option \<Rightarrow>
     pyfloat option \<Rightarrow> session \<Rightarrow> session" where
  "probe_report env tk threshold cf st faces distance certainty s =
     report (pe_observed env) tk
       \<lparr>rp_index = cf_index cf, rp_elapsed = tk_report_at tk, rp_state = st,
        rp_darkness = cf_darkness cf, rp_dark_threshold = threshold,
        rp_faces = normalized_boxes faces (cf_frame cf),
        rp_distance = map_option (fscale 10) distance,
        rp_certainty = map_option (fscale 10) certainty\<rparr> s"

datatype probe_turn_end = P_Stop probe_state | P_Raise exn | P_Next probe_state

definition probe_turn ::
    "probe_env \<Rightarrow> pipeline \<Rightarrow> pyfloat \<Rightarrow> tick \<Rightarrow> session \<Rightarrow> probe_state \<Rightarrow> session \<times> probe_turn_end" where
  "probe_turn env p threshold tk s st =
     (if \<not> tk_elapsed tk < pe_duration env then (cancel_if (tk_cancel tk) s, P_Stop st)
      else
        let s = cancel_if (tk_cancel tk) s in
        if cancelled s then (s, P_Stop st)
        else
          case session_read (pe_cv env) tk s of
            (s, Inl e) \<Rightarrow> (s, if read_handler e \<and> cancelled s then P_Stop st else P_Raise e)
          | (s, Inr cf) \<Rightarrow>
              let s = cancel_if (tk_cancel_work tk) s;
                  st = st\<lparr>ps_frames := ps_frames st + 1\<rparr>
              in
              (case cf_state cf of
                 Some state \<Rightarrow> (probe_report env tk threshold cf state [] None None s, P_Next st)
               | None \<Rightarrow>
                   (case bindE (pl_detect p (cf_gsframe cf)) (\<lambda>faces.
                           bindE (probe_faces (pe_numeric env) p (cf_frame cf) faces None False)
                             (\<lambda>r. Inr (faces, r))) of
                      Inl e \<Rightarrow> (s, P_Raise e)
                    | Inr (faces, frame_best, accepted) \<Rightarrow>
                        (probe_report env tk threshold cf (probe_face_state faces accepted) faces
                           frame_best (Some (pl_threshold p)) s,
                         P_Next (st\<lparr>ps_matched_frames := ps_matched_frames st + (if accepted then 1 else 0),
                                    ps_best := (case frame_best of None \<Rightarrow> ps_best st
                                                | Some d \<Rightarrow> nearer (ps_best st) d)\<rparr>)))))"

definition probe_verdict :: "session \<Rightarrow> probe_state \<Rightarrow> probe_outcome" where
  "probe_verdict s st =
     \<lparr>po_result = (if cancelled s then CANCELLED else COMPLETED), po_frames = ps_frames st,
      po_matched_frames = ps_matched_frames st, po_best_distance = map_option (fscale 10) (ps_best st)\<rparr>"

fun probe_loop ::
    "probe_env \<Rightarrow> pipeline \<Rightarrow> pyfloat \<Rightarrow> tick list \<Rightarrow> session \<Rightarrow> probe_state \<Rightarrow>
     session \<times> (exn + probe_outcome) option" where
  "probe_loop env p threshold [] s st = (s, None)"
| "probe_loop env p threshold (tk # tks) s st =
     (case probe_turn env p threshold tk s st of
        (s, P_Stop st) \<Rightarrow> (s, Some (Inr (probe_verdict s st)))
      | (s, P_Raise e) \<Rightarrow> (s, Some (Inl e))
      | (s, P_Next st) \<Rightarrow> probe_loop env p threshold tks s st)"

definition probe_run ::
    "probe_env \<Rightarrow> string \<Rightarrow> tick list \<Rightarrow> session \<Rightarrow> fs \<Rightarrow> session \<times> (exn + probe_outcome) option" where
  "probe_run env user tks s fs =
     (case bindE (model_id_known (pe_config env)) (\<lambda>_. load (pe_store env) fs user (active_model_id (pe_config env))) of
        Inl e \<Rightarrow> (s, Some (if e = TemplateSpaceMismatch then Inr (bare_probe MODEL_MISMATCH)
                       else if is_store_error e then Inr (bare_probe NO_MODELS) else Inl e))
      | Inr templates \<Rightarrow>
          (case cfg_float (pe_config env) ''video'' ''certainty'' (Fin (7/2)) of
             Inl e \<Rightarrow> (s, Some (Inl e))
           | Inr certainty \<Rightarrow>
               (case make_pipeline (pe_bundle env) templates (fscale (1/10) certainty) of
                  Inl e \<Rightarrow> (s, Some (if is_value_error e then Inr (bare_probe MODEL_MISMATCH) else Inl e))
                | Inr p \<Rightarrow>
                    (case make_stream (pe_config env) (pe_camera env) True of
                       Inl e \<Rightarrow> (s, Some (Inl e))
                     | Inr sm \<Rightarrow>
                         (case probe_loop env p (sm_dark_threshold sm) tks (open_stream sm s) init_probe of
                            (s, None) \<Rightarrow> (s, None)
                          | (s, Some r) \<Rightarrow> (close_stream s, Some r))))))"

end
