(* ===== verification/Enrollment_Props.thy ===== *)
theory Enrollment_Props
  imports Enrollment Probe Session_Props
begin

text \<open>
  An enrollment writes exactly when it succeeds, from a frame with exactly one face, and lets go
  of the camera; the test session has no effect but its reports.
\<close>

section \<open>Enrollment turns\<close>

lemma enroll_report_session [simp]:
  "exposed (enroll_report env tk th cf st fs s) = exposed s"
  "session_ok s \<Longrightarrow> session_ok (enroll_report env tk th cf st fs s)"
  "cancelled s \<Longrightarrow> cancelled (enroll_report env tk th cf st fs s)"
  by (auto simp: enroll_report_def)

text \<open>What the frame of a turn shows: the frames the loop would find in it one face.\<close>

definition frame_shows :: "enroll_env \<Rightarrow> tick \<Rightarrow> face list \<Rightarrow> frame \<Rightarrow> bool" where
  "frame_shows env tk faces fr \<longleftrightarrow>
     (\<exists>sm cf. snd (stream_read (ee_cv env) (tk_read tk) sm) = Inr cf \<and> usable cf \<and> cf_frame cf = fr \<and>
        b_detect (ee_bundle env) (cf_gsframe cf) = Inr faces)"

lemma enroll_turn_cases:
  assumes "enroll_turn env th tk s st = (s', r)" and "session_ok s"
  shows "session_ok s' \<and> exposed s' = exposed s \<and> (cancelled s \<longrightarrow> r = E_Stop) \<and>
    (\<forall>f fr st'. r = E_Found f fr st' \<longrightarrow> frame_shows env tk [f] fr)"
proof -
  let ?s = "cancel_if (tk_cancel tk) s"
  have s0: "session_ok ?s" "exposed ?s = exposed s" using assms(2) by auto
  show ?thesis
  proof (cases "cancelled ?s")
    case True
    with assms(1) s0 show ?thesis by (auto simp: enroll_turn_def Let_def)
  next
    case False
    obtain s1 x where rd: "session_read (ee_cv env) tk ?s = (s1, x)" by fastforce
    note rs = session_ok_read [OF s0(1) rd]
    show ?thesis
    proof (cases x)
      case (Inl e)
      have "\<not> cancelled s" using False by (auto simp: cancel_if_def split: if_splits)
      with Inl assms(1) False rd rs s0 show ?thesis
        by (auto simp: enroll_turn_def Let_def split: if_splits)
    next
      case (Inr cf)
      have s1: "session_ok (cancel_if b s1)" "exposed (cancel_if b s1) = exposed s" for b
        using rs s0(2) by auto
      obtain sm where sm: "snd (stream_read (ee_cv env) (tk_read tk) sm) = Inr cf"
        using session_read_Inr [OF rd [unfolded Inr]] by blast
      have sh: "cf_state cf = None \<Longrightarrow> b_detect (ee_bundle env) (cf_gsframe cf) = Inr faces \<Longrightarrow>
          length faces = 1 \<Longrightarrow> frame_shows env tk [hd faces] (cf_frame cf)" for faces
        using sm by (cases faces) (auto simp: frame_shows_def usable_def)
      have nc: "\<not> cancelled s" using False by (auto simp: cancel_if_def split: if_splits)
      from assms(1) False rd Inr s1 sh nc session_read_state [OF rd [unfolded Inr]] show ?thesis
        by (auto simp: enroll_turn_def Let_def split: if_splits sum.splits)
    qed
  qed
qed

lemma enroll_verdict_success:
  "enroll_verdict env s found st = Inr out \<Longrightarrow> eo_result out = E_SUCCESS \<Longrightarrow>
     \<not> cancelled s \<and> (\<exists>f fr e. found = Some (f, fr) \<and> b_embed (ee_bundle env) fr f = Inr e \<and>
       eo_embedding out = Some e \<and> eo_template out = None)"
  by (auto simp: enroll_verdict_def bare_outcome_def Let_def flow_simps split: if_splits option.splits)

lemma enroll_loop_sound:
  assumes "enroll_loop env th n tks s st = (s', r)" and "session_ok s"
  shows "session_ok s' \<and> exposed s' = exposed s \<and>
    (\<forall>out. r = Some (Inr out) \<longrightarrow> eo_result out = E_SUCCESS \<longrightarrow>
       \<not> cancelled s \<and> \<not> cancelled s' \<and>
       (\<exists>k f fr e. k < n \<and> k < length tks \<and> frame_shows env (tks ! k) [f] fr \<and>
          b_embed (ee_bundle env) fr f = Inr e \<and> eo_embedding out = Some e \<and> eo_template out = None))"
  using assms
proof (induction env th n tks s st rule: enroll_loop.induct)
  case (1 env th tks s st)
  then show ?case by (auto dest: enroll_verdict_success)
next
  case (3 env th n tk tks s st)
  obtain s1 t where turn: "enroll_turn env th tk s st = (s1, t)" by fastforce
  note c = enroll_turn_cases [OF turn 3(3)]
  show ?case
  proof (cases t)
    case (E_Next st')
    from 3(2) turn E_Next have "enroll_loop env th n tks s1 st' = (s', r)" by simp
    from 3(1) [OF turn [symmetric] E_Next this] c E_Next show ?thesis by fastforce
  next
    case (E_Found f fr st')
    with 3(2) turn have "s' = s1" "r = Some (enroll_verdict env s1 (Some (f, fr)) st')" by auto
    with c E_Found show ?thesis
      by (auto dest!: enroll_verdict_success intro!: exI [of _ 0] exI [of _ f] exI [of _ fr])
  qed (use 3(2) turn c in \<open>auto simp: bare_outcome_def\<close>)
qed simp

lemma enroll_loop_ends: "n \<le> length tks \<Longrightarrow> snd (enroll_loop env th n tks s st) \<noteq> None"
proof (induction env th n tks s st rule: enroll_loop.induct)
  case (3 env th n tk tks s st)
  obtain s1 t where turn: "enroll_turn env th tk s st = (s1, t)" by fastforce
  show ?case
  proof (cases t)
    case (E_Next st')
    from 3(1) [OF turn [symmetric] this] 3(2) turn E_Next show ?thesis by simp
  qed (use turn in auto)
qed auto


section \<open>The capture\<close>

lemma fresh_open: "fresh s \<Longrightarrow> stream_ok sm \<Longrightarrow>
    session_ok (open_stream sm s) \<and> (cancelled (open_stream sm s) \<longleftrightarrow> cancelled s)"
  by (auto simp: session_ok_open) (auto simp: open_stream_def release_stream_def Let_def split: if_splits)

lemma enroll_capture_sound:
  assumes "enroll_capture env settle sc tks s = (s', Some r)" and "fresh s"
  shows "closed s' \<and> (\<forall>out. r = Inr out \<longrightarrow> eo_result out = E_SUCCESS \<longrightarrow>
     \<not> cancelled s \<and> \<not> cancelled s' \<and>
     (\<exists>k f fr e. k < ee_max_frames env \<and> k < length tks \<and> frame_shows env (tks ! k) [f] fr \<and>
        b_embed (ee_bundle env) fr f = Inr e \<and> eo_embedding out = Some e \<and> eo_template out = None))"
proof (cases "make_stream (ee_config env) (ee_camera env) False")
  case (Inl e)
  with assms show ?thesis by (auto simp: enroll_capture_def)
next
  case (Inr sm)
  let ?s = "cancel_if (0 < settle \<and> sc) (open_stream sm s)"
  have ok: "session_ok ?s" "cancelled s \<Longrightarrow> cancelled ?s"
    using fresh_open [OF assms(2)] stream_ok_make [OF Inr] by auto
  show ?thesis
  proof (cases "0 < settle \<and> cancelled ?s")
    case True
    with assms(1) Inr have "s' = close_stream ?s" "r = Inr (bare_outcome E_CANCELLED)"
      by (auto simp: enroll_capture_def Let_def)
    with ok closed_close show ?thesis by (auto simp: bare_outcome_def)
  next
    case False
    obtain s1 x where lp: "enroll_loop env (sm_dark_threshold sm) (ee_max_frames env) tks ?s init_enroll = (s1, x)"
      by fastforce
    from assms(1) Inr False lp have s': "s' = close_stream s1" "x = Some r"
      by (auto simp: enroll_capture_def Let_def split: option.splits)
    have "cancelled s' = cancelled s1" unfolding s' by (simp add: close_stream_def release_stream_def)
    with enroll_loop_sound [OF lp ok(1)] s' closed_close ok(2) show ?thesis by blast
  qed
qed

lemma closed_cancel_if: "closed s \<Longrightarrow> closed (cancel_if b s)"
  by (cases "stream s") (auto simp: closed_def cancel_def cancel_if_def Let_def)

lemma store_failed_files:
  assumes "store_inv env fs" and "(if replace then replace_space else append) env user m label vs tm now fs = (fs', Inl e)"
  shows "files fs' = files fs"
  using assms(2) unfolding append_def replace_space_def
  by (auto simp: flow_simps Let_def split: if_splits dest: save_Inl [OF _ assms(1)])

text \<open>How an enrollment comes to its end: without a capture that succeeded, or by what follows it.\<close>

lemma enroll_run_cases:
  assumes "enroll_run env user label replace tks late now s fs = (s', fs', Some r)"
  obtains (early) "s' = s" "fs' = fs" "\<forall>out. r = Inr out \<longrightarrow> eo_result out \<noteq> E_SUCCESS"
  | (unfinished) x where "enroll_capture env 0 False tks s = (s', Some x)" "fs' = fs" "r = x"
      "\<forall>out. x = Inr out \<longrightarrow> eo_result out \<noteq> E_SUCCESS"
  | (captured) s1 out where "enroll_capture env 0 False tks s = (s1, Some (Inr out))" "eo_result out = E_SUCCESS"
      "s' = cancel_if late s1 \<and>
       (if cancelled s' then fs' = fs \<and> (\<exists>o'. r = Inr o' \<and> eo_result o' \<noteq> E_SUCCESS)
        else case (if replace then replace_space else append) (ee_store env) user (active_model_id (ee_config env)) label
              (e_vector (the (eo_embedding out))) None now fs of
            (fs1, y) \<Rightarrow> fs' = fs1 \<and> r = (case y of Inl e \<Rightarrow> Inl e | Inr t \<Rightarrow> Inr (out\<lparr>eo_template := Some t\<rparr>)))"
proof (cases "model_id_known (ee_config env) = Inr () \<and> b_model_id (ee_bundle env) = active_model_id (ee_config env)")
  case False
  then show ?thesis using assms early by (auto simp: enroll_run_def Let_def bare_outcome_def split: sum.splits)
next
  case True
  then obtain s1 x where cap: "enroll_capture env 0 False tks s = (s1, Some x)"
    using assms by (cases "enroll_capture env 0 False tks s"; cases "snd (enroll_capture env 0 False tks s)")
      (auto simp: enroll_run_def Let_def)
  show ?thesis
  proof (cases "\<exists>out. x = Inr out \<and> eo_result out = E_SUCCESS")
    case False
    then show ?thesis using assms True cap by (intro unfinished [of x]; cases x) (auto simp: enroll_run_def Let_def)
  next
    case succ: True
    then obtain out where out: "x = Inr out" "eo_result out = E_SUCCESS" by blast
    show ?thesis
      using assms True cap out
      by (intro captured [of s1 out]) (auto simp: enroll_run_def Let_def bare_outcome_def split: if_splits prod.splits sum.splits)
  qed
qed



text \<open>What the outcome of a capture says of the frames it looked at.\<close>

definition one_face :: "enroll_env \<Rightarrow> tick \<Rightarrow> bool" where
  "one_face env tk \<longleftrightarrow> (\<exists>f fr. frame_shows env tk [f] fr)"

definition lit :: "enroll_env \<Rightarrow> tick \<Rightarrow> bool" where
  "lit env tk \<longleftrightarrow> (\<exists>sm cf. snd (stream_read (ee_cv env) (tk_read tk) sm) = Inr cf \<and> cf_state cf \<noteq> Some BLACK)"

definition crowded :: "enroll_env \<Rightarrow> tick \<Rightarrow> bool" where
  "crowded env tk \<longleftrightarrow> (\<exists>faces fr. frame_shows env tk faces fr \<and> 1 < length faces)"

definition searchable :: "enroll_env \<Rightarrow> tick \<Rightarrow> bool" where
  "searchable env tk \<longleftrightarrow> (\<exists>sm cf. snd (stream_read (ee_cv env) (tk_read tk) sm) = Inr cf \<and> usable cf)"

text \<open>The counters of the loop against the frames behind it.\<close>

definition counts :: "enroll_env \<Rightarrow> tick list \<Rightarrow> enroll_state \<Rightarrow> bool" where
  "counts env seen st \<longleftrightarrow> es_dark_tries st \<le> es_valid_frames st \<and>
     (es_saw_multiple st \<longrightarrow> (\<exists>tk \<in> set seen. crowded env tk)) \<and>
     (0 < es_valid_frames st \<longrightarrow> (\<exists>tk \<in> set seen. lit env tk)) \<and>
     (es_dark_tries st < es_valid_frames st \<longrightarrow> (\<exists>tk \<in> set seen. searchable env tk))"

lemma enroll_turn_counts:
  assumes "enroll_turn env th tk s st = (s', E_Next st')" and "counts env seen st"
  shows "counts env (seen @ [tk]) st'"
proof -
  let ?s = "cancel_if (tk_cancel tk) s"
  from assms(1) have nc: "\<not> cancelled ?s" by (auto simp: enroll_turn_def Let_def)
  obtain s1 x where rd: "session_read (ee_cv env) tk ?s = (s1, x)" by fastforce
  with assms(1) nc obtain cf where x: "x = Inr cf"
    by (cases x) (auto simp: enroll_turn_def Let_def split: if_splits)
  obtain sm where sm: "snd (stream_read (ee_cv env) (tk_read tk) sm) = Inr cf"
    using session_read_Inr [OF rd [unfolded x]] by blast
  have l: "cf_state cf \<noteq> Some BLACK \<Longrightarrow> lit env tk" using sm by (auto simp: lit_def)
  have u: "cf_state cf = None \<Longrightarrow> searchable env tk" using sm by (auto simp: searchable_def usable_def)
  have cr: "cf_state cf = None \<Longrightarrow> b_detect (ee_bundle env) (cf_gsframe cf) = Inr faces \<Longrightarrow>
      1 < length faces \<Longrightarrow> crowded env tk" for faces
    using sm by (auto simp: crowded_def frame_shows_def usable_def)
  from assms nc rd x l u cr session_read_state [OF rd [unfolded x]] show ?thesis
    by (auto simp: enroll_turn_def Let_def counts_def split: if_splits sum.splits)
qed

definition explained :: "enroll_env \<Rightarrow> tick list \<Rightarrow> enroll_outcome \<Rightarrow> bool" where
  "explained env seen out \<longleftrightarrow> (case eo_result out of
      E_SUCCESS \<Rightarrow> \<exists>tk \<in> set seen. one_face env tk
    | E_MULTIPLE_FACES \<Rightarrow> \<exists>tk \<in> set seen. crowded env tk
    | E_NO_FACE \<Rightarrow> \<exists>tk \<in> set seen. searchable env tk
    | E_TOO_DARK \<Rightarrow> 0 < eo_valid_frames out \<and> eo_dark_tries out = eo_valid_frames out \<and>
        (\<exists>tk \<in> set seen. lit env tk)
    | E_BLACK_FRAMES \<Rightarrow> eo_valid_frames out = 0
    | E_CANCELLED \<Rightarrow> True
    | E_MODEL_MISMATCH \<Rightarrow> False)"

lemma verdict_explained:
  assumes "enroll_verdict env s found st = Inr out" and "counts env seen st"
    and "\<And>f fr. found = Some (f, fr) \<Longrightarrow> \<exists>tk \<in> set seen. one_face env tk"
  shows "explained env seen out"
proof (cases found)
  case None
  with assms(1,2) show ?thesis
    by (auto simp: enroll_verdict_def explained_def bare_outcome_def counts_def Let_def split: if_splits)
next
  case (Some p)
  then obtain f fr where found: "found = Some (f, fr)" by (cases p) auto
  from assms(3) [OF this] obtain tk where "tk \<in> set seen" "one_face env tk" by blast
  with assms(1) found show ?thesis
    by (auto simp: enroll_verdict_def explained_def bare_outcome_def Let_def flow_simps split: if_splits)
qed

lemma enroll_loop_explained:
  assumes "enroll_loop env th n tks s st = (s', Some (Inr out))" and "session_ok s" and "counts env seen st"
  shows "explained env (seen @ take n tks) out"
  using assms
proof (induction env th n tks s st arbitrary: seen rule: enroll_loop.induct)
  case (1 env th tks s st)
  then show ?case by (auto intro: verdict_explained)
next
  case (3 env th n tk tks s st)
  obtain s1 t where turn: "enroll_turn env th tk s st = (s1, t)" by fastforce
  note c = enroll_turn_cases [OF turn 3(3)]
  show ?case
  proof (cases t)
    case (E_Next st')
    from 3(2) turn E_Next have "enroll_loop env th n tks s1 st' = (s', Some (Inr out))" by simp
    from 3(1) [OF turn [symmetric] E_Next this _ enroll_turn_counts [OF turn [unfolded E_Next] 3(4)]] c
    show ?thesis by simp
  next
    case (E_Found f fr st')
    with 3(2) turn have v: "enroll_verdict env s1 (Some (f, fr)) st' = Inr out" by auto
    have one: "one_face env tk" using c E_Found by (auto simp: one_face_def)
    have "explained env (seen @ tk # take n tks) out"
      using v one
      by (auto simp: enroll_verdict_def explained_def bare_outcome_def Let_def flow_simps split: if_splits)
    then show ?thesis by simp
  qed (use 3(2) turn in \<open>auto simp: explained_def bare_outcome_def\<close>)
qed simp

text \<open>
  A capture ends after at most \<open>max_frames\<close> frames, and its outcome is true of them: success
  means a frame with exactly one face, \<open>multiple_faces\<close> one with more, \<open>no_face\<close> one that was
  searched, \<open>too_dark\<close> that some were lit and all of those too dark, \<open>black_frames\<close> that none was.
\<close>

theorem enroll_capture_explained:
  assumes "ee_max_frames env \<le> length tks" and "fresh s"
  shows "\<exists>s' r. enroll_capture env 0 False tks s = (s', Some r) \<and>
    (case r of Inl e \<Rightarrow> True | Inr out \<Rightarrow> explained env (take (ee_max_frames env) tks) out)"
proof (cases "make_stream (ee_config env) (ee_camera env) False")
  case (Inl e)
  then show ?thesis by (simp add: enroll_capture_def)
next
  case (Inr sm)
  let ?s = "open_stream sm s"
  obtain s1 x where lp: "enroll_loop env (sm_dark_threshold sm) (ee_max_frames env) tks ?s init_enroll = (s1, x)"
    by fastforce
  with enroll_loop_ends [OF assms(1), of env "sm_dark_threshold sm" ?s init_enroll] obtain r where
    x: "x = Some r" by auto
  have "counts env [] init_enroll" by (simp add: counts_def init_enroll_def)
  from enroll_loop_explained [OF _ _ this] fresh_open [OF assms(2)] stream_ok_make [OF Inr] lp x
  have "\<forall>out. r = Inr out \<longrightarrow> explained env (take (ee_max_frames env) tks) out" by force
  moreover have "enroll_capture env 0 False tks s = (close_stream s1, Some r)"
    using Inr lp x by (simp add: enroll_capture_def Let_def)
  ultimately show ?thesis by (auto split: sum.splits)
qed


section \<open>The test session\<close>

lemma probe_turn_session:
  assumes "probe_turn env p th tk s st = (s', r)" and "session_ok s" and "ps_matched_frames st \<le> ps_frames st"
  shows "session_ok s' \<and>
    (case r of P_Stop st' \<Rightarrow> st' = st \<and> (cancelled s' \<or> pe_duration env \<le> tk_elapsed tk)
     | P_Raise e \<Rightarrow> True
     | P_Next st' \<Rightarrow> ps_matched_frames st' \<le> ps_frames st' \<and> ps_frames st' = ps_frames st + 1)"
proof -
  let ?s = "cancel_if (tk_cancel tk) s"
  have s0: "session_ok ?s" using assms(2) by auto
  show ?thesis
  proof (cases "\<not> tk_elapsed tk < pe_duration env \<or> cancelled ?s")
    case True
    with assms(1) s0 show ?thesis by (auto simp: probe_turn_def Let_def split: if_splits)
  next
    case False
    obtain s1 x where rd: "session_read (pe_cv env) tk ?s = (s1, x)" by fastforce
    from session_ok_read [OF s0 rd] have s1: "session_ok s1" "session_ok (cancel_if b s1)" for b by auto
    from assms(1,3) False rd s1 show ?thesis
      by (cases x)
         (auto simp: probe_turn_def probe_report_def Let_def split: if_splits sum.splits option.splits)
  qed
qed

text \<open>The clock or a cancel stops the probe.\<close>

lemma probe_loop_sound:
  assumes "probe_loop env p th tks s st = (s', Some r)" and "session_ok s"
    and "ps_matched_frames st \<le> ps_frames st"
  shows "session_ok s' \<and> (\<forall>out. r = Inr out \<longrightarrow>
     po_matched_frames out \<le> po_frames out \<and> po_frames out < ps_frames st + length tks \<and>
     (po_result out = CANCELLED \<longrightarrow> cancelled s') \<and>
     (po_result out = COMPLETED \<longrightarrow> \<not> cancelled s' \<and> (\<exists>tk \<in> set tks. pe_duration env \<le> tk_elapsed tk)))"
  using assms
proof (induction tks arbitrary: s st)
  case (Cons tk tks)
  obtain s1 t where turn: "probe_turn env p th tk s st = (s1, t)" by fastforce
  note c = probe_turn_session [OF turn Cons.prems(2,3)]
  show ?case
  proof (cases t)
    case (P_Next st')
    from Cons.prems(1) turn P_Next have "probe_loop env p th tks s1 st' = (s', Some r)" by simp
    from Cons.IH [OF this] c P_Next show ?thesis by auto
  next
    case (P_Stop st')
    with Cons.prems turn c show ?thesis by (auto simp: probe_verdict_def split: if_splits)
  qed (use Cons.prems turn c in auto)
qed simp

lemma probe_loop_ends:
  "\<exists>tk \<in> set tks. tk_cancel tk \<or> pe_duration env \<le> tk_elapsed tk \<Longrightarrow> snd (probe_loop env p th tks s st) \<noteq> None"
proof (induction tks arbitrary: s st)
  case (Cons tk tks)
  obtain s1 t where turn: "probe_turn env p th tk s st = (s1, t)" by fastforce
  show ?case
  proof (cases t)
    case (P_Next st')
    with turn have "\<not> (tk_cancel tk \<or> pe_duration env \<le> tk_elapsed tk)"
      by (auto simp: probe_turn_def Let_def split: if_splits)
    with Cons P_Next turn show ?thesis by auto
  qed (use turn in auto)
qed simp

text \<open>A recognition test that ends before its loop, or with it.\<close>

lemma probe_run_cases:
  assumes "probe_run env user tks s fs = (s', r)"
  obtains (unstarted) x where "s' = s" "r = Some x" "\<forall>out. x = Inr out \<longrightarrow> out = bare_probe MODEL_MISMATCH \<or> out = bare_probe NO_MODELS"
  | (looped) sm p s1 x where "make_stream (pe_config env) (pe_camera env) True = Inr sm"
      "probe_loop env p (sm_dark_threshold sm) tks (open_stream sm s) init_probe = (s1, x)"
      "(s', r) = (case x of None \<Rightarrow> (s1, None) | Some y \<Rightarrow> (close_stream s1, Some y))"
  using assms
  by (auto simp: probe_run_def split: sum.splits prod.splits option.splits if_splits)



section \<open>Witnesses\<close>

definition enroll_sample :: enroll_env where
  "enroll_sample = \<lparr>ee_config = default_config, ee_bundle = login_bundle, ee_cv = sample_cv,
     ee_camera = (\<lambda>_. Inr \<lparr>cam_width = 640, cam_height = 320\<rparr>), ee_observed = True, ee_max_frames = 2,
     ee_store = sample_env\<rparr>"

definition new_template :: template where
  "new_template = \<lparr>t_id = 5, t_label = ''desk'', t_created = 9, t_model_id = LEGACY_MODEL_ID,
     t_embeddings = [[Fin (5/4)]]\<rparr>"

definition enrolled :: enroll_outcome where
  "enrolled = \<lparr>eo_result = E_SUCCESS,
     eo_embedding = Some \<lparr>e_vector = \<lparr>nd_shape = [1], nd_data = [Fin (5/4)]\<rparr>, e_model_id = LEGACY_MODEL_ID, e_dim = 1\<rparr>,
     eo_template = Some new_template, eo_valid_frames = 2, eo_dark_tries = 1, eo_avg_darkness = 75 / 2\<rparr>"

lemma enroll_ok: "snd (snd (enroll_run enroll_sample ''al'' ''desk'' False login_ticks False 9 new_session login_fs))
    = Some (Inr enrolled)"
  by code_simp

lemma login_fs_inv: "store_inv sample_env login_fs"
  by (rule sample_inv) (simp add: login_fs_def empty_fs_def sample_path)


theorem enroll_capture_explained_witness:
  "\<exists>s' r. enroll_capture enroll_sample 0 False login_ticks new_session = (s', Some r)"
  using enroll_capture_explained [OF _ fresh_new, of enroll_sample login_ticks]
  by (auto simp: enroll_sample_def login_ticks_def)

definition probe_sample :: probe_env where
  "probe_sample = \<lparr>pe_config = default_config, pe_bundle = login_bundle, pe_numeric = sample_numeric,
     pe_cv = sample_cv, pe_camera = (\<lambda>_. Inr \<lparr>cam_width = 640, cam_height = 320\<rparr>), pe_observed = True,
     pe_duration = 15, pe_store = sample_env\<rparr>"

definition probe_ticks :: "tick list" where
  "probe_ticks = [sample_tick 1 sample_frame, sample_tick 16 dark_frame]"

lemma probe_ok: "snd (probe_run probe_sample ''al'' probe_ticks new_session login_fs) =
    Some (Inr \<lparr>po_result = COMPLETED, po_frames = 1, po_matched_frames = 1, po_best_distance = Some (Fin (5/2))\<rparr>)"
  by code_simp


end
