(* ===== verification/Manage.thy ===== *)
theory Manage
  imports Access Protocol Enrollment Probe
begin

text \<open>
  \<open>authd/manage.py\<close>: the v2 requests of the GUI. \<open>handle\<close> validates, checks who asks for whom,
  lists or changes the models or runs a camera session, and answers with one \<open>result\<close>.
\<close>

section \<open>Surroundings and state\<close>

text \<open>
  What a request finds: the users, the JSON codec, the store, the configuration, the loaders,
  the camera and the libraries; whether the models lock and the camera are granted within their
  waits (the arbiter is \<open>Camera\<close>), whether a login called \<open>cancel\<close> on what the arbiter holds,
  the turns of the session, the time of a write, and for the frame events the time and the
  encoded preview of each.
\<close>

record manage_env =
  me_getpwnam :: passwd
  me_codec :: codec
  me_store :: store_env
  me_config :: "exn + config"
  me_loaders :: loaders
  me_numeric :: numeric
  me_cv :: cv
  me_camera :: "config \<Rightarrow> exn + camera"
  me_lock_granted :: bool
  me_camera_granted :: bool
  me_preempted :: bool
  me_ticks :: "tick list"
  me_late_cancel :: bool
  me_now :: int
  me_frame_time :: "nat \<Rightarrow> rat"
  me_preview :: "nat \<Rightarrow> string option"

text \<open>The connection, the files, the pipeline cache, and what the request holds.\<close>

record manage_state =
  ms_conn :: conn
  ms_fs :: fs
  ms_cache :: pipeline_cache
  ms_lock :: bool
  ms_camera :: bool

text \<open>Outcome of a step: \<open>None\<close> while a session still runs.\<close>

type_synonym 'a manage_result = "manage_state \<times> (exn + 'a) option"

definition PREVIEW_INTERVAL :: rat where "PREVIEW_INTERVAL = 1/10"
definition PREVIEW_MAX_WIDTH :: nat where "PREVIEW_MAX_WIDTH = 320"


section \<open>Sending\<close>

text \<open>\<open>_send\<close>, \<open>_result\<close> and \<open>_try_result\<close>.\<close>

definition send_event :: "manage_env \<Rightarrow> jdict \<Rightarrow> conn \<Rightarrow> conn \<times> (exn + unit)" where
  "send_event env event c =
     write_frame (me_codec env) ((''v'', JInt MANAGE_VERSION) # event) MAX_EVENT_PAYLOAD c"

definition result_event :: "json \<Rightarrow> string \<Rightarrow> jdict option \<Rightarrow> jdict" where
  "result_event request_id result data =
     [(''type'', JStr ''result''), (''request_id'', request_id), (''result'', JStr result)] @
     (case data of None \<Rightarrow> [] | Some d \<Rightarrow> [(''data'', JObj d)])"

definition send_result ::
    "manage_env \<Rightarrow> json \<Rightarrow> string \<Rightarrow> jdict option \<Rightarrow> conn \<Rightarrow> conn \<times> (exn + unit)" where
  "send_result env request_id result data c = send_event env (result_event request_id result data) c"

definition try_result :: "manage_env \<Rightarrow> json \<Rightarrow> string \<Rightarrow> conn \<Rightarrow> conn \<times> (exn + unit)" where
  "try_result env request_id result c = (case send_result env request_id result None c of
      (c, Inl e) \<Rightarrow> (c, if is_exception e then Inr () else Inl e)
    | r \<Rightarrow> r)"


section \<open>Model requests\<close>

definition model_entry :: "template \<Rightarrow> json" where
  "model_entry t = JObj [(''id'', JInt (t_id t)), (''label'', JStr (t_label t)),
     (''time'', JInt (t_created t)), (''model_id'', JStr (t_model_id t))]"

text \<open>
  \<open>_change_models\<close>: \<open>is not target\<close> compares objects, and the target is the first template with
  its id.
\<close>

definition change_models ::
    "manage_env \<Rightarrow> manage_request \<Rightarrow> fs \<Rightarrow> fs \<times> (exn + (string \<times> jdict option))" where
  "change_models env req fs =
     (let user = mr_username req;
          clear = (\<lambda>templates. thenS (delete (me_store env) user fs) (\<lambda>fs _.
            (fs, Inr (''success'', Some [(''removed'', JInt (int (length (templates :: template list))))]))))
      in case load_all (me_store env) fs user of
        Inl e \<Rightarrow>
          if e \<in> {TemplateFileNotFound, EmptyTemplateStore} then (fs, Inr (''no_models'', None))
          else if e = TemplateSchemaError then
            (if mr_type req \<noteq> ''models_clear'' then (fs, Inr (''model_file_invalid'', None)) else clear [])
          else (fs, Inl e)
      | Inr templates \<Rightarrow>
          if mr_type req = ''models_clear'' then clear templates
          else case mr_model req of
            None \<Rightarrow> (fs, Inr (''model_not_found'', None))
          | Some m \<Rightarrow>
              (case find_template templates m of
                 None \<Rightarrow> (fs, Inr (''model_not_found'', None))
               | Some target \<Rightarrow>
                   let remaining = remove1 target templates in
                   thenS (if remaining \<noteq> [] then save (me_store env) user remaining fs
                          else delete (me_store env) user fs) (\<lambda>fs _.
                     (fs, Inr (''success'', Some [(''removed'', JInt (t_id target)),
                                                  (''remaining'', JInt (int (length remaining)))])))))"

definition models_list :: "manage_env \<Rightarrow> manage_request \<Rightarrow> fs \<Rightarrow> exn + (string \<times> jdict option)" where
  "models_list env req fs =
     (let answer = (\<lambda>templates. Inr (''success'', Some [(''user'', JStr (mr_username req)),
            (''models'', JList (map model_entry templates))]))
      in case load_all (me_store env) fs (mr_username req) of
        Inr templates \<Rightarrow> answer templates
      | Inl e \<Rightarrow>
          if e \<in> {TemplateFileNotFound, EmptyTemplateStore} then answer []
          else if e = TemplateSchemaError then Inr (''model_file_invalid'', None) else Inl e)"

text \<open>\<open>_models_request\<close>; the lock is released before the answer is sent.\<close>

definition models_request :: "manage_env \<Rightarrow> manage_request \<Rightarrow> manage_state \<Rightarrow> unit manage_result" where
  "models_request env req ms =
     (let respond = (\<lambda>ms (result, data).
            case send_result env (JStr (mr_id req)) result data (ms_conn ms) of
              (c, r) \<Rightarrow> (ms\<lparr>ms_conn := c\<rparr>, Some r))
      in if mr_type req = ''models_list'' then
           (case models_list env req (ms_fs ms) of
              Inl e \<Rightarrow> (ms, Some (Inl e)) | Inr answer \<Rightarrow> respond ms answer)
         else if \<not> me_lock_granted env then respond ms (''busy'', None)
         else
           case change_models env req (ms_fs ms) of
             (fs, Inl e) \<Rightarrow> (ms\<lparr>ms_fs := fs, ms_lock := False\<rparr>, Some (Inl e))
           | (fs, Inr answer) \<Rightarrow> respond (ms\<lparr>ms_fs := fs, ms_lock := False\<rparr>) answer)"


section \<open>Camera sessions\<close>

text \<open>\<open>_FrameSender\<close>: one event per report; the state is the time of the last preview.\<close>

definition frame_event :: "manage_env \<Rightarrow> manage_request \<Rightarrow> nat \<Rightarrow> frame_report \<Rightarrow> rat \<Rightarrow> jdict \<times> rat" where
  "frame_event env req i rp last_preview =
     (let event = [(''type'', JStr ''frame''), (''request_id'', JStr (mr_id req)),
                   (''report'', report_to_dict rp)];
          now = me_frame_time env i;
          wants_preview = mr_preview req \<and> rp_state rp \<noteq> BLACK
      in if wants_preview \<and> PREVIEW_INTERVAL \<le> now - last_preview then
           (case me_preview env i of
              Some p \<Rightarrow> if length p \<le> MAX_EVENT_PAYLOAD - 2048
                then (event @ [(''preview'', JStr p)], now) else (event, last_preview)
            | None \<Rightarrow> (event, last_preview))
         else (event, last_preview))"

text \<open>
  The events of the reports a session gave its observer, in order. Whether sending one raised is
  what the turns of the session record as the observer raising.
\<close>

fun send_frames ::
    "manage_env \<Rightarrow> manage_request \<Rightarrow> nat \<Rightarrow> rat \<Rightarrow> frame_report list \<Rightarrow> conn \<Rightarrow> conn" where
  "send_frames env req i last_preview [] c = c"
| "send_frames env req i last_preview (rp # rps) c =
     (case frame_event env req i rp last_preview of
        (event, last_preview) \<Rightarrow>
          send_frames env req (i + 1) last_preview rps (fst (send_event env event c)))"

text \<open>The size of a preview, and its text: the size decides what the JPEG encoder is given.\<close>

definition preview_size :: "frame \<Rightarrow> nat \<times> nat" where
  "preview_size fr =
     (if PREVIEW_MAX_WIDTH < fr_width fr
      then (PREVIEW_MAX_WIDTH,
            nat (max 1 (round_half_even (of_nat (fr_height fr * PREVIEW_MAX_WIDTH) / of_nat (fr_width fr)))))
      else (fr_width fr, fr_height fr))"

definition encode_preview ::
    "(frame \<Rightarrow> nat \<times> nat \<Rightarrow> byte list option) \<Rightarrow> (byte list \<Rightarrow> string) \<Rightarrow> frame \<Rightarrow> string option" where
  "encode_preview jpeg base64 fr = map_option base64 (jpeg fr (preview_size fr))"

text \<open>\<open>_session_result\<close>\<close>

definition enroll_data :: "enroll_outcome \<Rightarrow> jdict" where
  "enroll_data out =
     [(''valid_frames'', JInt (int (eo_valid_frames out))), (''dark_tries'', JInt (int (eo_dark_tries out))),
      (''avg_darkness'', JFloat (Fin (round_to 1 (eo_avg_darkness out))))] @
     (case eo_template out of
        Some t \<Rightarrow> if eo_result out = E_SUCCESS
          then [(''model'', JInt (t_id t)), (''label'', JStr (t_label t)), (''model_id'', JStr (t_model_id t))]
          else []
      | None \<Rightarrow> [])"

definition probe_data :: "probe_outcome \<Rightarrow> jdict" where
  "probe_data out =
     [(''frames'', JInt (int (po_frames out))), (''matched_frames'', JInt (int (po_matched_frames out))),
      (''best_distance'', json_opt (map_option (fround 3) (po_best_distance out)))]"

definition preempt :: "manage_env \<Rightarrow> string \<Rightarrow> string" where
  "preempt env result = (if result = ''cancelled'' \<and> me_preempted env then ''preempted'' else result)"

text \<open>Running the session of a request: the answer, and the files and reports it leaves.\<close>

definition run_manage_session ::
    "manage_env \<Rightarrow> manage_request \<Rightarrow> config \<Rightarrow> pipeline_bundle \<Rightarrow> fs \<Rightarrow>
     frame_report list \<times> fs \<times> (exn + (string \<times> jdict)) option" where
  "run_manage_session env req c b fs =
     (if mr_type req = ''enroll'' then
        (case enroll_run \<lparr>ee_config = c, ee_bundle = b, ee_cv = me_cv env, ee_camera = me_camera env,
                 ee_observed = True, ee_max_frames = MAX_FRAMES, ee_store = me_store env\<rparr>
               (mr_username req) (mr_label req) (mr_replace req) (me_ticks env) (me_late_cancel env)
               (me_now env) new_session fs of
           (s, fs, r) \<Rightarrow> (reports s, fs, map_option (\<lambda>x. bindE x (\<lambda>out.
             Inr (preempt env (enroll_value (eo_result out)), enroll_data out))) r))
      else
        (case probe_run \<lparr>pe_config = c, pe_bundle = b, pe_numeric = me_numeric env, pe_cv = me_cv env,
                 pe_camera = me_camera env, pe_observed = True,
                 pe_duration = of_int (mr_duration_ms req) / 1000, pe_store = me_store env\<rparr>
               (mr_username req) (me_ticks env) new_session fs of
           (s, r) \<Rightarrow> (reports s, fs, map_option (\<lambda>x. bindE x (\<lambda>out.
             Inr (preempt env (probe_value (po_result out)), probe_data out))) r)))"

text \<open>
  The part of \<open>_camera_session\<close> under the camera: \<open>started\<close>, the session, its frames; the
  \<open>finally\<close> blocks give the camera and the models lock back on every way out.
\<close>

definition with_camera ::
    "manage_env \<Rightarrow> manage_request \<Rightarrow> config \<Rightarrow> pipeline_bundle \<Rightarrow> manage_state \<Rightarrow> unit manage_result" where
  "with_camera env req c b ms =
     (let ms = ms\<lparr>ms_camera := True\<rparr> in
      case send_event env [(''type'', JStr ''started''), (''request_id'', JStr (mr_id req))] (ms_conn ms) of
        (cn, Inl e) \<Rightarrow> (ms\<lparr>ms_conn := cn, ms_camera := False, ms_lock := False\<rparr>, Some (Inl e))
      | (cn, Inr _) \<Rightarrow>
          (case run_manage_session env req c b (ms_fs ms) of
             (rps, fs, r) \<Rightarrow>
               let ms = ms\<lparr>ms_conn := send_frames env req 0 0 rps cn, ms_fs := fs\<rparr> in
               (case r of
                  None \<Rightarrow> (ms, None)
                | Some (Inl e) \<Rightarrow> (ms\<lparr>ms_camera := False, ms_lock := False\<rparr>, Some (Inl e))
                | Some (Inr (result, data)) \<Rightarrow>
                    let ms = ms\<lparr>ms_camera := False, ms_lock := False\<rparr> in
                    (case send_result env (JStr (mr_id req)) result (Some data) (ms_conn ms) of
                       (cn, x) \<Rightarrow> (ms\<lparr>ms_conn := cn\<rparr>, Some x)))))"

definition camera_session :: "manage_env \<Rightarrow> manage_request \<Rightarrow> manage_state \<Rightarrow> unit manage_result" where
  "camera_session env req ms =
     (let busy = (\<lambda>ms. case send_result env (JStr (mr_id req)) ''busy'' None (ms_conn ms) of
            (cn, x) \<Rightarrow> (ms\<lparr>ms_conn := cn, ms_lock := False\<rparr>, Some x))
      in case me_config env of
        Inl e \<Rightarrow> (ms, Some (Inl e))
      | Inr c \<Rightarrow>
          (case create_pipeline (me_loaders env) c (ms_cache ms) of
             (cache, Inl e) \<Rightarrow> (ms\<lparr>ms_cache := cache\<rparr>, Some (Inl e))
           | (cache, Inr b) \<Rightarrow>
               let ms = ms\<lparr>ms_cache := cache\<rparr> in
               if mr_type req = ''enroll'' \<and> \<not> me_lock_granted env then busy ms
               else
                 let ms = (if mr_type req = ''enroll'' then ms\<lparr>ms_lock := True\<rparr> else ms) in
                 if \<not> me_camera_granted env then busy ms
                 else with_camera env req c b ms))"


section \<open>Handling\<close>

definition raw_request_id :: "jdict \<Rightarrow> json" where
  "raw_request_id payload = (case jget payload ''request_id'' of
      Some (JStr s) \<Rightarrow> if length s \<le> 64 then JStr s else JNull
    | _ \<Rightarrow> JNull)"

definition answer_error ::
    "manage_env \<Rightarrow> json \<Rightarrow> string \<Rightarrow> manage_state \<Rightarrow> unit manage_result" where
  "answer_error env request_id result ms =
     (case try_result env request_id result (ms_conn ms) of (c, r) \<Rightarrow> (ms\<lparr>ms_conn := c\<rparr>, Some r))"

definition handle ::
    "manage_env \<Rightarrow> int \<Rightarrow> jdict \<Rightarrow> manage_state \<Rightarrow> unit manage_result" where
  "handle env uid payload ms = (case validate_manage_request payload of
      Inl e \<Rightarrow>
        if e = ProtocolError then answer_error env (raw_request_id payload) ''invalid_request'' ms
        else (ms, Some (Inl e))
    | Inr req \<Rightarrow>
        if \<not> may_act_for (me_getpwnam env) uid (mr_username req)
        then answer_error env (JStr (mr_id req)) ''forbidden'' ms
        else
          case (if mr_type req = ''enroll'' \<or> mr_type req = ''test'' then camera_session env req ms
                else models_request env req ms) of
            (ms, Some (Inl (SystemExit code))) \<Rightarrow>
              answer_error env (JStr (mr_id req))
                (if code = Some 14 then ''invalid_device'' else ''internal_error'') ms
          | (ms, Some (Inl e)) \<Rightarrow>
              if is_exception e then answer_error env (JStr (mr_id req)) ''internal_error'' ms
              else (ms, Some (Inl e))
          | r \<Rightarrow> r)"

end
