(* ===== verification/Manage_Props.thy ===== *)
theory Manage_Props
  imports Manage Protocol_Props Enrollment_Props
begin

text \<open>
  What the daemon promises the GUI: one answer per request under the id the client chose, no
  effect for a user the client may not act for, files changed under the models lock only, the
  lock and the camera given back, and removals that remove exactly one template.
\<close>

section \<open>What is sent\<close>

definition is_result :: "jdict \<Rightarrow> bool" where
  "is_result d \<longleftrightarrow> jget d ''type'' = Some (JStr ''result'')"

text \<open>A message of the v2 protocol; it never carries the \<open>result_code\<close> of a login.\<close>

definition v2_message :: "jdict \<Rightarrow> bool" where
  "v2_message d \<longleftrightarrow> jget d ''v'' = Some (JInt MANAGE_VERSION) \<and> jget d ''result_code'' = None"

definition v2_event :: "jdict \<Rightarrow> bool" where
  "v2_event d \<longleftrightarrow> v2_message d \<and> \<not> is_result d"

text \<open>\<open>c'\<close> continues \<open>c\<close> with events that are no result; or with such events and one result.\<close>

definition quiet :: "conn \<Rightarrow> conn \<Rightarrow> bool" where
  "quiet c c' \<longleftrightarrow> send_fails c' = send_fails c \<and>
     (\<exists>pre. sent c' = sent c @ pre \<and> (\<forall>d \<in> set pre. v2_event d))"

definition answered :: "json \<Rightarrow> conn \<Rightarrow> conn \<Rightarrow> bool" where
  "answered i c c' \<longleftrightarrow> send_fails c' = send_fails c \<and>
     (\<exists>pre d. sent c' = sent c @ pre @ [d] \<and> (\<forall>d \<in> set pre. v2_event d) \<and> v2_message d \<and> is_result d \<and>
        jget d ''request_id'' = Some i)"

definition talk :: "json \<Rightarrow> conn \<Rightarrow> conn \<Rightarrow> bool \<Rightarrow> bool" where
  "talk i c c' b \<longleftrightarrow> (if b then answered i c c' else quiet c c')"

lemma write_frame_cases:
  "write_frame cd p m c = (c', r) \<Longrightarrow> send_fails c' = send_fails c \<and>
     (case r of Inl _ \<Rightarrow> sent c' = sent c | Inr _ \<Rightarrow> sent c' = sent c @ [p])"
  by (auto simp: write_frame_def frame_bytes_def Let_def split: if_splits option.splits sum.splits)

lemma write_frame_fits:
  "length (dumps cd (JObj p)) \<le> m \<Longrightarrow> \<forall>n. send_fails c n = None \<Longrightarrow>
     snd (write_frame cd p m c) = Inr ()"
  by (simp add: write_frame_def frame_bytes_def Let_def)

lemma quiet_refl [simp]: "quiet c c" "talk i c c False"
  by (simp_all add: quiet_def talk_def)

lemma quiet_same: "send_fails c' = send_fails c \<Longrightarrow> sent c' = sent c \<Longrightarrow> quiet c c'"
  by (simp add: quiet_def)

lemma quiet_one: "send_fails c' = send_fails c \<Longrightarrow> sent c' = sent c @ [d] \<Longrightarrow> v2_event d \<Longrightarrow> quiet c c'"
  by (simp add: quiet_def)

lemma answered_one: "send_fails c' = send_fails c \<Longrightarrow> sent c' = sent c @ [d] \<Longrightarrow> is_result d \<Longrightarrow> v2_message d \<Longrightarrow>
    jget d ''request_id'' = Some i \<Longrightarrow> answered i c c'"
  unfolding answered_def by (intro conjI exI [of _ "[]"] exI [of _ d]) auto

lemma quiet_trans: "quiet c c1 \<Longrightarrow> quiet c1 c2 \<Longrightarrow> quiet c c2"
proof -
  assume "quiet c c1" "quiet c1 c2"
  then obtain p q where "sent c1 = sent c @ p" "sent c2 = sent c1 @ q" "\<forall>d \<in> set p. v2_event d"
    "\<forall>d \<in> set q. v2_event d" "send_fails c2 = send_fails c"
    unfolding quiet_def by metis
  then show "quiet c c2" unfolding quiet_def by (intro conjI exI [of _ "p @ q"]) auto
qed

lemma quiet_answered: "quiet c c1 \<Longrightarrow> answered i c1 c2 \<Longrightarrow> answered i c c2"
proof -
  assume "quiet c c1" "answered i c1 c2"
  then obtain p q d where "sent c1 = sent c @ p" "sent c2 = sent c1 @ q @ [d]"
    "\<forall>d \<in> set p. v2_event d" "\<forall>d \<in> set q. v2_event d" "send_fails c2 = send_fails c"
    "is_result d" "v2_message d" "jget d ''request_id'' = Some i"
    unfolding quiet_def answered_def by metis
  then show "answered i c c2"
    unfolding answered_def by (intro conjI exI [of _ "p @ q"] exI [of _ d]) auto
qed

lemma talk_trans: "talk i c c1 False \<Longrightarrow> talk i c1 c2 b \<Longrightarrow> talk i c c2 b"
  by (auto simp: talk_def intro: quiet_trans quiet_answered)

lemma result_event_is_result:
  "is_result ((''v'', x) # result_event i result data)"
  "v2_message ((''v'', JInt MANAGE_VERSION) # result_event i result data)"
  "jget ((''v'', x) # result_event i result data) ''request_id'' = Some i"
  by (auto simp: is_result_def v2_message_def result_event_def jget_def split: option.splits)

lemma talk_result:
  assumes "send_result env i result data c = (c', r)"
  shows "talk i c c' (r = Inr ())"
  using write_frame_cases [OF assms [unfolded send_result_def send_event_def]]
  by (cases r) (auto simp: talk_def quiet_same intro: answered_one result_event_is_result)

lemma talk_event:
  assumes "send_event env event c = (c', r)" and "v2_event ((''v'', JInt MANAGE_VERSION) # event)"
  shows "talk i c c' False"
  using write_frame_cases [OF assms(1) [unfolded send_event_def]] assms(2)
  by (cases r) (auto simp: talk_def quiet_same intro: quiet_one)

lemma frame_event_v2: "v2_event ((''v'', JInt MANAGE_VERSION) # fst (frame_event env req i rp lp))"
  by (auto simp: frame_event_def v2_event_def v2_message_def is_result_def jget_def Let_def split: option.splits)

lemma talk_frames: "talk j c (send_frames env req i lp rps c) False"
proof (induction rps arbitrary: i lp c)
  case (Cons rp rps)
  obtain ev l where ev: "frame_event env req i rp lp = (ev, l)" by fastforce
  obtain c1 r where c1: "send_event env ev c = (c1, r)" by fastforce
  have "talk j c c1 False"
    using talk_event [OF c1] frame_event_v2 [of env req i rp lp] ev by simp
  from talk_trans [OF this Cons.IH] ev c1 show ?case by simp
qed simp

lemma talk_try: "try_result env i result c = (c', r) \<Longrightarrow> \<exists>b. talk i c c' b \<and> (\<forall>e. r = Inl e \<longrightarrow> \<not> is_exception e)"
  by (auto simp: try_result_def split: prod.splits sum.splits if_splits dest: talk_result)


section \<open>Requests\<close>

lemma talk_models:
  "models_request env req ms = (ms', Some r) \<Longrightarrow>
     talk (JStr (mr_id req)) (ms_conn ms) (ms_conn ms') (r = Inr ())"
  by (auto simp: models_request_def Let_def split: if_splits sum.splits prod.splits dest: talk_result)

lemma talk_with_camera:
  assumes "with_camera env req c b ms = (ms', r)"
  shows "talk (JStr (mr_id req)) (ms_conn ms) (ms_conn ms') (r = Some (Inr ()))"
proof -
  let ?ev = "[(''type'', JStr ''started''), (''request_id'', JStr (mr_id req))]"
  obtain c1 x where c1: "send_event env ?ev (ms_conn ms) = (c1, x)" by fastforce
  from talk_event [OF c1] have t1: "talk (JStr (mr_id req)) (ms_conn ms) c1 False"
    by (simp add: is_result_def v2_event_def v2_message_def jget_def)
  note t2 = talk_trans [OF t1 talk_frames]
  show ?thesis
  proof (cases x)
    case (Inl e)
    with assms c1 t1 show ?thesis by (auto simp: with_camera_def)
  next
    case (Inr u)
    with assms c1 t2 show ?thesis
      by (auto simp: with_camera_def Let_def split: prod.splits sum.splits option.splits
          intro: talk_trans [OF t2 talk_result])
  qed
qed

lemma talk_camera:
  "camera_session env req ms = (ms', r) \<Longrightarrow>
     talk (JStr (mr_id req)) (ms_conn ms) (ms_conn ms') (r = Some (Inr ()))"
  by (auto simp: camera_session_def Let_def split: if_splits sum.splits prod.splits
      dest: talk_result talk_with_camera)


text \<open>A validated request keeps the client's id, which is the id echoed for invalid ones too.\<close>

lemma manage_fields_id: "manage_fields payload req = Inr req' \<Longrightarrow> mr_id req' = mr_id req"
  by (auto simp: manage_fields_def Let_def flow_simps split: if_splits)

lemma validated_id:
  "validate_manage_request payload = Inr req \<Longrightarrow> raw_request_id payload = JStr (mr_id req)"
  by (auto simp: validate_manage_request_def flow_simps short_str_Inr raw_request_id_def base_request_def
      dest!: manage_fields_id split: if_splits)

text \<open>The request itself, between the checks and the handlers of \<open>handle\<close>.\<close>

definition serve_request ::
    "manage_env \<Rightarrow> manage_request \<Rightarrow> manage_state \<Rightarrow> unit manage_result" where
  "serve_request env req ms =
     (if mr_type req = ''enroll'' \<or> mr_type req = ''test'' then camera_session env req ms
      else models_request env req ms)"

lemma talk_serve:
  "serve_request env req ms = (ms', Some r) \<Longrightarrow>
     talk (JStr (mr_id req)) (ms_conn ms) (ms_conn ms') (r = Inr ())"
  by (auto simp: serve_request_def dest: talk_camera talk_models split: if_splits)

text \<open>How \<open>handle\<close> can end: what the request did, and at most one attempt to report an error.\<close>

lemma handle_cases:
  assumes "handle env uid payload ms = (ms', r)"
  obtains (invalid) "validate_manage_request payload = Inl ProtocolError"
      "(ms', r) = answer_error env (raw_request_id payload) ''invalid_request'' ms"
  | (escapes) e where "validate_manage_request payload = Inl e" "e \<noteq> ProtocolError" "ms' = ms" "r = Some (Inl e)"
  | (forbidden) req where "validate_manage_request payload = Inr req"
      "\<not> may_act_for (me_getpwnam env) uid (mr_username req)"
      "(ms', r) = answer_error env (JStr (mr_id req)) ''forbidden'' ms"
  | (served) req where "validate_manage_request payload = Inr req"
      "may_act_for (me_getpwnam env) uid (mr_username req)" "serve_request env req ms = (ms', r)"
      "\<forall>e. r = Some (Inl e) \<longrightarrow> e = KeyboardInterrupt"
  | (failed) req ms1 e w where "validate_manage_request payload = Inr req"
      "may_act_for (me_getpwnam env) uid (mr_username req)" "serve_request env req ms = (ms1, Some (Inl e))"
      "w \<in> {''invalid_device'', ''internal_error''}" "(ms', r) = answer_error env (JStr (mr_id req)) w ms1"
proof (cases "validate_manage_request payload")
  case (Inl e)
  with assms invalid escapes show thesis by (auto simp: handle_def split: if_splits)
next
  case (Inr req)
  show thesis
  proof (cases "may_act_for (me_getpwnam env) uid (mr_username req)")
    case False
    with Inr assms forbidden show thesis by (simp add: handle_def)
  next
    case True
    obtain ms1 x where x: "serve_request env req ms = (ms1, x)" by fastforce
    have h: "handle env uid payload ms = (case (ms1, x) of
        (ms, Some (Inl (SystemExit n))) \<Rightarrow> answer_error env (JStr (mr_id req))
            (if n = Some 14 then ''invalid_device'' else ''internal_error'') ms
      | (ms, Some (Inl e)) \<Rightarrow>
            if is_exception e then answer_error env (JStr (mr_id req)) ''internal_error'' ms
            else (ms, Some (Inl e))
      | r \<Rightarrow> r)"
      by (simp only: handle_def Inr sum.case True not_True_eq_False if_False x [unfolded serve_request_def])
    show thesis
    proof (cases "\<exists>e. x = Some (Inl e) \<and> e \<noteq> KeyboardInterrupt")
      case True': True
      then obtain e where e: "x = Some (Inl e)" "e \<noteq> KeyboardInterrupt" by blast
      with h assms have "(ms', r) = answer_error env (JStr (mr_id req)) ''invalid_device'' ms1 \<or>
          (ms', r) = answer_error env (JStr (mr_id req)) ''internal_error'' ms1"
        by (cases e) (simp_all split: if_splits)
      with failed [OF Inr True x [unfolded e(1)]] show thesis by blast
    next
      case False
      with h assms have "(ms', r) = (ms1, x)"
        by (cases x; cases "the x") (auto split: exn.splits)
      with served [OF Inr True] x False show thesis by auto
    qed
  qed
qed

lemma answer_error_talk:
  assumes "(ms', r) = answer_error env i w ms"
  shows "\<exists>b. talk i (ms_conn ms) (ms_conn ms') b \<and> (\<forall>e. r = Some (Inl e) \<longrightarrow> \<not> is_exception e) \<and> r \<noteq> None"
    and "ms_fs ms' = ms_fs ms" "ms_lock ms' = ms_lock ms" "ms_camera ms' = ms_camera ms"
      "ms_cache ms' = ms_cache ms"
proof -
  obtain c x where c: "try_result env i w (ms_conn ms) = (c, x)" by fastforce
  with assms have ms: "ms' = ms\<lparr>ms_conn := c\<rparr>" "r = Some x" by (simp_all add: answer_error_def)
  from talk_try [OF c] ms
  show "\<exists>b. talk i (ms_conn ms) (ms_conn ms') b \<and> (\<forall>e. r = Some (Inl e) \<longrightarrow> \<not> is_exception e) \<and> r \<noteq> None"
    by auto
  from ms show "ms_fs ms' = ms_fs ms" "ms_lock ms' = ms_lock ms" "ms_camera ms' = ms_camera ms"
      "ms_cache ms' = ms_cache ms" by simp_all
qed


section \<open>One answer\<close>

text \<open>The error answers, which carry nothing but the id, fit into a frame.\<close>

definition errors_fit :: "manage_env \<Rightarrow> json \<Rightarrow> bool" where
  "errors_fit env i \<longleftrightarrow> (\<forall>w \<in> {''invalid_request'', ''forbidden'', ''invalid_device'', ''internal_error''}.
     length (dumps (me_codec env) (JObj ((''v'', JInt MANAGE_VERSION) # result_event i w None))) \<le> MAX_EVENT_PAYLOAD)"

lemma answer_error_answers:
  assumes "(ms', r) = answer_error env i w ms" and "errors_fit env i" and "\<forall>n. send_fails (ms_conn ms) n = None"
    and "w \<in> {''invalid_request'', ''forbidden'', ''invalid_device'', ''internal_error''}"
  shows "answered i (ms_conn ms) (ms_conn ms') \<and> r = Some (Inr ())"
proof -
  obtain c x where c: "send_result env i w None (ms_conn ms) = (c, x)" by fastforce
  have x: "x = Inr ()"
    using write_frame_fits [of "me_codec env" "(''v'', JInt MANAGE_VERSION) # result_event i w None"
        MAX_EVENT_PAYLOAD "ms_conn ms"] assms(2-4) c
    by (auto simp: errors_fit_def send_result_def send_event_def)
  with assms(1) c talk_result [OF c] show ?thesis
    by (simp add: answer_error_def try_result_def talk_def)
qed

lemma manage_kind_errors: "manage_kind v = Inl e \<Longrightarrow> e = ProtocolError \<or>
    (e = TypeError \<and> ((\<exists>xs. v = Some (JList xs)) \<or> (\<exists>d. v = Some (JObj d))))"
  by (auto simp: manage_kind_def split: option.splits json.splits if_splits)

lemma manage_fields_errors: "manage_fields payload req = Inl e \<Longrightarrow> e = ProtocolError"
  by (auto simp: manage_fields_def Let_def flow_simps split: if_splits dest: field_errors)

lemma validate_errors:
  "validate_manage_request payload = Inl e \<Longrightarrow> e = ProtocolError \<or>
     (e = TypeError \<and> ((\<exists>xs. jget payload ''type'' = Some (JList xs)) \<or>
      (\<exists>d. jget payload ''type'' = Some (JObj d))))"
  by (auto simp: validate_manage_request_def flow_simps
      dest: manage_kind_errors manage_fields_errors field_errors(1) split: if_splits)



section \<open>Who may touch what\<close>

text \<open>\<open>s'\<close> holds what \<open>s\<close> held for everyone but the user \<open>u\<close>.\<close>

definition only_user :: "store_env \<Rightarrow> string \<Rightarrow> fs \<Rightarrow> fs \<Rightarrow> bool" where
  "only_user env u s s' \<longleftrightarrow> store_inv env s' \<and> (\<forall>v. \<not> same_file env u v \<longrightarrow> load_all env s' v = load_all env s v)"

lemma only_user_refl [simp]: "store_inv env s \<Longrightarrow> only_user env u s s"
  by (simp add: only_user_def)

lemma only_user_save: "store_inv env s \<Longrightarrow> save env u ts s = (s', r) \<Longrightarrow> only_user env u s s'"
  by (auto simp: only_user_def intro: save_invar repo.put_frame)

lemma only_user_delete: "store_inv env s \<Longrightarrow> delete env u s = (s', r) \<Longrightarrow> only_user env u s s'"
  by (auto simp: only_user_def intro: repo.drop_invar repo.drop_frame)

lemma thenS_state: "thenS m f = (s', r) \<Longrightarrow> (\<exists>e. m = (s', Inl e)) \<or> (\<exists>s x. m = (s, Inr x) \<and> f s x = (s', r))"
  by (cases m; cases "snd m") auto

lemma only_user_write:
  assumes "store_inv env s"
    and "(if replace then replace_space else append) env u m l v c now s = (s', r)"
  shows "only_user env u s s'"
proof -
  have "s' = s \<or> (\<exists>ts r'. save env u ts s = (s', r'))"
    using assms(2)
    by (auto simp: append_def replace_space_def Let_def split: if_splits dest!: thenS_state)
  with assms(1) show ?thesis by (auto intro: only_user_save)
qed

lemma only_user_change:
  "change_models env req fs = (fs', r) \<Longrightarrow> store_inv (me_store env) fs \<Longrightarrow>
     only_user (me_store env) (mr_username req) fs fs'"
  by (auto simp: change_models_def Let_def split: sum.splits if_splits option.splits
      dest!: thenS_state intro: only_user_save only_user_delete)

lemma only_user_session:
  "run_manage_session env req c b fs = (rps, fs', r) \<Longrightarrow> store_inv (me_store env) fs \<Longrightarrow>
     only_user (me_store env) (mr_username req) fs fs'"
  using only_user_write
  by (fastforce simp: run_manage_session_def enroll_run_def Let_def
      split: prod.splits if_splits option.splits sum.splits)

lemma only_user_serve:
  "serve_request env req ms = (ms', r) \<Longrightarrow> store_inv (me_store env) (ms_fs ms) \<Longrightarrow>
     only_user (me_store env) (mr_username req) (ms_fs ms) (ms_fs ms')"
  by (auto simp: serve_request_def models_request_def camera_session_def with_camera_def Let_def
      split: if_splits sum.splits prod.splits option.splits
      dest: only_user_change only_user_session)

text \<open>
  C8: a request acts for one user, and only if the client may act for them. If the request is
  malformed or the client's uid is neither root nor that of the user, no file, cached pipeline,
  lock or camera is touched. Otherwise the stored templates of every user with another file
  stay as they are, whatever the request does and however it ends.
\<close>

theorem handle_authorized:
  assumes "handle env uid payload ms = (ms', r)" and "store_inv (me_store env) (ms_fs ms)"
  shows "if \<exists>req. validate_manage_request payload = Inr req \<and>
             (uid = 0 \<or> me_getpwnam env (mr_username req) = Some uid)
    then \<forall>req v. validate_manage_request payload = Inr req \<longrightarrow>
           \<not> same_file (me_store env) (mr_username req) v \<longrightarrow>
           load_all (me_store env) (ms_fs ms') v = load_all (me_store env) (ms_fs ms) v
    else ms' = ms\<lparr>ms_conn := ms_conn ms'\<rparr>"
  using assms(1)
proof (cases rule: handle_cases)
  case (served req)
  with only_user_serve [OF served(3) assms(2)] show ?thesis
    by (auto simp: may_act_for_iff only_user_def)
next
  case (failed req ms1 e w)
  with only_user_serve [OF failed(3) assms(2)] answer_error_talk(2) [OF failed(5)] show ?thesis
    by (auto simp: may_act_for_iff only_user_def)
qed (auto simp: may_act_for_iff answer_error_def split: prod.splits)


section \<open>The models lock and the camera\<close>

text \<open>The requests that may change files: removals, and an enrollment that got the camera.\<close>

definition may_write :: "manage_env \<Rightarrow> manage_request \<Rightarrow> bool" where
  "may_write env req \<longleftrightarrow> me_lock_granted env \<and> mr_type req \<notin> {''models_list'', ''test''} \<and>
     (mr_type req = ''enroll'' \<longrightarrow> me_camera_granted env)"

lemma serve_gives_back:
  assumes "serve_request env req ms = (ms', r)" and "\<not> ms_lock ms" and "\<not> ms_camera ms"
  shows "(r \<noteq> None \<longrightarrow> \<not> ms_lock ms' \<and> \<not> ms_camera ms') \<and>
    (ms_fs ms' \<noteq> ms_fs ms \<longrightarrow> may_write env req)"
  using assms
  by (auto simp: serve_request_def models_request_def camera_session_def with_camera_def Let_def
      run_manage_session_def may_write_def split: if_splits sum.splits prod.splits option.splits)



section \<open>Removing models\<close>

text \<open>
  C20: \<open>models_remove\<close> removes one template. When it reports success, the template it names is the
  first with the requested id; the user keeps all others in their order, or no file when it was
  the last one. When it reports anything else, nothing has changed.
\<close>

theorem models_remove_spec:
  assumes "change_models env req fs = (fs', Inr (w, data))" and "mr_type req = ''models_remove''"
    and "store_inv (me_store env) fs"
  shows "if w = ''success''
    then \<exists>ts m t. load_all (me_store env) fs (mr_username req) = Inr ts \<and> mr_model req = Some m \<and>
      find_template ts m = Some t \<and> t_id t = m \<and> t \<in> set ts \<and>
      load_all (me_store env) fs' (mr_username req) =
        (if ts = [t] then Inl TemplateFileNotFound else Inr (remove1 t ts)) \<and>
      data = Some [(''removed'', JInt m), (''remaining'', JInt (int (length ts) - 1))]
    else fs' = fs \<and> data = None \<and>
      (w = ''no_models'' \<or> w = ''model_file_invalid'' \<or> w = ''model_not_found'')"
proof (cases "\<exists>ts m t. load_all (me_store env) fs (mr_username req) = Inr ts \<and> mr_model req = Some m \<and>
      find_template ts m = Some t")
  case True
  then obtain ts m t where ts: "load_all (me_store env) fs (mr_username req) = Inr ts"
    and m: "mr_model req = Some m" and t: "find_template ts m = Some t" by blast
  from t have mem: "t \<in> set ts" "t_id t = m"
    by (auto simp: find_template_def dest: find_Some_mem)
  from ts m t assms(1,2) have w: "w = ''success''"
    and data: "data = Some [(''removed'', JInt m), (''remaining'', JInt (int (length (remove1 t ts))))]"
    and step: "(if remove1 t ts \<noteq> [] then save (me_store env) (mr_username req) (remove1 t ts) fs
      else delete (me_store env) (mr_username req) fs) = (fs', Inr ())"
    using mem(2) by (auto simp: change_models_def Let_def flow_simps split: if_splits)
  have good: "\<forall>x \<in> set (remove1 t ts). wf_template (me_store env) x"
    using repo.fetch_good [OF assms(3) ts] set_remove1_subset by fastforce
  have "load_all (me_store env) fs' (mr_username req) =
      (if remove1 t ts = [] then Inl TemplateFileNotFound else Inr (remove1 t ts))"
  proof (cases "remove1 t ts = []")
    case True
    with step show ?thesis by (auto intro: repo.drop_fetch [OF assms(3)])
  next
    case False
    with step good show ?thesis by (auto intro: repo.put_fetch [OF assms(3)])
  qed
  moreover have "remove1 t ts = [] \<longleftrightarrow> ts = [t]" using mem(1) by (cases ts) auto
  moreover have "int (length (remove1 t ts)) = int (length ts) - 1"
    using mem(1) by (simp add: length_remove1) (cases ts; simp)
  ultimately show ?thesis using ts m t mem w data by auto
next
  case False
  with assms(1,2) show ?thesis
    by (auto simp: change_models_def Let_def split: sum.splits if_splits option.splits)
qed

text \<open>
  \<open>models_clear\<close> does not get rid of every unreadable file. A template file that is not
  UTF-8 raises a \<open>UnicodeDecodeError\<close>, which is no \<open>TemplateSchemaError\<close>: the file stays
  and the client is told \<open>internal_error\<close>, however often it asks.
\<close>

theorem clear_keeps_undecodable:
  assumes "validate_manage_request payload = Inr req" and "mr_type req = ''models_clear''"
    and "may_act_for (me_getpwnam env) uid (mr_username req)" and "me_lock_granted env"
    and "files (ms_fs ms) (path_for (me_store env) (mr_username req)) = Some f" and "f_content f = NotUtf8"
  shows "ms_fs (fst (handle env uid payload ms)) = ms_fs ms \<and>
    handle env uid payload ms = answer_error env (JStr (mr_id req)) ''internal_error'' (ms\<lparr>ms_lock := False\<rparr>)"
proof -
  have "load_all (me_store env) (ms_fs ms) (mr_username req) = Inl ValueError"
    using assms(5,6) by (simp add: load_all_def read_payload_def)
  then have "change_models env req (ms_fs ms) = (ms_fs ms, Inl ValueError)"
    by (simp add: change_models_def)
  with assms(1-4) have h: "handle env uid payload ms =
      answer_error env (JStr (mr_id req)) ''internal_error'' (ms\<lparr>ms_lock := False\<rparr>)"
    by (simp add: handle_def models_request_def)
  then show ?thesis
    by (simp add: answer_error_def split: prod.splits)
qed


section \<open>Witnesses\<close>

text \<open>A root client that clears the models of \<open>al\<close>, removes one, or clears an undecodable file.\<close>

definition manage_sample :: manage_env where
  "manage_sample = \<lparr>me_getpwnam = [''al'' \<mapsto> 1000], me_codec = sample_codec, me_store = sample_env,
     me_config = Inr default_config, me_loaders = sample_loaders, me_numeric = sample_numeric, me_cv = sample_cv,
     me_camera = (\<lambda>_. Inr \<lparr>cam_width = 640, cam_height = 320\<rparr>), me_lock_granted = True,
     me_camera_granted = True, me_preempted = False, me_ticks = [], me_late_cancel = False, me_now = 9,
     me_frame_time = of_nat, me_preview = (\<lambda>_. None)\<rparr>"

definition manage_idle :: "fs \<Rightarrow> manage_state" where
  "manage_idle s = \<lparr>ms_conn = sample_conn, ms_fs = s, ms_cache = Map.empty, ms_lock = False, ms_camera = False\<rparr>"

definition clear_payload :: jdict where
  "clear_payload = [(''v'', JInt 2), (''type'', JStr ''models_clear''), (''request_id'', JStr ''7''),
     (''username'', JStr ''al'')]"

definition clear_request :: manage_request where
  "clear_request = base_request ''models_clear'' ''7'' ''al''"

lemma clear_validates: "validate_manage_request clear_payload = Inr clear_request"
  by code_simp

lemma sample_loads: "load_all sample_env sample_fs ''al'' = Inr [sample_template 3 ''m'', sample_template 1 ''n'']"
  by code_simp

lemma sample_deletes: "delete sample_env ''al'' sample_fs = (remove_file (path_for sample_env ''al'') sample_fs, Inr ())"
  by (simp add: delete_def sample_fs_def empty_fs_def)

lemma clear_handled: "snd (handle manage_sample 0 clear_payload (manage_idle sample_fs)) = Some (Inr ())"
  by (simp add: handle_def clear_validates may_act_for_def clear_request_def base_request_def models_request_def
      change_models_def sample_loads sample_deletes manage_sample_def manage_idle_def send_result_def send_event_def
      write_frame_def frame_bytes_def sample_codec_def MAX_EVENT_PAYLOAD_def sample_conn_def Let_def)


theorem handle_authorized_witness:
  "load_all sample_env (ms_fs (fst (handle manage_sample 0 clear_payload (manage_idle sample_fs)))) ''bo'' =
     load_all sample_env sample_fs ''bo''"
proof -
  have "\<not> same_file sample_env ''al'' ''bo''" by code_simp
  moreover have "store_inv (me_store manage_sample) (ms_fs (manage_idle sample_fs))"
    by (simp add: manage_sample_def manage_idle_def sample_fs_inv)
  from handle_authorized [OF pair_of_snd [OF refl] this, where payload = clear_payload and uid = 0]
  have "\<not> same_file (me_store manage_sample) (mr_username clear_request) v \<Longrightarrow>
      load_all (me_store manage_sample) (ms_fs (fst (handle manage_sample 0 clear_payload (manage_idle sample_fs)))) v =
      load_all (me_store manage_sample) (ms_fs (manage_idle sample_fs)) v" for v
    by (simp add: clear_validates)
  ultimately show ?thesis
    by (simp add: manage_sample_def manage_idle_def clear_request_def base_request_def)
qed


definition remove_request :: manage_request where
  "remove_request = (base_request ''models_remove'' ''7'' ''al'')\<lparr>mr_model := Some 3\<rparr>"

lemma removes: "snd (change_models manage_sample remove_request sample_fs) =
    Inr (''success'', Some [(''removed'', JInt 3), (''remaining'', JInt 1)])"
  by code_simp

theorem models_remove_spec_witness:
  "load_all sample_env (fst (change_models manage_sample remove_request sample_fs)) ''al'' =
     Inr [sample_template 1 ''n'']"
proof -
  have "store_inv (me_store manage_sample) sample_fs" by (simp add: manage_sample_def sample_fs_inv)
  from models_remove_spec [OF pair_of_snd [OF removes] _ this]
  show ?thesis
    by (simp add: manage_sample_def remove_request_def base_request_def sample_loads find_template_def
        sample_template_def)
qed

definition broken_fs :: fs where
  "broken_fs = empty_fs\<lparr>files := [path_for sample_env ''al'' \<mapsto>
     \<lparr>f_content = NotUtf8, f_mode = 384, f_uid = 0, f_gid = 0\<rparr>]\<rparr>"

theorem clear_keeps_undecodable_witness:
  "ms_fs (fst (handle manage_sample 0 clear_payload (manage_idle broken_fs))) = broken_fs"
proof -
  let ?f = "\<lparr>f_content = NotUtf8, f_mode = 384, f_uid = 0, f_gid = 0\<rparr>"
  have "files (ms_fs (manage_idle broken_fs)) (path_for (me_store manage_sample) (mr_username clear_request)) = Some ?f"
    "f_content ?f = NotUtf8"
    by (simp_all add: manage_idle_def broken_fs_def manage_sample_def clear_request_def base_request_def)
  moreover have "mr_type clear_request = ''models_clear''" "me_lock_granted manage_sample"
    "may_act_for (me_getpwnam manage_sample) 0 (mr_username clear_request)" "ms_fs (manage_idle broken_fs) = broken_fs"
    by (simp_all add: clear_request_def base_request_def may_act_for_def manage_sample_def manage_idle_def)
  ultimately show ?thesis using clear_keeps_undecodable [OF clear_validates] by metis
qed

end
