(* ===== verification/Authd.thy ===== *)
theory Authd
  imports Manage Session
begin

text \<open>
  \<open>authd/main.py\<close>: one connection from its first frame to its answer, one login under the
  camera, and the accept loop with its bounded number of clients.
\<close>

definition INTERNAL_ERROR_CODE :: int where "INTERNAL_ERROR_CODE = 99"
definition RESPONSE_MARGIN_MS :: int where "RESPONSE_MARGIN_MS = 700"
definition READ_TIMEOUT_MS :: nat where "READ_TIMEOUT_MS = 1000"
definition WRITE_TIMEOUT_MS :: nat where "WRITE_TIMEOUT_MS = 1000"
definition MAX_CLIENTS :: nat where "MAX_CLIENTS = 8"


section \<open>One login\<close>

text \<open>
  What a login meets: whether the arbiter grants the camera before the deadline, what
  \<open>pool.submit\<close> raises, the turns of the session, whether the worker misses the deadline, and
  the surroundings of the session.
\<close>

record login_world =
  le_auth :: auth_env
  le_granted :: bool
  le_submit :: "exn option"
  le_ticks :: "tick list"
  le_deadline_missed :: bool

text \<open>
  \<open>_run_session\<close>: the code to answer. A worker that misses the deadline is cancelled; one that
  raises is answered with the status of a \<open>SystemExit\<close>, or with the internal error. On a Python
  where \<open>FutureTimeoutError\<close> is the built-in \<open>TimeoutError\<close>, one raised by the session is taken
  for a missed deadline.
\<close>

definition run_session :: "login_world \<Rightarrow> string \<Rightarrow> exn + int" where
  "run_session env user =
     (if \<not> le_granted env then Inr (code TIMEOUT_REACHED)
      else case le_submit env of
        Some e \<Rightarrow> Inl e
      | None \<Rightarrow>
          Inr (if le_deadline_missed env then code TIMEOUT_REACHED
               else case snd (run (le_auth env) user (le_ticks env) new_session) of
                 None \<Rightarrow> code TIMEOUT_REACHED
               | Some (Inr n) \<Rightarrow> n
               | Some (Inl TimeoutError) \<Rightarrow> code TIMEOUT_REACHED
               | Some (Inl (SystemExit (Some n))) \<Rightarrow> n
               | Some (Inl _) \<Rightarrow> INTERNAL_ERROR_CODE))"

text \<open>The worker's deadline, in milliseconds from now.\<close>

definition worker_budget :: "auth_request \<Rightarrow> int" where
  "worker_budget req = max 100 (ar_deadline_ms req - RESPONSE_MARGIN_MS)"


section \<open>One connection\<close>

record client_env =
  ce_cred :: "exn + ucred"
  ce_manage :: manage_env
  ce_login :: login_world
  ce_repr :: "json \<Rightarrow> string"

definition auth_response :: "json \<Rightarrow> int \<Rightarrow> string \<Rightarrow> jdict" where
  "auth_response request_id result_code detail =
     [(''v'', JInt PROTO_VERSION), (''type'', JStr ''auth_response''), (''request_id'', request_id),
      (''result_code'', JInt result_code), (''detail'', JStr detail)]"

text \<open>Answering a v1 request that has been read.\<close>

definition answer_auth :: "client_env \<Rightarrow> int \<Rightarrow> jdict \<Rightarrow> conn \<Rightarrow> conn \<times> (exn + unit)" where
  "answer_auth env uid payload c =
     (case validate_auth_request (ce_repr env) payload of
        Inl e \<Rightarrow> (c, Inl e)
      | Inr req \<Rightarrow>
          if \<not> may_act_for (me_getpwnam (ce_manage env)) uid (ar_username req) then
            write_frame (me_codec (ce_manage env))
              (auth_response (JStr (ar_id req)) INTERNAL_ERROR_CODE ''forbidden'') MAX_PAYLOAD c
          else
            (case run_session (ce_login env) (ar_username req) of
               Inl e \<Rightarrow> (c, Inl e)
             | Inr n \<Rightarrow>
                 write_frame (me_codec (ce_manage env))
                   (auth_response (JStr (ar_id req)) n (if n = 0 then ''ok'' else ''auth_failed''))
                   MAX_PAYLOAD c))"

text \<open>
  The body of \<open>_handle_client\<close>; \<open>None\<close> while a v2 session still runs.
\<close>

definition client_body :: "client_env \<Rightarrow> manage_state \<Rightarrow> unit manage_result" where
  "client_body env ms = (case ce_cred env of
      Inl e \<Rightarrow> (ms, Some (Inl e))
    | Inr cred \<Rightarrow>
        (case read_frame (me_codec (ce_manage env)) (Some (clock (ms_conn ms) + READ_TIMEOUT_MS)) (ms_conn ms) of
           (c, Inl e) \<Rightarrow> (ms\<lparr>ms_conn := c\<rparr>, Some (Inl e))
         | (c, Inr payload) \<Rightarrow>
             let c = c\<lparr>so_timeout := WRITE_TIMEOUT_MS\<rparr> in
             if eq_int (jget payload ''v'') MANAGE_VERSION
             then handle (ce_manage env) (peer_uid cred) payload (ms\<lparr>ms_conn := c\<rparr>)
             else case answer_auth env (peer_uid cred) payload c of
               (c, r) \<Rightarrow> (ms\<lparr>ms_conn := c\<rparr>, Some r)))"

text \<open>
  \<open>_handle_client\<close>: every exception becomes a failed login; an \<open>Exception\<close> while saying so is
  dropped.
\<close>

definition handle_client :: "client_env \<Rightarrow> manage_state \<Rightarrow> unit manage_result" where
  "handle_client env ms = (case client_body env ms of
      (ms, Some (Inl _)) \<Rightarrow>
        (case write_frame (me_codec (ce_manage env))
                (auth_response JNull INTERNAL_ERROR_CODE ''auth_failed'') MAX_PAYLOAD (ms_conn ms) of
           (c, Inl e) \<Rightarrow> (ms\<lparr>ms_conn := c\<rparr>, Some (if is_exception e then Inr () else Inl e))
         | (c, Inr _) \<Rightarrow> (ms\<lparr>ms_conn := c\<rparr>, Some (Inr ())))
    | r \<Rightarrow> r)"


section \<open>The accept loop\<close>

text \<open>
  The semaphore that bounds the clients, the workers that run, and whether the loop accepts;
  connections and workers are numbered. \<open>rejected\<close> are connections closed at once.
\<close>

record server =
  slots :: nat
  workers :: "nat set"
  accepting :: bool
  rejected :: "nat list"

definition init_server :: server where
  "init_server = \<lparr>slots = MAX_CLIENTS, workers = {}, accepting = True, rejected = []\<rparr>"

text \<open>One accepted connection: \<open>slots.acquire(blocking=False)\<close>, then a worker or a close.\<close>

definition accept_client :: "nat \<Rightarrow> server \<Rightarrow> server" where
  "accept_client k s =
     (if slots s = 0 then s\<lparr>rejected := rejected s @ [k]\<rparr>
      else s\<lparr>slots := slots s - 1, workers := insert k (workers s)\<rparr>)"

text \<open>
  \<open>_serve_client\<close> ends, however its connection was handled: \<open>BoundedSemaphore.release\<close>, which
  raises \<open>ValueError\<close> when the count would pass its initial value.
\<close>

definition release_slot :: "server \<Rightarrow> exn + server" where
  "release_slot s = (if MAX_CLIENTS \<le> slots s then Inl ValueError else Inr (s\<lparr>slots := slots s + 1\<rparr>))"

definition worker_ends :: "nat \<Rightarrow> server \<Rightarrow> exn + server" where
  "worker_ends k s = release_slot (s\<lparr>workers := workers s - {k}\<rparr>)"

inductive srv_step :: "server \<Rightarrow> server \<Rightarrow> bool" where
  srv_accept: "accepting s \<Longrightarrow> k \<notin> workers s \<Longrightarrow> srv_step s (accept_client k s)"
| srv_end: "k \<in> workers s \<Longrightarrow> worker_ends k s = Inr s' \<Longrightarrow> srv_step s s'"
| srv_stop: "srv_step s (s\<lparr>accepting := False\<rparr>)"

end
