(* ===== verification/Authd_Props.thy ===== *)
theory Authd_Props
  imports Authd Manage_Props Transitions
begin

text \<open>
  What the daemon promises the PAM module: a message that says "authenticated" is only sent
  for a login that was allowed, granted the camera and succeeded in time; every v1 connection
  gets one answer; and the number of clients served at once stays bounded.
\<close>

section \<open>What a connection is told\<close>

text \<open>A message that lets the user in.\<close>

definition grants :: "jdict \<Rightarrow> bool" where
  "grants d \<longleftrightarrow> jget d ''result_code'' = Some (JInt 0)"

lemma auth_response_fields:
  "grants (auth_response i n w) \<longleftrightarrow> n = 0"
  "jget (auth_response i n w) ''request_id'' = Some i"
  "jget (auth_response i n w) ''type'' = Some (JStr ''auth_response'')"
  by (simp_all add: grants_def auth_response_def jget_def)

lemma v2_no_grant: "v2_message d \<Longrightarrow> \<not> grants d"
  by (simp add: v2_message_def grants_def)

lemma handle_sent:
  assumes "handle env uid payload ms = (ms', r)"
  shows "\<exists>new. sent (ms_conn ms') = sent (ms_conn ms) @ new \<and> (\<forall>d \<in> set new. v2_message d)"
proof -
  have talks: "\<exists>new. sent c' = sent c @ new \<and> (\<forall>d \<in> set new. v2_message d)" if "talk i c c' b" for i c c' b
    using that by (auto simp: talk_def quiet_def answered_def v2_event_def split: if_splits)
  have serves: "talk (JStr (mr_id req)) (ms_conn ms) (ms_conn ms1) (x = Some (Inr ()))"
    if "serve_request env req ms = (ms1, x)" for req ms1 x
  proof (cases x)
    case None
    with that show ?thesis
      by (auto simp: serve_request_def models_request_def Let_def split: if_splits sum.splits prod.splits
          dest: talk_camera)
  next
    case (Some y)
    with talk_serve [OF that [unfolded Some]] show ?thesis by simp
  qed
  from assms show ?thesis
  proof (cases rule: handle_cases)
    case invalid
    with answer_error_talk(1) [OF invalid(2)] talks show ?thesis by blast
  next
    case (forbidden req)
    with answer_error_talk(1) [OF forbidden(3)] talks show ?thesis by blast
  next
    case (served req)
    with serves [OF served(3)] talks show ?thesis by blast
  next
    case (failed req ms1 e w)
    from talks [OF serves [OF failed(3)]] answer_error_talk(1) [OF failed(5)] obtain p q where
      "sent (ms_conn ms1) = sent (ms_conn ms) @ p" "sent (ms_conn ms') = sent (ms_conn ms1) @ q"
      "\<forall>d \<in> set p. v2_message d" "\<forall>d \<in> set q. v2_message d"
      using talks by blast
    then show ?thesis by (intro exI [of _ "p @ q"]) auto
  qed simp
qed

lemma write_frame_sent: "write_frame cd p m c = (c', r) \<Longrightarrow> sent c' = sent c \<or> (sent c' = sent c @ [p] \<and> r = Inr ())"
  by (drule write_frame_cases) (auto split: sum.splits)

lemma read_frame_sent: "read_frame cd dl c = (c', r) \<Longrightarrow> sent c' = sent c"
  using read_exact_frame by (fastforce simp: read_frame_def Let_def out_of_def split: if_splits dest!: thenS_state)


section \<open>One answer to a login\<close>

text \<open>\<open>answer_auth\<close> sends nothing, or the one answer to its request.\<close>

lemma answer_auth_sent:
  assumes "answer_auth env uid payload c = (c', r)"
  shows "sent c' = sent c \<or> (r = Inr () \<and> (\<exists>req n w. validate_auth_request (ce_repr env) payload = Inr req \<and>
    sent c' = sent c @ [auth_response (JStr (ar_id req)) n w] \<and>
    (n = 0 \<longrightarrow> may_act_for (me_getpwnam (ce_manage env)) uid (ar_username req) \<and>
       run_session (ce_login env) (ar_username req) = Inr 0)))"
  using assms
  by (auto simp: answer_auth_def INTERNAL_ERROR_CODE_def split: sum.splits if_splits
      dest!: write_frame_sent)

lemma session_zero:
  assumes "run_session w user = Inr 0"
  shows "le_granted w \<and> le_submit w = None \<and> \<not> le_deadline_missed w \<and>
    (\<exists>s'. run (le_auth w) user (le_ticks w) new_session = (s', Some (Inr 0)) \<or>
          run (le_auth w) user (le_ticks w) new_session = (s', Some (Inl (SystemExit (Some 0)))))"
proof -
  from assms have g: "le_granted w" "le_submit w = None" "\<not> le_deadline_missed w"
    by (auto simp: run_session_def split: if_splits option.splits)
  obtain s' x where run: "run (le_auth w) user (le_ticks w) new_session = (s', x)" by fastforce
  show ?thesis
  proof (cases x)
    case (Some y)
    with assms g run show ?thesis
      by (cases y) (auto simp: run_session_def INTERNAL_ERROR_CODE_def split: exn.splits option.splits)
  qed (use assms g run in \<open>simp add: run_session_def\<close>)
qed

text \<open>The body of a connection: what was read, and which protocol answered.\<close>

lemma client_body_cases:
  assumes "client_body env ms = (ms', r)"
  obtains (unread) e where "sent (ms_conn ms') = sent (ms_conn ms)" "r = Some (Inl e)"
  | (managed) cred c payload where "ce_cred env = Inr cred"
      "read_frame (me_codec (ce_manage env)) (Some (clock (ms_conn ms) + READ_TIMEOUT_MS)) (ms_conn ms) = (c, Inr payload)"
      "eq_int (jget payload ''v'') MANAGE_VERSION"
      "handle (ce_manage env) (peer_uid cred) payload (ms\<lparr>ms_conn := c\<lparr>so_timeout := WRITE_TIMEOUT_MS\<rparr>\<rparr>) = (ms', r)"
  | (login) cred c payload c' x where "ce_cred env = Inr cred"
      "read_frame (me_codec (ce_manage env)) (Some (clock (ms_conn ms) + READ_TIMEOUT_MS)) (ms_conn ms) = (c, Inr payload)"
      "\<not> eq_int (jget payload ''v'') MANAGE_VERSION"
      "answer_auth env (peer_uid cred) payload (c\<lparr>so_timeout := WRITE_TIMEOUT_MS\<rparr>) = (c', x)"
      "ms' = ms\<lparr>ms_conn := c'\<rparr>" "r = Some x"
proof (cases "ce_cred env")
  case (Inl e)
  with assms show thesis by (intro unread [of e]) (auto simp: client_body_def)
next
  case (Inr cred)
  obtain c x where rd: "read_frame (me_codec (ce_manage env)) (Some (clock (ms_conn ms) + READ_TIMEOUT_MS)) (ms_conn ms)
      = (c, x)" by fastforce
  show thesis
  proof (cases x)
    case (Inl e)
    with assms Inr rd read_frame_sent [OF rd] show thesis
      by (intro unread [of e]) (auto simp: client_body_def)
  next
    case x: (Inr payload)
    obtain c' y where y: "answer_auth env (peer_uid cred) payload (c\<lparr>so_timeout := WRITE_TIMEOUT_MS\<rparr>) = (c', y)"
      by fastforce
    from assms Inr rd x y managed [OF Inr rd [unfolded x]] login [OF Inr rd [unfolded x] _ y] show thesis
      by (auto simp: client_body_def Let_def split: if_splits)
  qed
qed

text \<open>What \<open>_handle_client\<close> adds: nothing, or after an exception a refusal.\<close>

lemma handle_client_cases:
  assumes "handle_client env ms = (ms', r)"
  obtains (passed) "client_body env ms = (ms', r)" "\<forall>e. r \<noteq> Some (Inl e)"
  | (refused) ms1 e where "client_body env ms = (ms1, Some (Inl e))"
      "sent (ms_conn ms') = sent (ms_conn ms1) \<or>
       sent (ms_conn ms') = sent (ms_conn ms1) @ [auth_response JNull INTERNAL_ERROR_CODE ''auth_failed'']"
proof -
  obtain ms1 x where b: "client_body env ms = (ms1, x)" by fastforce
  show thesis
  proof (cases "\<exists>e. x = Some (Inl e)")
    case True
    with assms b refused show thesis
      by (auto simp: handle_client_def split: prod.splits sum.splits dest!: write_frame_sent)
  next
    case False
    then have "handle_client env ms = (ms1, x)"
      by (auto simp: handle_client_def b split: option.splits sum.splits)
    with False assms b passed show thesis by auto
  qed
qed

lemma client_body_grants:
  assumes "client_body env ms = (ms', r)"
  shows "\<exists>new. sent (ms_conn ms') = sent (ms_conn ms) @ new \<and>
    ((\<forall>d \<in> set new. \<not> grants d) \<or> (\<exists>cred c payload req w. ce_cred env = Inr cred \<and>
      read_frame (me_codec (ce_manage env)) (Some (clock (ms_conn ms) + READ_TIMEOUT_MS)) (ms_conn ms) = (c, Inr payload) \<and>
      validate_auth_request (ce_repr env) payload = Inr req \<and> new = [auth_response (JStr (ar_id req)) 0 w] \<and>
      r = Some (Inr ()) \<and> may_act_for (me_getpwnam (ce_manage env)) (peer_uid cred) (ar_username req) \<and>
      run_session (ce_login env) (ar_username req) = Inr 0))"
  using assms
proof (cases rule: client_body_cases)
  case (unread e)
  then show ?thesis by (intro exI [of _ "[]"]) auto
next
  case (managed cred c payload)
  from handle_sent [OF managed(4)] read_frame_sent [OF managed(2)] v2_no_grant show ?thesis by fastforce
next
  case (login cred c payload c' x)
  from read_frame_sent [OF login(2)] have c: "sent (c\<lparr>so_timeout := WRITE_TIMEOUT_MS\<rparr>) = sent (ms_conn ms)" by simp
  from answer_auth_sent [OF login(4)] show ?thesis
  proof (elim disjE conjE exE)
    assume "sent c' = sent (c\<lparr>so_timeout := WRITE_TIMEOUT_MS\<rparr>)"
    with c login(5) show ?thesis by (intro exI [of _ "[]"]) auto
  next
    fix req n w
    assume a: "validate_auth_request (ce_repr env) payload = Inr req" "x = Inr ()"
      "sent c' = sent (c\<lparr>so_timeout := WRITE_TIMEOUT_MS\<rparr>) @ [auth_response (JStr (ar_id req)) n w]"
      "n = 0 \<longrightarrow> may_act_for (me_getpwnam (ce_manage env)) (peer_uid cred) (ar_username req) \<and>
       run_session (ce_login env) (ar_username req) = Inr 0"
    show ?thesis
    proof (cases "n = 0")
      case True
      with a login c show ?thesis by (intro exI [of _ "[auth_response (JStr (ar_id req)) n w]"]) auto
    next
      case False
      with a login c show ?thesis
        by (intro exI [of _ "[auth_response (JStr (ar_id req)) n w]"]) (auto simp: auth_response_fields)
    qed
  qed
qed

text \<open>
  C1: the daemon fails closed. A message with result code 0 is sent only as the single answer to
  a v1 request that arrived whole before its deadline and passed validation, from a client whose
  kernel-reported uid is root's or that of the user to be authenticated; the login was granted
  the camera, did not miss its deadline, and saw the user (\<open>seen_user\<close>: an accepted live face of
  theirs, in time, stamps passed), or its session raised \<open>SystemExit(0)\<close>, which only code
  outside the repository could do. The answer carries the client's request id. In particular no
  v2 message, error, cancel or timeout can be read as a success.
\<close>

theorem authd_fail_closed:
  assumes "handle_client env ms = (ms', r)" and "argmin_law (ae_numeric (le_auth (ce_login env)))"
    and "sent (ms_conn ms') = sent (ms_conn ms) @ new" and "d \<in> set new"
    and "jget d ''result_code'' = Some (JInt 0)"
  shows "\<exists>cred c payload req. ce_cred env = Inr cred \<and>
    read_frame (me_codec (ce_manage env)) (Some (clock (ms_conn ms) + READ_TIMEOUT_MS)) (ms_conn ms) = (c, Inr payload) \<and>
    validate_auth_request (ce_repr env) payload = Inr req \<and>
    (cred_uid cred = 0 \<or> me_getpwnam (ce_manage env) (ar_username req) = Some (cred_uid cred)) \<and>
    le_granted (ce_login env) \<and> \<not> le_deadline_missed (ce_login env) \<and>
    (seen_user (le_auth (ce_login env)) (ar_username req) (le_ticks (ce_login env)) new_session \<or>
     snd (run (le_auth (ce_login env)) (ar_username req) (le_ticks (ce_login env)) new_session) =
       Some (Inl (SystemExit (Some 0)))) \<and>
    new = [d] \<and> jget d ''request_id'' = Some (JStr (ar_id req))"
  using assms(1)
proof (cases rule: handle_client_cases)
  case passed
  from client_body_grants [OF passed(1)] assms(3) have
    "(\<forall>d \<in> set new. \<not> grants d) \<or> (\<exists>cred c payload req w. ce_cred env = Inr cred \<and>
      read_frame (me_codec (ce_manage env)) (Some (clock (ms_conn ms) + READ_TIMEOUT_MS)) (ms_conn ms) = (c, Inr payload) \<and>
      validate_auth_request (ce_repr env) payload = Inr req \<and> new = [auth_response (JStr (ar_id req)) 0 w] \<and>
      r = Some (Inr ()) \<and> may_act_for (me_getpwnam (ce_manage env)) (peer_uid cred) (ar_username req) \<and>
      run_session (ce_login env) (ar_username req) = Inr 0)"
    by auto
  with assms(4,5) obtain cred c payload req w where g:
    "ce_cred env = Inr cred"
    "read_frame (me_codec (ce_manage env)) (Some (clock (ms_conn ms) + READ_TIMEOUT_MS)) (ms_conn ms) = (c, Inr payload)"
    "validate_auth_request (ce_repr env) payload = Inr req" "new = [auth_response (JStr (ar_id req)) 0 w]"
    "may_act_for (me_getpwnam (ce_manage env)) (peer_uid cred) (ar_username req)"
    "run_session (ce_login env) (ar_username req) = Inr 0"
    unfolding grants_def by blast
  from session_zero [OF g(6)] run_zero_sound [OF _ assms(2)] g assms(4) show ?thesis
    by (auto simp: may_act_for_iff peer_uid_def auth_response_fields)
next
  case (refused ms1 e)
  from client_body_grants [OF refused(1)] obtain new1 where
    n: "sent (ms_conn ms1) = sent (ms_conn ms) @ new1" "\<forall>d \<in> set new1. \<not> grants d" by auto
  with refused(2) assms(3) have "\<forall>d \<in> set new. \<not> grants d"
    by (auto simp: auth_response_fields INTERNAL_ERROR_CODE_def)
  with assms(4,5) show ?thesis by (simp add: grants_def)
qed


text \<open>The refusal fits into a frame.\<close>

definition refusal_fits :: "client_env \<Rightarrow> bool" where
  "refusal_fits env \<longleftrightarrow> length (dumps (me_codec (ce_manage env))
     (JObj (auth_response JNull INTERNAL_ERROR_CODE ''auth_failed''))) \<le> MAX_PAYLOAD"

lemma read_frame_fails: "read_frame cd dl c = (c', r) \<Longrightarrow> send_fails c' = send_fails c"
  using read_exact_frame by (fastforce simp: read_frame_def Let_def out_of_def split: if_splits dest!: thenS_state)

lemma answer_auth_fails:
  assumes "answer_auth env uid payload c = (c', r)"
  shows "send_fails c' = send_fails c \<and> (r = Inr () \<longrightarrow> sent c' \<noteq> sent c)"
  using assms by (auto simp: answer_auth_def split: sum.splits if_splits dest!: write_frame_cases)

lemma client_body_v1:
  assumes "client_body env ms = (ms', r)"
    and "\<forall>c payload. read_frame (me_codec (ce_manage env)) (Some (clock (ms_conn ms) + READ_TIMEOUT_MS)) (ms_conn ms)
      = (c, Inr payload) \<longrightarrow> \<not> eq_int (jget payload ''v'') MANAGE_VERSION"
  shows "\<exists>x. r = Some x \<and> send_fails (ms_conn ms') = send_fails (ms_conn ms) \<and>
    (case x of Inl e \<Rightarrow> sent (ms_conn ms') = sent (ms_conn ms)
     | Inr _ \<Rightarrow> \<exists>i n w. sent (ms_conn ms') = sent (ms_conn ms) @ [auth_response i n w])"
  using assms(1)
proof (cases rule: client_body_cases)
  case (unread e)
  moreover have "send_fails (ms_conn ms') = send_fails (ms_conn ms)"
    using assms(1) unread(2) read_frame_fails assms(2)
    by (fastforce simp: client_body_def Let_def split: sum.splits prod.splits if_splits dest: answer_auth_fails)
  ultimately show ?thesis by simp
next
  case (managed cred c payload)
  with assms(2) show ?thesis by simp
next
  case (login cred c payload c' x)
  with read_frame_sent [OF login(2)] read_frame_fails [OF login(2)] answer_auth_fails [OF login(4)]
    answer_auth_sent [OF login(4)]
  show ?thesis by (cases x) auto
qed

text \<open>
  A connection that does not speak v2 gets one answer. Whatever it sends (nothing, garbage,
  an invalid or forbidden request, a login), at most one message is sent, an
  \<open>auth_response\<close>; if the writes succeed and the refusal fits into a frame, exactly one is
  sent, and no exception leaves the handler.
\<close>

theorem v1_answered_once:
  assumes "handle_client env ms = (ms', r)"
    and "\<forall>c payload. read_frame (me_codec (ce_manage env)) (Some (clock (ms_conn ms) + READ_TIMEOUT_MS)) (ms_conn ms)
      = (c, Inr payload) \<longrightarrow> \<not> eq_int (jget payload ''v'') MANAGE_VERSION"
  shows "(sent (ms_conn ms') = sent (ms_conn ms) \<or>
      (\<exists>i n w. sent (ms_conn ms') = sent (ms_conn ms) @ [auth_response i n w])) \<and>
    ((\<forall>n. send_fails (ms_conn ms) n = None) \<and> refusal_fits env \<longrightarrow>
      r = Some (Inr ()) \<and> sent (ms_conn ms') \<noteq> sent (ms_conn ms))"
  using assms(1)
proof (cases rule: handle_client_cases)
  case passed
  from client_body_v1 [OF passed(1) assms(2)] obtain x where x: "r = Some x"
    "case x of Inl e \<Rightarrow> sent (ms_conn ms') = sent (ms_conn ms)
     | Inr _ \<Rightarrow> \<exists>i n w. sent (ms_conn ms') = sent (ms_conn ms) @ [auth_response i n w]"
    by auto
  with passed(2) obtain i n w where "r = Some (Inr ())"
    "sent (ms_conn ms') = sent (ms_conn ms) @ [auth_response i n w]"
    by (cases x) auto
  then show ?thesis by auto
next
  case (refused ms1 e)
  from client_body_v1 [OF refused(1) assms(2)] have
    c: "send_fails (ms_conn ms1) = send_fails (ms_conn ms)" "sent (ms_conn ms1) = sent (ms_conn ms)" by auto
  obtain c' x where w: "write_frame (me_codec (ce_manage env)) (auth_response JNull INTERNAL_ERROR_CODE ''auth_failed'')
      MAX_PAYLOAD (ms_conn ms1) = (c', x)" by fastforce
  have "(\<forall>n. send_fails (ms_conn ms) n = None) \<and> refusal_fits env \<Longrightarrow> x = Inr ()"
    using write_frame_fits [of "me_codec (ce_manage env)" "auth_response JNull INTERNAL_ERROR_CODE ''auth_failed''"
        MAX_PAYLOAD "ms_conn ms1"] w c(1) by (simp add: refusal_fits_def)
  with write_frame_cases [OF w] refused c assms(1) w show ?thesis
    by (auto simp: handle_client_def split: sum.splits)
qed


section \<open>Clients at once\<close>

definition srv_inv :: "server \<Rightarrow> bool" where
  "srv_inv s \<longleftrightarrow> finite (workers s) \<and> slots s + card (workers s) = MAX_CLIENTS"

lemma worker_ends_inv:
  assumes "srv_inv s" and "k \<in> workers s"
  shows "worker_ends k s = Inr (s\<lparr>workers := workers s - {k}, slots := slots s + 1\<rparr>)"
proof -
  from assms have "0 < card (workers s)" by (auto simp: srv_inv_def card_gt_0_iff)
  with assms(1) show ?thesis by (simp add: worker_ends_def release_slot_def srv_inv_def)
qed

interpretation srv: inductive_invariant init_server srv_step srv_inv
proof unfold_locales
  show "srv_inv init_server" by (simp add: srv_inv_def init_server_def)
  fix s s' assume "srv_inv s" "srv_step s s'"
  from this(2,1) show "srv_inv s'"
  proof (cases rule: srv_step.cases)
    case (srv_accept k)
    with \<open>srv_inv s\<close> show ?thesis by (auto simp: srv_inv_def accept_client_def)
  next
    case (srv_end k)
    with \<open>srv_inv s\<close> have "card (workers s) = Suc (card (workers s - {k}))"
      by (intro card.remove) (auto simp: srv_inv_def)
    with worker_ends_inv [OF \<open>srv_inv s\<close> srv_end(1)] srv_end(2) \<open>srv_inv s\<close> show ?thesis
      by (auto simp: srv_inv_def)
  qed (simp add: srv_inv_def)
qed

text \<open>
  At most eight clients are served at once. In every reachable state of the accept loop, the
  semaphore counts exactly the workers that are missing from eight; a further connection is
  closed at once and changes nothing else; and a worker that ends always gets its slot back (the
  release of the bounded semaphore never raises).
\<close>

theorem clients_bounded:
  assumes "rtranclp srv_step init_server s"
  shows "finite (workers s) \<and> card (workers s) \<le> 8 \<and> slots s = 8 - card (workers s) \<and>
    (card (workers s) = 8 \<longrightarrow> accept_client k s = s\<lparr>rejected := rejected s @ [k]\<rparr>) \<and>
    (k \<in> workers s \<longrightarrow> worker_ends k s = Inr (s\<lparr>workers := workers s - {k}, slots := slots s + 1\<rparr>))"
  using srv.reachable_inv [OF assms] worker_ends_inv [of s k]
  by (auto simp: srv_inv_def MAX_CLIENTS_def accept_client_def)


section \<open>Witnesses\<close>

text \<open>A root client that logs in \<open>al\<close>, whose codec reads any body as its request.\<close>

definition login_payload :: jdict where
  "login_payload = [(''v'', JInt 1), (''type'', JStr ''auth_request''), (''request_id'', JStr ''7''),
     (''username'', JStr ''al'')]"

definition login_client :: client_env where
  "login_client = \<lparr>ce_cred = Inr \<lparr>cred_pid = 1, cred_uid = 0, cred_gid = 0\<rparr>,
     ce_manage = manage_sample\<lparr>me_codec := \<lparr>dumps = (\<lambda>_. [7, 9]), loads = (\<lambda>_. Some (JObj login_payload))\<rparr>\<rparr>,
     ce_login = \<lparr>le_auth = login_env default_config, le_granted = True, le_submit = None, le_ticks = login_ticks,
       le_deadline_missed = False\<rparr>,
     ce_repr = (\<lambda>_. [])\<rparr>"

definition login_answer :: jdict where
  "login_answer = auth_response (JStr ''7'') 0 ''ok''"

lemma login_read: "snd (read_frame (me_codec (ce_manage login_client)) (Some 1000) sample_conn) = Inr login_payload"
  by (simp add: read_frame_def read_exact.simps recv_def expired_def sample_conn_def login_client_def unpack_be32_def
      MAX_PAYLOAD_def Let_def)


definition login_req :: auth_request where
  "login_req = \<lparr>ar_id = ''7'', ar_username = ''al'', ar_service = [], ar_tty = [], ar_rhost = [],
     ar_deadline_ms = 2500\<rparr>"

lemma login_validates: "validate_auth_request (\<lambda>_. []) login_payload = Inr login_req"
  by code_simp

lemma login_session: "run_session (ce_login login_client) ''al'' = Inr 0"
  using login_ok by (simp add: run_session_def login_client_def)

lemma login_client_simps:
  "ce_cred login_client = Inr \<lparr>cred_pid = 1, cred_uid = 0, cred_gid = 0\<rparr>" "ce_repr login_client = (\<lambda>_. [])"
  "dumps (me_codec (ce_manage login_client)) v = [7, 9]"
  "ae_numeric (le_auth (ce_login login_client)) = sample_numeric"
  by (simp_all add: login_client_def)

lemma login_idle:
  "ms_conn (manage_idle s) = sample_conn" "clock sample_conn = 0" "sent sample_conn = []"
  "send_fails sample_conn = (\<lambda>_. None)"
  by (simp_all add: manage_idle_def sample_conn_def)

lemma login_client_body:
  "snd (client_body login_client (manage_idle empty_fs)) = Some (Inr ()) \<and>
   sent (ms_conn (fst (client_body login_client (manage_idle empty_fs)))) = [login_answer]"
proof -
  obtain c where c: "read_frame (me_codec (ce_manage login_client)) (Some 1000) sample_conn = (c, Inr login_payload)"
    using pair_of_snd [OF login_read] by blast
  from read_frame_sent [OF c] read_frame_fails [OF c] have cs: "sent c = []" "send_fails c = (\<lambda>_. None)"
    by (simp_all add: login_idle)
  have w: "answer_auth login_client 0 login_payload (c\<lparr>so_timeout := WRITE_TIMEOUT_MS\<rparr>) =
      write_frame (me_codec (ce_manage login_client)) login_answer MAX_PAYLOAD (c\<lparr>so_timeout := WRITE_TIMEOUT_MS\<rparr>)"
    using login_session
    by (simp add: answer_auth_def login_client_simps login_validates may_act_for_def login_req_def login_answer_def)
  have v: "\<not> eq_int (jget login_payload ''v'') MANAGE_VERSION" by code_simp
  show ?thesis
    by (simp add: client_body_def login_client_simps login_idle READ_TIMEOUT_MS_def c v w peer_uid_def Let_def
        write_frame_def frame_bytes_def MAX_PAYLOAD_def cs)
qed

theorem authd_fail_closed_witness:
  "\<exists>c. read_frame (me_codec (ce_manage login_client)) (Some 1000) sample_conn = (c, Inr login_payload) \<and>
     seen_user (login_env default_config) ''al'' login_ticks new_session"
proof -
  obtain ms' where b: "client_body login_client (manage_idle empty_fs) = (ms', Some (Inr ()))"
    "sent (ms_conn ms') = [login_answer]"
    using login_client_body pair_of_snd by fastforce
  then have h: "handle_client login_client (manage_idle empty_fs) = (ms', Some (Inr ()))"
    by (simp add: handle_client_def)
  have g: "jget login_answer ''result_code'' = Some (JInt 0)" by code_simp
  from authd_fail_closed [OF h, of "[login_answer]" login_answer] b(2) g first_min_law
  obtain c payload req where r: "read_frame (me_codec (ce_manage login_client)) (Some 1000) sample_conn = (c, Inr payload)"
    "validate_auth_request (\<lambda>_. []) payload = Inr req"
    "seen_user (login_env default_config) (ar_username req) login_ticks new_session \<or>
     snd (run (login_env default_config) (ar_username req) login_ticks new_session) = Some (Inl (SystemExit (Some 0)))"
    by (auto simp: login_client_simps login_idle READ_TIMEOUT_MS_def) (auto simp: login_client_def)
  moreover from r(1) login_read have "payload = login_payload" by simp
  with r(2) have "req = login_req" by (simp add: login_validates)
  ultimately show ?thesis using login_ok by (auto simp: login_req_def \<open>payload = login_payload\<close>)
qed

theorem v1_answered_once_witness:
  "\<exists>i n w. sent (ms_conn (fst (handle_client login_client (manage_idle empty_fs)))) = [auth_response i n w]"
proof -
  have "\<forall>c payload. read_frame (me_codec (ce_manage login_client))
      (Some (clock (ms_conn (manage_idle empty_fs)) + READ_TIMEOUT_MS)) (ms_conn (manage_idle empty_fs)) = (c, Inr payload)
      \<longrightarrow> \<not> eq_int (jget payload ''v'') MANAGE_VERSION"
  proof -
    have "\<not> eq_int (jget login_payload ''v'') MANAGE_VERSION" by code_simp
    then show ?thesis using login_read by (auto simp: login_idle READ_TIMEOUT_MS_def)
  qed
  from v1_answered_once [OF pair_of_snd [OF refl] this] show ?thesis
    by (auto simp: login_idle refusal_fits_def login_client_simps MAX_PAYLOAD_def)
qed

theorem clients_bounded_witness:
  "worker_ends 4 (accept_client 4 init_server) =
     Inr ((accept_client 4 init_server)\<lparr>workers := workers (accept_client 4 init_server) - {4},
       slots := slots (accept_client 4 init_server) + 1\<rparr>)"
proof -
  have "srv_step init_server (accept_client 4 init_server)"
    by (rule srv_accept) (simp_all add: init_server_def)
  then have "rtranclp srv_step init_server (accept_client 4 init_server)" by (rule r_into_rtranclp)
  from clients_bounded [OF this, of 4] show ?thesis
    by (simp add: accept_client_def init_server_def MAX_CLIENTS_def)
qed

end
