(* ===== verification/Recorders.thy ===== *)
theory Recorders
  imports Capture
begin

text \<open>
  \<open>recorders/video_capture.py\<close>, \<open>recorders/ffmpeg_reader.py\<close> and
  \<open>recorders/pyv4l2_reader.py\<close>: the camera a stream reads from. \<open>VideoCapture\<close> opens one of
  three readers, OpenCV's own or one of the two classes that imitate it. ffmpeg, pyv4l2, OpenCV
  and numpy are parameters; \<open>exn + 'a\<close> is what a call of theirs returns or raises.
\<close>

section \<open>Properties of a capture\<close>

datatype capture_prop = PROP_WIDTH | PROP_HEIGHT | PROP_FPS | PROP_FOURCC | PROP_AUTO_EXPOSURE | PROP_EXPOSURE

text \<open>What a read hands out: one frame, or (the first read of ffmpeg) the whole recording.\<close>

datatype picture = One frame | Recording "frame list"


section \<open>The ffmpeg reader\<close>

text \<open>
  The outcome of \<open>ffmpeg -list_formats\<close> (return code and standard error, \<open>None\<close> when it is
  not UTF-8), the height and width \<open>ffmpeg.probe\<close> reports, the bytes of the n-th recording,
  numpy's \<open>reshape([-1, width, height, 3])\<close>, and what comparing an array with \<open>()\<close> gives.
\<close>

record ffmpeg_env =
  fx_list_formats :: "exn + (int \<times> string option)"
  fx_probe :: "exn + (json \<times> json)"
  fx_run :: "nat \<Rightarrow> exn + nat list"
  fx_reshape :: "nat list \<Rightarrow> int \<Rightarrow> int \<Rightarrow> exn + frame list"
  fx_eq_empty :: "frame list \<Rightarrow> exn + bool"

text \<open>\<open>ff_video\<close> is \<open>None\<close> for the empty tuple; \<open>ff_records\<close> counts the recordings made.\<close>

record ffmpeg_reader =
  ff_numframes :: nat
  ff_video :: "frame list option"
  ff_num_frames_read :: nat
  ff_height :: int
  ff_width :: int
  ff_init_camera :: bool
  ff_records :: nat

definition new_ffmpeg :: ffmpeg_reader where
  "new_ffmpeg = \<lparr>ff_numframes = 10, ff_video = None, ff_num_frames_read = 0, ff_height = 0, ff_width = 0,
     ff_init_camera = True, ff_records = 0\<rparr>"

definition ff_set :: "capture_prop \<Rightarrow> int \<Rightarrow> ffmpeg_reader \<Rightarrow> ffmpeg_reader" where
  "ff_set p v r = (case p of PROP_WIDTH \<Rightarrow> r\<lparr>ff_width := v\<rparr> | PROP_HEIGHT \<Rightarrow> r\<lparr>ff_height := v\<rparr> | _ \<Rightarrow> r)"

definition ff_get :: "capture_prop \<Rightarrow> ffmpeg_reader \<Rightarrow> int option" where
  "ff_get p r = (case p of PROP_WIDTH \<Rightarrow> Some (ff_width r) | PROP_HEIGHT \<Rightarrow> Some (ff_height r) | _ \<Rightarrow> None)"

text \<open>The regular expression \<open>\s\d{3,4}x\d{3,4}\<close>: a match at the head, and the first match.\<close>

definition size_at :: "string \<Rightarrow> (string \<times> string) option" where
  "size_at s = (case s of
      [] \<Rightarrow> None
    | sp # t \<Rightarrow>
        let a = takeWhile is_digit t; u = dropWhile is_digit t in
        (case u of
           [] \<Rightarrow> None
         | x # v \<Rightarrow>
             let b = take 4 (takeWhile is_digit v) in
             if is_py_space sp \<and> x = CHR ''x'' \<and> length a \<in> {3, 4} \<and> 3 \<le> length b
             then Some (a, b) else None))"

fun first_size :: "string \<Rightarrow> (string \<times> string) option" where
  "first_size [] = None"
| "first_size (ch # s) = (case size_at (ch # s) of Some r \<Rightarrow> Some r | None \<Rightarrow> first_size s)"

text \<open>\<open>str.isdigit\<close> (superscripts count), and the attribute a number does not have.\<close>

definition py_isdigit :: "string \<Rightarrow> bool" where
  "py_isdigit s \<longleftrightarrow> s \<noteq> [] \<and> list_all (\<lambda>ch. is_digit ch \<or> (of_char ch :: nat) \<in> {178, 179, 185}) s"

definition as_text :: "json \<Rightarrow> exn + string" where
  "as_text v = (case v of JStr s \<Rightarrow> Inr s | _ \<Rightarrow> Inl AttributeError)"

text \<open>\<open>if x.isdigit() and self.get(prop) == 0: self.set(prop, int(x))\<close>\<close>

definition set_from :: "capture_prop \<Rightarrow> string \<Rightarrow> ffmpeg_reader \<Rightarrow> exn + ffmpeg_reader" where
  "set_from p x r = (if py_isdigit x \<and> ff_get p r = Some 0 then bindE (parse_int x) (\<lambda>n. Inr (ff_set p n r)) else Inr r)"

definition ff_probe :: "ffmpeg_env \<Rightarrow> ffmpeg_reader \<Rightarrow> ffmpeg_reader \<times> (exn + unit)" where
  "ff_probe env r =
     (let keep = (\<lambda>x. case x of Inl e \<Rightarrow> (r, Inl e) | Inr r' \<Rightarrow> (r', Inr ())) in
      case fx_list_formats env of
        Inl e \<Rightarrow> (r, Inl e)
      | Inr (_, None) \<Rightarrow> (r, Inl ValueError)
      | Inr (return_code, Some err) \<Rightarrow>
          (case (if return_code = 1 then first_size err else None) of
             Some (height, width) \<Rightarrow>
               thenS (keep (set_from PROP_HEIGHT height r)) (\<lambda>r _.
                 (case set_from PROP_WIDTH width r of Inl e \<Rightarrow> (r, Inl e) | Inr r' \<Rightarrow> (r', Inr ())))
           | None \<Rightarrow>
               (case fx_probe env of
                  Inl e \<Rightarrow> (r, Inl e)
                | Inr (height, width) \<Rightarrow>
                    thenS (keep (bindE (as_text height) (\<lambda>h. set_from PROP_HEIGHT h r))) (\<lambda>r _.
                      (case bindE (as_text width) (\<lambda>w. set_from PROP_WIDTH w r) of
                         Inl e \<Rightarrow> (r, Inl e) | Inr r' \<Rightarrow> (r', Inr ()))))))"

definition ff_record :: "ffmpeg_env \<Rightarrow> ffmpeg_reader \<Rightarrow> ffmpeg_reader \<times> (exn + unit)" where
  "ff_record env r =
     thenS (if ff_width r = 0 \<or> ff_height r = 0 then ff_probe env r else (r, Inr ())) (\<lambda>r _.
       let n = ff_records r; r = r\<lparr>ff_num_frames_read := 0, ff_records := n + 1\<rparr> in
       case bindE (fx_run env n) (\<lambda>bytes. fx_reshape env bytes (ff_width r) (ff_height r)) of
         Inl e \<Rightarrow> (r, Inl e)
       | Inr video \<Rightarrow> (r\<lparr>ff_video := Some video\<rparr>, Inr ()))"

text \<open>\<open>self.video == ()\<close>\<close>

definition ff_is_empty :: "ffmpeg_env \<Rightarrow> ffmpeg_reader \<Rightarrow> exn + bool" where
  "ff_is_empty env r = (case ff_video r of None \<Rightarrow> Inr True | Some v \<Rightarrow> fx_eq_empty env v)"

definition ff_read :: "ffmpeg_env \<Rightarrow> ffmpeg_reader \<Rightarrow> ffmpeg_reader \<times> (exn + (int \<times> picture))" where
  "ff_read env r =
     (if ff_init_camera r then
        thenS (ff_record env (r\<lparr>ff_init_camera := False, ff_video := None\<rparr>)) (\<lambda>r _.
          (r, case ff_video r of Some v \<Rightarrow> Inr (0, Recording v) | None \<Rightarrow> Inl AttributeError))
      else
        thenS (r, ff_is_empty env r) (\<lambda>r empty.
        thenS (if empty then ff_record env r else (r, Inr ())) (\<lambda>r _.
        thenS (if ff_numframes r - 1 \<le> ff_num_frames_read r then ff_record env r else (r, Inr ())) (\<lambda>r _.
          let r = r\<lparr>ff_num_frames_read := ff_num_frames_read r + 1\<rparr>; k = ff_num_frames_read r in
          (r, case ff_video r of
                Some v \<Rightarrow> if k < length v then Inr (0, One (v ! k)) else Inl IndexError
              | None \<Rightarrow> Inl IndexError)))))"

definition ff_release :: "ffmpeg_reader \<Rightarrow> ffmpeg_reader" where
  "ff_release r = r\<lparr>ff_video := None, ff_num_frames_read := 0\<rparr>"


section \<open>The pyv4l2 reader\<close>

text \<open>
  Opening the device, the \<open>VIDIOC_G_FMT\<close> call (result, height and width), the fallback probe,
  \<open>Frame(device)\<close>, the data of the n-th frame, and its conversion to a 352 by 352 image.
\<close>

record pyv4l2_env =
  pv_open :: "exn + unit"
  pv_get_format :: "exn + (int \<times> int \<times> int)"
  pv_probe :: "exn + (json \<times> json)"
  pv_frame :: "exn + unit"
  pv_data :: "nat \<Rightarrow> exn + nat list"
  pv_image :: "nat list \<Rightarrow> exn + frame"

record pyv4l2_reader =
  pv_height :: int
  pv_width :: int
  pv_recording :: bool
  pv_reads :: nat
  pv_closes :: nat

definition pv_set :: "capture_prop \<Rightarrow> int \<Rightarrow> pyv4l2_reader \<Rightarrow> pyv4l2_reader" where
  "pv_set p v r = (case p of PROP_WIDTH \<Rightarrow> r\<lparr>pv_width := v\<rparr> | PROP_HEIGHT \<Rightarrow> r\<lparr>pv_height := v\<rparr> | _ \<Rightarrow> r)"

definition pv_get :: "capture_prop \<Rightarrow> pyv4l2_reader \<Rightarrow> int option" where
  "pv_get p r = (case p of PROP_WIDTH \<Rightarrow> Some (pv_width r) | PROP_HEIGHT \<Rightarrow> Some (pv_height r) | _ \<Rightarrow> None)"

definition pv_probe_size :: "pyv4l2_env \<Rightarrow> exn + (int \<times> int)" where
  "pv_probe_size env =
     bindE (pv_open env) (\<lambda>_.
     bindE (pv_get_format env) (\<lambda>(ret, height, width).
       if ret = 0 then Inr (height, width)
       else bindE (pv_probe env) (\<lambda>(height, width).
         bindE (py_int height) (\<lambda>h. bindE (py_int width) (\<lambda>w. Inr (h, w))))))"

text \<open>\<open>pyv4l2_reader(device, format)\<close> probes at once.\<close>

definition new_pyv4l2 :: "pyv4l2_env \<Rightarrow> exn + pyv4l2_reader" where
  "new_pyv4l2 env = bindE (pv_probe_size env) (\<lambda>(height, width).
     let r = \<lparr>pv_height = 0, pv_width = 0, pv_recording = False, pv_reads = 0, pv_closes = 0\<rparr>;
         r = (if pv_get PROP_HEIGHT r = Some 0 then pv_set PROP_HEIGHT height r else r);
         r = (if pv_get PROP_WIDTH r = Some 0 then pv_set PROP_WIDTH width r else r)
     in Inr r)"

definition pv_read :: "pyv4l2_env \<Rightarrow> pyv4l2_reader \<Rightarrow> pyv4l2_reader \<times> (exn + (int \<times> picture))" where
  "pv_read env r =
     thenS (if pv_recording r then (r, Inr ())
            else case pv_frame env of Inl e \<Rightarrow> (r, Inl e) | Inr _ \<Rightarrow> (r\<lparr>pv_recording := True\<rparr>, Inr ()))
       (\<lambda>r _. let n = pv_reads r in
          (r\<lparr>pv_reads := n + 1\<rparr>, bindE (pv_data env n) (\<lambda>bytes. bindE (pv_image env bytes) (\<lambda>f. Inr (0, One f)))))"

definition pv_release :: "pyv4l2_reader \<Rightarrow> pyv4l2_reader" where
  "pv_release r = (if pv_recording r then r\<lparr>pv_closes := pv_closes r + 1\<rparr> else r)"


section \<open>OpenCV and the common interface\<close>

text \<open>
  An OpenCV capture is what was set on it and how often it was read; a property that was not
  set has the value the driver reports.
\<close>

record opencv_env =
  ox_read :: "nat \<Rightarrow> exn + (int \<times> frame)"
  ox_default :: "capture_prop \<Rightarrow> int"

record opencv_capture =
  oc_settings :: "(capture_prop \<times> int) list"
  oc_reads :: nat
  oc_releases :: nat

datatype reader = OpenCV opencv_capture | Ffmpeg ffmpeg_reader | Pyv4l2 pyv4l2_reader

record reader_env =
  re_opencv :: opencv_env
  re_ffmpeg :: ffmpeg_env
  re_pyv4l2 :: pyv4l2_env

fun reader_set :: "capture_prop \<Rightarrow> int \<Rightarrow> reader \<Rightarrow> reader" where
  "reader_set p v (OpenCV c) = OpenCV (c\<lparr>oc_settings := (p, v) # oc_settings c\<rparr>)"
| "reader_set p v (Ffmpeg r) = Ffmpeg (ff_set p v r)"
| "reader_set p v (Pyv4l2 r) = Pyv4l2 (pv_set p v r)"

fun reader_get :: "reader_env \<Rightarrow> capture_prop \<Rightarrow> reader \<Rightarrow> int option" where
  "reader_get env p (OpenCV c) =
     Some (case map_of (oc_settings c) p of Some v \<Rightarrow> v | None \<Rightarrow> ox_default (re_opencv env) p)"
| "reader_get env p (Ffmpeg r) = ff_get p r"
| "reader_get env p (Pyv4l2 r) = pv_get p r"

fun reader_read :: "reader_env \<Rightarrow> reader \<Rightarrow> reader \<times> (exn + (int \<times> picture))" where
  "reader_read env (OpenCV c) = (OpenCV (c\<lparr>oc_reads := oc_reads c + 1\<rparr>),
     bindE (ox_read (re_opencv env) (oc_reads c)) (\<lambda>(ret, f). Inr (ret, One f)))"
| "reader_read env (Ffmpeg r) = (case ff_read (re_ffmpeg env) r of (r, x) \<Rightarrow> (Ffmpeg r, x))"
| "reader_read env (Pyv4l2 r) = (case pv_read (re_pyv4l2 env) r of (r, x) \<Rightarrow> (Pyv4l2 r, x))"


text \<open>\<open>grab()\<close>: the two imitations read a frame and drop it.\<close>

fun reader_grab :: "reader_env \<Rightarrow> reader \<Rightarrow> reader \<times> (exn + unit)" where
  "reader_grab env (OpenCV c) = (OpenCV (c\<lparr>oc_reads := oc_reads c + 1\<rparr>), Inr ())"
| "reader_grab env r = thenS (reader_read env r) (\<lambda>r _. (r, Inr ()))"

fun reader_release :: "reader \<Rightarrow> reader" where
  "reader_release (OpenCV c) = OpenCV (c\<lparr>oc_releases := oc_releases c + 1\<rparr>)"
| "reader_release (Ffmpeg r) = Ffmpeg (ff_release r)"
| "reader_release (Pyv4l2 r) = Pyv4l2 (pv_release r)"


section \<open>VideoCapture\<close>

text \<open>
  Which device files exist, which of the two optional modules can be imported, the readers, and
  OpenCV's conversion to grayscale. \<open>RuntimeError\<close> and \<open>cv2.error\<close> are its exceptions.
\<close>

record device_env =
  de_exists :: "string \<Rightarrow> bool"
  de_has_ffmpeg :: bool
  de_has_pyv4l2 :: bool
  de_readers :: reader_env
  de_gray :: "frame \<Rightarrow> exn + frame"

definition RuntimeError :: exn where "RuntimeError = OtherError ''RuntimeError''"

text \<open>\<open>config.get\<close> without a fallback.\<close>

definition cfg_require :: "config \<Rightarrow> string \<Rightarrow> string \<Rightarrow> exn + string" where
  "cfg_require c sec opt = (case c sec opt of None \<Rightarrow> Inl (OtherError ''NoOptionError'') | Some r \<Rightarrow> r)"

definition MJPEG :: int where "MJPEG = 1196444237"

text \<open>The choice of the reader; a missing module exits while it is imported.\<close>

definition choose_reader :: "device_env \<Rightarrow> config \<Rightarrow> exn + reader" where
  "choose_reader env c =
     bindE (readable_option c ''video'' ''recording_plugin'') (\<lambda>_.
      let plugin = cfg_get c ''video'' ''recording_plugin'' ''opencv'' in
      if plugin = ''ffmpeg'' then
        (if \<not> de_has_ffmpeg env then Inl (SystemExit (Some 12)) else Inr (Ffmpeg new_ffmpeg))
      else if plugin = ''pyv4l2'' then
        (if \<not> de_has_pyv4l2 env then Inl (SystemExit (Some 13))
         else bindE (new_pyv4l2 (re_pyv4l2 (de_readers env))) (\<lambda>r. Inr (Pyv4l2 r)))
      else
        bindE (cfg_int c ''video'' ''device_fps'' 0) (\<lambda>fps.
          let r = OpenCV \<lparr>oc_settings = [], oc_reads = 0, oc_releases = 0\<rparr>
          in Inr (if fps \<noteq> 0 then reader_set PROP_FPS fps r else r)))"

definition create_reader :: "device_env \<Rightarrow> config \<Rightarrow> exn + reader" where
  "create_reader env c =
     bindE (choose_reader env c) (\<lambda>r.
     bindE (cfg_boolean c ''video'' ''force_mjpeg'' False) (\<lambda>mjpeg.
     let r = (if mjpeg then reader_set PROP_FOURCC MJPEG r else r) in
     bindE (cfg_int c ''video'' ''frame_width'' (-1)) (\<lambda>fw.
     bindE (cfg_int c ''video'' ''frame_height'' (-1)) (\<lambda>fh.
       let r = (if fw \<noteq> -1 then reader_set PROP_WIDTH fw r else r);
           r = (if fh \<noteq> -1 then reader_set PROP_HEIGHT fh r else r)
       in Inr r))))"

text \<open>\<open>VideoCapture(config)\<close>; the first grab wakes the camera up.\<close>

definition open_capture :: "device_env \<Rightarrow> config \<Rightarrow> exn + reader" where
  "open_capture env c =
     bindE (cfg_require c ''video'' ''device_path'') (\<lambda>path.
       if \<not> de_exists env path then
         bindE (cfg_boolean c ''video'' ''warn_no_device'' True) (\<lambda>_. Inl (SystemExit (Some 14)))
       else
         bindE (create_reader env c) (\<lambda>r.
           case reader_grab (de_readers env) r of
             (r, Inl e) \<Rightarrow> Inl e
           | (r, Inr _) \<Rightarrow> Inr r))"

text \<open>
  \<open>read_frame\<close>: a falsy \<open>ret\<close> exits. OpenCV refuses to convert a whole recording.
\<close>

definition read_picture :: "device_env \<Rightarrow> reader \<Rightarrow> reader \<times> (exn + (frame \<times> frame))" where
  "read_picture env r =
     thenS (reader_read (de_readers env) r) (\<lambda>r (ret, picture).
       (r, if ret = 0 then Inl (SystemExit (Some 14))
           else case picture of
             Recording _ \<Rightarrow> Inl (OtherError ''cv2.error'')
           | One f \<Rightarrow>
               (case de_gray env f of
                  Inr gs \<Rightarrow> Inr (f, gs)
                | Inl e \<Rightarrow> if e = RuntimeError then Inr (f, f) else Inl e)))"

text \<open>The camera a \<open>FrameStream\<close> opens: the size its reader reports.\<close>

definition video_camera :: "device_env \<Rightarrow> config \<Rightarrow> exn + camera" where
  "video_camera env c =
     bindE (open_capture env c) (\<lambda>r.
       case (reader_get (de_readers env) PROP_WIDTH r, reader_get (de_readers env) PROP_HEIGHT r) of
         (Some w, Some h) \<Rightarrow> Inr \<lparr>cam_width = of_int w, cam_height = of_int h\<rparr>
       | _ \<Rightarrow> Inl TypeError)"

end
