(* ===== verification/Recorders_Props.thy ===== *)
theory Recorders_Props
  imports Recorders Session_Props
begin

text \<open>
  What the readers promise the stream: a size that was asked for is kept, the ffmpeg reader
  stays inside its recording, and (a defect) neither imitation of OpenCV can deliver a frame.
\<close>

section \<open>The interface of a reader\<close>

text \<open>
  What \<open>VideoCapture\<close> relies on: the width and the height are independent settings, and a
  size that was set to something else than zero survives reading.
\<close>

locale reader_contract =
  fixes get :: "capture_prop \<Rightarrow> 'r \<Rightarrow> int option"
    and put :: "capture_prop \<Rightarrow> int \<Rightarrow> 'r \<Rightarrow> 'r"
    and fetch :: "'r \<Rightarrow> 'r \<times> (exn + 'a)"
  assumes get_put: "p \<in> {PROP_WIDTH, PROP_HEIGHT} \<Longrightarrow> get p (put p v r) = Some v"
    and get_put_other: "p \<noteq> q \<Longrightarrow> get p (put q v r) = get p r"
    and fetch_keeps: "p \<in> {PROP_WIDTH, PROP_HEIGHT} \<Longrightarrow> get p r = Some v \<Longrightarrow> v \<noteq> 0 \<Longrightarrow>
      fetch r = (r', x) \<Longrightarrow> get p r' = Some v"
begin

text \<open>The two settings of \<open>_create_reader\<close>, each made only when asked for.\<close>

definition sized :: "int \<Rightarrow> int \<Rightarrow> 'r \<Rightarrow> 'r" where
  "sized fw fh r =
     (let r = (if fw \<noteq> -1 then put PROP_WIDTH fw r else r)
      in if fh \<noteq> -1 then put PROP_HEIGHT fh r else r)"

lemma sized_fetch:
  assumes "fetch (sized fw fh r) = (r', x)"
  shows "(fw \<notin> {0, -1} \<longrightarrow> get PROP_WIDTH r' = Some fw) \<and> (fh \<notin> {0, -1} \<longrightarrow> get PROP_HEIGHT r' = Some fh)"
  using fetch_keeps [OF _ _ _ assms, of PROP_WIDTH fw] fetch_keeps [OF _ _ _ assms, of PROP_HEIGHT fh]
  by (auto simp: sized_def Let_def get_put get_put_other)

end

lemma ff_get_set:
  "p \<in> {PROP_WIDTH, PROP_HEIGHT} \<Longrightarrow> ff_get p (ff_set p v r) = Some v"
  "p \<noteq> q \<Longrightarrow> ff_get p (ff_set q v r) = ff_get p r"
  by (auto simp: ff_get_def ff_set_def split: capture_prop.splits)

text \<open>What probing leaves alone: the buffer, and every size that is already known.\<close>

definition ff_keeps :: "ffmpeg_reader \<Rightarrow> ffmpeg_reader \<Rightarrow> bool" where
  "ff_keeps r r' \<longleftrightarrow> ff_numframes r' = ff_numframes r \<and> ff_init_camera r' = ff_init_camera r \<and>
     ff_video r' = ff_video r \<and> ff_num_frames_read r' = ff_num_frames_read r \<and>
     (\<forall>p v. ff_get p r = Some v \<longrightarrow> v \<noteq> 0 \<longrightarrow> ff_get p r' = Some v)"

lemma ff_keeps_refl [simp]: "ff_keeps r r"
  by (simp add: ff_keeps_def)

lemma ff_keeps_trans: "ff_keeps r r1 \<Longrightarrow> ff_keeps r1 r2 \<Longrightarrow> ff_keeps r r2"
  by (simp add: ff_keeps_def)

lemma ff_set_rest [simp]:
  "ff_numframes (ff_set p v r) = ff_numframes r" "ff_init_camera (ff_set p v r) = ff_init_camera r"
  "ff_video (ff_set p v r) = ff_video r" "ff_num_frames_read (ff_set p v r) = ff_num_frames_read r"
  by (simp_all add: ff_set_def split: capture_prop.splits)

lemma set_from_keeps:
  assumes "set_from q x r = Inr r'"
  shows "ff_keeps r r'"
proof (cases "r' = r")
  case False
  with assms obtain n where n: "r' = ff_set q n r" "ff_get q r = Some 0"
    by (auto simp: set_from_def flow_simps split: if_splits)
  have "ff_get p r' = Some v" if "ff_get p r = Some v" "v \<noteq> 0" for p v
    using that n by (cases "p = q") (auto simp: ff_get_set(2))
  with n show ?thesis by (simp add: ff_keeps_def)
qed simp

lemma ff_probe_keeps: "ff_probe env r = (r', x) \<Longrightarrow> ff_keeps r r'"
  by (auto simp: ff_probe_def Let_def flow_simps split: sum.splits option.splits prod.splits if_splits
      dest!: set_from_keeps intro: ff_keeps_trans)

lemma ff_record_keeps:
  assumes "ff_record env r = (r', x)"
  shows "ff_numframes r' = ff_numframes r \<and> ff_init_camera r' = ff_init_camera r \<and>
    (\<forall>p v. ff_get p r = Some v \<longrightarrow> v \<noteq> 0 \<longrightarrow> ff_get p r' = Some v) \<and>
    (case x of
       Inl _ \<Rightarrow> ff_video r' = ff_video r \<and> ff_num_frames_read r' \<le> ff_num_frames_read r
     | Inr _ \<Rightarrow> ff_num_frames_read r' = 0 \<and>
         (\<exists>v bytes w h. ff_video r' = Some v \<and> fx_reshape env bytes w h = Inr v))"
proof -
  obtain r1 y where p: "(if ff_width r = 0 \<or> ff_height r = 0 then ff_probe env r else (r, Inr ())) = (r1, y)"
    by fastforce
  then have k: "ff_keeps r r1" by (auto split: if_splits dest: ff_probe_keeps)
  have g: "ff_get q (r1\<lparr>ff_num_frames_read := i, ff_records := j\<rparr>) = ff_get q r1"
    "ff_get q (r1\<lparr>ff_num_frames_read := i, ff_records := j, ff_video := w\<rparr>) = ff_get q r1" for q i j w
    by (simp_all add: ff_get_def split: capture_prop.splits)
  from assms p k show ?thesis
    by (cases y) (auto simp: ff_record_def ff_keeps_def Let_def flow_simps g split: sum.splits, blast+)
qed


text \<open>One read, whatever it returns.\<close>

lemma thenS_elim:
  assumes "thenS m f = (s', r)"
  obtains (stop) e where "m = (s', Inl e)" "r = Inl e" | (go) s x where "m = (s, Inr x)" "f s x = (s', r)"
  using assms by (cases m; cases "snd m") auto

lemma ff_read_keeps:
  assumes "ff_read env r = (r', x)" and "ff_get p r = Some v" and "v \<noteq> 0"
  shows "ff_get p r' = Some v"
proof -
  have g: "ff_get q (s\<lparr>ff_init_camera := False, ff_video := None\<rparr>) = ff_get q s"
    "ff_get q (s\<lparr>ff_num_frames_read := i\<rparr>) = ff_get q s" for q s i
    by (simp_all add: ff_get_def split: capture_prop.splits)
  have rec: "ff_get p s' = Some v" if "(if b then ff_record env s else (s, Inr ())) = (s', y)" "ff_get p s = Some v"
    for b s s' y
    using that ff_record_keeps [of env s s' y] assms(3) by (auto split: if_splits)
  have rec': "ff_get p s' = Some v" if "ff_record env s = (s', y)" "ff_get p s = Some v" for s s' y
    using rec [of True] that by simp
  from assms(1,2) show ?thesis
    by (auto simp: ff_read_def g Let_def elim!: thenS_elim split: if_splits dest!: rec' rec)
qed


section \<open>The readers meet the contract\<close>

interpretation ffr: reader_contract ff_get ff_set "ff_read env" for env
  by unfold_locales (auto simp: ff_get_set intro: ff_read_keeps)

lemma pv_read_keeps: "pv_read env r = (r', x) \<Longrightarrow> pv_get p r' = pv_get p r"
  by (auto simp: pv_read_def pv_get_def Let_def split: sum.splits if_splits capture_prop.splits elim!: thenS_elim)

interpretation pvr: reader_contract pv_get pv_set "pv_read env" for env
proof unfold_locales
  show "pv_get p r' = Some v" if "pv_get p r = Some v" "pv_read env r = (r', x)" for p v r r' and x :: "exn + (int \<times> picture)"
    using that by (simp add: pv_read_keeps)
qed (auto simp: pv_get_def pv_set_def split: capture_prop.splits)

lemma reader_grab_read:
  "reader_grab env (Ffmpeg f) = (r', x) \<Longrightarrow> \<exists>f' y. ff_read (re_ffmpeg env) f = (f', y) \<and> r' = Ffmpeg f'"
  "reader_grab env (Pyv4l2 p) = (r', x) \<Longrightarrow> \<exists>p' y. pv_read (re_pyv4l2 env) p = (p', y) \<and> r' = Pyv4l2 p'"
  by (auto split: prod.splits elim!: thenS_elim)

interpretation rdr: reader_contract "reader_get env" reader_set "reader_grab env" for env
proof unfold_locales
  fix p q :: capture_prop and v :: int and r r' :: reader and x :: "exn + unit"
  show "reader_get env p (reader_set p v r) = Some v" if "p \<in> {PROP_WIDTH, PROP_HEIGHT}"
    using that by (cases r) (auto simp: ffr.get_put pvr.get_put)
  show "reader_get env p (reader_set q v r) = reader_get env p r" if "p \<noteq> q"
    using that by (cases r) (auto simp: ffr.get_put_other pvr.get_put_other)
  show "reader_get env p r' = Some v"
    if "p \<in> {PROP_WIDTH, PROP_HEIGHT}" "reader_get env p r = Some v" "v \<noteq> 0" "reader_grab env r = (r', x)"
  proof (cases r)
    case (Ffmpeg f)
    from reader_grab_read(1) [OF that(4) [unfolded Ffmpeg]] obtain f' y where
      f: "ff_read (re_ffmpeg env) f = (f', y)" "r' = Ffmpeg f'" by blast
    from ffr.fetch_keeps [OF that(1) _ that(3) f(1)] that(2) f(2) Ffmpeg show ?thesis by simp
  next
    case (Pyv4l2 q)
    from reader_grab_read(2) [OF that(4) [unfolded Pyv4l2]] obtain q' y where
      f: "pv_read (re_pyv4l2 env) q = (q', y)" "r' = Pyv4l2 q'" by blast
    from pvr.fetch_keeps [OF that(1) _ that(3) f(1)] that(2) f(2) Pyv4l2 show ?thesis by simp
  qed (use that in auto)
qed

text \<open>
  A camera opens at the size asked for. If opening succeeds and \<open>frame_width\<close> or
  \<open>frame_height\<close> is set to a number other than 0 and -1, the reader (any of the three) reports
  that number afterwards, although the readers probe the device for its size.
\<close>

theorem requested_size:
  assumes "open_capture env c = Inr r" and "cfg_int c ''video'' ''frame_width'' (-1) = Inr fw"
    and "cfg_int c ''video'' ''frame_height'' (-1) = Inr fh"
  shows "(fw \<notin> {0, -1} \<longrightarrow> reader_get (de_readers env) PROP_WIDTH r = Some fw) \<and>
    (fh \<notin> {0, -1} \<longrightarrow> reader_get (de_readers env) PROP_HEIGHT r = Some fh)"
proof -
  from assms(1) obtain r0 where r0: "create_reader env c = Inr r0"
    and op: "(case reader_grab (de_readers env) r0 of (r, Inl e) \<Rightarrow> Inl e | (r, Inr _) \<Rightarrow> Inr r) = Inr r"
    by (auto simp: open_capture_def flow_simps split: if_splits)
  from op obtain x where g: "reader_grab (de_readers env) r0 = (r, x)"
    by (cases "reader_grab (de_readers env) r0") (auto split: sum.splits)
  from r0 assms(2,3) obtain r1 where "r0 = rdr.sized fw fh r1"
    by (auto simp: create_reader_def flow_simps Let_def rdr.sized_def)
  with g show ?thesis using rdr.sized_fetch by blast
qed



section \<open>Reading\<close>

text \<open>The two imitations return 0 where OpenCV returns whether the read succeeded.\<close>

lemma ff_read_ret: "ff_read env r = (r', Inr (ret, pic)) \<Longrightarrow> ret = 0"
  by (auto simp: ff_read_def Let_def elim!: thenS_elim split: if_splits option.splits)

lemma pv_read_ret: "pv_read env r = (r', Inr (ret, pic)) \<Longrightarrow> ret = 0"
  by (auto simp: pv_read_def Let_def flow_simps elim!: thenS_elim split: if_splits sum.splits)

text \<open>
  C39: neither imitation of OpenCV ever delivers a frame. With \<open>recording_plugin\<close> set to
  \<open>ffmpeg\<close> or \<open>pyv4l2\<close>, \<open>read_frame\<close> raises whatever the device does: the readers return
  \<open>(0, frame)\<close>, and the caller takes 0 for a failed read and exits with status 14. Only an
  exception of the reader itself is another outcome.
\<close>

theorem plugin_never_reads:
  assumes "open_capture env c = Inr r" and "cfg_get c ''video'' ''recording_plugin'' ''opencv'' \<in> {''ffmpeg'', ''pyv4l2''}"
  shows "\<exists>e. snd (read_picture env r) = Inl e \<and>
    (\<forall>x. snd (reader_read (de_readers env) r) = Inr x \<longrightarrow> e = SystemExit (Some 14))"
proof -
  from assms(1) obtain r0 where r0: "create_reader env c = Inr r0"
    and op: "(case reader_grab (de_readers env) r0 of (r, Inl e) \<Rightarrow> Inl e | (r, Inr _) \<Rightarrow> Inr r) = Inr r"
    by (auto simp: open_capture_def flow_simps split: if_splits)
  have "\<forall>o'. r0 \<noteq> OpenCV o'"
    using r0 assms(2)
    by (auto simp: create_reader_def choose_reader_def flow_simps Let_def split: if_splits)
  with op have nc: "\<forall>o'. r \<noteq> OpenCV o'"
    by (cases r0) (auto split: prod.splits sum.splits elim!: thenS_elim)
  obtain r' x where rd: "reader_read (de_readers env) r = (r', x)" by fastforce
  have "x = Inr (ret, pic) \<Longrightarrow> ret = 0" for ret pic
    using rd nc by (cases r) (auto split: prod.splits dest: ff_read_ret pv_read_ret)
  with rd show ?thesis by (cases x) (auto simp: read_picture_def)
qed


section \<open>The ffmpeg buffer\<close>

text \<open>ffmpeg is asked for ten frames and delivers them; no call outside the reader raises \<open>IndexError\<close>.\<close>

definition ten_frames :: "ffmpeg_env \<Rightarrow> bool" where
  "ten_frames env \<longleftrightarrow> (\<forall>bytes w h v. fx_reshape env bytes w h = Inr v \<longrightarrow> length v = 10)"

definition no_index_error :: "ffmpeg_env \<Rightarrow> bool" where
  "no_index_error env \<longleftrightarrow> fx_list_formats env \<noteq> Inl IndexError \<and> fx_probe env \<noteq> Inl IndexError \<and>
     (\<forall>n. fx_run env n \<noteq> Inl IndexError) \<and> (\<forall>bytes w h. fx_reshape env bytes w h \<noteq> Inl IndexError) \<and>
     (\<forall>v. fx_eq_empty env v \<noteq> Inl IndexError)"

lemma set_from_errors: "set_from p x r \<noteq> Inl IndexError"
  by (auto simp: set_from_def flow_simps parse_int_def Let_def split: option.splits)

lemma as_text_errors: "as_text v \<noteq> Inl IndexError"
  by (auto simp: as_text_def split: json.splits)

lemma ff_probe_errors: "ff_probe env r = (r', x) \<Longrightarrow> no_index_error env \<Longrightarrow> x \<noteq> Inl IndexError"
  using set_from_errors as_text_errors
  by (auto simp: ff_probe_def no_index_error_def Let_def elim!: thenS_elim
      split: sum.splits option.splits prod.splits if_splits)
     (auto simp: flow_simps set_from_errors as_text_errors)

lemma ff_record_errors:
  assumes "ff_record env r = (r', x)" and "no_index_error env"
  shows "x \<noteq> Inl IndexError"
proof -
  obtain r1 y where p: "(if ff_width r = 0 \<or> ff_height r = 0 then ff_probe env r else (r, Inr ())) = (r1, y)"
    by fastforce
  with assms(2) have "y \<noteq> Inl IndexError" by (auto split: if_splits dest: ff_probe_errors)
  with assms p show ?thesis
    by (cases y) (auto simp: ff_record_def no_index_error_def Let_def flow_simps split: sum.splits)
qed

definition ff_inv :: "ffmpeg_reader \<Rightarrow> bool" where
  "ff_inv r \<longleftrightarrow> ff_numframes r = 10 \<and> ff_num_frames_read r \<le> 9 \<and> (\<forall>v. ff_video r = Some v \<longrightarrow> length v = 10)"

lemma ff_record_inv:
  "ff_record env r = (r', x) \<Longrightarrow> ten_frames env \<Longrightarrow> ff_inv r \<Longrightarrow>
     ff_inv r' \<and> ff_init_camera r' = ff_init_camera r \<and>
     (x = Inr () \<longrightarrow> ff_num_frames_read r' = 0 \<and> ff_video r' \<noteq> None)"
  by (drule ff_record_keeps) (auto simp: ff_inv_def ten_frames_def split: sum.splits)

text \<open>What the steps of one read after the first leave.\<close>

text \<open>One of the two places where \<open>read\<close> records a new video.\<close>

lemma record_if:
  assumes "(if b then ff_record env s else (s, Inr ())) = (s', y)" and "ten_frames env" and "ff_inv s"
  shows "ff_inv s'" and "\<And>u. y = Inr u \<Longrightarrow> b \<Longrightarrow> ff_num_frames_read s' = 0 \<and> ff_video s' \<noteq> None"
    and "no_index_error env \<Longrightarrow> y \<noteq> Inl IndexError"
  using assms ff_record_inv [OF _ assms(2)] ff_record_errors by (cases b; fastforce)+

lemma record_if_video:
  assumes "(if b then ff_record env s else (s, Inr ())) = (s', Inr u)" and "ten_frames env" and "ff_inv s"
    and "b \<or> ff_video s \<noteq> None"
  shows "ff_video s' \<noteq> None"
  using record_if(2) [OF assms(1-3) refl] assms(1,4) by (cases b) auto

text \<open>A read after both recordings went well.\<close>

lemma ff_read_picks:
  assumes "ff_is_empty env r = Inr b" and "\<not> ff_init_camera r"
    and "(if b then ff_record env r else (r, Inr ())) = (s1, Inr u)"
    and "(if ff_numframes s1 - 1 \<le> ff_num_frames_read s1 then ff_record env s1 else (s1, Inr ())) = (s2, Inr w)"
  shows "ff_read env r = (s2\<lparr>ff_num_frames_read := Suc (ff_num_frames_read s2)\<rparr>,
    case ff_video s2 of
      Some v \<Rightarrow> if Suc (ff_num_frames_read s2) < length v then Inr (0, One (v ! Suc (ff_num_frames_read s2))) else Inl IndexError
    | None \<Rightarrow> Inl IndexError)"
  using assms by (auto simp: ff_read_def Let_def split: option.splits)

lemma ff_read_later:
  assumes "ff_read env r = (r', x)" and "\<not> ff_init_camera r" and "ten_frames env" and "ff_inv r"
  shows "ff_inv r' \<and> (no_index_error env \<longrightarrow> x \<noteq> Inl IndexError) \<and> (\<forall>ret pic. x = Inr (ret, pic) \<longrightarrow>
    (\<exists>v k. ff_video r' = Some v \<and> k = ff_num_frames_read r' \<and> 1 \<le> k \<and> k < length v \<and> pic = One (v ! k)))"
proof (cases "ff_is_empty env r")
  case (Inl e)
  then have "no_index_error env \<longrightarrow> e \<noteq> IndexError"
    by (auto simp: ff_is_empty_def no_index_error_def split: option.splits)
  with Inl assms show ?thesis by (auto simp: ff_read_def)
next
  case b: (Inr b)
  obtain s1 u where s1: "(if b then ff_record env r else (r, Inr ())) = (s1, u)" by fastforce
  note r1 = record_if [OF s1 assms(3,4)]
  obtain s2 w where s2: "(if ff_numframes s1 - 1 \<le> ff_num_frames_read s1 then ff_record env s1 else (s1, Inr ()))
      = (s2, w)" by fastforce
  note r2 = record_if [OF s2 assms(3) r1(1)]
  consider e where "u = Inl e" | u' e where "u = Inr u'" "w = Inl e" | u' w' where "u = Inr u'" "w = Inr w'"
    by (cases u; cases w) auto
  then show ?thesis
  proof cases
    case 1
    with assms(1,2) b s1 r1 show ?thesis by (auto simp: ff_read_def)
  next
    case 2
    with assms(1,2) b s1 s2 r2 show ?thesis by (auto simp: ff_read_def)
  next
    case 3
    have lt: "ff_num_frames_read s2 < 9"
      using r2(2) [OF 3(2)] s2 r1(1) by (cases "ff_numframes s1 - 1 \<le> ff_num_frames_read s1") (auto simp: ff_inv_def)
    have "b \<or> ff_video r \<noteq> None" using b by (auto simp: ff_is_empty_def split: option.splits)
    then have "ff_video s2 \<noteq> None"
      using record_if_video [OF s2 [unfolded 3(2)] assms(3) r1(1)] record_if_video [OF s1 [unfolded 3(1)] assms(3,4)] by blast
    then show ?thesis
      using ff_read_picks [OF b assms(2) s1 [unfolded 3(1)] s2 [unfolded 3(2)]] assms(1) lt r2(1)
      by (auto simp: ff_inv_def split: option.splits if_splits)
  qed
qed


lemma ff_read_first:
  assumes "ff_read env r = (r', x)" and "ff_init_camera r" and "ten_frames env" and "ff_inv r"
  shows "ff_inv r' \<and> (no_index_error env \<longrightarrow> x \<noteq> Inl IndexError) \<and> (\<forall>ret pic. x = Inr (ret, pic) \<longrightarrow>
    (\<exists>v. pic = Recording v \<and> length v = 10))"
proof -
  let ?r = "r\<lparr>ff_init_camera := False, ff_video := None\<rparr>"
  obtain r1 y where r1: "ff_record env ?r = (r1, y)" by fastforce
  have "ff_inv ?r" using assms(4) by (simp add: ff_inv_def)
  from ff_record_inv [OF r1 assms(3) this] ff_record_errors [OF r1] assms(1,2) r1 show ?thesis
    by (cases y) (auto simp: ff_read_def ff_inv_def split: option.splits)
qed

text \<open>What happens to a reader: reads, settings, releases.\<close>

inductive ff_step :: "ffmpeg_env \<Rightarrow> ffmpeg_reader \<Rightarrow> ffmpeg_reader \<Rightarrow> bool" for env where
  ff_reads: "ff_read env r = (r', x) \<Longrightarrow> ff_step env r r'"
| ff_sets: "ff_step env r (ff_set p v r)"
| ff_releases: "ff_step env r (ff_release r)"

interpretation ffi: inductive_invariant new_ffmpeg "ff_step env" "\<lambda>r. ten_frames env \<longrightarrow> ff_inv r" for env
proof unfold_locales
  show "ten_frames env \<longrightarrow> ff_inv new_ffmpeg" by (simp add: ff_inv_def new_ffmpeg_def)
  fix r r' assume "ten_frames env \<longrightarrow> ff_inv r" "ff_step env r r'"
  from this(2,1) show "ten_frames env \<longrightarrow> ff_inv r'"
  proof cases
    case (ff_reads x)
    with ff_read_first [OF ff_reads] ff_read_later [OF ff_reads] \<open>ten_frames env \<longrightarrow> ff_inv r\<close> show ?thesis
      by blast
  qed (auto simp: ff_inv_def ff_release_def)
qed

text \<open>
  The ffmpeg reader stays inside its recording. In every state it can reach by reads, settings
  and releases, and if each recording has the ten frames asked for, a read raises no
  \<open>IndexError\<close> of its own; the first read hands out a whole recording, every later one the
  frame at an index from 1 to 9 (never frame 0) of a recording of ten.
\<close>

theorem ffmpeg_in_range:
  assumes "rtranclp (ff_step env) new_ffmpeg r" and "ff_read env r = (r', x)"
    and "ten_frames env" and "no_index_error env"
  shows "x \<noteq> Inl IndexError \<and> (\<forall>ret pic. x = Inr (ret, pic) \<longrightarrow>
    (\<exists>v. length v = 10 \<and> (if ff_init_camera r then pic = Recording v
       else \<exists>k. 1 \<le> k \<and> k \<le> 9 \<and> ff_num_frames_read r' = k \<and> pic = One (v ! k))))"
proof -
  have inv: "ff_inv r" using ffi.reachable_inv [OF assms(1)] assms(3) by simp
  show ?thesis
  proof (cases "ff_init_camera r")
    case True
    with ff_read_first [OF assms(2) True assms(3) inv] assms(4) show ?thesis by auto
  next
    case False
    note l = ff_read_later [OF assms(2) False assms(3) inv]
    have "length v = 10" if "ff_video r' = Some v" for v using l that by (simp add: ff_inv_def)
    with l False assms(4) show ?thesis by fastforce
  qed
qed

text \<open>
  Probing the size. The listing of ffmpeg names a size as width x height; a reader without a
  size of its own takes the first number for its height and the second for its width. When the
  listing has no size and \<open>ffmpeg.probe\<close> answers with numbers, as it documents, the reader
  raises \<open>AttributeError\<close> (numbers have no \<open>isdigit\<close>).
\<close>

theorem ffmpeg_probe_size:
  assumes "ff_get PROP_HEIGHT r = Some 0" and "ff_get PROP_WIDTH r = Some 0"
    and "fx_list_formats env = Inr (1, Some err)" and "fx_probe env = Inr (JInt h, JInt w)"
  shows "case first_size err of
      Some (a, b) \<Rightarrow> (\<forall>r'. ff_probe env r = (r', Inr ()) \<longrightarrow> py_isdigit a \<longrightarrow> py_isdigit b \<longrightarrow>
        parse_int a = Inr (ff_height r') \<and> parse_int b = Inr (ff_width r'))
    | None \<Rightarrow> ff_probe env r = (r, Inl AttributeError)"
proof (cases "first_size err")
  case None
  with assms show ?thesis by (simp add: ff_probe_def as_text_def)
next
  case (Some ab)
  obtain a b where ab: "ab = (a, b)" by fastforce
  have "parse_int a = Inr (ff_height r') \<and> parse_int b = Inr (ff_width r')"
    if "ff_probe env r = (r', Inr ())" "py_isdigit a" "py_isdigit b" for r'
  proof -
    from that assms Some ab obtain n where n: "parse_int a = Inr n"
      by (cases "parse_int a") (auto simp: ff_probe_def set_from_def)
    from that assms Some ab n obtain m where "parse_int b = Inr m" "r' = ff_set PROP_WIDTH m (ff_set PROP_HEIGHT n r)"
      by (cases "parse_int b") (auto simp: ff_probe_def set_from_def ff_get_set)
    with n show ?thesis by (simp add: ff_set_def)
  qed
  with Some ab show ?thesis by simp
qed



section \<open>A device that is not there\<close>

definition no_device :: "device_env \<Rightarrow> config \<Rightarrow> bool" where
  "no_device env c \<longleftrightarrow> (\<exists>p. c ''video'' ''device_path'' = Some (Inr p) \<and> \<not> de_exists env p) \<and>
     (\<exists>b. cfg_boolean c ''video'' ''warn_no_device'' True = Inr b) \<and>
     (\<exists>t. cfg_float c ''video'' ''dark_threshold'' (Fin 60) = Inr t) \<and>
     (\<exists>n. cfg_int c ''video'' ''rotate'' 0 = Inr n)"

lemma no_device_stream: "no_device env c \<Longrightarrow> make_stream c (video_camera env) tr = Inl (SystemExit (Some 14))"
  by (auto simp: no_device_def make_stream_def video_camera_def open_capture_def cfg_require_def)


section \<open>Witnesses\<close>

text \<open>A device that delivers gray frames to OpenCV and to ffmpeg.\<close>

definition gray_recording :: "frame list" where
  "gray_recording = replicate 10 sample_frame"

definition sample_ffmpeg :: ffmpeg_env where
  "sample_ffmpeg = \<lparr>fx_list_formats = Inr (1, Some '' 640x480''), fx_probe = Inr (JInt 480, JInt 640),
     fx_run = (\<lambda>_. Inr []), fx_reshape = (\<lambda>_ _ _. Inr gray_recording), fx_eq_empty = (\<lambda>_. Inr False)\<rparr>"

definition sample_pyv4l2 :: pyv4l2_env where
  "sample_pyv4l2 = \<lparr>pv_open = Inr (), pv_get_format = Inr (0, 480, 640), pv_probe = Inr (JInt 480, JInt 640),
     pv_frame = Inr (), pv_data = (\<lambda>_. Inr []), pv_image = (\<lambda>_. Inr sample_frame)\<rparr>"

definition sample_device :: device_env where
  "sample_device = \<lparr>de_exists = (\<lambda>p. p = ''/dev/video0''), de_has_ffmpeg = True, de_has_pyv4l2 = True,
     de_readers = \<lparr>re_opencv = \<lparr>ox_read = (\<lambda>_. Inr (1, sample_frame)), ox_default = (\<lambda>_. 100)\<rparr>,
       re_ffmpeg = sample_ffmpeg, re_pyv4l2 = sample_pyv4l2\<rparr>,
     de_gray = Inr\<rparr>"

definition camera_config :: "string \<Rightarrow> config" where
  "camera_config plugin sec opt =
     (if sec = ''video'' then map_of [(''device_path'', Inr ''/dev/video0''), (''recording_plugin'', Inr plugin),
        (''frame_width'', Inr ''320'')] opt else None)"

lemma ffmpeg_opens: "\<exists>r. open_capture sample_device (camera_config ''ffmpeg'') = Inr r"
proof -
  have "(case open_capture sample_device (camera_config ''ffmpeg'') of Inl _ \<Rightarrow> False | Inr _ \<Rightarrow> True) = True"
    by code_simp
  then show ?thesis by (auto split: sum.splits)
qed

theorem requested_size_witness:
  "\<exists>r. open_capture sample_device (camera_config ''ffmpeg'') = Inr r \<and>
     reader_get (de_readers sample_device) PROP_WIDTH r = Some 320"
proof -
  obtain r where r: "open_capture sample_device (camera_config ''ffmpeg'') = Inr r" using ffmpeg_opens by blast
  have w: "cfg_int (camera_config ''ffmpeg'') ''video'' ''frame_width'' (-1) = Inr 320" by code_simp
  have h: "cfg_int (camera_config ''ffmpeg'') ''video'' ''frame_height'' (-1) = Inr (-1)" by code_simp
  from requested_size [OF r w h] r show ?thesis by auto
qed

theorem plugin_never_reads_witness:
  "\<exists>r e. open_capture sample_device (camera_config ''ffmpeg'') = Inr r \<and> snd (read_picture sample_device r) = Inl e"
proof -
  obtain r where r: "open_capture sample_device (camera_config ''ffmpeg'') = Inr r" using ffmpeg_opens by blast
  have "cfg_get (camera_config ''ffmpeg'') ''video'' ''recording_plugin'' ''opencv'' \<in> {''ffmpeg'', ''pyv4l2''}"
    by code_simp
  from plugin_never_reads [OF r this] r show ?thesis by auto
qed

theorem ffmpeg_in_range_witness:
  "\<exists>v. length v = 10 \<and> snd (ff_read sample_ffmpeg new_ffmpeg) = Inr (0, Recording v)"
proof -
  have g: "snd (ff_read sample_ffmpeg new_ffmpeg) = Inr (0, Recording gray_recording)" by code_simp
  have "ten_frames sample_ffmpeg" "no_index_error sample_ffmpeg"
    by (simp_all add: ten_frames_def no_index_error_def sample_ffmpeg_def gray_recording_def)
  from ffmpeg_in_range [OF _ pair_of_snd [OF g] this] g show ?thesis
    by (auto simp: new_ffmpeg_def)
qed

theorem ffmpeg_probe_size_witness:
  "parse_int ''640'' = Inr (ff_height (fst (ff_probe sample_ffmpeg new_ffmpeg)))"
proof -
  have f: "first_size '' 640x480'' = Some (''640'', ''480'')" by code_simp
  have p: "snd (ff_probe sample_ffmpeg new_ffmpeg) = Inr ()" by code_simp
  have d: "py_isdigit ''640''" "py_isdigit ''480''" by code_simp+
  have "fx_list_formats sample_ffmpeg = Inr (1, Some '' 640x480'')" "fx_probe sample_ffmpeg = Inr (JInt 480, JInt 640)"
    by (simp_all add: sample_ffmpeg_def)
  from ffmpeg_probe_size [OF _ _ this, of new_ffmpeg] f pair_of_snd [OF p] d show ?thesis
    by (auto simp: ff_get_def new_ffmpeg_def)
qed

end
