(* ===== verification/Device_Props.thy ===== *)
theory Device_Props
  imports Recorders_Props Authd_Props
begin

text \<open>
  The readers under the sessions: a camera that is not there ends a login in
  \<open>INVALID_DEVICE\<close> and a management request in \<open>invalid_device\<close>, through the exit
  \<open>VideoCapture\<close> makes.
\<close>

section \<open>A management request without a device\<close>

lemma enroll_no_device:
  assumes "no_device denv c" and "ee_config env = c" and "ee_camera env = video_camera denv"
    and "b_model_id (ee_bundle env) = active_model_id c" and "model_id_known c = Inr ()"
  shows "enroll_run env user label replace tks late now s fs = (s, fs, Some (Inl (SystemExit (Some 14))))"
  using assms by (simp add: enroll_run_def enroll_capture_def no_device_stream)

text \<open>
  An enrollment without its camera is reported as such. If the device file of the
  configuration does not exist, a valid and allowed \<open>enroll\<close> that was granted the lock and the
  camera ends in the one result \<open>invalid_device\<close>: the exit of \<open>VideoCapture\<close> never leaves
  the daemon, the files are untouched, and the lock and the camera are free again.
\<close>

theorem missing_device_reported:
  assumes "validate_manage_request payload = Inr req" and "mr_type req = ''enroll''"
    and "may_act_for (me_getpwnam env) uid (mr_username req)"
    and "me_config env = Inr c" and "create_pipeline (me_loaders env) c (ms_cache ms) = (cache, Inr b)"
    and "b_model_id b = active_model_id c" and "me_lock_granted env" and "me_camera_granted env"
    and "me_camera env = video_camera denv" and "no_device denv c"
    and "\<forall>event. snd (send_event env event (ms_conn ms)) = Inr ()" and "model_id_known c = Inr ()"
  shows "\<exists>cn. quiet (ms_conn ms) cn \<and> handle env uid payload ms =
    answer_error env (JStr (mr_id req)) ''invalid_device''
      (ms\<lparr>ms_cache := cache, ms_conn := cn, ms_lock := False, ms_camera := False\<rparr>)"
proof -
  let ?ev = "[(''type'', JStr ''started''), (''request_id'', JStr (mr_id req))]"
  obtain cn where cn: "send_event env ?ev (ms_conn ms) = (cn, Inr ())"
    using pair_of_snd [OF assms(11) [rule_format, of ?ev]] by blast
  have "v2_event ((''v'', JInt MANAGE_VERSION) # ?ev)"
    by (simp add: v2_event_def v2_message_def is_result_def jget_def)
  from talk_event [OF cn this] have q: "quiet (ms_conn ms) cn" by (simp add: talk_def)
  let ?ee = "\<lparr>ee_config = c, ee_bundle = b, ee_cv = me_cv env, ee_camera = me_camera env, ee_observed = True,
    ee_max_frames = MAX_FRAMES, ee_store = me_store env\<rparr>"
  have "enroll_run ?ee (mr_username req) (mr_label req) (mr_replace req) (me_ticks env) (me_late_cancel env)
      (me_now env) new_session fs = (new_session, fs, Some (Inl (SystemExit (Some 14))))" for fs
    by (rule enroll_no_device [OF assms(10)]) (simp_all add: assms(6,9,12))
  then have r: "run_manage_session env req c b fs = ([], fs, Some (Inl (SystemExit (Some 14))))" for fs
    using assms(2) by (simp add: run_manage_session_def new_session_def)
  have "camera_session env req ms = (ms\<lparr>ms_cache := cache, ms_conn := cn, ms_lock := False, ms_camera := False\<rparr>,
      Some (Inl (SystemExit (Some 14))))"
    using assms(2,4,5,7,8) cn r by (simp add: camera_session_def with_camera_def Let_def)
  with assms(1-3) q show ?thesis by (intro exI [of _ cn]) (simp add: handle_def)
qed


section \<open>A login without a device\<close>

text \<open>
  A login without its camera answers \<open>INVALID_DEVICE\<close>. If the user has templates, the
  pipeline is built and the device file does not exist, the session exits with status 14, which
  the daemon turns into result code 14 instead of dying.
\<close>

theorem missing_device_login:
  assumes "user \<noteq> []" and "ae_config (le_auth w) = Inr c" and "ae_camera (le_auth w) = video_camera denv"
    and "no_device denv c" and "load (ae_store (le_auth w)) (ae_fs (le_auth w)) user (active_model_id c) = Inr ts"
    and "cfg_boolean c ''debug'' ''gtk_stdout'' False = Inr g" and "read_options c = Inr ao"
    and "snd (create_pipeline (ae_loaders (le_auth w)) c (ae_cache (le_auth w))) = Inr b"
    and "make_pipeline b ts (ao_certainty ao) = Inr p"
    and "le_granted w" and "le_submit w = None" and "\<not> le_deadline_missed w" and "model_id_known c = Inr ()"
  shows "run_session w user = Inr (code INVALID_DEVICE)"
proof -
  have "run_loop (le_auth w) c ts tks s = (s, Some (Inl (SystemExit (Some 14))))" for tks s
    using assms(3,4,7-9) by (simp add: run_loop_def init_detector_def no_device_stream)
  with assms(1,2,5,6,13) have "run (le_auth w) user (le_ticks w) new_session =
      (new_session, Some (Inl (SystemExit (Some 14))))"
    by (simp add: run_def)
  with assms(10-12) show ?thesis by (simp add: run_session_def)
qed


section \<open>Witnesses\<close>

text \<open>The sample login and enrollment, on a device path that does not exist.\<close>

definition lost_config :: config where
  "lost_config sec opt = (if sec = ''video'' \<and> opt = ''device_path'' then Some (Inr ''/dev/video9'') else None)"

lemma lost_no_device: "no_device sample_device lost_config"
  by (auto simp: no_device_def lost_config_def sample_device_def cfg_boolean_def cfg_float_def cfg_int_def)

definition lost_env :: auth_env where
  "lost_env = (login_env lost_config)\<lparr>ae_camera := video_camera sample_device\<rparr>"

definition lost_login :: login_world where
  "lost_login = \<lparr>le_auth = lost_env, le_granted = True, le_submit = None, le_ticks = login_ticks,
     le_deadline_missed = False\<rparr>"

lemma lost_options: "read_options lost_config = Inr \<lparr>ao_save_failed = False, ao_save_successful = False,
    ao_end_report = False, ao_timeout = 4, ao_certainty = Fin (7/20)\<rparr>"
  by (simp add: read_options_def lost_config_def cfg_boolean_def cfg_int_def cfg_float_def)

lemma lost_space: "active_model_id lost_config = LEGACY_MODEL_ID" "model_id_known lost_config = Inr ()"
  by code_simp+

lemma lost_bundle: "snd (create_pipeline (ae_loaders lost_env) lost_config (ae_cache lost_env)) = Inr login_bundle"
  by (simp add: create_pipeline_def cache_key_def readable_option_def backend_of_def cfg_get_def cfg_boolean_def lost_config_def lost_env_def
        login_env_def py_strip_def py_lower_def lower_char_def is_py_space_def)

lemma lost_templates: "\<exists>ts. load sample_env login_fs ''al'' LEGACY_MODEL_ID = Inr ts \<and> ts_model_id ts = LEGACY_MODEL_ID"
proof -
  have "(case load sample_env login_fs ''al'' LEGACY_MODEL_ID of Inl _ \<Rightarrow> False | Inr ts \<Rightarrow> ts_model_id ts = LEGACY_MODEL_ID) = True"
    by code_simp
  then show ?thesis by (auto split: sum.splits)
qed

theorem missing_device_login_witness: "run_session lost_login ''al'' = Inr 14"
proof -
  obtain ts where ts: "load sample_env login_fs ''al'' LEGACY_MODEL_ID = Inr ts" "ts_model_id ts = LEGACY_MODEL_ID"
    using lost_templates by blast
  have b: "snd (create_pipeline (ae_loaders (le_auth lost_login)) lost_config (ae_cache (le_auth lost_login))) = Inr login_bundle"
    by (simp add: lost_login_def lost_bundle)
  have p: "make_pipeline login_bundle ts (Fin (7/20)) = Inr \<lparr>pl_bundle = login_bundle, pl_templates = ts, pl_threshold = Fin (7/20)\<rparr>"
    using ts(2) by (simp add: make_pipeline_def login_bundle_def)
  have g: "cfg_boolean lost_config ''debug'' ''gtk_stdout'' False = Inr False"
    by (simp add: cfg_boolean_def lost_config_def)
  have l: "load (ae_store (le_auth lost_login)) (ae_fs (le_auth lost_login)) ''al'' (active_model_id lost_config) = Inr ts"
    using ts(1) by (simp add: lost_login_def lost_env_def login_env_def lost_space)
  have "run_session lost_login ''al'' = Inr (code INVALID_DEVICE)"
    by (rule missing_device_login [OF _ _ _ lost_no_device l g lost_options b])
       (simp_all add: p lost_login_def lost_env_def lost_space)
  then show ?thesis by simp
qed

definition enroll_payload :: jdict where
  "enroll_payload = [(''v'', JInt 2), (''type'', JStr ''enroll''), (''request_id'', JStr ''7''),
     (''username'', JStr ''al''), (''label'', JStr ''desk'')]"

definition enroll_req :: manage_request where
  "enroll_req = (base_request ''enroll'' ''7'' ''al'')\<lparr>mr_label := ''desk''\<rparr>"

lemma enroll_validates: "validate_manage_request enroll_payload = Inr enroll_req"
  by code_simp

definition lost_manage :: manage_env where
  "lost_manage = manage_sample\<lparr>me_config := Inr lost_config, me_camera := video_camera sample_device\<rparr>"

definition warm_idle :: manage_state where
  "warm_idle = (manage_idle empty_fs)\<lparr>ms_cache := ae_cache lost_env\<rparr>"

theorem missing_device_reported_witness:
  "\<exists>cn cache. quiet sample_conn cn \<and> handle lost_manage 0 enroll_payload warm_idle =
     answer_error lost_manage (JStr ''7'') ''invalid_device''
       (warm_idle\<lparr>ms_cache := cache, ms_conn := cn, ms_lock := False, ms_camera := False\<rparr>)"
proof -
  have l: "me_loaders lost_manage = ae_loaders lost_env" "ms_cache warm_idle = ae_cache lost_env"
    by (simp_all add: lost_manage_def manage_sample_def warm_idle_def lost_env_def login_env_def)
  obtain cache where b: "create_pipeline (me_loaders lost_manage) lost_config (ms_cache warm_idle) = (cache, Inr login_bundle)"
    using pair_of_snd [OF lost_bundle] l by metis
  have "\<forall>event. snd (send_event lost_manage event (ms_conn warm_idle)) = Inr ()"
    by (simp add: send_event_def write_frame_def frame_bytes_def lost_manage_def manage_sample_def sample_codec_def
        MAX_EVENT_PAYLOAD_def warm_idle_def manage_idle_def sample_conn_def)
  from missing_device_reported [OF enroll_validates _ _ _ b _ _ _ _ lost_no_device this, of 0]
  have "\<exists>cn. quiet (ms_conn warm_idle) cn \<and> handle lost_manage 0 enroll_payload warm_idle =
     answer_error lost_manage (JStr (mr_id enroll_req)) ''invalid_device''
       (warm_idle\<lparr>ms_cache := cache, ms_conn := cn, ms_lock := False, ms_camera := False\<rparr>)"
    by (simp add: enroll_req_def base_request_def may_act_for_def lost_manage_def manage_sample_def lost_space
        login_bundle_def)
  then show ?thesis by (auto simp: enroll_req_def base_request_def warm_idle_def manage_idle_def)
qed

end
