(* ===== verification/Model_Files.thy ===== *)
theory Model_Files
  imports Files
begin

text \<open>
  \<open>dlib_models.py\<close>: which of the pinned data files of the dlib backend are missing, and their
  download: unpacked into a temporary file, checked against a SHA-256, then renamed. The
  network, bzip2 and the hash are parameters.
\<close>

section \<open>The pinned files\<close>

record data_file =
  df_name :: string
  df_sha256 :: string

definition BASE_URL :: string where
  "BASE_URL = ''https://github.com/davisking/dlib-models/raw/fd81b6308a6a73d4ce08859eb2f4b628a21e27a2/''"

definition df_url :: "data_file \<Rightarrow> string" where
  "df_url f = BASE_URL @ df_name f @ ''.bz2''"

definition FILES :: "data_file list" where
  "FILES =
     [\<lparr>df_name = ''shape_predictor_5_face_landmarks.dat'',
       df_sha256 = ''c4b1e9804792707d3a405c2c16a80a20269e6675021f64a41d30fffafbc41888''\<rparr>,
      \<lparr>df_name = ''mmod_human_face_detector.dat'',
       df_sha256 = ''be467b1a76f482693de3b0f6a1ff91d092319be71523d4d4b0628f6a53fcb87a''\<rparr>,
      \<lparr>df_name = ''dlib_face_recognition_resnet_model_v1.dat'',
       df_sha256 = ''55533b28a95800a551ba546ba62fe69625c7e95a7061c338adffead08719da30''\<rparr>]"


section \<open>The data directory\<close>

record data_inode =
  di_bytes :: "nat list"
  di_mode :: nat

text \<open>The regular files of the directory by name; \<open>None\<close> while there is no directory.\<close>

type_synonym data_files = "string \<Rightarrow> data_inode option"

definition missing :: "data_files \<Rightarrow> string list" where
  "missing d = map df_name (filter (\<lambda>f. d (df_name f) = None) FILES)"


section \<open>Downloading\<close>

text \<open>
  \<open>fe_open\<close> is what \<open>urlopen\<close> raises, or the outcome of each read of the response up to its end;
  \<open>bz_decompress\<close> is given the chunks fed before, \<open>bz_eof\<close> all chunks fed. The last three are
  faults of \<open>mkstemp\<close>, of writing to the temporary file, and of making it visible.
\<close>

record fetch_env =
  fe_tmp :: "string \<Rightarrow> string"
  fe_open :: "string \<Rightarrow> exn + (exn + nat list) list"
  bz_decompress :: "nat list list \<Rightarrow> nat list \<Rightarrow> exn + nat list"
  bz_eof :: "nat list list \<Rightarrow> bool"
  fe_sha256 :: "nat list \<Rightarrow> string"
  fe_mkstemp_fails :: "string \<Rightarrow> exn option"
  fe_write_fails :: "nat list \<Rightarrow> exn option"
  fe_publish_fails :: "string \<Rightarrow> exn option"

definition FetchError :: exn where "FetchError = OtherError ''FetchError''"

text \<open>
  The \<open>while\<close> loop: the chunks fed, the data written, and how it ended. The file holds what was
  written, the digest covers the same bytes.
\<close>

fun unpack_loop ::
    "fetch_env \<Rightarrow> nat list list \<Rightarrow> nat list \<Rightarrow> (exn + nat list) list \<Rightarrow>
     nat list \<times> (exn + nat list list)" where
  "unpack_loop env fed acc [] = (acc, Inr fed)"
| "unpack_loop env fed acc (Inl e # rs) = (acc, Inl e)"
| "unpack_loop env fed acc (Inr chunk # rs) =
     (if chunk = [] then (acc, Inr fed)
      else case bz_decompress env fed chunk of
        Inl e \<Rightarrow> (acc, Inl e)
      | Inr bytes \<Rightarrow>
          (case fe_write_fails env bytes of
             Some e \<Rightarrow> (acc, Inl e)
           | None \<Rightarrow> unpack_loop env (fed @ [chunk]) (acc @ bytes) rs))"

text \<open>The guarded part of \<open>_download\<close>: what is in the temporary file, and the outcome.\<close>

definition unpack :: "fetch_env \<Rightarrow> data_file \<Rightarrow> nat list \<times> (exn + unit)" where
  "unpack env f = (case fe_open env (df_url f) of
      Inl e \<Rightarrow> ([], Inl e)
    | Inr responses \<Rightarrow>
        thenS (unpack_loop env [] [] responses) (\<lambda>bytes fed.
          (bytes, if \<not> bz_eof env fed then Inl FetchError
                  else if fe_sha256 env bytes \<noteq> df_sha256 f then Inl FetchError
                  else case fe_publish_fails env (df_name f) of Some e \<Rightarrow> Inl e | None \<Rightarrow> Inr ())))"

text \<open>
  \<open>_download\<close>: the handlers remove the temporary file for every \<open>Exception\<close>, and turn it into
  \<open>FetchError\<close>; \<open>KeyboardInterrupt\<close> and \<open>SystemExit\<close> pass by them.
\<close>

definition download :: "fetch_env \<Rightarrow> data_file \<Rightarrow> data_files \<Rightarrow> data_files \<times> (exn + unit)" where
  "download env f d =
     (let tmp = fe_tmp env (df_name f) in
      case fe_mkstemp_fails env (df_name f) of
        Some e \<Rightarrow> (d, Inl e)
      | None \<Rightarrow>
          (case unpack env f of
             (bytes, Inl e) \<Rightarrow>
               if is_exception e then (d(tmp := None), Inl FetchError)
               else (d(tmp \<mapsto> \<lparr>di_bytes = bytes, di_mode = 384\<rparr>), Inl e)
           | (bytes, Inr _) \<Rightarrow>
               ((d(tmp := None))(df_name f \<mapsto> \<lparr>di_bytes = bytes, di_mode = 420\<rparr>), Inr ())))"

fun fetch_files ::
    "fetch_env \<Rightarrow> string set \<Rightarrow> data_file list \<Rightarrow> string list \<Rightarrow> data_files \<Rightarrow>
     data_files \<times> (exn + string list)" where
  "fetch_files env wanted [] fetched d = (d, Inr fetched)"
| "fetch_files env wanted (f # fs) fetched d =
     (if df_name f \<notin> wanted then fetch_files env wanted fs fetched d
      else thenS (download env f d) (\<lambda>d _. fetch_files env wanted fs (fetched @ [df_name f]) d))"

text \<open>\<open>fetch\<close>; creating the directory may raise.\<close>

definition fetch :: "fetch_env \<Rightarrow> exn option \<Rightarrow> data_files \<Rightarrow> data_files \<times> (exn + string list)" where
  "fetch env mkdir_fails d = (case mkdir_fails of
      Some e \<Rightarrow> (d, Inl e)
    | None \<Rightarrow> fetch_files env (set (missing d)) FILES [] d)"

end
