(* ===== verification/Model_Files_Props.thy ===== *)
theory Model_Files_Props
  imports Model_Files
begin

text \<open>
  What fetching the model files promises: nothing unverified ever carries the name of a model
  file, files that are there are not touched, and success leaves nothing missing.
\<close>

section \<open>One download\<close>

text \<open>A file whose bytes have the pinned checksum.\<close>

definition verified :: "fetch_env \<Rightarrow> data_file \<Rightarrow> data_inode option \<Rightarrow> bool" where
  "verified env f x \<longleftrightarrow> (\<exists>bytes. x = Some \<lparr>di_bytes = bytes, di_mode = 420\<rparr> \<and> fe_sha256 env bytes = df_sha256 f)"

text \<open>\<open>mkstemp\<close> makes up names that start with a dot, so never one of a model file.\<close>

definition tmp_apart :: "fetch_env \<Rightarrow> bool" where
  "tmp_apart env \<longleftrightarrow> (\<forall>name. \<forall>f \<in> set FILES. fe_tmp env name \<noteq> df_name f)"

definition tmp_names :: "fetch_env \<Rightarrow> string set" where
  "tmp_names env = range (fe_tmp env)"

lemma tmp_not_model: "tmp_apart env \<Longrightarrow> f \<in> set FILES \<Longrightarrow> df_name f \<notin> tmp_names env"
  unfolding tmp_apart_def tmp_names_def by (metis rangeE)

lemma tmp_in_names: "n \<notin> tmp_names env \<Longrightarrow> n \<noteq> fe_tmp env m"
  unfolding tmp_names_def by blast

lemma unpack_Inr: "unpack env f = (bytes, Inr u) \<Longrightarrow> fe_sha256 env bytes = df_sha256 f"
  by (auto simp: unpack_def flow_simps split: sum.splits if_splits option.splits)

lemma download_spec:
  assumes "download env f d = (d', r)" and "f \<in> set FILES" and "tmp_apart env"
  shows "(\<forall>n. n \<noteq> fe_tmp env (df_name f) \<longrightarrow> n \<noteq> df_name f \<longrightarrow> d' n = d n) \<and>
    (d (fe_tmp env (df_name f)) = None \<longrightarrow> (\<forall>e. r = Inl e \<longrightarrow> is_exception e) \<longrightarrow> d' (fe_tmp env (df_name f)) = None) \<and>
    (case r of Inl _ \<Rightarrow> d' (df_name f) = d (df_name f) | Inr _ \<Rightarrow> verified env f (d' (df_name f)))"
proof -
  have "fe_tmp env (df_name f) \<noteq> df_name f" using assms(2,3) by (auto simp: tmp_apart_def)
  then show ?thesis
    using assms(1) unpack_Inr [of env f]
    by (auto simp: download_def verified_def Let_def split: option.splits prod.splits sum.splits if_splits)
qed


section \<open>All files\<close>

text \<open>
  What is true after the files \<open>fs\<close> were gone through, from \<open>d\<close> to \<open>d'\<close>: only wanted files changed,
  no temporary file is left unless the process was killed, a wanted file is as before or verified,
  and without an exception all of them are verified.
\<close>

definition fetch_outcome ::
  "fetch_env \<Rightarrow> string set \<Rightarrow> data_file list \<Rightarrow> string list \<Rightarrow> data_files \<Rightarrow> data_files \<Rightarrow> exn + string list \<Rightarrow> bool" where
  "fetch_outcome env wanted fs fetched d d' r \<longleftrightarrow>
    (\<forall>n. n \<notin> tmp_names env \<longrightarrow> n \<notin> df_name ` {f \<in> set fs. df_name f \<in> wanted} \<longrightarrow> d' n = d n) \<and>
    ((\<forall>e. r = Inl e \<longrightarrow> is_exception e) \<longrightarrow> (\<forall>n \<in> tmp_names env. d' n = None)) \<and>
    (\<forall>f \<in> set fs. df_name f \<in> wanted \<longrightarrow> d' (df_name f) = d (df_name f) \<or> verified env f (d' (df_name f))) \<and>
    (\<forall>names. r = Inr names \<longrightarrow> names = fetched @ filter (\<lambda>n. n \<in> wanted) (map df_name fs) \<and>
      (\<forall>f \<in> set fs. df_name f \<in> wanted \<longrightarrow> verified env f (d' (df_name f))))"

lemma outcome_skip:
  assumes "fetch_outcome env wanted fs fetched d d' r" and "df_name f \<notin> wanted"
  shows "fetch_outcome env wanted (f # fs) fetched d d' r"
proof -
  have "{g \<in> set (f # fs). df_name g \<in> wanted} = {g \<in> set fs. df_name g \<in> wanted}" using assms(2) by auto
  with assms show ?thesis by (simp add: fetch_outcome_def)
qed

lemma outcome_fail:
  assumes "download env f d = (d1, Inl e)" and "set (f # fs) \<subseteq> set FILES" and "tmp_apart env"
    and "\<forall>n \<in> tmp_names env. d n = None" and "df_name f \<in> wanted"
  shows "fetch_outcome env wanted (f # fs) fetched d d1 (Inl e)"
proof -
  have f: "f \<in> set FILES" using assms(2) by simp
  note one = download_spec [OF assms(1) f assms(3)]
  note apart = tmp_in_names tmp_not_model [OF assms(3)]
  have tmp: "d1 n = None" if "is_exception e" "n \<in> tmp_names env" for n
  proof (cases "n = fe_tmp env (df_name f)")
    case True
    with one that assms(4) show ?thesis by auto
  next
    case False
    moreover have "n \<noteq> df_name f" using that(2) apart(2) [OF f] by auto
    ultimately show ?thesis using one assms(4) that(2) by simp
  qed
  moreover have "d1 (df_name g) = d (df_name g)" if "g \<in> set (f # fs)" for g
  proof -
    have g: "g \<in> set FILES" using that assms(2) by auto
    with one apart(1) [OF apart(2) [OF g]] show ?thesis by (cases "df_name g = df_name f") auto
  qed
  ultimately show ?thesis using one apart f assms(5) by (auto simp: fetch_outcome_def image_iff)
qed

lemma no_tmp_kept:
  assumes "download env f d = (d1, Inr u)" and "f \<in> set FILES" and "tmp_apart env" and "\<forall>n \<in> tmp_names env. d n = None"
  shows "\<forall>n \<in> tmp_names env. d1 n = None"
  using download_spec [OF assms(1-3)] assms(4) tmp_not_model [OF assms(3,2)] by (metis Inr_Inl_False)

lemma outcome_done:
  assumes "download env f d = (d1, Inr u)" and "set (f # fs) \<subseteq> set FILES" and "distinct (map df_name (f # fs))"
    and "tmp_apart env" and "df_name f \<in> wanted"
    and ih: "fetch_outcome env wanted fs (fetched @ [df_name f]) d1 d' r"
  shows "fetch_outcome env wanted (f # fs) fetched d d' r"
proof -
  have f: "f \<in> set FILES" using assms(2) by simp
  note one = download_spec [OF assms(1) f assms(4)]
  note apart = tmp_in_names tmp_not_model [OF assms(4)]
  have "d' (df_name f) = d1 (df_name f)"
    using ih assms(3) apart(2) [OF f] by (auto simp: fetch_outcome_def image_iff)
  then have v: "verified env f (d' (df_name f))" using one by simp
  have same: "d1 (df_name g) = d (df_name g)" if "g \<in> set fs" for g
  proof -
    have g: "g \<in> set FILES" "df_name g \<noteq> df_name f" using that assms(2,3) by (auto simp: image_iff)
    with one apart(1) [OF apart(2) [OF g(1)]] show ?thesis by auto
  qed
  have "d' n = d n" if "n \<notin> tmp_names env" "n \<notin> df_name ` {g \<in> set (f # fs). df_name g \<in> wanted}" for n
  proof -
    have "n \<noteq> df_name f" "n \<notin> df_name ` {g \<in> set fs. df_name g \<in> wanted}" "n \<noteq> fe_tmp env (df_name f)"
      using that assms(5) apart(1) [of n env "df_name f"] by auto
    with ih one that(1) show ?thesis by (simp add: fetch_outcome_def)
  qed
  moreover have "d' (df_name g) = d (df_name g) \<or> verified env g (d' (df_name g))"
    if "g \<in> set (f # fs)" "df_name g \<in> wanted" for g
    using that ih same v by (auto simp: fetch_outcome_def)
  ultimately show ?thesis using ih assms(5) v by (auto simp: fetch_outcome_def)
qed

lemma fetch_files_spec:
  assumes "fetch_files env wanted fs fetched d = (d', r)" and "set fs \<subseteq> set FILES" and "distinct (map df_name fs)"
    and "tmp_apart env" and "\<forall>n \<in> tmp_names env. d n = None"
  shows "fetch_outcome env wanted fs fetched d d' r"
  using assms(1-3,5)
proof (induction fs arbitrary: fetched d)
  case (Cons f fs)
  have fs: "f \<in> set FILES" "set fs \<subseteq> set FILES" "distinct (map df_name fs)" using Cons.prems(2,3) by auto
  show ?case
  proof (cases "df_name f \<in> wanted")
    case False
    then show ?thesis using Cons.IH [OF _ fs(2,3) Cons.prems(4)] Cons.prems(1) outcome_skip by simp
  next
    case True
    obtain d1 x where dl: "download env f d = (d1, x)" by fastforce
    show ?thesis
    proof (cases x)
      case (Inl e)
      then show ?thesis
        using outcome_fail [OF dl [unfolded Inl] Cons.prems(2) assms(4) Cons.prems(4) True] Cons.prems(1) True dl by simp
    next
      case (Inr u)
      have "fetch_files env wanted fs (fetched @ [df_name f]) d1 = (d', r)" using Cons.prems(1) True dl Inr by simp
      from Cons.IH [OF this fs(2,3) no_tmp_kept [OF dl [unfolded Inr] fs(1) assms(4) Cons.prems(4)]]
      show ?thesis by (rule outcome_done [OF dl [unfolded Inr] Cons.prems(2,3) assms(4) True])
    qed
  qed
qed (auto simp: fetch_outcome_def)

text \<open>
  C18: only verified model files. Whatever the network, the disk or the archive do to a fetch, a
  file that was there keeps its content, and one that was missing is still missing or holds
  bytes with the pinned SHA-256, readable by everyone; no other file changes. Unless the fetch
  is interrupted (\<open>KeyboardInterrupt\<close>, \<open>SystemExit\<close>), no temporary file is left. When it
  succeeds it names exactly the missing files, and none is missing any more.
\<close>

theorem fetch_verified:
  assumes "fetch env mkdir_fails d = (d', r)" and "tmp_apart env" and "\<forall>n \<in> tmp_names env. d n = None"
  shows "(\<forall>f \<in> set FILES. d' (df_name f) = d (df_name f) \<or>
      (d (df_name f) = None \<and> verified env f (d' (df_name f)))) \<and>
    (\<forall>n. n \<notin> tmp_names env \<longrightarrow> n \<notin> df_name ` set FILES \<longrightarrow> d' n = d n) \<and>
    ((\<forall>e. r = Inl e \<longrightarrow> is_exception e) \<longrightarrow> (\<forall>n \<in> tmp_names env. d' n = None)) \<and>
    (\<forall>names. r = Inr names \<longrightarrow> names = missing d \<and> missing d' = [])"
proof (cases mkdir_fails)
  case (Some e)
  with assms show ?thesis by (auto simp: fetch_def)
next
  case None
  have dist: "distinct (map df_name FILES)" by code_simp
  have w: "df_name f \<in> set (missing d) \<longleftrightarrow> d (df_name f) = None" if "f \<in> set FILES" for f
    using that by (auto simp: missing_def)
  note ap = tmp_not_model [OF assms(2)]
  from assms(1) None have "fetch_files env (set (missing d)) FILES [] d = (d', r)" by (simp add: fetch_def)
  note s = fetch_files_spec [OF this subset_refl dist assms(2,3), unfolded fetch_outcome_def]
  have old: "d' (df_name f) = d (df_name f)" if "f \<in> set FILES" "d (df_name f) \<noteq> None" for f
    using s ap [OF that(1)] w that by (auto simp: image_iff)
  have "names = missing d \<and> missing d' = []" if "r = Inr names" for names
  proof
    have "filter (\<lambda>n. n \<in> set (missing d)) (map df_name FILES) = map df_name (filter (\<lambda>f. d (df_name f) = None) FILES)"
      unfolding filter_map by (intro arg_cong [where f = "map df_name"] filter_cong) (auto simp: w)
    with s that show "names = missing d" by (simp add: missing_def)
    have "d' (df_name f) \<noteq> None" if "f \<in> set FILES" for f
      using s \<open>r = Inr names\<close> that old w by (cases "d (df_name f)") (auto simp: verified_def)
    then show "missing d' = []" by (auto simp: missing_def filter_empty_conv)
  qed
  moreover have "d' (df_name f) = d (df_name f) \<or> (d (df_name f) = None \<and> verified env f (d' (df_name f)))"
    if "f \<in> set FILES" for f
    using s that old w by (cases "d (df_name f)") auto
  moreover have "d' n = d n" if "n \<notin> tmp_names env" "n \<notin> df_name ` set FILES" for n
  proof -
    have "n \<notin> df_name ` {f \<in> set FILES. df_name f \<in> set (missing d)}" using that(2) by auto
    with s that(1) show ?thesis by simp
  qed
  ultimately show ?thesis using s by simp
qed



section \<open>Witness\<close>

text \<open>A server whose archives hold one byte each, and a hash that knows the three files.\<close>

definition sample_fetch :: fetch_env where
  "sample_fetch = \<lparr>fe_tmp = (\<lambda>n. CHR ''.'' # n),
     fe_open = (\<lambda>url. Inr [Inr [if url = df_url (FILES ! 0) then 0 else if url = df_url (FILES ! 1) then 1 else 2], Inr []]),
     bz_decompress = (\<lambda>_ chunk. Inr chunk), bz_eof = (\<lambda>fed. fed \<noteq> []),
     fe_sha256 = (\<lambda>bytes. case bytes of [] \<Rightarrow> [] | b # _ \<Rightarrow> df_sha256 (FILES ! b)),
     fe_mkstemp_fails = (\<lambda>_. None), fe_write_fails = (\<lambda>_. None), fe_publish_fails = (\<lambda>_. None)\<rparr>"

lemma sample_fetched: "snd (fetch sample_fetch None (\<lambda>_. None)) = Inr (map df_name FILES)"
  by code_simp

theorem fetch_verified_witness:
  "missing (fst (fetch sample_fetch None (\<lambda>_. None))) = [] \<and> map df_name FILES = missing (\<lambda>_. None)"
proof -
  have "tmp_apart sample_fetch"
    by (auto simp: tmp_apart_def sample_fetch_def FILES_def)
  from fetch_verified [OF pair_of_snd [OF sample_fetched] this] show ?thesis by simp
qed

end
