(* ===== verification/Snapshot.thy ===== *)
theory Snapshot
  imports Pipeline
begin

text \<open>
  \<open>snapshot.py\<close>: the picture kept of a login attempt, as its size and what is painted where,
  and the file it ends up in.
\<close>

section \<open>The picture\<close>

text \<open>
  A picture: its size, the frames side by side from the left, the corner (x, y) of the logo if
  it was painted, and the lines of text with the point (x, y) each starts at.
\<close>

record drawing =
  dw_height :: nat
  dw_width :: nat
  dw_frames :: "frame list"
  dw_logo :: "(int \<times> int) option"
  dw_texts :: "(string \<times> (nat \<times> nat)) list"

text \<open>
  What is outside: the height and width of the logo if the file can be read, what OpenCV raises
  on an image of this height, width and number of channels, the time as a file name, what
  \<open>os.makedirs\<close> raises, and whether \<open>imwrite\<close> could write (its result is not looked at).
\<close>

record snap_env =
  sv_logo :: "(nat \<times> nat) option"
  sv_refuses :: "nat \<Rightarrow> nat \<Rightarrow> nat \<Rightarrow> exn option"
  sv_filename :: string
  sv_mkdir :: "exn option"
  sv_written :: bool
  sv_paths :: path_config
  sv_process :: process

text \<open>\<open>np.concatenate(frames, axis=1)\<close>: one height and one number of channels.\<close>

definition side_by_side :: "frame list \<Rightarrow> bool" where
  "side_by_side frames \<longleftrightarrow>
     (\<forall>f \<in> set frames. fr_height f = fr_height (hd frames) \<and> fr_channels f = fr_channels (hd frames))"

definition logo_corner :: "frame list \<Rightarrow> int \<times> int" where
  "logo_corner frames =
     (int (fr_width (hd frames)) * int (length frames) - 210, int (fr_height (hd frames)) + 20)"

text \<open>The place of the logo, when it is there, has its size, and fits.\<close>

definition logo_place :: "snap_env \<Rightarrow> frame list \<Rightarrow> nat \<Rightarrow> (int \<times> int) option" where
  "logo_place env frames height =
     (let (x, y) = logo_corner frames in
      if 1 < length frames \<and> sv_logo env = Some (57, 180) \<and> y + 57 \<le> int height \<and> 0 \<le> x
      then Some (x, y) else None)"

text \<open>\<open>line_number\<close> counts the lines from the top of the border.\<close>

definition text_lines :: "nat \<Rightarrow> string list \<Rightarrow> (string \<times> (nat \<times> nat)) list" where
  "text_lines frame_height lines =
     map (\<lambda>(i, line). (line, (30, frame_height + 30 + i * 20))) (zip [0..<length lines] lines)"

text \<open>
  The picture, or what raises: a first frame without channels cannot be unpacked into three
  numbers, and a logo assigned to a slice of another shape is a \<open>ValueError\<close>.
\<close>

definition paint :: "snap_env \<Rightarrow> frame list \<Rightarrow> string list \<Rightarrow> exn + drawing" where
  "paint env frames lines = (case fr_channels (hd frames) of
      None \<Rightarrow> Inl ValueError
    | Some cc \<Rightarrow>
        if \<not> side_by_side frames then Inl ValueError
        else
          let fh = fr_height (hd frames);
              width = sum_list (map fr_width frames);
              height = fh + (length lines * 20 + 40);
              logo = logo_place env frames height
          in case sv_refuses env fh width cc of
            Some e \<Rightarrow> Inl e
          | None \<Rightarrow>
              (if (case logo of None \<Rightarrow> False | Some (x, y) \<Rightarrow> cc \<noteq> 3 \<or> int width < x + 180) then Inl ValueError
               else Inr \<lparr>dw_height = height, dw_width = width, dw_frames = frames, dw_logo = logo,
                 dw_texts = text_lines fh lines\<rparr>))"


section \<open>The file\<close>

type_synonym snapshots = "path \<Rightarrow> drawing option"

definition snapshots_dir_exists :: "snap_env \<Rightarrow> fs \<Rightarrow> bool" where
  "snapshots_dir_exists env s \<longleftrightarrow> dirs s (snapshots_dir_path (sv_paths env)) \<noteq> None"

text \<open>\<open>generate\<close>: the path of the file, or \<open>None\<close> without frames.\<close>

definition generate ::
    "snap_env \<Rightarrow> frame list \<Rightarrow> string list \<Rightarrow> fs \<times> snapshots \<Rightarrow> (fs \<times> snapshots) \<times> (exn + path option)" where
  "generate env frames lines st =
     (if frames = [] then (st, Inr None)
      else case paint env frames lines of
        Inl e \<Rightarrow> (st, Inl e)
      | Inr picture \<Rightarrow>
          (case st of (s, snaps) \<Rightarrow>
            if \<not> snapshots_dir_exists env s \<and> sv_mkdir env \<noteq> None then (st, Inl (the (sv_mkdir env)))
            else
              let s = (if snapshots_dir_exists env s then s
                       else mkdir_parents (sv_process env) (snapshots_dir_path (sv_paths env)) s);
                  p = snapshot_path (sv_paths env) (sv_filename env)
              in ((s, if sv_written env then snaps(p \<mapsto> picture) else snaps), Inr (Some p))))"


section \<open>Where things are painted\<close>

lemma text_lines_nth: "i < length lines \<Longrightarrow> text_lines fh lines ! i = (lines ! i, (30, fh + 30 + i * 20))"
  by (simp add: text_lines_def)

lemma text_lines_length [simp]: "length (text_lines fh lines) = length lines"
  by (simp add: text_lines_def)

lemma same_widths: "\<forall>f \<in> set frames. fr_width f = w \<Longrightarrow> sum_list (map fr_width frames) = w * length frames"
  by (induction frames) auto

text \<open>
  What a snapshot paints stays inside it. The text lines start below the frames and above
  the bottom edge, 20 pixels apart; the logo, if it is painted, lies in the border with 30
  pixels to its right when the frames have one width; and the frames fill the width.
\<close>

theorem snapshot_inside:
  assumes "paint env frames lines = Inr d" and "frames \<noteq> []" and "\<forall>f \<in> set frames. fr_width f = fr_width (hd frames)"
  shows "dw_width d = fr_width (hd frames) * length frames \<and> map fst (dw_texts d) = lines
    \<and> (\<forall>i < length lines. snd (dw_texts d ! i) = (30, fr_height (hd frames) + 30 + 20 * i)
         \<and> fr_height (hd frames) + 30 + 20 * i + 20 < dw_height d)
    \<and> (\<forall>x y. dw_logo d = Some (x, y) \<longrightarrow> 0 \<le> x \<and> x + 180 + 30 = int (dw_width d)
         \<and> int (fr_height (hd frames)) < y \<and> y + 57 \<le> int (dw_height d))"
proof -
  have w: "sum_list (map fr_width frames) = fr_width (hd frames) * length frames"
    using same_widths assms(3) by blast
  have "d = \<lparr>dw_height = fr_height (hd frames) + (length lines * 20 + 40),
      dw_width = fr_width (hd frames) * length frames, dw_frames = frames,
      dw_logo = logo_place env frames (fr_height (hd frames) + (length lines * 20 + 40)),
      dw_texts = text_lines (fr_height (hd frames)) lines\<rparr>"
    using assms(1) by (auto simp: paint_def Let_def w split: option.splits if_splits)
  moreover have "map fst (text_lines (fr_height (hd frames)) lines) = lines"
    by (rule nth_equalityI) (simp_all add: text_lines_nth)
  ultimately show ?thesis
    by (auto simp: text_lines_nth logo_place_def logo_corner_def Let_def split: if_splits)
qed

definition snap_frame :: frame where
  "snap_frame = \<lparr>fr_height = 100, fr_width = 120, fr_channels = Some 3, fr_pixels = []\<rparr>"

definition snap_sample :: snap_env where
  "snap_sample = \<lparr>sv_logo = Some (57, 180), sv_refuses = (\<lambda>_ _ _. None), sv_filename = ''1.jpg'', sv_mkdir = None,
     sv_written = True, sv_paths = default_paths [''srv''],
     sv_process = \<lparr>euid = 0, egid = 0, umask_dir = 493\<rparr>\<rparr>"

theorem snapshot_inside_witness:
  "\<exists>d. paint snap_sample [snap_frame, snap_frame] [''a'', ''b''] = Inr d \<and> dw_width d = 240 \<and> dw_logo d = Some (30, 120)
     \<and> int (100 :: nat) < 120 \<and> 120 + 57 \<le> int (dw_height d)"
proof -
  let ?d = "\<lparr>dw_height = 180, dw_width = 240, dw_frames = [snap_frame, snap_frame], dw_logo = Some (30, 120),
    dw_texts = [(''a'', (30, 130)), (''b'', (30, 150))]\<rparr>"
  have d: "paint snap_sample [snap_frame, snap_frame] [''a'', ''b''] = Inr ?d"
    by (simp add: paint_def snap_sample_def snap_frame_def side_by_side_def logo_place_def logo_corner_def text_lines_def)
  from snapshot_inside [OF this] d show ?thesis
    by (intro exI [of _ ?d]) (simp add: snap_frame_def)
qed

text \<open>
  The logo never fails a snapshot. Frames of one size in three channels that OpenCV accepts
  are painted whatever the logo file holds, and if the folder can be made, the snapshot returns
  the path of its file.
\<close>

theorem snapshot_without_logo:
  assumes "frames \<noteq> []" and "\<forall>f \<in> set frames. fr_height f = h \<and> fr_width f = w \<and> fr_channels f = Some 3"
    and "\<forall>width. sv_refuses env h width 3 = None" and "sv_mkdir env = None"
  shows "\<exists>d. paint (env\<lparr>sv_logo := logo\<rparr>) frames lines = Inr d
    \<and> snd (generate (env\<lparr>sv_logo := logo\<rparr>) frames lines (s, snaps)) =
        Inr (Some (snapshot_path (sv_paths env) (sv_filename env)))"
proof -
  have hd: "fr_height (hd frames) = h" "fr_width (hd frames) = w" "fr_channels (hd frames) = Some 3"
    using assms(1,2) by auto
  have w: "sum_list (map fr_width frames) = w * length frames" using same_widths assms(2) by blast
  have "side_by_side frames" using assms(2) hd by (auto simp: side_by_side_def)
  then have "\<exists>d. paint (env\<lparr>sv_logo := logo\<rparr>) frames lines = Inr d"
    by (auto simp: paint_def Let_def hd assms(3) logo_place_def logo_corner_def w)
  then show ?thesis using assms(1,4) by (auto simp: generate_def Let_def)
qed

theorem snapshot_without_logo_witness:
  "snd (generate (snap_sample\<lparr>sv_logo := Some (10, 10)\<rparr>) [snap_frame, snap_frame] [''a'']
     (\<lparr>files = (\<lambda>_. None), dirs = (\<lambda>_. None)\<rparr>, (\<lambda>_. None))) =
     Inr (Some (snapshot_path (default_paths [''srv'']) ''1.jpg''))"
  using snapshot_without_logo [of "[snap_frame, snap_frame]" 100 120 snap_sample]
  by (simp add: snap_sample_def snap_frame_def)

end
