(* ===== verification/Ini.thy ===== *)
theory Ini
  imports Config
begin

text \<open>
  The text of \<open>config.ini\<close> as \<open>configparser.ConfigParser\<close> reads it with its default settings:
  sections, options over several lines, comments, the section \<open>DEFAULT\<close>, the duplicates and
  malformed lines it refuses, and the \<open>%\<close> references it resolves when an option is read. A
  parser reads one file and is read from after that.
\<close>

section \<open>Lines\<close>

definition py_rstrip :: "string \<Rightarrow> string" where
  "py_rstrip s = rev (dropWhile is_py_space (rev s))"

definition is_delimiter :: "char \<Rightarrow> bool" where
  "is_delimiter ch \<longleftrightarrow> ch = CHR ''='' \<or> ch = CHR '':''"

definition is_comment :: "string \<Rightarrow> bool" where
  "is_comment line \<longleftrightarrow> (case py_strip line of [] \<Rightarrow> False | ch # _ \<Rightarrow> ch = CHR ''#'' \<or> ch = CHR '';'')"

text \<open>A header is between the first bracket, which begins the line, and the last closing one.\<close>

definition section_header :: "string \<Rightarrow> string option" where
  "section_header value = (case value of
      [] \<Rightarrow> None
    | ch # rest \<Rightarrow>
        if ch \<noteq> CHR ''['' then None
        else case dropWhile (\<lambda>c. c \<noteq> CHR '']'') (rev rest) of
          _ # name \<Rightarrow> if name = [] then None else Some (rev name)
        | [] \<Rightarrow> None)"

text \<open>An option is what is before the first delimiter.\<close>

definition option_line :: "string \<Rightarrow> (string \<times> string) option" where
  "option_line value = (case split_at is_delimiter value of
      (_, None) \<Rightarrow> None
    | (name, Some v) \<Rightarrow> Some (py_lower (py_rstrip name), py_strip v))"


section \<open>Reading a file\<close>

text \<open>
  The sections with their options, and the lines of each value. The section \<open>DEFAULT\<close> is always
  there. The parser stands in a section and, behind its name, in an option (\<open>[]\<close> for none).
\<close>

type_synonym ini = "(string \<times> (string \<times> string list) list) list"

record ini_state =
  in_sections :: ini
  in_section :: "string option"
  in_option :: string
  in_indent :: nat
  in_errors :: bool

definition DEFAULT :: string where "DEFAULT = ''DEFAULT''"

definition init_ini :: ini_state where
  "init_ini = \<lparr>in_sections = [(DEFAULT, [])], in_section = None, in_option = [], in_indent = 0, in_errors = False\<rparr>"

definition on_value :: "string \<Rightarrow> string \<Rightarrow> (string list \<Rightarrow> string list) \<Rightarrow> ini \<Rightarrow> ini" where
  "on_value sec opt f = map (\<lambda>(s, d). (s, if s = sec then map (\<lambda>(k, vs). (k, if k = opt then f vs else vs)) d else d))"

definition append_value :: "string \<Rightarrow> ini_state \<Rightarrow> ini_state" where
  "append_value v st = (case in_section st of
      None \<Rightarrow> st
    | Some sec \<Rightarrow> st\<lparr>in_sections := on_value sec (in_option st) (\<lambda>vs. vs @ [v]) (in_sections st)\<rparr>)"

definition add_option :: "string \<Rightarrow> string \<Rightarrow> string \<Rightarrow> ini \<Rightarrow> ini" where
  "add_option sec name v = map (\<lambda>(s, d). (s, if s = sec then d @ [(name, [v])] else d))"

text \<open>\<open>cursect\<close> with an \<open>optname\<close>: an indented or an empty line belongs to it.\<close>

definition in_a_value :: "ini_state \<Rightarrow> bool" where
  "in_a_value st \<longleftrightarrow> in_section st \<noteq> None \<and> in_option st \<noteq> []"

definition section_step :: "string \<Rightarrow> ini_state \<Rightarrow> exn + ini_state" where
  "section_step name st =
     (if name = DEFAULT then Inr (st\<lparr>in_section := Some name, in_option := []\<rparr>)
      else if name \<in> set (map fst (in_sections st)) then Inl (OtherError ''DuplicateSectionError'')
      else Inr (st\<lparr>in_sections := in_sections st @ [(name, [])], in_section := Some name, in_option := []\<rparr>))"

text \<open>A line without a delimiter or without a name is an error that is raised at the end.\<close>

definition option_step :: "string \<Rightarrow> ini_state \<Rightarrow> exn + ini_state" where
  "option_step value st = (case in_section st of
      None \<Rightarrow> Inl (OtherError ''MissingSectionHeaderError'')
    | Some sec \<Rightarrow>
        (case option_line value of
           None \<Rightarrow> Inr (st\<lparr>in_errors := True\<rparr>)
         | Some (name, v) \<Rightarrow>
             if name \<in> set (map fst (the (map_of (in_sections st) sec)))
             then Inl (OtherError ''DuplicateOptionError'')
             else Inr (st\<lparr>in_sections := add_option sec name v (in_sections st), in_option := name,
                         in_errors := in_errors st \<or> name = []\<rparr>)))"

definition ini_line :: "string \<Rightarrow> ini_state \<Rightarrow> exn + ini_state" where
  "ini_line line st =
     (let value = (if is_comment line then [] else py_strip line); indent = length (takeWhile is_py_space line) in
      if value = [] then Inr (if \<not> is_comment line \<and> in_a_value st then append_value [] st else st)
      else if in_a_value st \<and> in_indent st < indent then Inr (append_value value st)
      else
        let st = st\<lparr>in_indent := indent\<rparr> in
        case section_header value of
          Some name \<Rightarrow> section_step name st
        | None \<Rightarrow> option_step value st)"

fun ini_lines :: "string list \<Rightarrow> ini_state \<Rightarrow> exn + ini_state" where
  "ini_lines [] st = Inr st"
| "ini_lines (line # lines) st = bindE (ini_line line st) (ini_lines lines)"

definition ini_read :: "string list \<Rightarrow> exn + ini" where
  "ini_read lines = bindE (ini_lines lines init_ini) (\<lambda>st.
     if in_errors st then Inl (OtherError ''ParsingError'') else Inr (in_sections st))"


section \<open>Reading an option\<close>

text \<open>The value: its lines joined, without the white space at the end.\<close>

fun join_lines :: "string list \<Rightarrow> string" where
  "join_lines [] = []"
| "join_lines [v] = v"
| "join_lines (v # vs) = v @ CHR 0x0A # join_lines vs"

definition option_value :: "string list \<Rightarrow> string" where
  "option_value vs = py_rstrip (join_lines vs)"

text \<open>An option of the section, or of \<open>DEFAULT\<close> if the section exists.\<close>

definition ini_values :: "ini \<Rightarrow> string \<Rightarrow> string \<Rightarrow> string list option" where
  "ini_values ini sec opt = (case map_of ini sec of
      None \<Rightarrow> None
    | Some d \<Rightarrow> (case map_of d opt of Some vs \<Rightarrow> Some vs | None \<Rightarrow> Option.bind (map_of ini DEFAULT) (\<lambda>d. map_of d opt)))"

definition ini_raw :: "ini \<Rightarrow> string \<Rightarrow> string \<Rightarrow> string option" where
  "ini_raw ini sec opt = map_option option_value (ini_values ini sec opt)"

text \<open>\<open>%(name)s\<close>: the name and what follows.\<close>

definition reference :: "string \<Rightarrow> (string \<times> string) option" where
  "reference s =
     (let name = takeWhile (\<lambda>ch. ch \<noteq> CHR '')'') s; rest = drop (length name) s in
      if name \<noteq> [] \<and> take 2 rest = '')s'' then Some (name, drop 2 rest) else None)"

lemma reference_shorter: "reference s = Some (name, rest) \<Longrightarrow> length rest < Suc (length s)"
  by (auto simp: reference_def Let_def split: if_splits)

text \<open>
  \<open>BasicInterpolation\<close>, with \<open>n\<close> more levels of references before the tenth.
\<close>

function interpolate :: "nat \<Rightarrow> (string \<Rightarrow> string option) \<Rightarrow> string \<Rightarrow> exn + string" where
  "interpolate n m s = (case s of
      [] \<Rightarrow> Inr []
    | ch # rest \<Rightarrow>
        if ch \<noteq> CHR ''%'' then bindE (interpolate n m rest) (\<lambda>t. Inr (ch # t))
        else (case rest of
          [] \<Rightarrow> Inl (OtherError ''InterpolationSyntaxError'')
        | c # r \<Rightarrow>
            if c = CHR ''%'' then bindE (interpolate n m r) (\<lambda>t. Inr (ch # t))
            else if c = CHR ''('' then
              (case reference r of
                 None \<Rightarrow> Inl (OtherError ''InterpolationSyntaxError'')
               | Some (name, r) \<Rightarrow>
                   (case m (py_lower name) of
                      None \<Rightarrow> Inl (OtherError ''InterpolationMissingOptionError'')
                    | Some v \<Rightarrow>
                        bindE
                          (if CHR ''%'' \<in> set v
                           then (if n = 0 then Inl (OtherError ''InterpolationDepthError'') else interpolate (n - 1) m v)
                           else Inr v)
                          (\<lambda>t. bindE (interpolate n m r) (\<lambda>u. Inr (t @ u)))))
            else Inl (OtherError ''InterpolationSyntaxError'')))"
  by pat_completeness auto
termination
  by (relation "inv_image (less_than <*lex*> less_than) (\<lambda>(n, m, s). (n, length s))")
    (auto dest: reference_shorter)

declare interpolate.simps [simp del]

text \<open>\<open>config.get\<close>: \<open>Inr None\<close> where the fallback is used.\<close>

definition ini_get :: "ini \<Rightarrow> string \<Rightarrow> string \<Rightarrow> exn + string option" where
  "ini_get ini sec opt = (case ini_raw ini sec (py_lower opt) of
      None \<Rightarrow> Inr None
    | Some v \<Rightarrow> bindE (interpolate 9 (ini_raw ini sec) v) (\<lambda>t. Inr (Some t)))"


section \<open>The configuration\<close>

text \<open>
  What \<open>config.get\<close> gives for every option, the exception of an unresolved reference included.
\<close>

definition config_of :: "ini \<Rightarrow> config" where
  "config_of ini sec opt = (case ini_get ini sec opt of Inr v \<Rightarrow> map_option Inr v | Inl e \<Rightarrow> Some (Inl e))"

definition read_ini :: "string list \<Rightarrow> exn + config" where
  "read_ini lines = bindE (ini_read lines) (\<lambda>ini. Inr (config_of ini))"

end
