(* ===== verification/Cli.thy ===== *)
theory Cli
  imports Template_Store Model_Files Snapshot Ini
begin

text \<open>
  The commands of \<open>cli/\<close> whose output the GUI reads: \<open>list\<close>, \<open>remove\<close>, \<open>clear\<close>, \<open>set\<close>,
  \<open>disable\<close> and \<open>fetch-models\<close>, over the helpers of \<open>cli/output.py\<close>. A command is a module that
  runs when it is imported: it changes the state and ends normally or in an exception, \<open>sys.exit\<close>
  being one. Text for people is not spelled out: a print of it is \<open>Said\<close>.
\<close>

section \<open>Arguments, output and state\<close>

record cli_args =
  ca_command :: string
  ca_arguments :: "string list"
  ca_user :: string
  ca_y :: bool
  ca_plain :: bool
  ca_json :: bool

text \<open>What is printed: a JSON document, text for people, or a line of the listing.\<close>

datatype printed = Doc json | Said | Line string

text \<open>
  The calls of \<open>cli/set.py\<close> on the configuration file, any of which may fail.
\<close>

datatype conf_call = ReadConfig | MakeTemp | WriteTemp | CopyMode | SwapConfig

text \<open>
  The surroundings: the process and the store, the text of messages and JSON documents,
  failing calls on the configuration file, the local time of the listing, and the download of model files.
\<close>

record cli_env =
  ce_args :: cli_args
  ce_store :: store_env
  ce_message :: "string \<Rightarrow> string"
  ce_dumps :: "json \<Rightarrow> string"
  ce_conf_fails :: "conf_call \<Rightarrow> exn option"
  ce_localtime :: "int \<Rightarrow> string"
  ce_fetch :: fetch_env
  ce_fetch_mkdir :: "exn option"
  ce_data_dir :: string

text \<open>
  The model files, the lines of \<open>config.ini\<close> (\<open>None\<close> without a file) and of a temporary copy
  left beside it, the data files, the snapshots, what was printed, the answers still to be typed
  and the questions asked. \<open>cl_redirected\<close>: \<open>fileinput\<close> has pointed \<open>sys.stdout\<close> at the file.
\<close>

record cli_state =
  cl_fs :: fs
  cl_config :: "string list option"
  cl_conf_tmp :: "string list option"
  cl_data :: data_files
  cl_snaps :: snapshots
  cl_out :: "printed list"
  cl_answers :: "string list"
  cl_asked :: nat
  cl_redirected :: bool

type_synonym command = "cli_state \<Rightarrow> cli_state \<times> (exn + unit)"

definition newline :: string where "newline = [CHR 0x0A]"

text \<open>\<open>print\<close>: while \<open>sys.stdout\<close> is the configuration file, the text goes there.\<close>

definition emit :: "cli_env \<Rightarrow> printed \<Rightarrow> cli_state \<Rightarrow> cli_state" where
  "emit env x s =
     (if cl_redirected s
      then s\<lparr>cl_config := map_option (\<lambda>ls. ls @ [(case x of Doc d \<Rightarrow> ce_dumps env d | Line t \<Rightarrow> t | Said \<Rightarrow> []) @ newline])
             (cl_config s)\<rparr>
      else s\<lparr>cl_out := cl_out s @ [x]\<rparr>)"


section \<open>cli/output.py\<close>

definition json_mode :: "cli_env \<Rightarrow> bool" where
  "json_mode env = ca_json (ce_args env)"

definition say :: "cli_env \<Rightarrow> cli_state \<Rightarrow> cli_state" where
  "say env s = (if json_mode env then s else emit env Said s)"

definition ok :: "cli_env \<Rightarrow> json \<Rightarrow> cli_state \<Rightarrow> cli_state" where
  "ok env data s =
     (if json_mode env then emit env (Doc (JObj [(''ok'', JBool True), (''data'', data)])) s else say env s)"

definition error_doc :: "cli_env \<Rightarrow> string \<Rightarrow> json" where
  "error_doc env code = JObj [(''ok'', JBool False),
     (''error'', JObj [(''code'', JStr code), (''message'', JStr (py_strip (ce_message env code)))])]"

definition fail :: "cli_env \<Rightarrow> string \<Rightarrow> cli_state \<Rightarrow> cli_state \<times> (exn + 'a)" where
  "fail env code s =
     ((if json_mode env then emit env (Doc (error_doc env code)) s else say env s), Inl (SystemExit (Some 1)))"

text \<open>\<open>sys.exit(n)\<close>, and a message for people followed by it.\<close>

definition leave_with :: "int \<Rightarrow> cli_state \<Rightarrow> cli_state \<times> (exn + 'a)" where
  "leave_with n s = (s, Inl (SystemExit (Some n)))"

definition give_up :: "cli_env \<Rightarrow> cli_state \<Rightarrow> cli_state \<times> (exn + 'a)" where
  "give_up env s = leave_with 1 (emit env Said s)"

text \<open>\<open>input\<close>: the end of the input raises \<open>EOFError\<close>.\<close>

definition ask :: "cli_state \<Rightarrow> cli_state \<times> (exn + string)" where
  "ask s = (let s = s\<lparr>cl_asked := cl_asked s + 1\<rparr> in
     case cl_answers s of
       [] \<Rightarrow> (s, Inl (OtherError ''EOFError''))
     | a # rest \<Rightarrow> (s\<lparr>cl_answers := rest\<rparr>, Inr a))"

text \<open>The question the destructive commands ask unless \<open>-y\<close> was given.\<close>

definition confirm :: "cli_env \<Rightarrow> command" where
  "confirm env s =
     (if ca_y (ce_args env) then (s, Inr ())
      else thenS (ask (emit env Said s)) (\<lambda>s ans.
        if py_lower ans \<noteq> ''y'' then give_up env s else (s, Inr ())))"


section \<open>list, remove, clear\<close>

definition models_dir_exists :: "cli_env \<Rightarrow> cli_state \<Rightarrow> bool" where
  "models_dir_exists env s \<longleftrightarrow> dirs (cl_fs s) (user_models_dir (se_paths (ce_store env))) \<noteq> None"

definition list_entry :: "template \<Rightarrow> json" where
  "list_entry t = JObj [(''id'', JInt (t_id t)), (''label'', JStr (t_label t)), (''time'', JInt (t_created t)),
     (''encodings'', JInt (int (length (t_embeddings t)))), (''model_id'', JStr (t_model_id t))]"

definition list_line :: "cli_env \<Rightarrow> template \<Rightarrow> string" where
  "list_line env t =
     (let i = show_int (t_id t); tm = ce_localtime env (t_created t) in
      if ca_plain (ce_args env) then i @ '','' @ tm @ '','' @ t_label t
      else i @ replicate (4 - length i) (CHR '' '') @ tm @ ''  '' @ t_label t)"

definition cmd_list :: "cli_env \<Rightarrow> command" where
  "cmd_list env s =
     (let user = ca_user (ce_args env);
          none = (\<lambda>s. leave_with 0 (ok env (JObj [(''user'', JStr user), (''models'', JList [])]) s))
      in if \<not> models_dir_exists env s then (if json_mode env then none s else give_up env s)
         else case load_all (ce_store env) (cl_fs s) user of
           Inl e \<Rightarrow>
             if e \<in> {TemplateFileNotFound, EmptyTemplateStore} then
               (if json_mode env then none s
                else leave_with 1 (if ca_plain (ce_args env) then s else emit env Said s))
             else if e = TemplateSchemaError then fail env ''model_file_invalid'' s
             else (s, Inl e)
         | Inr templates \<Rightarrow>
             if json_mode env then
               leave_with 0 (ok env (JObj [(''user'', JStr user), (''models'', JList (map list_entry templates))]) s)
             else
               let s = (if ca_plain (ce_args env) then s else emit env Said s)
               in (emit env Said (fold (\<lambda>t. emit env (Line (list_line env t))) templates s), Inr ()))"

text \<open>The id is compared as text: \<open>str(template.id) == id\<close>.\<close>

definition remove_target :: "string \<Rightarrow> template list \<Rightarrow> template option" where
  "remove_target i templates = List.find (\<lambda>t. show_int (t_id t) = i) templates"

definition with_fs :: "(fs \<Rightarrow> fs \<times> (exn + 'a)) \<Rightarrow> cli_state \<Rightarrow> cli_state \<times> (exn + 'a)" where
  "with_fs f s = (case f (cl_fs s) of (fs, r) \<Rightarrow> (s\<lparr>cl_fs := fs\<rparr>, r))"

definition removed_doc :: "template \<Rightarrow> nat \<Rightarrow> json" where
  "removed_doc t n = JObj [(''removed'', JInt (t_id t)), (''remaining'', JInt (int n))]"

definition cmd_remove :: "cli_env \<Rightarrow> command" where
  "cmd_remove env s =
     (let user = ca_user (ce_args env) in
      case ca_arguments (ce_args env) of
        [] \<Rightarrow> fail env ''missing_argument'' s
      | i # _ \<Rightarrow>
          if \<not> models_dir_exists env s then fail env ''models_not_initialized'' s
          else case load_all (ce_store env) (cl_fs s) user of
            Inl e \<Rightarrow>
              if e \<in> {TemplateFileNotFound, EmptyTemplateStore} then fail env ''no_models'' s
              else if e = TemplateSchemaError then fail env ''model_file_invalid'' s
              else (s, Inl e)
          | Inr templates \<Rightarrow>
              (case remove_target i templates of
                 None \<Rightarrow> fail env ''model_not_found'' s
               | Some target \<Rightarrow>
                   thenS (confirm env s) (\<lambda>s _.
                     let s = (if ca_y (ce_args env) then s else emit env Said s) in
                     if length templates = 1 then
                       thenS (with_fs (delete (ce_store env) user) s) (\<lambda>s _.
                         (ok env (removed_doc target 0) s, Inr ()))
                     else
                       let remaining = remove1 target templates in
                       thenS (with_fs (save (ce_store env) user remaining) s) (\<lambda>s _.
                         (ok env (removed_doc target (length remaining)) s, Inr ())))))"

text \<open>\<open>os.remove\<close> of a file that \<open>isfile\<close> has just found.\<close>

definition cmd_clear :: "cli_env \<Rightarrow> command" where
  "cmd_clear env s =
     (let p = path_for (ce_store env) (ca_user (ce_args env)) in
      if \<not> models_dir_exists env s \<or> files (cl_fs s) p = None then
        (if json_mode env then leave_with 0 (ok env (JObj [(''cleared'', JBool False)]) s) else give_up env s)
      else
        thenS (confirm env s) (\<lambda>s _.
          (ok env (JObj [(''cleared'', JBool True)]) (s\<lparr>cl_fs := remove_file p (cl_fs s)\<rparr>), Inr ())))"


section \<open>set\<close>

text \<open>\<open>dict(zip(arguments[0::2], arguments[1::2]))\<close>: a repeated key keeps its place.\<close>

fun pairs_of :: "'a list \<Rightarrow> ('a \<times> 'a) list" where
  "pairs_of (a # b # rest) = (a, b) # pairs_of rest"
| "pairs_of _ = []"

text \<open>\<open>option_name(line)\<close>, the first key the line starts with, and the rewritten line.\<close>

definition option_name :: "(string \<times> string) list \<Rightarrow> string \<Rightarrow> string option" where
  "option_name updates line = List.find (\<lambda>k. starts_with line (k @ '' '')) (map fst updates)"

definition new_line :: "(string \<times> string) list \<Rightarrow> string \<Rightarrow> string" where
  "new_line updates line = (case option_name updates line of
      None \<Rightarrow> line
    | Some k \<Rightarrow> k @ '' = '' @ the (map_of updates k) @ newline)"

definition has_line_break :: "string \<Rightarrow> bool" where
  "has_line_break v \<longleftrightarrow> CHR 0x0A \<in> set v \<or> CHR 0x0D \<in> set v"

text \<open>A call that may fail, then its effect.\<close>

definition conf_call :: "cli_env \<Rightarrow> conf_call \<Rightarrow> (cli_state \<Rightarrow> cli_state) \<Rightarrow> command" where
  "conf_call env c f s = (case ce_conf_fails env c of Some e \<Rightarrow> (s, Inl e) | None \<Rightarrow> (f s, Inr ()))"

text \<open>Writing the lines to a new file and swapping it in; a failure leaves the copy behind.\<close>

definition swap_config :: "cli_env \<Rightarrow> string list \<Rightarrow> command" where
  "swap_config env lines s =
     thenS (conf_call env MakeTemp (\<lambda>s. s\<lparr>cl_conf_tmp := Some []\<rparr>) s) (\<lambda>s _.
     thenS (conf_call env WriteTemp (\<lambda>s. s\<lparr>cl_conf_tmp := Some lines\<rparr>) s) (\<lambda>s _.
     thenS (conf_call env CopyMode id s) (\<lambda>s _.
       conf_call env SwapConfig (\<lambda>s. s\<lparr>cl_config := cl_conf_tmp s, cl_conf_tmp := None\<rparr>) s)))"

definition read_config :: "cli_env \<Rightarrow> cli_state \<Rightarrow> exn + string list" where
  "read_config env s = (case cl_config s of
      None \<Rightarrow> Inl FileNotFoundError
    | Some lines \<Rightarrow> (case ce_conf_fails env ReadConfig of Some e \<Rightarrow> Inl e | None \<Rightarrow> Inr lines))"

definition cmd_set :: "cli_env \<Rightarrow> command" where
  "cmd_set env s =
     (let arguments = ca_arguments (ce_args env) in
      if length arguments < 2 \<or> odd (length arguments) then fail env ''missing_argument'' s
      else
        let updates = dict_of (pairs_of arguments) in
        if \<exists>v \<in> set (map snd updates). has_line_break v then fail env ''invalid_value'' s
        else case read_config env s of
          Inl e \<Rightarrow> (s, Inl e)
        | Inr lines \<Rightarrow>
            if \<exists>k \<in> set (map fst updates). \<forall>line \<in> set lines. option_name updates line \<noteq> Some k
            then fail env ''unknown_option'' s
            else
              thenS (swap_config env (map (new_line updates) lines) s) (\<lambda>s _.
                (ok env (JObj [(''updated'', JObj (map (\<lambda>(k, v). (k, JStr v)) updates))]) s, Inr ())))"


section \<open>disable\<close>

text \<open>\<open>str.replace\<close>: the occurrences from left to right, not overlapping.\<close>

function replace_all :: "string \<Rightarrow> string \<Rightarrow> string \<Rightarrow> string" where
  "replace_all old new s =
     (if s = [] then []
      else if old \<noteq> [] \<and> starts_with s old then new @ replace_all old new (drop (length old) s)
      else hd s # replace_all old new (tl s))"
  by pat_completeness auto
termination by (relation "measure (\<lambda>(old, new, s). length s)") auto

declare replace_all.simps [simp del]

text \<open>\<open>old in s\<close>\<close>

fun has_substring :: "string \<Rightarrow> string \<Rightarrow> bool" where
  "has_substring old [] \<longleftrightarrow> old = []"
| "has_substring old (c # s) \<longleftrightarrow> starts_with (c # s) old \<or> has_substring old s"

definition disable_value :: "string \<Rightarrow> string option" where
  "disable_value a =
     (if a = ''1'' \<or> py_lower a = ''true'' then Some ''true''
      else if a = ''0'' \<or> py_lower a = ''false'' then Some ''false'' else None)"

definition disabled_doc :: "bool \<Rightarrow> bool \<Rightarrow> json" where
  "disabled_doc b changed = JObj [(''disabled'', JBool b), (''changed'', JBool changed)]"

text \<open>
  The rewrite in place. \<open>fileinput\<close> empties the file and points \<open>sys.stdout\<close> at it before the
  first line is handed out. Without the option, the fallback \<open>True\<close> is no text: the
  concatenation raises \<open>TypeError\<close> with the file empty and \<open>sys.stdout\<close> still pointing at it.
\<close>

definition rewrite_disabled :: "cli_env \<Rightarrow> string option \<Rightarrow> string \<Rightarrow> command" where
  "rewrite_disabled env current out_value s = (case cl_config s of
      None \<Rightarrow> (s, Inl FileNotFoundError)
    | Some lines \<Rightarrow>
        if lines = [] then (s, Inr ())
        else case current of
          None \<Rightarrow> (s\<lparr>cl_config := Some [], cl_redirected := True\<rparr>, Inl TypeError)
        | Some value \<Rightarrow>
            (s\<lparr>cl_config := Some (map (replace_all (''disabled = '' @ value) (''disabled = '' @ out_value)) lines)\<rparr>,
             Inr ()))"

text \<open>\<open>config.read\<close>: a file that is not there is an empty configuration.\<close>

definition config_ini :: "cli_state \<Rightarrow> exn + ini" where
  "config_ini s = ini_read (case cl_config s of None \<Rightarrow> [] | Some ls \<Rightarrow> ls)"

definition cmd_disable :: "cli_env \<Rightarrow> command" where
  "cmd_disable env s = (case config_ini s of
      Inl e \<Rightarrow> (s, Inl e)
    | Inr ini \<Rightarrow>
        (case ca_arguments (ce_args env) of
           [] \<Rightarrow> fail env ''missing_argument'' s
         | a # _ \<Rightarrow>
             (case disable_value a of
                None \<Rightarrow> fail env ''invalid_value'' s
              | Some out_value \<Rightarrow>
                  thenS (s, ini_get ini ''core'' ''disabled'') (\<lambda>s current.
                    if current = Some out_value then
                      (if json_mode env then leave_with 0 (ok env (disabled_doc (out_value = ''true'') False) s)
                       else give_up env s)
                    else
                      thenS (rewrite_disabled env current out_value s) (\<lambda>s _.
                        (ok env (disabled_doc (out_value = ''true'') True) s, Inr ()))))))"


section \<open>fetch-models\<close>

definition fetched_doc :: "cli_env \<Rightarrow> string list \<Rightarrow> json" where
  "fetched_doc env names =
     JObj [(''fetched'', JList (map JStr names)), (''directory'', JStr (ce_data_dir env))]"

definition cmd_fetch_models :: "cli_env \<Rightarrow> command" where
  "cmd_fetch_models env s =
     (if missing (cl_data s) = [] then (ok env (fetched_doc env []) s, Inr ())
      else
        let s = say env s in
        case fetch (ce_fetch env) (ce_fetch_mkdir env) (cl_data s) of
          (d, r) \<Rightarrow>
            let s = s\<lparr>cl_data := d\<rparr> in
            (case r of
               Inl e \<Rightarrow> if is_os_error e \<or> e = FetchError then fail env ''fetch_failed'' s else (s, Inl e)
             | Inr names \<Rightarrow> (ok env (fetched_doc env names) s, Inr ())))"

end
