(* ===== verification/Cli_Enroll.thy ===== *)
theory Cli_Enroll
  imports Cli Enrollment Recorders
begin

text \<open>
  \<open>cli/enrollment.py\<close>, \<open>cli/add.py\<close> and \<open>cli/re_enroll.py\<close>: enrolling at the terminal, as
  root, into a folder that belongs to the daemon.
\<close>

section \<open>Surroundings\<close>

text \<open>
  The loaders, OpenCV, the camera and the turns of the capture, the time of the write, and the
  uid and gid of the user \<open>secureeye\<close> if there is one.
\<close>

record cli_world =
  cw_loaders :: loaders
  cw_cv :: cv
  cw_camera :: "config \<Rightarrow> exn + camera"
  cw_ticks :: "tick list"
  cw_now :: int
  cw_daemon :: "(nat \<times> nat) option"

definition MAX_LABEL_LENGTH :: nat where "MAX_LABEL_LENGTH = 24"
definition MODELS_DIR_MODE :: nat where "MODELS_DIR_MODE = 448"


section \<open>The pipeline\<close>

definition load_pipeline :: "cli_env \<Rightarrow> cli_world \<Rightarrow> config \<Rightarrow> cli_state \<Rightarrow> cli_state \<times> (exn + pipeline_bundle)" where
  "load_pipeline env w c s = (case snd (create_pipeline (cw_loaders w) c Map.empty) of
      Inl e \<Rightarrow>
        if e \<in> {ModuleNotFoundError, OtherError ''ImportError'', FileNotFoundError, DetectorFactoryError}
        then give_up env s else (s, Inl e)
    | Inr b \<Rightarrow> (case model_id_known c of
          Inl e \<Rightarrow> (s, Inl e)
        | Inr _ \<Rightarrow> if b_model_id b \<noteq> active_model_id c then give_up env s else (s, Inr b)))"


section \<open>The models folder\<close>

text \<open>\<open>os.makedirs(models_dir, mode=MODELS_DIR_MODE)\<close>: the mode is for the last directory.\<close>

definition make_models_dir :: "process \<Rightarrow> path \<Rightarrow> fs \<Rightarrow> fs" where
  "make_models_dir pr d s =
     (let s = mkdir_parents pr d s
      in s\<lparr>dirs := (dirs s)(d := map_option (\<lambda>i. i\<lparr>d_mode := MODELS_DIR_MODE\<rparr>) (dirs s d))\<rparr>)"

text \<open>\<open>_hand_models_dir_to_daemon\<close>: the folder and the files directly in it.\<close>

definition hand_to_daemon :: "process \<Rightarrow> (nat \<times> nat) option \<Rightarrow> path \<Rightarrow> fs \<Rightarrow> fs" where
  "hand_to_daemon pr daemon d s =
     (if euid pr \<noteq> 0 then s
      else case daemon of
        None \<Rightarrow> s
      | Some (uid, gid) \<Rightarrow>
          (case dirs s d of
             None \<Rightarrow> s
           | Some i \<Rightarrow>
               if d_uid i = uid then s
               else
                 \<lparr>files = (\<lambda>p. if p \<noteq> [] \<and> parent p = d
                             then map_option (\<lambda>f. f\<lparr>f_uid := uid, f_gid := gid\<rparr>) (files s p) else files s p),
                  dirs = (dirs s)(d \<mapsto> \<lparr>d_uid = uid, d_gid = gid, d_mode = MODELS_DIR_MODE\<rparr>)\<rparr>))"

definition ensure_models_dir :: "cli_env \<Rightarrow> cli_world \<Rightarrow> cli_state \<Rightarrow> cli_state" where
  "ensure_models_dir env w s =
     (let d = user_models_dir (se_paths (ce_store env)); pr = se_process (ce_store env);
          s = (if models_dir_exists env s then s
               else (emit env Said s)\<lparr>cl_fs := make_models_dir pr d (cl_fs s)\<rparr>)
      in s\<lparr>cl_fs := hand_to_daemon pr (cw_daemon w) d (cl_fs s)\<rparr>)"


section \<open>The label and the face\<close>

definition ask_label :: "cli_env \<Rightarrow> string \<Rightarrow> cli_state \<Rightarrow> cli_state \<times> (exn + string)" where
  "ask_label env dflt s =
     thenS (if ca_y (ce_args env) then (emit env Said s, Inr dflt)
            else thenS (ask s) (\<lambda>s label_in.
              (s, Inr (if label_in \<noteq> [] then take MAX_LABEL_LENGTH label_in else dflt))))
       (\<lambda>s label.
          if CHR '','' \<in> set label then (emit env Said s, Inr (filter (\<lambda>ch. ch \<noteq> CHR '','') label))
          else (s, Inr label))"

definition default_label :: "cli_env \<Rightarrow> int \<Rightarrow> string" where
  "default_label env i = ce_message env ''Model #'' @ show_int i"

text \<open>
  \<open>capture_embedding\<close>: two seconds to get ready, no observer. \<open>None\<close> outside while the capture
  still runs. A \<open>dark_threshold\<close> read for the message was read by the stream before.
\<close>

definition capture_embedding ::
    "cli_env \<Rightarrow> cli_world \<Rightarrow> config \<Rightarrow> pipeline_bundle \<Rightarrow> cli_state \<Rightarrow> (cli_state \<times> (exn + embedding)) option" where
  "capture_embedding env w c b s =
     (let s = emit env Said s in
      case snd (enroll_capture \<lparr>ee_config = c, ee_bundle = b, ee_cv = cw_cv w, ee_camera = cw_camera w,
             ee_observed = False, ee_max_frames = MAX_FRAMES, ee_store = ce_store env\<rparr> 2 False (cw_ticks w) new_session) of
        None \<Rightarrow> None
      | Some (Inl e) \<Rightarrow> Some (s, Inl e)
      | Some (Inr out) \<Rightarrow>
          Some (if eo_result out = E_SUCCESS then (s, Inr (the (eo_embedding out))) else give_up env s))"


section \<open>add and re-enroll\<close>

type_synonym long_command = "cli_state \<Rightarrow> (cli_state \<times> (exn + unit)) option"

definition parse_config :: "cli_env \<Rightarrow> cli_state \<Rightarrow> exn + config" where
  "parse_config env s = read_ini (case cl_config s of None \<Rightarrow> [] | Some ls \<Rightarrow> ls)"

text \<open>What both commands do once the pipeline is loaded and the label known.\<close>

definition scan_and_store ::
    "cli_env \<Rightarrow> cli_world \<Rightarrow> config \<Rightarrow> pipeline_bundle \<Rightarrow> bool \<Rightarrow> string \<Rightarrow> long_command" where
  "scan_and_store env w c b replace label s = (case capture_embedding env w c b s of
      None \<Rightarrow> None
    | Some r \<Rightarrow> Some (thenS r (\<lambda>s e.
        thenS (with_fs ((if replace then replace_space else append) (ce_store env) (ca_user (ce_args env))
                 (active_model_id c) label (e_vector e) None (cw_now w)) s) (\<lambda>s _.
          (emit env Said s, Inr ())))))"

definition label_argument :: "cli_env \<Rightarrow> int \<Rightarrow> string" where
  "label_argument env i = (case ca_arguments (ce_args env) of a # _ \<Rightarrow> a | [] \<Rightarrow> default_label env i)"

text \<open>The part of \<open>add\<close> before the capture: the existing models, the notices, the label.\<close>

definition add_label :: "cli_env \<Rightarrow> cli_state \<Rightarrow> cli_state \<times> (exn + string)" where
  "add_label env s =
     thenS (case load_or_empty (ce_store env) (cl_fs s) (ca_user (ce_args env)) of
              Inl e \<Rightarrow> if e = TemplateSchemaError then give_up env s else (s, Inl e)
            | Inr templates \<Rightarrow> (s, Inr templates)) (\<lambda>s templates.
     let s = (if 3 < length templates then emit env Said s else s);
         s = (if ca_plain (ce_args env) then s else emit env Said s)
     in thenS (s, peek_next_id (ce_store env) (cl_fs s) (ca_user (ce_args env)) templates) (\<lambda>s i.
          ask_label env (label_argument env i) s))"

definition cmd_add :: "cli_env \<Rightarrow> cli_world \<Rightarrow> long_command" where
  "cmd_add env w s = (case parse_config env s of
      Inl e \<Rightarrow> Some (s, Inl e)
    | Inr c \<Rightarrow>
        (case load_pipeline env w c s of
           (s, Inl e) \<Rightarrow> Some (s, Inl e)
         | (s, Inr b) \<Rightarrow>
             (case add_label env (ensure_models_dir env w s) of
                (s, Inl e) \<Rightarrow> Some (s, Inl e)
              | (s, Inr label) \<Rightarrow> scan_and_store env w c b False label s)))"

text \<open>The models \<open>re-enroll\<close> is about to replace, and the question before it.\<close>

definition confirm_replace :: "cli_env \<Rightarrow> config \<Rightarrow> template list \<Rightarrow> command" where
  "confirm_replace env c templates s =
     (let stale = filter (\<lambda>t. t_model_id t = active_model_id c) templates in
      if stale \<noteq> [] \<and> \<not> ca_y (ce_args env)
      then thenS (confirm env s) (\<lambda>s _. (emit env Said s, Inr ())) else (s, Inr ()))"

definition cmd_re_enroll :: "cli_env \<Rightarrow> cli_world \<Rightarrow> long_command" where
  "cmd_re_enroll env w s = (case parse_config env s of
      Inl e \<Rightarrow> Some (s, Inl e)
    | Inr c \<Rightarrow>
        (case bindE (model_id_known c) (\<lambda>_. load_all (ce_store env) (cl_fs s) (ca_user (ce_args env))) of
           Inl e \<Rightarrow>
             Some (if e \<in> {TemplateFileNotFound, EmptyTemplateStore, TemplateSchemaError} then give_up env s
                   else (s, Inl e))
         | Inr templates \<Rightarrow>
             let s = (if ca_plain (ce_args env) then s else emit env Said s) in
             (case thenS (confirm_replace env c templates s) (\<lambda>s _. load_pipeline env w c s) of
                (s, Inl e) \<Rightarrow> Some (s, Inl e)
              | (s, Inr b) \<Rightarrow>
                  (let s = ensure_models_dir env w s in
                   case thenS (s, peek_next_id (ce_store env) (cl_fs s) (ca_user (ce_args env)) templates) (\<lambda>s i.
                       ask_label env (default_label env i) s) of
                     (s, Inl e) \<Rightarrow> Some (s, Inl e)
                   | (s, Inr label) \<Rightarrow> scan_and_store env w c b True label s))))"

end
