(* ===== verification/Window.thy ===== *)
theory Window
  imports Cli_Enroll
begin

text \<open>
  \<open>cli/test.py\<close>: the window of the \<open>test\<close> command. It shows the camera's picture with the
  counters, the histogram and a circle around every face, green for one of the user's templates.
  OpenCV draws and numpy counts; what is drawn where is modelled.
\<close>

section \<open>What is drawn\<close>

text \<open>The texts of the window with the values they show.\<close>

datatype caption =
    Resolution nat nat
  | Fps nat
  | Frames nat
  | Recognition int
  | Slow_mode
  | Dark_frame
  | Scan_frame
  | Owner string pyfloat
  | No_match

type_synonym point = "int \<times> int"
type_synonym colour = "nat \<times> nat \<times> nat"

datatype mark = Bar point point | Caption caption point colour | Circle point int colour

definition MATCHED :: colour where "MATCHED = (0, 230, 0)"
definition UNMATCHED :: colour where "UNMATCHED = (0, 0, 230)"
definition GREEN_TEXT :: colour where "GREEN_TEXT = (0, 255, 0)"
definition RED_TEXT :: colour where "RED_TEXT = (0, 0, 255)"

text \<open>\<open>np.bincount(...).reshape(8, 32).sum(axis=1)\<close> of 8-bit pixels.\<close>

definition histogram :: "frame \<Rightarrow> nat list" where
  "histogram gs = map (\<lambda>i. length (filter (\<lambda>p. p div 32 = i) (fr_pixels gs))) [0..<8]"

text \<open>The shares in percent; an empty picture divides by zero.\<close>

definition percentages :: "nat list \<Rightarrow> exn + rat list" where
  "percentages hist =
     (if sum_list hist = 0 then Inl (OtherError ''ZeroDivisionError'')
      else Inr (map (\<lambda>n. of_nat n * (100 / of_nat (sum_list hist))) hist))"

text \<open>\<open>int(q)\<close> of a float.\<close>

definition trunc :: "rat \<Rightarrow> int" where
  "trunc q = (if q < 0 then \<lceil>q\<rceil> else \<lfloor>q\<rfloor>)"

definition bars :: "rat list \<Rightarrow> mark list" where
  "bars perc = map (\<lambda>(i, v). Bar (20 + 10 * int i, 10) (10 + 10 * int i, trunc (v / 2 + 10))) (enumerate 0 perc)"

definition print_text :: "nat \<Rightarrow> nat \<Rightarrow> caption \<Rightarrow> mark" where
  "print_text height line t = Caption t (10, int height - 10 - 10 * int line) GREEN_TEXT"

definition face_bounds :: "bbox \<Rightarrow> int \<times> int \<times> int \<times> int" where
  "face_bounds b = (case b of (x, y, w, h) \<Rightarrow> (x, y, x + w, y + h))"

text \<open>The centre of a face and the radius with its padding of a fifth.\<close>

definition circle_of :: "face \<Rightarrow> point \<times> int" where
  "circle_of f = (case face_bounds (f_bbox f) of (left, upper, right, lower) \<Rightarrow>
     let r = of_int (right - left) / 2 in
     ((trunc (of_int (right - left) / 2) + left, trunc (of_int (lower - upper) / 2) + upper), trunc (r + r * (1 / 5))))"

text \<open>One face: its text, if there are templates to compare with, and its circle.\<close>

definition draw_face :: "numeric \<Rightarrow> pipeline option \<Rightarrow> frame \<Rightarrow> face \<Rightarrow> exn + mark list" where
  "draw_face np pipeline orig_frame f =
     (let ((x, y), r) = circle_of f; place = (trunc (of_int x + of_int r / 3), y - r) in
      case pipeline of
        None \<Rightarrow> Inr [Circle (x, y) r UNMATCHED]
      | Some p \<Rightarrow>
          bindE (pl_match np p orig_frame f) (\<lambda>m. Inr (case pl_owner_of p m of
              Some owner \<Rightarrow>
                if fm_accepted m
                then [Caption (Owner (t_label owner) (fround 3 (fscale 10 (fm_distance m)))) place GREEN_TEXT,
                      Circle (x, y) r MATCHED]
                else [Caption No_match place RED_TEXT, Circle (x, y) r UNMATCHED]
            | None \<Rightarrow> [Caption No_match place RED_TEXT, Circle (x, y) r UNMATCHED])))"


section \<open>The loop\<close>

text \<open>The variables of the loop; \<open>wn_shown\<close> are the overlays shown, \<open>wn_slept\<close> the pauses.\<close>

record window =
  wn_slow :: bool
  wn_total :: nat
  wn_sec_frames :: nat
  wn_fps :: nat
  wn_sec :: int
  wn_rec :: rat
  wn_reader :: reader
  wn_shown :: "mark list list"
  wn_slept :: "rat list"

text \<open>
  One turn as the world has it: the time, how long detection takes, the clicks on the window and
  the key while it is shown, and the time the turn took.
\<close>

record window_tick =
  wt_now :: rat
  wt_detect :: rat
  wt_clicks :: nat
  wt_key :: bool
  wt_took :: rat

record window_world =
  ww_device :: device_env
  ww_loaders :: loaders
  ww_numeric :: numeric
  ww_clahe :: "frame \<Rightarrow> exn + frame"
  ww_start :: rat
  ww_ticks :: "window_tick list"

text \<open>The options the loop uses and what it detects and compares with.\<close>

record window_setup =
  wo_bundle :: pipeline_bundle
  wo_pipeline :: "pipeline option"
  wo_dark_threshold :: pyfloat
  wo_exposure :: int

definition count_frame :: "rat \<Rightarrow> window \<Rightarrow> window" where
  "count_frame now w =
     (let w = w\<lparr>wn_total := wn_total w + 1, wn_sec_frames := wn_sec_frames w + 1\<rparr> in
      if wn_sec w \<noteq> trunc now
      then w\<lparr>wn_fps := wn_sec_frames w, wn_sec := trunc now, wn_sec_frames := 0\<rparr> else w)"

definition mouse :: "window \<Rightarrow> window" where
  "mouse w = w\<lparr>wn_slow := \<not> wn_slow w\<rparr>"

text \<open>What every frame shows, before it is searched.\<close>

definition panel :: "frame \<Rightarrow> rat list \<Rightarrow> window \<Rightarrow> mark list" where
  "panel gs perc w =
     bars perc @
     [print_text (fr_height gs) 0 (Resolution (fr_height gs) (fr_width gs)),
      print_text (fr_height gs) 1 (Fps (wn_fps w)),
      print_text (fr_height gs) 2 (Frames (wn_total w)),
      print_text (fr_height gs) 3 (Recognition (round_half_even (wn_rec w * 1000)))] @
     (if wn_slow w then [Caption Slow_mode (int (fr_width gs) - 66, int (fr_height gs) - 10) RED_TEXT] else [])"

text \<open>A frame: dark, or searched for faces. The time detection took is shown with the next one.\<close>

definition overlay ::
    "window_world \<Rightarrow> window_setup \<Rightarrow> window_tick \<Rightarrow> frame \<Rightarrow> frame \<Rightarrow> window \<Rightarrow> window \<times> (exn + mark list)" where
  "overlay ww wo tk orig_frame gs w =
     (case percentages (histogram gs) of
        Inl e \<Rightarrow> (w, Inl e)
      | Inr perc \<Rightarrow>
          let shown = panel gs perc w; corner = (int (fr_width gs) - 68, 16) in
          if flt (wo_dark_threshold wo) (Fin (perc ! 0))
          then (w, Inr (shown @ [Caption Dark_frame corner RED_TEXT]))
          else
            (case b_detect (wo_bundle wo) gs of
               Inl e \<Rightarrow> (w, Inl e)
             | Inr faces \<Rightarrow>
                 (w\<lparr>wn_rec := wt_detect tk\<rparr>,
                  bindE (mapE (draw_face (ww_numeric ww) (wo_pipeline wo) orig_frame) faces) (\<lambda>ds.
                    Inr (shown @ [Caption Scan_frame corner GREEN_TEXT] @ concat ds)))))"

definition set_exposure :: "int \<Rightarrow> reader \<Rightarrow> reader" where
  "set_exposure exposure r =
     (if exposure = -1 then r else reader_set PROP_EXPOSURE exposure (reader_set PROP_AUTO_EXPOSURE 1 r))"

text \<open>The window shows the frame; a key ends the loop.\<close>

definition show_frame :: "window_setup \<Rightarrow> window_tick \<Rightarrow> mark list \<Rightarrow> window \<Rightarrow> window \<times> (exn + unit)" where
  "show_frame wo tk ds w =
     (let w = (mouse ^^ wt_clicks tk) (w\<lparr>wn_shown := wn_shown w @ [ds]\<rparr>) in
      if wt_key tk then (w, Inl KeyboardInterrupt)
      else
        (w\<lparr>wn_slept := wn_slept w @ (if wn_slow w then [max (1 / 2 - wt_took tk) 0] else []),
           wn_reader := set_exposure (wo_exposure wo) (wn_reader w)\<rparr>, Inr ()))"

definition window_turn :: "window_world \<Rightarrow> window_setup \<Rightarrow> window_tick \<Rightarrow> window \<Rightarrow> window \<times> (exn + unit)" where
  "window_turn ww wo tk w =
     (let w = count_frame (wt_now tk) w in
      case read_picture (ww_device ww) (wn_reader w) of
        (r, x) \<Rightarrow>
          thenS (w\<lparr>wn_reader := r\<rparr>, bindE x (\<lambda>(orig_frame, gs). bindE (ww_clahe ww gs) (\<lambda>gs. Inr (orig_frame, gs))))
            (\<lambda>w (orig_frame, gs). thenS (overlay ww wo tk orig_frame gs w) (\<lambda>w ds. show_frame wo tk ds w)))"

text \<open>The loop ends by an exception only; \<open>None\<close> while the window is open.\<close>

fun window_loop :: "window_world \<Rightarrow> window_setup \<Rightarrow> window_tick list \<Rightarrow> window \<Rightarrow> window \<times> exn option" where
  "window_loop ww wo [] w = (w, None)"
| "window_loop ww wo (tk # tks) w = (case window_turn ww wo tk w of
      (w, Inl e) \<Rightarrow> (w, Some e)
    | (w, Inr _) \<Rightarrow> window_loop ww wo tks w)"


section \<open>The command\<close>

text \<open>The templates to compare with; without usable ones the faces are only found.\<close>

definition window_templates :: "cli_env \<Rightarrow> config \<Rightarrow> cli_state \<Rightarrow> cli_state \<times> (exn + template_set option)" where
  "window_templates env c s =
     (case bindE (model_id_known c) (\<lambda>_. load (ce_store env) (cl_fs s) (ca_user (ce_args env)) (active_model_id c)) of
        Inr ts \<Rightarrow> (s, Inr (Some ts))
      | Inl e \<Rightarrow>
          if e \<in> {TemplateFileNotFound, EmptyTemplateStore} then (s, Inr None)
          else if e \<in> {TemplateSchemaError, TemplateSpaceMismatch} then (emit env Said s, Inr None)
          else (s, Inl e))"

definition window_pipeline ::
    "cli_env \<Rightarrow> pipeline_bundle \<Rightarrow> template_set option \<Rightarrow> pyfloat \<Rightarrow> cli_state \<Rightarrow> cli_state \<times> pipeline option" where
  "window_pipeline env b ts certainty s = (case ts of
      None \<Rightarrow> (s, None)
    | Some ts \<Rightarrow>
        (case make_pipeline b ts certainty of
           Inl _ \<Rightarrow> (emit env Said s, None)
         | Inr p \<Rightarrow> (s, Some p)))"

text \<open>Everything before the window opens: the recorder, the options, the detector, the templates.\<close>

definition open_window ::
    "cli_env \<Rightarrow> window_world \<Rightarrow> cli_state \<Rightarrow> cli_state \<times> (exn + (window_setup \<times> reader))" where
  "open_window env ww s =
     (case parse_config env s of
        Inl e \<Rightarrow> (s, Inl e)
      | Inr c \<Rightarrow>
          case readable_option c ''video'' ''recording_plugin'' of Inl e \<Rightarrow> (s, Inl e) | Inr _ \<Rightarrow>
          if cfg_get c ''video'' ''recording_plugin'' ''opencv'' \<noteq> ''opencv'' then leave_with 12 (emit env Said s)
          else
            thenS (s, bindE (open_capture (ww_device ww) c) (\<lambda>r.
                bindE (cfg_float c ''video'' ''certainty'' (Fin (7 / 2))) (\<lambda>certainty.
                bindE (cfg_int c ''video'' ''exposure'' (-1)) (\<lambda>exposure.
                bindE (cfg_float c ''video'' ''dark_threshold'' (Fin 60)) (\<lambda>dark.
                  Inr (r, fscale (1 / 10) certainty, exposure, dark))))))
              (\<lambda>s (r, certainty, exposure, dark).
                let s = emit env Said s in
                case snd (create_pipeline (ww_loaders ww) c Map.empty) of
                  Inl e \<Rightarrow>
                    if e \<in> {FileNotFoundError, DetectorFactoryError} then leave_with 1 (emit env Said s) else (s, Inl e)
                | Inr b \<Rightarrow>
                    thenS (window_templates env c s) (\<lambda>s ts.
                      case window_pipeline env b ts certainty s of (s, p) \<Rightarrow>
                        (s, Inr (\<lparr>wo_bundle = b, wo_pipeline = p, wo_dark_threshold = dark, wo_exposure = exposure\<rparr>, r)))))"

definition new_window :: "window_world \<Rightarrow> reader \<Rightarrow> window" where
  "new_window ww r = \<lparr>wn_slow = False, wn_total = 0, wn_sec_frames = 0, wn_fps = 0, wn_sec = trunc (ww_start ww),
     wn_rec = 0, wn_reader = r, wn_shown = [], wn_slept = []\<rparr>"

text \<open>Only the key or ctrl+C ends the command well.\<close>

definition cmd_test :: "cli_env \<Rightarrow> window_world \<Rightarrow> long_command" where
  "cmd_test env ww s = (case open_window env ww s of
      (s, Inl e) \<Rightarrow> Some (s, Inl e)
    | (s, Inr (wo, r)) \<Rightarrow>
        (case snd (window_loop ww wo (ww_ticks ww) (new_window ww r)) of
           None \<Rightarrow> None
         | Some KeyboardInterrupt \<Rightarrow> Some (emit env Said s, Inr ())
         | Some e \<Rightarrow> Some (s, Inl e)))"

end
