(* ===== verification/Args.thy ===== *)
theory Args
  imports Cli
begin

text \<open>
  The command line of \<open>cli.py\<close>: the options and positionals it declares, and \<open>parse_args\<close> of the
  standard library's \<open>argparse\<close> as far as these declarations use it. The text is classified first
  (option, plain, \<open>--\<close>), then consumed from the left: the positionals as far as they match, the next
  option with its value, and so on. The rules are those of Python 3.12.3; two later changes that let
  the same text mean something else are switches of \<open>argparse_release\<close>.
\<close>

section \<open>What the program declares\<close>

datatype cli_option = OptUser | OptYes | OptPlain | OptJson | OptHelp

definition option_strings :: "(string \<times> cli_option) list" where
  "option_strings = [(''-U'', OptUser), (''--user'', OptUser), (''-y'', OptYes), (''--plain'', OptPlain),
     (''--json'', OptJson), (''-h'', OptHelp), (''--help'', OptHelp)]"

text \<open>Only \<open>--user\<close> takes a value; the other actions are \<open>store_true\<close> and \<open>help\<close>.\<close>

definition takes_value :: "cli_option \<Rightarrow> bool" where
  "takes_value a \<longleftrightarrow> a = OptUser"

definition command_choices :: "string list" where
  "command_choices = [''add'', ''clear'', ''config'', ''disable'', ''fetch-models'', ''list'', ''re-enroll'', ''remove'', ''set'',
     ''snapshot'', ''test'', ''version'']"

text \<open>\<open>command\<close> takes one string, \<open>arguments\<close> any number (\<open>nargs="*"\<close>).\<close>

datatype positional = PosCommand | PosArguments

definition positionals :: "positional list" where
  "positionals = [PosCommand, PosArguments]"


section \<open>Telling options from plain arguments\<close>

text \<open>
  \<open>rl_defers\<close>: a \<open>*\<close> positional that would be empty waits when an option follows.
  \<open>rl_first_dashes\<close>: only the \<open>--\<close> that ended the options is dropped, not the first string
  \<open>--\<close> of every positional.
\<close>

record argparse_release =
  rl_defers :: bool
  rl_first_dashes :: bool

text \<open>\<open>parser.error\<close> exits with 2, the help action with 0.\<close>

datatype usage_exit = UsageError | HelpShown

text \<open>The action (\<open>None\<close> for an unknown option), its spelling, whether \<open>=\<close> followed, the text glued to it.\<close>

record option_use =
  ou_action :: "cli_option option"
  ou_string :: string
  ou_equals :: bool
  ou_explicit :: "string option"

definition no_value :: "cli_option option \<Rightarrow> string \<Rightarrow> option_use" where
  "no_value a s = \<lparr>ou_action = a, ou_string = s, ou_equals = False, ou_explicit = None\<rparr>"

text \<open>\<open>str.partition("=")\<close>\<close>

definition partition_equals :: "string \<Rightarrow> string \<times> string option" where
  "partition_equals s = (let name = takeWhile (\<lambda>c. c \<noteq> CHR ''='') s in
     (name, if name = s then None else Some (drop (Suc (length name)) s)))"

text \<open>\<open>_get_option_tuples\<close>: abbreviations of the long options, clusters of the short ones.\<close>

definition option_tuples :: "string \<Rightarrow> option_use list" where
  "option_tuples s =
     (if s ! 1 = CHR ''-'' then
        (case partition_equals s of (name, v) \<Rightarrow>
           map (\<lambda>(t, a). \<lparr>ou_action = Some a, ou_string = t, ou_equals = v \<noteq> None, ou_explicit = v\<rparr>)
             (filter (\<lambda>(t, a). starts_with t name) option_strings))
      else List.map_filter (\<lambda>(t, a).
        if t = take 2 s then Some \<lparr>ou_action = Some a, ou_string = t, ou_equals = False, ou_explicit = Some (drop 2 s)\<rparr>
        else if starts_with t s then Some (no_value (Some a) t) else None) option_strings)"

text \<open>\<open>^-\d+$|^-\d*\.\d+$\<close>; \<open>$\<close> also matches before a newline at the end.\<close>

definition negative_number :: "string \<Rightarrow> bool" where
  "negative_number s =
     (let digits = (\<lambda>t. t \<noteq> [] \<and> list_all (\<lambda>c. c \<in> set ''0123456789'') t);
          body = (if s \<noteq> [] \<and> last s = CHR 0x0A then butlast (tl s) else tl s);
          whole = takeWhile (\<lambda>c. c \<in> set ''0123456789'') body;
          rest = drop (length whole) body
      in s \<noteq> [] \<and> hd s = CHR ''-'' \<and>
         (digits body \<or> (rest \<noteq> [] \<and> hd rest = CHR ''.'' \<and> digits (tl rest))))"

text \<open>\<open>_parse_optional\<close>: \<open>None\<close> for a plain argument; an ambiguous abbreviation is an error.\<close>

definition parse_optional :: "string \<Rightarrow> usage_exit + option_use option" where
  "parse_optional s =
     (if s = [] \<or> hd s \<noteq> CHR ''-'' then Inr None
      else case map_of option_strings s of Some a \<Rightarrow> Inr (Some (no_value (Some a) s))
      | None \<Rightarrow>
          if length s = 1 then Inr None
          else case partition_equals s of (name, v) \<Rightarrow>
            if v \<noteq> None \<and> map_of option_strings name \<noteq> None then
              Inr (Some \<lparr>ou_action = map_of option_strings name, ou_string = name, ou_equals = True, ou_explicit = v\<rparr>)
            else case option_tuples s of
              [t] \<Rightarrow> Inr (Some t)
            | _ # _ # _ \<Rightarrow> Inl UsageError
            | [] \<Rightarrow> if negative_number s \<or> CHR '' '' \<in> set s then Inr None else Inr (Some (no_value None s)))"

text \<open>The letters A, O and - of \<open>arg_strings_pattern\<close>; behind a \<open>--\<close> everything is an A.\<close>

datatype mark = MarkArg | MarkDashes | MarkOption option_use

type_synonym token = "string \<times> mark"

fun classify :: "string list \<Rightarrow> usage_exit + token list" where
  "classify [] = Inr []"
| "classify (s # ss) =
     (if s = ''--'' then Inr ((s, MarkDashes) # map (\<lambda>t. (t, MarkArg)) ss)
      else case parse_optional s of Inl e \<Rightarrow> Inl e
      | Inr p \<Rightarrow> (case classify ss of Inl e \<Rightarrow> Inl e
          | Inr rest \<Rightarrow> Inr ((s, case p of None \<Rightarrow> MarkArg | Some u \<Rightarrow> MarkOption u) # rest)))"

definition is_option :: "token \<Rightarrow> bool" where
  "is_option t \<longleftrightarrow> (case snd t of MarkOption _ \<Rightarrow> True | _ \<Rightarrow> False)"


section \<open>Consuming\<close>

text \<open>
  The values found so far, the positionals still to come, and what nothing could use.
  \<open>ps_command\<close> and \<open>ps_arguments\<close> are \<open>None\<close> until their action has run.
\<close>

record parse_state =
  ps_user :: string
  ps_yes :: bool
  ps_plain :: bool
  ps_json :: bool
  ps_command :: "string option"
  ps_arguments :: "string list option"
  ps_left :: "positional list"
  ps_extras :: "string list"

text \<open>The patterns \<open>(-*A-*)\<close> and \<open>(-*[A-]*)\<close>: how many strings they match, \<open>None\<close> for no match.\<close>

definition match_count :: "positional \<Rightarrow> token list \<Rightarrow> nat option" where
  "match_count p ts = (case p of
      PosCommand \<Rightarrow>
        let front = takeWhile (\<lambda>t. snd t = MarkDashes) ts; rest = drop (length front) ts in
        (case rest of [] \<Rightarrow> None
         | t # rest \<Rightarrow> if snd t = MarkArg then Some (length front + 1 + length (takeWhile (\<lambda>t. snd t = MarkDashes) rest))
                       else None)
    | PosArguments \<Rightarrow> Some (length (takeWhile (\<lambda>t. \<not> is_option t) ts)))"

text \<open>
  \<open>_match_arguments_partial\<close>: the longest list of positionals that matches. No pattern gives
  strings back to an earlier one here, so they match one after the other.
\<close>

fun match_each :: "positional list \<Rightarrow> token list \<Rightarrow> nat list" where
  "match_each [] ts = []"
| "match_each (p # ps) ts = (case match_count p ts of None \<Rightarrow> [] | Some n \<Rightarrow> n # match_each ps (drop n ts))"

definition match_partial :: "argparse_release \<Rightarrow> positional list \<Rightarrow> token list \<Rightarrow> nat list" where
  "match_partial r ps ts =
     (let counts = match_each ps ts; rest = drop (sum_list counts) ts in
      if rl_defers r \<and> rest \<noteq> [] \<and> is_option (hd rest) then rev (dropWhile (\<lambda>n. n = 0) (rev counts)) else counts)"

text \<open>The strings of a positional without the \<open>--\<close>.\<close>

definition without_dashes :: "argparse_release \<Rightarrow> token list \<Rightarrow> string list" where
  "without_dashes r ts =
     (if rl_first_dashes r \<and> MarkDashes \<notin> snd ` set ts then map fst ts else remove1 ''--'' (map fst ts))"

text \<open>\<open>take_action\<close> for a positional; the pattern of \<open>command\<close> leaves one string, checked against the choices.\<close>

definition take_positional :: "argparse_release \<Rightarrow> positional \<Rightarrow> token list \<Rightarrow> parse_state \<Rightarrow> usage_exit + parse_state" where
  "take_positional r p ts st = (case p of
      PosCommand \<Rightarrow> (case without_dashes r ts of
          [c] \<Rightarrow> if c \<in> set command_choices then Inr (st\<lparr>ps_command := Some c\<rparr>) else Inl UsageError
        | _ \<Rightarrow> Inl UsageError)
    | PosArguments \<Rightarrow> Inr (st\<lparr>ps_arguments := Some (without_dashes r ts)\<rparr>))"

fun take_positionals :: "argparse_release \<Rightarrow> nat list \<Rightarrow> parse_state \<times> token list \<Rightarrow> usage_exit + parse_state \<times> token list" where
  "take_positionals r [] (st, ts) = Inr (st, ts)"
| "take_positionals r (n # ns) (st, ts) = (case ps_left st of
      [] \<Rightarrow> Inr (st, ts)
    | p # ps \<Rightarrow> (case take_positional r p (take n ts) st of
        Inl e \<Rightarrow> Inl e
      | Inr st \<Rightarrow> take_positionals r ns (st\<lparr>ps_left := ps\<rparr>, drop n ts)))"

definition consume_positionals :: "argparse_release \<Rightarrow> parse_state \<times> token list \<Rightarrow> usage_exit + parse_state \<times> token list" where
  "consume_positionals r s = take_positionals r (match_partial r (ps_left (fst s)) (snd s)) s"

text \<open>
  One option string: its actions with their values, the text that is no option, and the strings
  behind it. The flags of a cluster such as \<open>-yh\<close> are taken apart; \<open>e\<close> is the text still glued to
  the option \<open>t\<close>.
\<close>

fun option_actions ::
  "cli_option \<Rightarrow> string \<Rightarrow> bool \<Rightarrow> string option \<Rightarrow> token list
     \<Rightarrow> usage_exit + (cli_option \<times> string) list \<times> string list \<times> token list" where
  "option_actions a t eq None rest =
     (if takes_value a then
        (case rest of (v, MarkArg) # rest \<Rightarrow> Inr ([(a, v)], [], rest) | _ \<Rightarrow> Inl UsageError)
      else Inr ([(a, [])], [], rest))"
| "option_actions a t eq (Some []) rest =
     (if takes_value a then Inr ([(a, [])], [], rest) else Inl UsageError)"
| "option_actions a t eq (Some (c # e)) rest =
     (if takes_value a then Inr ([(a, c # e)], [], rest)
      else if t ! 1 = CHR ''-'' \<or> eq \<or> c = CHR ''-'' then Inl UsageError
      else case map_of option_strings [CHR ''-'', c] of
        None \<Rightarrow> Inr ([(a, [])], [CHR ''-'' # c # e], rest)
      | Some b \<Rightarrow>
          (case (case e of [] \<Rightarrow> option_actions b [CHR ''-'', c] False None rest
                 | d # e' \<Rightarrow> if d = CHR ''='' then option_actions b [CHR ''-'', c] True (Some e') rest
                            else option_actions b [CHR ''-'', c] False (Some (d # e')) rest) of
             Inl x \<Rightarrow> Inl x
           | Inr (acts, extras, rest) \<Rightarrow> Inr ((a, []) # acts, extras, rest)))"

fun take_option :: "cli_option \<times> string \<Rightarrow> parse_state \<Rightarrow> usage_exit + parse_state" where
  "take_option (OptUser, v) st = Inr (st\<lparr>ps_user := v\<rparr>)"
| "take_option (OptYes, v) st = Inr (st\<lparr>ps_yes := True\<rparr>)"
| "take_option (OptPlain, v) st = Inr (st\<lparr>ps_plain := True\<rparr>)"
| "take_option (OptJson, v) st = Inr (st\<lparr>ps_json := True\<rparr>)"
| "take_option (OptHelp, v) st = Inl HelpShown"

fun take_options :: "(cli_option \<times> string) list \<Rightarrow> parse_state \<Rightarrow> usage_exit + parse_state" where
  "take_options [] st = Inr st"
| "take_options (x # xs) st = (case take_option x st of Inl e \<Rightarrow> Inl e | Inr st \<Rightarrow> take_options xs st)"

definition consume_optional :: "string \<Rightarrow> option_use \<Rightarrow> parse_state \<Rightarrow> token list \<Rightarrow> usage_exit + parse_state \<times> token list" where
  "consume_optional s u st rest = (case ou_action u of
      None \<Rightarrow> Inr (st\<lparr>ps_extras := ps_extras st @ [s]\<rparr>, rest)
    | Some a \<Rightarrow> (case option_actions a (ou_string u) (ou_equals u) (ou_explicit u) rest of
        Inl e \<Rightarrow> Inl e
      | Inr (acts, extras, rest) \<Rightarrow>
          (case take_options acts (st\<lparr>ps_extras := ps_extras st @ extras\<rparr>) of
             Inl e \<Rightarrow> Inl e
           | Inr st \<Rightarrow> Inr (st, rest))))"


section \<open>The whole line\<close>

text \<open>
  One round of the loop of \<open>_parse_known_args\<close>: the positionals in front of the next option, and
  only if they used nothing, what stands there is skipped and the option is taken.
\<close>

definition take_next_option :: "parse_state \<times> token list \<Rightarrow> usage_exit + parse_state \<times> token list" where
  "take_next_option s = (case s of (st, ts) \<Rightarrow>
     let skipped = takeWhile (\<lambda>t. \<not> is_option t) ts in
     (case drop (length skipped) ts of
        (t, MarkOption u) # rest \<Rightarrow> consume_optional t u (st\<lparr>ps_extras := ps_extras st @ map fst skipped\<rparr>) rest
      | _ \<Rightarrow> Inr (st, ts)))"

definition parse_round :: "argparse_release \<Rightarrow> parse_state \<times> token list \<Rightarrow> usage_exit + parse_state \<times> token list" where
  "parse_round r s =
     (if is_option (hd (snd s)) then take_next_option s
      else case consume_positionals r s of
        Inl e \<Rightarrow> Inl e
      | Inr s' \<Rightarrow> if length (snd s') < length (snd s) then Inr s' else take_next_option s')"

lemma option_actions_rest:
  "option_actions a t eq e rest = Inr (acts, extras, rest') \<Longrightarrow> length rest' \<le> length rest"
proof (induction a t eq e rest arbitrary: acts extras rest' rule: option_actions.induct)
  case (1 a t eq rest)
  then show ?case by (auto split: if_splits list.splits prod.splits mark.splits)
next
  case (2 a t eq rest)
  then show ?case by (simp split: if_splits)
next
  case (3 a t eq c e rest)
  show ?case
  proof (cases "takes_value a \<or> map_of option_strings [CHR ''-'', c] = None")
    case True
    then show ?thesis using 3(4) by (auto split: if_splits)
  next
    case False
    then obtain b where b: "map_of option_strings [CHR ''-'', c] = Some b" by blast
    have g: "\<not> takes_value a" "\<not> (t ! 1 = CHR ''-'' \<or> eq \<or> c = CHR ''-'')"
      using False 3(4) by (auto split: if_splits)
    show ?thesis
    proof (cases e)
      case Nil
      then show ?thesis using 3(1) [OF g b] 3(4) g b by (simp split: sum.splits prod.splits)
    next
      case (Cons d e')
      show ?thesis
      proof (cases "d = CHR ''=''")
        case True
        then show ?thesis using 3(2) [OF g b Cons True] 3(4) g b Cons by (simp split: sum.splits prod.splits)
      next
        case False
        then show ?thesis using 3(3) [OF g b Cons False] 3(4) g b Cons by (simp split: sum.splits prod.splits)
      qed
    qed
  qed
qed

lemma consume_optional_rest:
  "consume_optional s u st rest = Inr (st', rest') \<Longrightarrow> length rest' \<le> length rest"
  by (auto simp: consume_optional_def dest: option_actions_rest split: option.splits sum.splits prod.splits)

lemma take_positionals_rest:
  "take_positionals r ns s = Inr s' \<Longrightarrow> \<exists>n. snd s' = drop n (snd s)"
proof (induction r ns s rule: take_positionals.induct)
  case (1 r st ts)
  then show ?case by (auto intro: exI [of _ 0])
next
  case (2 r n ns st ts)
  show ?case
  proof (cases "ps_left st")
    case Nil
    then show ?thesis using 2(2) by (auto intro: exI [of _ 0])
  next
    case (Cons p ps)
    then obtain st1 where 1: "take_positional r p (take n ts) st = Inr st1"
        "take_positionals r ns (st1\<lparr>ps_left := ps\<rparr>, drop n ts) = Inr s'"
      using 2(2) by (auto split: sum.splits)
    from 2(1) [OF Cons 1] obtain m where "snd s' = drop m (drop n ts)" by auto
    then show ?thesis by auto
  qed
qed

lemma take_next_option_rest:
  assumes "take_next_option s = Inr s'" and "\<exists>t\<in>set (snd s). is_option t"
  shows "length (snd s') < length (snd s)"
proof (cases s)
  case s: (Pair st ts)
  have assms: "take_next_option (st, ts) = Inr s'" "\<exists>t\<in>set ts. is_option t" using assms s by auto
  let ?n = "length (takeWhile (\<lambda>t. \<not> is_option t) ts)"
  have "dropWhile (\<lambda>t. \<not> is_option t) ts \<noteq> []" using assms(2) by (auto simp: dropWhile_eq_Nil_conv)
  then obtain t rest where d: "drop ?n ts = t # rest" "is_option t"
    by (metis dropWhile_eq_drop hd_dropWhile list.collapse)
  then obtain x u where t: "t = (x, MarkOption u)" by (cases t) (auto simp: is_option_def split: mark.splits)
  have "length (drop ?n ts) = Suc (length rest)" using d(1) by simp
  then have "length rest < length ts" by simp
  moreover have "consume_optional x u (st\<lparr>ps_extras := ps_extras st @ map fst (takeWhile (\<lambda>t. \<not> is_option t) ts)\<rparr>) rest = Inr s'"
    using assms(1) d(1) t by (simp add: take_next_option_def Let_def)
  then have "length (snd s') \<le> length rest" using consume_optional_rest by (cases s') fastforce
  ultimately show ?thesis using s by simp
qed

lemma consume_positionals_rest:
  "consume_positionals r s = Inr s' \<Longrightarrow> \<exists>n. snd s' = drop n (snd s)"
  unfolding consume_positionals_def by (rule take_positionals_rest)

lemma parse_round_rest:
  assumes "parse_round r s = Inr s'" and "\<exists>t\<in>set (snd s). is_option t"
  shows "length (snd s') < length (snd s)"
proof (cases "is_option (hd (snd s))")
  case True
  then show ?thesis using assms take_next_option_rest by (auto simp: parse_round_def)
next
  case False
  then obtain s1 where 1: "consume_positionals r s = Inr s1"
      "(if length (snd s1) < length (snd s) then Inr s1 else take_next_option s1) = Inr s'"
    using assms(1) by (auto simp: parse_round_def split: sum.splits)
  show ?thesis
  proof (cases "length (snd s1) < length (snd s)")
    case True
    then show ?thesis using 1(2) by simp
  next
    case same: False
    obtain n where n: "snd s1 = drop n (snd s)" using consume_positionals_rest [OF 1(1)] by blast
    with same have "snd s1 = snd s" by (cases n; cases "snd s") auto
    then show ?thesis using 1(2) same assms(2) take_next_option_rest [of s1 s'] by simp
  qed
qed

function parse_loop :: "argparse_release \<Rightarrow> parse_state \<times> token list \<Rightarrow> usage_exit + parse_state \<times> token list" where
  "parse_loop r s =
     (if \<exists>t\<in>set (snd s). is_option t then
        (case parse_round r s of Inl e \<Rightarrow> Inl e | Inr s' \<Rightarrow> parse_loop r s')
      else Inr s)"
  by pat_completeness auto
termination
  by (relation "measure (\<lambda>(r, s). length (snd s))") (auto dest: parse_round_rest)

declare parse_loop.simps [simp del]

text \<open>The defaults, \<open>user\<close> being the one picked before.\<close>

definition parse_start :: "string \<Rightarrow> parse_state" where
  "parse_start user = \<lparr>ps_user = user, ps_yes = False, ps_plain = False, ps_json = False, ps_command = None,
     ps_arguments = None, ps_left = positionals, ps_extras = []\<rparr>"

text \<open>
  The positionals behind the last option; then everything required must be there and nothing left
  over (\<open>parse_args\<close>).
\<close>

definition parse_finish :: "argparse_release \<Rightarrow> parse_state \<times> token list \<Rightarrow> usage_exit + cli_args" where
  "parse_finish r s = (case consume_positionals r s of
      Inl e \<Rightarrow> Inl e
    | Inr (st, rest) \<Rightarrow>
        (case (ps_command st, ps_arguments st, ps_extras st @ map fst rest) of
           (Some c, Some as, []) \<Rightarrow> Inr \<lparr>ca_command = c, ca_arguments = as, ca_user = ps_user st, ca_y = ps_yes st,
             ca_plain = ps_plain st, ca_json = ps_json st\<rparr>
         | _ \<Rightarrow> Inl UsageError))"

definition parse_args :: "argparse_release \<Rightarrow> string \<Rightarrow> string list \<Rightarrow> usage_exit + cli_args" where
  "parse_args r user strings = (case classify strings of
      Inl e \<Rightarrow> Inl e
    | Inr ts \<Rightarrow> (case parse_loop r (parse_start user, ts) of Inl e \<Rightarrow> Inl e | Inr s \<Rightarrow> parse_finish r s))"

end
