(* ===== verification/Cli_Main.thy ===== *)
theory Cli_Main
  imports Window Args
begin

text \<open>
  \<open>cli.py\<close> and the commands that print for people only, \<open>cli/config.py\<close> and \<open>cli/snap.py\<close>:
  who the user is, which command may run, and what becomes of its exception.
\<close>

section \<open>The user\<close>

text \<open>
  The environment variables, the password database by uid (\<open>KeyError\<close> without an entry) and
  \<open>getpass.getuser()\<close>.
\<close>

record shell_env =
  sh_environ :: "string \<Rightarrow> string option"
  sh_pwuid :: "int \<Rightarrow> string option"
  sh_getuser :: "exn + string"

definition env_or_empty :: "shell_env \<Rightarrow> string \<Rightarrow> string" where
  "env_or_empty sh v = (case sh_environ sh v of None \<Rightarrow> [] | Some x \<Rightarrow> x)"

definition pkexec_user :: "shell_env \<Rightarrow> exn + string" where
  "pkexec_user sh =
     (let uid = env_or_empty sh ''PKEXEC_UID'' in
      if uid = [] then Inr []
      else bindE (parse_int uid) (\<lambda>n. case sh_pwuid sh n of
        None \<Rightarrow> Inl (OtherError ''KeyError'') | Some name \<Rightarrow> Inr name))"

text \<open>The first name that is not empty, in this order; empty when there is none.\<close>

definition pick_user :: "shell_env \<Rightarrow> exn + string" where
  "pick_user sh =
     bindE (pkexec_user sh) (\<lambda>pkexec.
     bindE (sh_getuser sh) (\<lambda>env_user.
       Inr (case List.find (\<lambda>u. u \<noteq> []) [env_or_empty sh ''SUDO_USER'', env_or_empty sh ''DOAS_USER'', pkexec, env_user] of
              None \<Rightarrow> [] | Some u \<Rightarrow> u)))"


section \<open>config and snapshot\<close>

text \<open>
  What is on the \<open>PATH\<close> (\<open>shutil.which\<close>, which gives the path found), and whether starting the
  editor raises.
\<close>

record editor_env =
  ed_environ :: "string option"
  ed_which :: "string \<Rightarrow> string option"
  ed_call :: "string \<Rightarrow> exn option"

definition choose_editor :: "editor_env \<Rightarrow> string option" where
  "choose_editor env =
     (let usable = (\<lambda>x. if x = Some [] then None else x);
          nano = usable (ed_which env ''nano''); vi = usable (ed_which env ''vi'');
          preferred = (case ed_environ env of None \<Rightarrow> None
            | Some e \<Rightarrow> if e \<noteq> [] \<and> usable (ed_which env e) \<noteq> None then Some e else None)
      in case preferred of Some e \<Rightarrow> Some e | None \<Rightarrow> (case nano of Some n \<Rightarrow> Some n | None \<Rightarrow> vi))"

text \<open>The editor works on the file itself; what it does to it is left to the person using it.\<close>

definition cmd_config :: "cli_env \<Rightarrow> editor_env \<Rightarrow> command" where
  "cmd_config env ed s = (case choose_editor ed of
      None \<Rightarrow> (emit env Said s, Inr ())
    | Some e \<Rightarrow>
        let s = emit env Said s in
        (case ed_call ed e of
           None \<Rightarrow> (s, Inr ())
         | Some x \<Rightarrow> if is_exception x then (emit env Said s, Inr ()) else (s, Inl x)))"

text \<open>\<open>read_frame\<close> repeated: the colour frames of \<open>n\<close> reads.\<close>

fun read_pictures :: "device_env \<Rightarrow> nat \<Rightarrow> reader \<Rightarrow> reader \<times> (exn + frame list)" where
  "read_pictures denv 0 r = (r, Inr [])"
| "read_pictures denv (Suc n) r =
     thenS (read_picture denv r) (\<lambda>r (fr, gs). thenS (read_pictures denv n r) (\<lambda>r frs. (r, Inr (fr # frs))))"

text \<open>
  \<open>cli/snap.py\<close>: one read to switch the emitters on, the options, four frames, the picture.
  \<open>date\<close> is the date in its caption and \<open>str_float\<close> is \<open>str\<close> of a float.
\<close>

record snap_world =
  sw_device :: device_env
  sw_snap :: snap_env
  sw_date :: string
  sw_str_float :: "pyfloat \<Rightarrow> string"

definition snapshot_captions :: "cli_env \<Rightarrow> snap_world \<Rightarrow> config \<Rightarrow> exn + string list" where
  "snapshot_captions env sw c =
     bindE (cfg_float c ''video'' ''dark_threshold'' (Fin 60)) (\<lambda>dark.
     bindE (cfg_float c ''video'' ''certainty'' (Fin (7/2))) (\<lambda>certainty.
       Inr [ce_message env ''GENERATED SNAPSHOT'', ce_message env ''Date: '' @ sw_date sw,
            ce_message env ''Dark threshold config: '' @ sw_str_float sw dark,
            ce_message env ''Certainty config: '' @ sw_str_float sw certainty]))"

definition snapshot_frames :: "device_env \<Rightarrow> config \<Rightarrow> exn + frame list" where
  "snapshot_frames denv c =
     bindE (open_capture denv c) (\<lambda>r. case read_picture denv r of
       (r, Inl e) \<Rightarrow> Inl e
     | (r, Inr _) \<Rightarrow>
         bindE (cfg_int c ''video'' ''exposure'' (-1)) (\<lambda>_.
         bindE (cfg_float c ''video'' ''dark_threshold'' (Fin 60)) (\<lambda>_.
           snd (read_pictures denv 4 r))))"

definition cmd_snapshot :: "cli_env \<Rightarrow> snap_world \<Rightarrow> command" where
  "cmd_snapshot env sw s =
     thenS (s, bindE (parse_config env s) (\<lambda>c. bindE (snapshot_frames (sw_device sw) c) (\<lambda>frames.
              bindE (snapshot_captions env sw c) (\<lambda>lines. Inr (frames, lines)))))
       (\<lambda>s (frames, lines).
          case generate (sw_snap sw) frames lines (cl_fs s, cl_snaps s) of
            ((fs, snaps), r) \<Rightarrow>
              thenS (s\<lparr>cl_fs := fs, cl_snaps := snaps\<rparr>, r) (\<lambda>s _. (emit env Said s, Inr ())))"


section \<open>One run of the program\<close>

text \<open>What a run depends on; \<open>mw_argparse\<close> is the release of the library that reads the arguments.\<close>

record main_world =
  mw_shell :: shell_env
  mw_argparse :: argparse_release
  mw_cli :: cli_world
  mw_editor :: editor_env
  mw_snap :: snap_world
  mw_window :: window_world

definition json_commands :: "string set" where
  "json_commands = {''clear'', ''disable'', ''fetch-models'', ''list'', ''remove'', ''set'', ''version''}"

text \<open>The modules of \<open>command_modules\<close>.\<close>

definition command_module :: "cli_env \<Rightarrow> main_world \<Rightarrow> string \<Rightarrow> long_command option" where
  "command_module env w name =
     (let at_once = (\<lambda>c. Some (\<lambda>s. Some (c s))) in
      if name = ''add'' then Some (cmd_add env (mw_cli w))
      else if name = ''clear'' then at_once (cmd_clear env)
      else if name = ''config'' then at_once (cmd_config env (mw_editor w))
      else if name = ''disable'' then at_once (cmd_disable env)
      else if name = ''fetch-models'' then at_once (cmd_fetch_models env)
      else if name = ''list'' then at_once (cmd_list env)
      else if name = ''re-enroll'' then Some (cmd_re_enroll env (mw_cli w))
      else if name = ''remove'' then at_once (cmd_remove env)
      else if name = ''set'' then at_once (cmd_set env)
      else if name = ''snapshot'' then at_once (cmd_snapshot env (mw_snap w))
      else if name = ''test'' then Some (cmd_test env (mw_window w))
      else None)"

lemma choices_have_modules:
  "c \<in> set command_choices \<Longrightarrow> c \<noteq> ''version'' \<Longrightarrow> command_module env w c \<noteq> None"
  by (auto simp: command_choices_def command_module_def Let_def)

text \<open>In JSON mode an \<open>Exception\<close> of the module becomes an error document.\<close>

definition caught :: "cli_env \<Rightarrow> cli_state \<times> (exn + unit) \<Rightarrow> cli_state \<times> (exn + unit)" where
  "caught env r = (case r of
      (s, Inl e) \<Rightarrow> if json_mode env \<and> is_exception e then fail env ''internal_error'' s else (s, Inl e)
    | (s, Inr _) \<Rightarrow> (s, Inr ()))"

definition run_module :: "cli_env \<Rightarrow> main_world \<Rightarrow> long_command" where
  "run_module env w s = (case command_module env w (ca_command (ce_args env)) of
      None \<Rightarrow> Some (fail env ''unknown_command'' s)
    | Some run \<Rightarrow> map_option (caught env) (run s))"

text \<open>The checks between parsing the arguments and running a command.\<close>

definition guarded_run :: "cli_env \<Rightarrow> main_world \<Rightarrow> long_command" where
  "guarded_run env w s =
     (let args = ce_args env in
      if json_mode env \<and> ca_command args \<notin> json_commands then Some (fail env ''json_unsupported'' s)
      else if ca_command args = ''version'' then
        Some (leave_with 0 (ok env (JObj [(''version'', JStr ''0.0.1'')]) s))
      else if euid (se_process (ce_store env)) \<noteq> 0 then Some (fail env ''not_root'' s)
      else if ca_user args = ''root'' then Some (fail env ''root_user'' s)
      else run_module env w s)"

text \<open>
  The user picked before is the default of \<open>--user\<close>. A usage error goes to the error output and
  exits with 2, \<open>--help\<close> prints and exits with 0.
\<close>

definition main :: "cli_env \<Rightarrow> main_world \<Rightarrow> string list \<Rightarrow> long_command" where
  "main env w argv s = (case pick_user (mw_shell w) of
      Inl e \<Rightarrow> Some (s, Inl e)
    | Inr user \<Rightarrow>
        if user = [] then Some (give_up env s)
        else if length argv < 2 then Some (leave_with 0 (emit env Said s))
        else case parse_args (mw_argparse w) user (tl argv) of
          Inl UsageError \<Rightarrow> Some (leave_with 2 s)
        | Inl HelpShown \<Rightarrow> Some (leave_with 0 (emit env Said s))
        | Inr args \<Rightarrow>
            let args = (if ca_json args then args\<lparr>ca_y := True\<rparr> else args)
            in guarded_run (env\<lparr>ce_args := args\<rparr>) w s)"

end
