(* ===== verification/Cli_Json.thy ===== *)
theory Cli_Json
  imports Cli_Main
begin

text \<open>
  JSON mode, the contract of \<open>cli/output.py\<close> the GUI relies on: one document, no question, and
  an exit status that agrees with the document.
\<close>

section \<open>JSON mode\<close>

definition success_doc :: "json \<Rightarrow> bool" where
  "success_doc d \<longleftrightarrow> (\<exists>data. d = JObj [(''ok'', JBool True), (''data'', data)])"

definition failure_doc :: "json \<Rightarrow> bool" where
  "failure_doc d \<longleftrightarrow> (\<exists>code msg. d = JObj [(''ok'', JBool False),
     (''error'', JObj [(''code'', JStr code), (''message'', JStr msg)])])"

text \<open>
  One document was printed, and the exit status says what it says; \<open>silent\<close>: nothing was, and an
  exception escapes.
\<close>

definition one_doc :: "cli_state \<Rightarrow> cli_state \<times> (exn + unit) \<Rightarrow> bool" where
  "one_doc s r \<longleftrightarrow> cl_asked (fst r) = cl_asked s \<and> (\<exists>d. cl_out (fst r) = cl_out s @ [Doc d] \<and>
     (success_doc d \<and> snd r \<in> {Inr (), Inl (SystemExit (Some 0))} \<or>
      failure_doc d \<and> snd r = Inl (SystemExit (Some 1))))"

definition silent :: "cli_state \<Rightarrow> cli_state \<times> (exn + unit) \<Rightarrow> bool" where
  "silent s r \<longleftrightarrow> cl_asked (fst r) = cl_asked s \<and> cl_out (fst r) = cl_out s \<and> \<not> cl_redirected (fst r) \<and>
     (\<exists>e. snd r = Inl e)"

definition settled :: "cli_state \<Rightarrow> cli_state \<times> (exn + unit) \<Rightarrow> bool" where
  "settled s r \<longleftrightarrow> one_doc s r \<or> silent s r"

text \<open>The exceptions that are no \<open>Exception\<close> and that a command may die of.\<close>

definition killed :: "cli_state \<Rightarrow> cli_state \<times> (exn + unit) \<Rightarrow> bool" where
  "killed s r \<longleftrightarrow> silent s r \<and> (\<exists>e. snd r = Inl e \<and> \<not> is_exception e)"

text \<open>What a command of JSON mode is asked to keep.\<close>

definition no_questions :: "cli_env \<Rightarrow> bool" where
  "no_questions env \<longleftrightarrow> json_mode env \<and> ca_y (ce_args env)"

locale json_command =
  fixes run :: "cli_env \<Rightarrow> command"
    and ready :: "cli_env \<Rightarrow> cli_state \<Rightarrow> bool"
  assumes ends: "no_questions env \<Longrightarrow> \<not> cl_redirected s \<Longrightarrow> ready env s \<Longrightarrow>
    settled s (run env s)"

lemma ok_doc:
  assumes "json_mode env" and "\<not> cl_redirected s" and "cl_out s = out" and "cl_asked s = n"
  shows "cl_out (ok env data s) = out @ [Doc (JObj [(''ok'', JBool True), (''data'', data)])]"
    and "cl_asked (ok env data s) = n"
  using assms by (auto simp: ok_def emit_def)

lemma fail_one_doc:
  assumes "json_mode env" and "\<not> cl_redirected s" and "cl_out s = cl_out s0" and "cl_asked s = cl_asked s0"
  shows "one_doc s0 (fail env c s)"
  using assms by (auto simp: one_doc_def fail_def emit_def error_doc_def failure_doc_def)

lemma ok_one_doc:
  assumes "json_mode env" and "\<not> cl_redirected s" and "cl_out s = cl_out s0" and "cl_asked s = cl_asked s0"
  shows "one_doc s0 (ok env data s, Inr ())" and "one_doc s0 (leave_with 0 (ok env data s))"
  using assms by (auto simp: one_doc_def leave_with_def ok_def emit_def success_doc_def)

lemma escape_silent:
  assumes "\<not> cl_redirected s" and "cl_out s = cl_out s0" and "cl_asked s = cl_asked s0"
  shows "silent s0 (s, Inl e)"
  using assms by (simp add: silent_def)

lemma fail_settled:
  "json_mode env \<Longrightarrow> \<not> cl_redirected s \<Longrightarrow> cl_out s = cl_out s0 \<Longrightarrow> cl_asked s = cl_asked s0 \<Longrightarrow> settled s0 (fail env c s)"
  by (simp add: settled_def fail_one_doc)

lemma ok_settled:
  "json_mode env \<Longrightarrow> \<not> cl_redirected s \<Longrightarrow> cl_out s = cl_out s0 \<Longrightarrow> cl_asked s = cl_asked s0 \<Longrightarrow>
     settled s0 (ok env data s, Inr ())"
  "json_mode env \<Longrightarrow> \<not> cl_redirected s \<Longrightarrow> cl_out s = cl_out s0 \<Longrightarrow> cl_asked s = cl_asked s0 \<Longrightarrow>
     settled s0 (leave_with 0 (ok env data s))"
  by (simp_all add: settled_def ok_one_doc)

lemma escape_settled:
  "\<not> cl_redirected s \<Longrightarrow> cl_out s = cl_out s0 \<Longrightarrow> cl_asked s = cl_asked s0 \<Longrightarrow> settled s0 (s, Inl e)"
  by (simp add: settled_def escape_silent)

lemmas json_ends = fail_settled ok_settled escape_settled

context json_command
begin

text \<open>Under the handler of \<open>cli.py\<close>, only what is no \<open>Exception\<close> escapes without a document.\<close>

lemma caught_ends:
  assumes "no_questions env" and "\<not> cl_redirected s" and "ready env s"
  shows "one_doc s (caught env (run env s)) \<or> killed s (caught env (run env s))"
proof -
  obtain s' r where r: "run env s = (s', r)" by (cases "run env s")
  have j: "json_mode env" using assms(1) by (simp add: no_questions_def)
  from ends [OF assms] show ?thesis
    unfolding settled_def
  proof
    assume "one_doc s (run env s)"
    then have "caught env (run env s) = run env s"
      unfolding r by (auto simp: one_doc_def caught_def split: sum.splits)
    then show ?thesis using \<open>one_doc s (run env s)\<close> by simp
  next
    assume q: "silent s (run env s)"
    then obtain e where e: "r = Inl e" by (auto simp: silent_def r)
    show ?thesis
    proof (cases "is_exception e")
      case True
      then have "caught env (run env s) = fail env ''internal_error'' s'" using j by (simp add: caught_def r e)
      with q show ?thesis using fail_one_doc [OF j, of s' s] by (auto simp: silent_def r)
    next
      case False
      then have "caught env (run env s) = run env s" by (simp add: caught_def r e)
      then show ?thesis using q False by (simp add: killed_def r e)
    qed
  qed
qed

end


section \<open>The commands keep it\<close>

lemma with_fs_keeps [simp]:
  "cl_out (fst (with_fs f s)) = cl_out s" "cl_asked (fst (with_fs f s)) = cl_asked s"
  "cl_redirected (fst (with_fs f s)) = cl_redirected s"
  by (simp_all add: with_fs_def split: prod.splits)

lemma confirm_yes [simp]: "ca_y (ce_args env) \<Longrightarrow> confirm env s = (s, Inr ())"
  by (simp add: confirm_def)

text \<open>A call that prints nothing, then the document.\<close>

lemma then_ok:
  assumes "json_mode env" and "\<not> cl_redirected s" and "cl_out (fst m) = cl_out s" and "cl_asked (fst m) = cl_asked s"
    and "cl_redirected (fst m) = cl_redirected s"
  shows "settled s (thenS m (\<lambda>s _. (ok env data s, Inr ())))"
  using assms by (cases m; cases "snd m") (auto intro: json_ends)

lemma json_list: "no_questions env \<Longrightarrow> \<not> cl_redirected s \<Longrightarrow> settled s (cmd_list env s)"
  by (auto simp: cmd_list_def no_questions_def Let_def intro: json_ends split: sum.splits)

lemma json_remove: "no_questions env \<Longrightarrow> \<not> cl_redirected s \<Longrightarrow> settled s (cmd_remove env s)"
  by (auto simp: cmd_remove_def no_questions_def Let_def intro: json_ends then_ok split: sum.splits list.splits option.splits)

lemma json_clear: "no_questions env \<Longrightarrow> \<not> cl_redirected s \<Longrightarrow> settled s (cmd_clear env s)"
  by (auto simp: cmd_clear_def no_questions_def Let_def intro: json_ends)

lemma swap_config_keeps [simp]:
  "cl_out (fst (swap_config env ls s)) = cl_out s" "cl_asked (fst (swap_config env ls s)) = cl_asked s"
  "cl_redirected (fst (swap_config env ls s)) = cl_redirected s"
  by (simp_all add: swap_config_def conf_call_def split: option.splits)

lemma json_set: "no_questions env \<Longrightarrow> \<not> cl_redirected s \<Longrightarrow> settled s (cmd_set env s)"
  by (auto simp: cmd_set_def no_questions_def Let_def intro: json_ends then_ok split: sum.splits)

text \<open>\<open>disable\<close> needs the option it rewrites.\<close>

definition has_disabled :: "cli_env \<Rightarrow> cli_state \<Rightarrow> bool" where
  "has_disabled env s \<longleftrightarrow> bindE (config_ini s) (\<lambda>ini. ini_get ini ''core'' ''disabled'') \<noteq> Inr None"

lemma rewrite_disabled_keeps [simp]:
  "cl_out (fst (rewrite_disabled env (Some y) v s)) = cl_out s"
  "cl_asked (fst (rewrite_disabled env (Some y) v s)) = cl_asked s"
  "cl_redirected (fst (rewrite_disabled env (Some y) v s)) = cl_redirected s"
  by (auto simp: rewrite_disabled_def split: option.splits)

lemma json_rewrite:
  "json_mode env \<Longrightarrow> \<not> cl_redirected s \<Longrightarrow>
     settled s (thenS (rewrite_disabled env (Some y) v s) (\<lambda>s _. (ok env d s, Inr ())))"
  by (auto intro: then_ok)

lemma json_disable:
  "no_questions env \<Longrightarrow> \<not> cl_redirected s \<Longrightarrow> has_disabled env s \<Longrightarrow>
     settled s (cmd_disable env s)"
  by (auto simp: cmd_disable_def no_questions_def Let_def has_disabled_def flow_simps thenS_pair json_rewrite
      intro: json_ends split: sum.splits list.splits option.splits)

lemma json_fetch: "no_questions env \<Longrightarrow> \<not> cl_redirected s \<Longrightarrow> settled s (cmd_fetch_models env s)"
  by (auto simp: cmd_fetch_models_def no_questions_def Let_def say_def intro: json_ends split: sum.splits prod.splits)

interpretation js_list: json_command cmd_list "\<lambda>_ _. True"
  by unfold_locales (rule json_list)

interpretation js_remove: json_command cmd_remove "\<lambda>_ _. True"
  by unfold_locales (rule json_remove)

interpretation js_clear: json_command cmd_clear "\<lambda>_ _. True"
  by unfold_locales (rule json_clear)

interpretation js_set: json_command cmd_set "\<lambda>_ _. True"
  by unfold_locales (rule json_set)

interpretation js_disable: json_command cmd_disable has_disabled
  by unfold_locales (rule json_disable)

interpretation js_fetch: json_command cmd_fetch_models "\<lambda>_ _. True"
  by unfold_locales (rule json_fetch)


section \<open>The program\<close>

definition option_safe :: "cli_env \<Rightarrow> cli_state \<Rightarrow> bool" where
  "option_safe env s \<longleftrightarrow> ca_command (ce_args env) \<noteq> ''disable'' \<or> has_disabled env s"

definition json_end :: "cli_state \<Rightarrow> (cli_state \<times> (exn + unit)) option \<Rightarrow> bool" where
  "json_end s x \<longleftrightarrow> (\<exists>r. x = Some r \<and> (one_doc s r \<or> killed s r))"

lemma json_end_Some [simp]: "json_end s (Some r) \<longleftrightarrow> one_doc s r \<or> killed s r"
  by (simp add: json_end_def)

lemma command_modules:
  "command_module env w ''clear'' = Some (\<lambda>s. Some (cmd_clear env s))"
  "command_module env w ''disable'' = Some (\<lambda>s. Some (cmd_disable env s))"
  "command_module env w ''fetch-models'' = Some (\<lambda>s. Some (cmd_fetch_models env s))"
  "command_module env w ''list'' = Some (\<lambda>s. Some (cmd_list env s))"
  "command_module env w ''remove'' = Some (\<lambda>s. Some (cmd_remove env s))"
  "command_module env w ''set'' = Some (\<lambda>s. Some (cmd_set env s))"
  "command_module env w ''version'' = None"
  by (simp_all add: command_module_def)

lemma run_module_json:
  assumes "no_questions env" and "\<not> cl_redirected s" and "ca_command (ce_args env) \<in> json_commands"
    and "option_safe env s"
  shows "json_end s (run_module env w s)"
proof -
  have j: "json_mode env" using assms(1) by (simp add: no_questions_def)
  let ?c = "ca_command (ce_args env)"
  consider "?c = ''clear''" | "?c = ''disable''" | "?c = ''fetch-models''" | "?c = ''list''"
    | "?c = ''remove''" | "?c = ''set''" | "?c = ''version''"
    using assms(3) unfolding json_commands_def by blast
  then show ?thesis
  proof cases
    case 1 then show ?thesis using js_clear.caught_ends [OF assms(1,2)] by (simp add: run_module_def command_modules)
  next
    case 2 then show ?thesis using js_disable.caught_ends [OF assms(1,2)] assms(4)
      by (simp add: run_module_def command_modules option_safe_def)
  next
    case 3 then show ?thesis using js_fetch.caught_ends [OF assms(1,2)] by (simp add: run_module_def command_modules)
  next
    case 4 then show ?thesis using js_list.caught_ends [OF assms(1,2)] by (simp add: run_module_def command_modules)
  next
    case 5 then show ?thesis using js_remove.caught_ends [OF assms(1,2)] by (simp add: run_module_def command_modules)
  next
    case 6 then show ?thesis using js_set.caught_ends [OF assms(1,2)] by (simp add: run_module_def command_modules)
  next
    case 7 then show ?thesis using fail_one_doc [OF j assms(2) refl refl] by (simp add: run_module_def command_modules)
  qed
qed

lemma guarded_run_json:
  assumes "no_questions env" and "\<not> cl_redirected s" and "option_safe env s"
  shows "json_end s (guarded_run env w s)"
proof -
  have j: "json_mode env" using assms(1) by (simp add: no_questions_def)
  then show ?thesis
    using run_module_json [OF assms(1,2) _ assms(3)] fail_one_doc [OF j assms(2) refl refl]
      ok_one_doc(2) [OF j assms(2) refl refl]
    by (simp add: guarded_run_def Let_def)
qed

lemma main_json:
  assumes "pick_user (mw_shell w) = Inr user" and "user \<noteq> []" and "2 \<le> length argv"
    and "parse_args (mw_argparse w) user (tl argv) = Inr args" and "ca_json args" and "\<not> cl_redirected s"
    and "option_safe (env\<lparr>ce_args := args\<rparr>) s"
  shows "json_end s (main env w argv s)"
proof -
  let ?env = "env\<lparr>ce_args := args\<lparr>ca_y := True\<rparr>\<rparr>"
  have "no_questions ?env" using assms(5) by (simp add: no_questions_def json_mode_def)
  moreover have "option_safe ?env s"
    using assms(7) by (simp add: option_safe_def has_disabled_def config_ini_def)
  moreover have "main env w argv s = guarded_run ?env w s"
    using assms(1-5) by (simp add: main_def Let_def)
  ultimately show ?thesis using guarded_run_json assms(6) by simp
qed


end
