(* ===== verification/Cli_Props.thy ===== *)
theory Cli_Props
  imports Cli_Json
begin

text \<open>
  What the commands do to the files: \<open>set\<close> rewrites exactly the options it is given or nothing,
  nothing is removed without a yes, and where \<open>disable\<close> goes wrong.
\<close>

section \<open>set\<close>

definition given :: "string list \<Rightarrow> string \<Rightarrow> string option" where
  "given arguments = map_of (rev (pairs_of arguments))"

lemma given_keys: "k \<in> set (map fst (dict_of (pairs_of args))) \<longleftrightarrow> (\<exists>v. given args k = Some v)"
  unfolding given_def map_of_dict_of [symmetric]
  by (simp add: map_of_eq_None_iff not_None_eq [symmetric] del: not_None_eq)

lemma given_value:
  assumes "given args k = Some v" shows "v \<in> set (map snd (dict_of (pairs_of args)))"
  using assms unfolding given_def map_of_dict_of [symmetric] by (force dest: map_of_SomeD)

text \<open>Two names without spaces are never both the name of one line.\<close>

lemma takeWhile_name: "CHR '' '' \<notin> set k \<Longrightarrow> takeWhile (\<lambda>ch. ch \<noteq> CHR '' '') (k @ CHR '' '' # rest) = k"
  by (induction k) auto

lemma starts_with_name:
  assumes "starts_with line (k @ '' '')" and "CHR '' '' \<notin> set k"
  shows "takeWhile (\<lambda>ch. ch \<noteq> CHR '' '') line = k"
proof -
  have "line = take (length (k @ '' '')) line @ drop (length (k @ '' '')) line" by simp
  with assms(1) have "line = k @ CHR '' '' # drop (length (k @ '' '')) line" by (simp add: starts_with_def)
  with takeWhile_name [OF assms(2)] show ?thesis by metis
qed

definition plain_names :: "string list \<Rightarrow> bool" where
  "plain_names args \<longleftrightarrow> (\<forall>k v. given args k = Some v \<longrightarrow> CHR '' '' \<notin> set k)"

lemma option_name_iff:
  assumes "plain_names args"
  shows "option_name (dict_of (pairs_of args)) line = Some k \<longleftrightarrow>
    (\<exists>v. given args k = Some v) \<and> starts_with line (k @ '' '')"
proof
  assume "option_name (dict_of (pairs_of args)) line = Some k"
  then show "(\<exists>v. given args k = Some v) \<and> starts_with line (k @ '' '')"
    unfolding option_name_def by (metis (no_types, lifting) find_Some_iff given_keys nth_mem)
next
  assume k: "(\<exists>v. given args k = Some v) \<and> starts_with line (k @ '' '')"
  then have "k \<in> set (map fst (dict_of (pairs_of args)))" using given_keys by blast
  with k obtain k' where k': "option_name (dict_of (pairs_of args)) line = Some k'"
    by (cases "option_name (dict_of (pairs_of args)) line") (auto simp: option_name_def find_None_iff)
  then have "(\<exists>v. given args k' = Some v) \<and> starts_with line (k' @ '' '')"
    unfolding option_name_def by (metis (no_types, lifting) find_Some_iff given_keys nth_mem)
  with k assms have "k = k'" unfolding plain_names_def by (metis starts_with_name)
  with k' show "option_name (dict_of (pairs_of args)) line = Some k" by simp
qed

lemma new_line_given:
  assumes "plain_names args" and "given args k = Some v" and "starts_with line (k @ '' '')"
  shows "new_line (dict_of (pairs_of args)) line = k @ '' = '' @ v @ newline"
proof -
  have "option_name (dict_of (pairs_of args)) line = Some k" using option_name_iff assms by blast
  with assms(2) show ?thesis by (simp add: new_line_def given_def map_of_dict_of)
qed

lemma new_line_other:
  assumes "\<forall>k v. given args k = Some v \<longrightarrow> \<not> starts_with line (k @ '' '')"
  shows "new_line (dict_of (pairs_of args)) line = line"
proof -
  have "option_name (dict_of (pairs_of args)) line = None"
    unfolding option_name_def find_None_iff using assms given_keys by blast
  then show ?thesis by (simp add: new_line_def)
qed

lemma swap_config_cases:
  assumes "swap_config env lines s = (s', r)"
  shows "(r = Inr () \<and> s' = s\<lparr>cl_config := Some lines, cl_conf_tmp := None\<rparr>) \<or>
    (\<exists>e. r = Inl e \<and> cl_config s' = cl_config s \<and> cl_redirected s' = cl_redirected s)"
  using assms by (auto simp: swap_config_def conf_call_def split: option.splits)

lemma printing_keeps [simp]:
  assumes "\<not> cl_redirected s"
  shows "cl_config (ok env d s) = cl_config s" "cl_conf_tmp (ok env d s) = cl_conf_tmp s" "cl_fs (ok env d s) = cl_fs s"
    "cl_config (fst (fail env c s)) = cl_config s" "cl_fs (fst (fail env c s)) = cl_fs s"
    "cl_config (emit env x s) = cl_config s" "cl_fs (emit env x s) = cl_fs s"
    "cl_fs (say env s) = cl_fs s" "cl_fs (fst (give_up env s)) = cl_fs s" "cl_fs (fst (leave_with n s)) = cl_fs s"
  using assms by (auto simp: ok_def fail_def say_def emit_def give_up_def leave_with_def)

text \<open>
  \<open>set\<close> changes exactly the options it is given, or nothing. When it succeeds, every given
  option stands in the file, each line of one becomes \<open>name = value\<close> with the last value given
  for it, all other lines keep their place and their text, no value breaks a line, and no
  temporary copy is left; when it ends in any exception the file is as it was.
\<close>

theorem set_spec:
  assumes "cmd_set env s = (s', r)" and "\<not> cl_redirected s" and "plain_names (ca_arguments (ce_args env))"
  shows "case r of
      Inl _ \<Rightarrow> cl_config s' = cl_config s
    | Inr _ \<Rightarrow> (\<exists>lines new. cl_config s = Some lines \<and> cl_config s' = Some new \<and> cl_conf_tmp s' = None
        \<and> length new = length lines
        \<and> (\<forall>k v. given (ca_arguments (ce_args env)) k = Some v \<longrightarrow> \<not> has_line_break v \<and>
             (\<exists>line \<in> set lines. starts_with line (k @ '' '')))
        \<and> (\<forall>i < length lines.
             (\<forall>k v. given (ca_arguments (ce_args env)) k = Some v \<longrightarrow> starts_with (lines ! i) (k @ '' '') \<longrightarrow>
                new ! i = k @ '' = '' @ v @ newline)
             \<and> ((\<forall>k v. given (ca_arguments (ce_args env)) k = Some v \<longrightarrow> \<not> starts_with (lines ! i) (k @ '' '')) \<longrightarrow>
                new ! i = lines ! i)))"
proof (cases r)
  case (Inl e)
  have "cl_config s' = cl_config s"
    using assms(1,2) Inl swap_config_cases
    by (fastforce simp: cmd_set_def Let_def flow_simps fail_def ok_def say_def emit_def split: if_splits sum.splits)
  with Inl show ?thesis by simp
next
  case (Inr u)
  let ?args = "ca_arguments (ce_args env)"
  let ?up = "dict_of (pairs_of ?args)"
  obtain lines s1 where lines: "read_config env s = Inr lines"
    and all: "\<forall>k \<in> set (map fst ?up). \<exists>line \<in> set lines. option_name ?up line = Some k"
    and breaks: "\<forall>v \<in> set (map snd ?up). \<not> has_line_break v"
    and swap: "swap_config env (map (new_line ?up) lines) s = (s1, Inr ())"
    and s': "s' = ok env (JObj [(''updated'', JObj (map (\<lambda>(k, v). (k, JStr v)) ?up))]) s1"
    using assms(1) Inr
    by (auto simp: cmd_set_def Let_def flow_simps fail_def split: if_splits sum.splits)
  have s1: "s1 = s\<lparr>cl_config := Some (map (new_line ?up) lines), cl_conf_tmp := None\<rparr>"
    using swap_config_cases [OF swap] by auto
  have "cl_config s = Some lines" using lines by (auto simp: read_config_def split: option.splits)
  moreover have "\<not> has_line_break v \<and> (\<exists>line \<in> set lines. starts_with line (k @ '' ''))" if "given ?args k = Some v" for k v
    using that all breaks given_keys [of k ?args] given_value [OF that] option_name_iff [OF assms(3)] by blast
  ultimately show ?thesis
    using Inr assms(2,3)
    by (auto simp: s' s1 new_line_given new_line_other intro!: exI [of _ lines] exI [of _ "map (new_line ?up) lines"])
qed


section \<open>disable\<close>

definition occurs :: "'a list \<Rightarrow> 'a list \<Rightarrow> bool" where
  "occurs old s \<longleftrightarrow> (\<exists>p q. s = p @ old @ q)"

lemma starts_with_occurs: "starts_with s old \<Longrightarrow> occurs old s"
  unfolding starts_with_def occurs_def by (metis append_Nil append_take_drop_id)

lemma occurs_tl: "s \<noteq> [] \<Longrightarrow> occurs old (tl s) \<Longrightarrow> occurs old s"
  unfolding occurs_def by (metis append_Cons list.collapse)

lemma replace_all_same: "\<not> occurs old s \<Longrightarrow> replace_all old new s = s"
proof (induction old new s rule: replace_all.induct)
  case (1 old new s)
  show ?case
  proof (cases "s = []")
    case True
    then show ?thesis by (simp add: replace_all.simps)
  next
    case False
    have "\<not> starts_with s old" "\<not> occurs old (tl s)"
      using 1(3) starts_with_occurs occurs_tl [OF False] by blast+
    then show ?thesis using 1(2) [OF False] False by (subst replace_all.simps) simp
  qed
qed

text \<open>The file while \<open>cmd_disable\<close> reads it.\<close>

lemma cmd_disable_runs:
  assumes "config_ini s = Inr ini" and "ini_get ini ''core'' ''disabled'' = Inr v" and "ca_arguments (ce_args env) = a # rest"
    and "disable_value a = Some out" and "v \<noteq> Some out"
  shows "cmd_disable env s = thenS (rewrite_disabled env v out s)
    (\<lambda>s _. (ok env (disabled_doc (out = ''true'') True) s, Inr ()))"
  using assms by (simp add: cmd_disable_def)

text \<open>
  Without its option, \<open>disable\<close> empties the configuration file. If \<open>config.ini\<close> has lines but
  no \<open>disabled\<close> option, the command loses every line, and in JSON mode the error document the
  caller waits for is written into the emptied file while nothing is printed.
\<close>

theorem disable_without_option:
  assumes "ca_command (ce_args env) = ''disable''" and "config_ini s = Inr ini" and "ini_get ini ''core'' ''disabled'' = Inr None"
    and "ca_arguments (ce_args env) = a # rest" and "disable_value a = Some out"
    and "cl_config s = Some lines" and "lines \<noteq> []"
  shows "\<exists>s' r. run_module env w s = Some (s', r) \<and> (\<exists>e. r = Inl e) \<and> cl_out s' = cl_out s \<and>
    cl_config s' = Some (if json_mode env then [ce_dumps env (error_doc env ''internal_error'') @ newline] else [])"
proof -
  have "cmd_disable env s = (s\<lparr>cl_config := Some [], cl_redirected := True\<rparr>, Inl TypeError)"
    using cmd_disable_runs [OF assms(2-5)] assms(6,7) by (simp add: rewrite_disabled_def)
  then show ?thesis
    using assms(1) by (simp add: run_module_def command_modules caught_def fail_def emit_def)
qed

text \<open>
  \<open>disable\<close> can report a change it did not make. It only replaces the text
  \<open>disabled = <value>\<close>; if the file spells the option otherwise, the lines stay as they are, and
  the document says \<open>changed: true\<close>.
\<close>

theorem disable_claims_change:
  assumes "config_ini s = Inr ini" and "ini_get ini ''core'' ''disabled'' = Inr (Some v)" and "v \<noteq> out"
    and "ca_arguments (ce_args env) = a # rest" and "disable_value a = Some out" and "cl_config s = Some lines"
    and "\<forall>line \<in> set lines. \<not> occurs (''disabled = '' @ v) line" and "json_mode env" and "\<not> cl_redirected s"
  shows "\<exists>s'. cmd_disable env s = (s', Inr ()) \<and> cl_config s' = cl_config s \<and>
    cl_out s' = cl_out s @ [Doc (JObj [(''ok'', JBool True), (''data'', disabled_doc (out = ''true'') True)])]"
proof -
  have m: "map (replace_all (''disabled = '' @ v) (''disabled = '' @ out)) lines = lines"
    using assms(7) replace_all_same by (intro map_idI) blast
  have "cmd_disable env s = thenS (rewrite_disabled env (Some v) out s)
      (\<lambda>s _. (ok env (disabled_doc (out = ''true'') True) s, Inr ()))"
    using cmd_disable_runs [OF assms(1,2,4,5)] assms(3) by simp
  also have "rewrite_disabled env (Some v) out s = (s\<lparr>cl_config := Some lines\<rparr>, Inr ())"
    using m assms(6) by (auto simp: rewrite_disabled_def)
  finally show ?thesis using assms(6,8,9) by (simp add: ok_def emit_def)
qed


section \<open>Who may change what\<close>

text \<open>Nothing of what a command can change is changed.\<close>

definition untouched :: "cli_state \<Rightarrow> cli_state \<Rightarrow> bool" where
  "untouched s s' \<longleftrightarrow> cl_fs s' = cl_fs s \<and> cl_config s' = cl_config s \<and> cl_conf_tmp s' = cl_conf_tmp s
     \<and> cl_data s' = cl_data s \<and> cl_snaps s' = cl_snaps s"

lemma untouched_print [simp]:
  assumes "\<not> cl_redirected s"
  shows "untouched s s" "untouched s (emit env x s)" "untouched s (ok env d s)" "untouched s (fst (fail env c s))"
    "untouched s (fst (give_up env s))" "untouched s (say env s)"
  using assms by (auto simp: untouched_def ok_def fail_def say_def emit_def give_up_def leave_with_def)

lemma main_cases:
  assumes "main env w argv s = Some (s', r)" and "\<not> cl_redirected s"
  obtains (early) "untouched s s'" "r \<noteq> Inr ()"
    | (run) user args args' where "pick_user (mw_shell w) = Inr user" "parse_args (mw_argparse w) user (tl argv) = Inr args" "args' = (if ca_json args then args\<lparr>ca_y := True\<rparr> else args)"
        "guarded_run (env\<lparr>ce_args := args'\<rparr>) w s = Some (s', r)"
proof (cases "\<exists>user args. pick_user (mw_shell w) = Inr user \<and> user \<noteq> [] \<and> \<not> length argv < 2 \<and> parse_args (mw_argparse w) user (tl argv) = Inr args")
  case True
  then obtain user args where args: "pick_user (mw_shell w) = Inr user" "user \<noteq> []" "\<not> length argv < 2"
      "parse_args (mw_argparse w) user (tl argv) = Inr args" by blast
  let ?args' = "if ca_json args then args\<lparr>ca_y := True\<rparr> else args"
  have "guarded_run (env\<lparr>ce_args := ?args'\<rparr>) w s = Some (s', r)"
    using assms(1) args by (simp add: main_def Let_def)
  then show ?thesis using run [OF args(1,4)] by blast
next
  case False
  then have "untouched s s' \<and> r \<noteq> Inr ()"
    using assms untouched_print [OF assms(2)]
    by (auto simp: main_def Let_def give_up_def leave_with_def split: sum.splits if_splits usage_exit.splits)
  then show ?thesis using early by blast
qed

text \<open>
  C25: without root, or for the user root, no command touches anything: not the model files, not
  the configuration, not the data files, not the snapshots.
\<close>

theorem unprivileged_changes_nothing:
  assumes "main env w argv s = Some (s', r)" and "\<not> cl_redirected s"
    and "euid (se_process (ce_store env)) \<noteq> 0 \<or> (\<forall>user args. pick_user (mw_shell w) = Inr user \<longrightarrow>
        parse_args (mw_argparse w) user (tl argv) = Inr args \<longrightarrow> ca_user args = ''root'')"
  shows "untouched s s' \<and> r \<noteq> Inr ()"
proof -
  have g: "untouched s s' \<and> r \<noteq> Inr ()"
    if "guarded_run env' w s = Some (s', r)" and "ce_store env' = ce_store env"
      and "euid (se_process (ce_store env)) \<noteq> 0 \<or> ca_user (ce_args env') = ''root''" for env'
    using that assms(2) untouched_print [OF assms(2)]
    by (auto simp: guarded_run_def Let_def fail_def leave_with_def split: if_splits)
  from assms(1,2) show ?thesis
  proof (cases rule: main_cases)
    case early
    then show ?thesis by simp
  next
    case (run user args args')
    show ?thesis using g [OF run(4)] run(1-3) assms(3) by (auto split: if_splits)
  qed
qed


section \<open>No answer, no change\<close>

text \<open>The next line typed is no yes, or the input is at its end.\<close>

definition declines :: "cli_env \<Rightarrow> cli_state \<Rightarrow> bool" where
  "declines env s \<longleftrightarrow> \<not> ca_y (ce_args env) \<and> \<not> cl_redirected s \<and>
     (case cl_answers s of [] \<Rightarrow> True | a # _ \<Rightarrow> py_lower a \<noteq> ''y'')"

lemma declines_emit: "declines env s \<Longrightarrow> declines env (emit env x s)"
  by (auto simp: declines_def emit_def split: list.splits)

lemma declined_confirm:
  assumes "declines env s"
  obtains s' e where "confirm env s = (s', Inl e)" "untouched s s'"
  using assms
  by (cases "cl_answers s") (auto simp: declines_def confirm_def ask_def give_up_def leave_with_def emit_def untouched_def)

text \<open>
  C26: a question that is not answered with yes changes nothing. \<open>remove\<close>, \<open>clear\<close>, and
  \<open>re-enroll\<close> where it would replace models, leave every file alone, and \<open>re-enroll\<close> does not
  even load the pipeline, let alone the camera.
\<close>

theorem declined_changes_nothing:
  assumes "declines env s"
  shows "untouched s (fst (cmd_remove env s)) \<and> untouched s (fst (cmd_clear env s)) \<and>
    (\<forall>c templates. parse_config env s = Inr c \<and> load_all (ce_store env) (cl_fs s) (ca_user (ce_args env)) = Inr templates \<and>
        (\<exists>t \<in> set templates. t_model_id t = active_model_id c) \<longrightarrow>
      (\<exists>s' e. \<forall>w. cmd_re_enroll env w s = Some (s', Inl e) \<and> untouched s s'))"
proof -
  have r: "\<not> cl_redirected s" using assms by (simp add: declines_def)
  obtain s1 e1 where c: "confirm env s = (s1, Inl e1)" "untouched s s1" using declined_confirm [OF assms] .
  have 1: "untouched s (fst (cmd_remove env s))"
    using c untouched_print [OF r] by (auto simp: cmd_remove_def Let_def split: list.splits sum.splits option.splits)
  have 2: "untouched s (fst (cmd_clear env s))"
    using c untouched_print [OF r] by (auto simp: cmd_clear_def Let_def leave_with_def)
  have 3: "\<exists>s' e. \<forall>w. cmd_re_enroll env w s = Some (s', Inl e) \<and> untouched s s'"
    if "parse_config env s = Inr c" "load_all (ce_store env) (cl_fs s) (ca_user (ce_args env)) = Inr templates"
      "t \<in> set templates" "t_model_id t = active_model_id c" for c templates t
  proof -
    let ?s = "if ca_plain (ce_args env) then s else emit env Said s"
    have bad: "\<exists>s' e'. \<forall>w. cmd_re_enroll env w s = Some (s', Inl e') \<and> untouched s s'" if "model_id_known c = Inl e" for e
    proof -
      have "(\<forall>w. cmd_re_enroll env w s = Some (give_up env s)) \<or> (\<forall>w. cmd_re_enroll env w s = Some (s, Inl e))"
        using that \<open>parse_config env s = Inr c\<close> by (simp add: cmd_re_enroll_def)
      then show ?thesis using untouched_print [OF r] by (auto simp: give_up_def leave_with_def)
    qed
    have d: "declines env ?s" using assms declines_emit by simp
    obtain s2 e2 where c2: "confirm env ?s = (s2, Inl e2)" "untouched ?s s2" using declined_confirm [OF d] .
    have "filter (\<lambda>t. t_model_id t = active_model_id c) templates \<noteq> []" using that(3,4) by (auto simp: filter_empty_conv)
    with c2 d have "confirm_replace env c templates ?s = (s2, Inl e2)"
      by (simp add: confirm_replace_def declines_def Let_def)
    then have "\<forall>w. cmd_re_enroll env w s = Some (s2, Inl e2)" if "model_id_known c = Inr ()"
      using that \<open>parse_config env s = Inr c\<close> \<open>load_all _ _ _ = Inr templates\<close> by (simp add: cmd_re_enroll_def Let_def)
    moreover have "untouched s s2" using c2(2) untouched_print [OF r] by (auto simp: untouched_def split: if_splits)
    ultimately show ?thesis using bad by (cases "model_id_known c") auto
  qed
  from 1 2 3 show ?thesis by blast
qed

end
