(* ===== verification/Cli_Samples.thy ===== *)
theory Cli_Samples
  imports Cli_Props Store_Samples Recorders_Props Model_Files_Props
begin

text \<open>A small installation for the witnesses about the command line.\<close>

definition sample_args :: "string \<Rightarrow> string list \<Rightarrow> cli_args" where
  "sample_args c arguments = \<lparr>ca_command = c, ca_arguments = arguments, ca_user = ''al'', ca_y = False, ca_plain = False, ca_json = False\<rparr>"

definition sample_cli :: "cli_args \<Rightarrow> cli_env" where
  "sample_cli args = \<lparr>ce_args = args, ce_store = sample_env, ce_message = (\<lambda>_. ''m''), ce_dumps = (\<lambda>_. ''{}''),
     ce_conf_fails = (\<lambda>_. None), ce_localtime = (\<lambda>_. ''now''), ce_fetch = sample_fetch,
     ce_fetch_mkdir = None, ce_data_dir = ''/srv''\<rparr>"

definition models_fs :: fs where
  "models_fs = sample_fs\<lparr>dirs := [user_models_dir (se_paths sample_env) \<mapsto> \<lparr>d_uid = 5, d_gid = 5, d_mode = 448\<rparr>]\<rparr>"

definition sample_state :: "string list \<Rightarrow> string list \<Rightarrow> cli_state" where
  "sample_state lines answers = \<lparr>cl_fs = models_fs, cl_config = Some lines, cl_conf_tmp = None, cl_data = (\<lambda>_. None),
     cl_snaps = (\<lambda>_. None), cl_out = [], cl_answers = answers, cl_asked = 0, cl_redirected = False\<rparr>"

definition sample_shell :: shell_env where
  "sample_shell = \<lparr>sh_environ = [''SUDO_USER'' \<mapsto> ''al''], sh_pwuid = (\<lambda>_. None), sh_getuser = Inr ''root''\<rparr>"

definition sample_snap_world :: snap_world where
  "sample_snap_world = \<lparr>sw_device = sample_device, sw_snap = snap_sample, sw_date = ''today'', sw_str_float = (\<lambda>_. ''1.0'')\<rparr>"

definition sample_cli_world :: "tick list \<Rightarrow> cli_world" where
  "sample_cli_world tks = \<lparr>cw_loaders = sample_loaders, cw_cv = sample_cv,
     cw_camera = (\<lambda>_. Inr \<lparr>cam_width = 640, cam_height = 320\<rparr>), cw_ticks = tks, cw_now = 9, cw_daemon = Some (5, 5)\<rparr>"

definition sample_window :: window_world where
  "sample_window = \<lparr>ww_device = sample_device, ww_loaders = sample_loaders, ww_numeric = sample_numeric, ww_clahe = Inr,
     ww_start = 5, ww_ticks = []\<rparr>"

definition sample_main :: main_world where
  "sample_main = \<lparr>mw_shell = sample_shell, mw_argparse = \<lparr>rl_defers = True, rl_first_dashes = True\<rparr>, mw_cli = sample_cli_world [],
     mw_editor = \<lparr>ed_environ = None, ed_which = (\<lambda>_. None), ed_call = (\<lambda>_. None)\<rparr>,
     mw_snap = sample_snap_world, mw_window = sample_window\<rparr>"



section \<open>set and disable\<close>

definition set_cli :: cli_env where
  "set_cli = sample_cli (sample_args ''set'' [''timeout'', ''5'', ''timeout'', ''6''])"

definition set_lines :: "string list" where
  "set_lines = [''[video]'' @ newline, ''timeout = 4'' @ newline, ''timeout_note = 1'' @ newline]"

lemma set_runs:
  "snd (cmd_set set_cli (sample_state set_lines [])) = Inr ()"
  "cl_config (fst (cmd_set set_cli (sample_state set_lines []))) =
     Some [''[video]'' @ newline, ''timeout = 6'' @ newline, ''timeout_note = 1'' @ newline]"
  by code_simp+

lemma given_sample: "given [''timeout'', ''5'', ''timeout'', ''6''] k = (if k = ''timeout'' then Some ''6'' else None)"
  by (simp add: given_def)

theorem set_spec_witness:
  "\<exists>new. cl_config (fst (cmd_set set_cli (sample_state set_lines []))) = Some new \<and> length new = 3 \<and>
     new ! 1 = ''timeout = 6'' @ newline \<and> new ! 2 = ''timeout_note = 1'' @ newline"
proof -
  have args: "ca_arguments (ce_args set_cli) = [''timeout'', ''5'', ''timeout'', ''6'']"
    by (simp add: set_cli_def sample_cli_def sample_args_def)
  have p: "plain_names (ca_arguments (ce_args set_cli))"
    by (simp add: plain_names_def args given_sample)
  have c: "\<not> cl_redirected (sample_state set_lines [])" by (simp add: sample_state_def)
  from set_spec [OF pair_of_snd [OF set_runs(1)] c p] obtain lines new where
    l: "cl_config (sample_state set_lines []) = Some lines" and new: "cl_config (fst (cmd_set set_cli (sample_state set_lines []))) = Some new"
    "length new = length lines" and
    i: "\<forall>i < length lines. (\<forall>k v. given (ca_arguments (ce_args set_cli)) k = Some v \<longrightarrow> starts_with (lines ! i) (k @ '' '') \<longrightarrow>
        new ! i = k @ '' = '' @ v @ newline) \<and>
       ((\<forall>k v. given (ca_arguments (ce_args set_cli)) k = Some v \<longrightarrow> \<not> starts_with (lines ! i) (k @ '' '')) \<longrightarrow> new ! i = lines ! i)"
    by auto
  from l have lines: "lines = set_lines" by (simp add: sample_state_def)
  have g: "given (ca_arguments (ce_args set_cli)) k = Some v \<longleftrightarrow> k = ''timeout'' \<and> v = ''6''" for k v
    by (auto simp: args given_sample)
  have n: "length lines = 3" "starts_with (lines ! 1) (''timeout'' @ '' '')" "\<not> starts_with (lines ! 2) (''timeout'' @ '' '')"
      "lines ! 2 = ''timeout_note = 1'' @ newline"
    by (simp_all add: lines set_lines_def starts_with_def)
  from i [rule_format, of 1] g n have "new ! 1 = ''timeout'' @ '' = '' @ ''6'' @ newline" by auto
  moreover from i [rule_format, of 2] g n have "new ! 2 = lines ! 2" by auto
  ultimately show ?thesis using new n by auto
qed

definition disable_cli :: cli_env where
  "disable_cli = sample_cli ((sample_args ''disable'' [''true''])\<lparr>ca_json := True, ca_y := True\<rparr>)"

text \<open>A file with the section and without the option, and one that spells it without spaces.\<close>

definition no_option_lines :: "string list" where
  "no_option_lines = [''[core]'' @ newline]"

definition tight_lines :: "string list" where
  "tight_lines = [''[core]'' @ newline, ''disabled=false'' @ newline]"

lemma disabled_read:
  "bindE (config_ini (sample_state no_option_lines [])) (\<lambda>ini. ini_get ini ''core'' ''disabled'') = Inr None"
  "bindE (config_ini (sample_state tight_lines [])) (\<lambda>ini. ini_get ini ''core'' ''disabled'') = Inr (Some ''false'')"
  by code_simp+

theorem disable_without_option_witness:
  "\<exists>s' r. run_module disable_cli sample_main (sample_state no_option_lines []) = Some (s', r) \<and>
     cl_out s' = [] \<and> cl_config s' = Some [''{}'' @ newline]"
proof -
  let ?s = "sample_state no_option_lines []"
  have v: "disable_value ''true'' = Some ''true''" by code_simp
  obtain ini where ini: "config_ini ?s = Inr ini" "ini_get ini ''core'' ''disabled'' = Inr None"
    using disabled_read(1) by (auto simp: bindE_Inr_iff)
  have "\<exists>s' r. run_module disable_cli sample_main ?s = Some (s', r) \<and>
    (\<exists>e. r = Inl e) \<and> cl_out s' = cl_out ?s \<and>
    cl_config s' = Some (if json_mode disable_cli then [ce_dumps disable_cli (error_doc disable_cli ''internal_error'') @ newline] else [])"
    by (rule disable_without_option [OF _ ini _ v, where rest = "[]" and lines = no_option_lines])
      (simp_all add: disable_cli_def sample_cli_def sample_args_def sample_state_def no_option_lines_def)
  moreover have "json_mode disable_cli" "ce_dumps disable_cli d = ''{}''" "cl_out ?s = []" for d
    by (simp_all add: disable_cli_def sample_cli_def sample_args_def sample_state_def json_mode_def)
  ultimately show ?thesis by auto
qed

theorem disable_claims_change_witness:
  "\<exists>s'. cmd_disable disable_cli (sample_state tight_lines []) = (s', Inr ()) \<and> cl_config s' = Some tight_lines"
proof -
  let ?s = "sample_state tight_lines []"
  have v: "disable_value ''true'' = Some ''true''" by code_simp
  obtain ini where ini: "config_ini ?s = Inr ini" "ini_get ini ''core'' ''disabled'' = Inr (Some ''false'')"
    using disabled_read(2) by (auto simp: bindE_Inr_iff)
  have "\<not> occurs (''disabled = '' @ ''false'') line" if "line \<in> set tight_lines" for line
  proof
    assume "occurs (''disabled = '' @ ''false'') line"
    then obtain p q where "line = p @ (''disabled = '' @ ''false'') @ q" by (auto simp: occurs_def)
    then have "length line = length (p @ (''disabled = '' @ ''false'') @ q)" by (simp only:)
    with that show False by (auto simp: tight_lines_def newline_def)
  qed
  then have n: "\<forall>line \<in> set tight_lines. \<not> occurs (''disabled = '' @ ''false'') line" by blast
  have "\<exists>s'. cmd_disable disable_cli ?s = (s', Inr ()) \<and> cl_config s' = cl_config ?s \<and>
    cl_out s' = cl_out ?s @ [Doc (JObj [(''ok'', JBool True), (''data'', disabled_doc (''true'' = ''true'') True)])]"
    by (rule disable_claims_change [OF ini _ _ v _ n, where rest = "[]"])
      (simp_all add: disable_cli_def sample_cli_def sample_args_def sample_state_def json_mode_def)
  then show ?thesis by (auto simp: sample_state_def)
qed


section \<open>Who may change what\<close>

theorem unprivileged_changes_nothing_witness:
  "\<exists>s'. main (sample_cli (sample_args ''clear'' [])) sample_main
     [''secureEye'', ''-U'', ''root'', ''clear''] (sample_state [] []) = Some (s', Inl (SystemExit (Some 1))) \<and> untouched (sample_state [] []) s'"
proof -
  let ?m = "main (sample_cli (sample_args ''clear'' [])) sample_main
     [''secureEye'', ''-U'', ''root'', ''clear''] (sample_state [] [])"
  have "(case ?m of Some (s', Inl (SystemExit (Some n))) \<Rightarrow> n = 1 | _ \<Rightarrow> False) = True" by code_simp
  then obtain s' where m: "?m = Some (s', Inl (SystemExit (Some 1)))"
    by (auto split: option.splits prod.splits sum.splits exn.splits)
  have "pick_user (mw_shell sample_main) = Inr ''al''" by code_simp
  moreover have "(case parse_args (mw_argparse sample_main) ''al'' (tl [''secureEye'', ''-U'', ''root'', ''clear'']) of
      Inr a \<Rightarrow> ca_user a = ''root'' | Inl _ \<Rightarrow> False) = True" by code_simp
  ultimately have "\<forall>user args. pick_user (mw_shell sample_main) = Inr user \<longrightarrow>
      parse_args (mw_argparse sample_main) user (tl [''secureEye'', ''-U'', ''root'', ''clear'']) = Inr args \<longrightarrow> ca_user args = ''root''"
    by auto
  with unprivileged_changes_nothing [OF m] m show ?thesis by (auto simp: sample_state_def)
qed

theorem declined_changes_nothing_witness:
  "untouched (sample_state [] [''n'']) (fst (cmd_clear (sample_cli (sample_args ''clear'' [])) (sample_state [] [''n''])))"
proof -
  have "declines (sample_cli (sample_args ''clear'' [])) (sample_state [] [''n''])"
    by code_simp
  from declined_changes_nothing [OF this] show ?thesis by blast
qed

end
