(* ===== verification/Store_Refine.thy ===== *)
theory Store_Refine
  imports Store_Props "HOL-Library.Sublist"
begin

text \<open>
  The template store against its abstract specification: a map from users to the list of their
  templates and the next id, on which every operation of \<open>template_store.py\<close> is one update. The
  files of the store implement it, user names without a slash being the keys.
\<close>

section \<open>The specification\<close>

type_synonym shelf = "template list \<times> int"
type_synonym repository = "string \<Rightarrow> shelf"

text \<open>
  What a client may ask for: to add a template, to replace those of its space, to remove the
  first one with an id, or to forget the user.
\<close>

datatype store_op =
    Add string string string "pyfloat list" int
  | Renew string string string "pyfloat list" int
  | Remove string int
  | Forget string

fun op_user :: "store_op \<Rightarrow> string" where
  "op_user (Add u m l xs now) = u"
| "op_user (Renew u m l xs now) = u"
| "op_user (Remove u i) = u"
| "op_user (Forget u) = u"

definition fresh_id :: "shelf \<Rightarrow> int" where
  "fresh_id sh = max (next_id (fst sh)) (snd sh)"

definition new_template :: "int \<Rightarrow> string \<Rightarrow> string \<Rightarrow> pyfloat list \<Rightarrow> int \<Rightarrow> template" where
  "new_template i m l xs now =
     \<lparr>t_id = i, t_label = l, t_created = now, t_model_id = m, t_embeddings = [xs]\<rparr>"

text \<open>Without templates the shelf is empty and the ids start again.\<close>

definition without_first :: "int \<Rightarrow> shelf \<Rightarrow> shelf" where
  "without_first i sh = (case find_template (fst sh) i of
      None \<Rightarrow> sh
    | Some t \<Rightarrow>
        let rest = remove1 t (fst sh) in if rest = [] then ([], 0) else (rest, fresh_id (rest, snd sh)))"

fun effect :: "store_op \<Rightarrow> shelf \<Rightarrow> shelf" where
  "effect (Add u m l xs now) sh =
     (fst sh @ [new_template (fresh_id sh) m l xs now], fresh_id sh + 1)"
| "effect (Renew u m l xs now) sh =
     (filter (\<lambda>t. t_model_id t \<noteq> m) (fst sh) @ [new_template (fresh_id sh) m l xs now], fresh_id sh + 1)"
| "effect (Remove u i) sh = without_first i sh"
| "effect (Forget u) sh = ([], 0)"

definition spec_op :: "store_op \<Rightarrow> repository \<Rightarrow> repository" where
  "spec_op x a = a(op_user x := effect x (a (op_user x)))"


section \<open>The implementation\<close>

text \<open>The operations as their clients call them; \<open>Remove\<close> is what all of them do to remove one.\<close>

definition remove_one :: "store_env \<Rightarrow> string \<Rightarrow> int \<Rightarrow> fs \<Rightarrow> fs \<times> (exn + unit)" where
  "remove_one env u i s = (case load_all env s u of
      Inl e \<Rightarrow> (s, Inl e)
    | Inr ts \<Rightarrow> (case find_template ts i of
          None \<Rightarrow> (s, Inr ())
        | Some t \<Rightarrow> (let rest = remove1 t ts in if rest \<noteq> [] then save env u rest s else delete env u s)))"

fun run_op :: "store_env \<Rightarrow> store_op \<Rightarrow> fs \<Rightarrow> fs \<times> (exn + unit)" where
  "run_op env (Add u m l xs now) s = thenS (append env u m l (vec xs) None now s) (\<lambda>s _. (s, Inr ()))"
| "run_op env (Renew u m l xs now) s = thenS (replace_space env u m l (vec xs) None now s) (\<lambda>s _. (s, Inr ()))"
| "run_op env (Remove u i) s = remove_one env u i s"
| "run_op env (Forget u) s = delete env u s"

text \<open>A session of operations: those that succeeded, in order, and the files in the end.\<close>

fun run_ops :: "store_env \<Rightarrow> store_op list \<Rightarrow> fs \<Rightarrow> fs \<times> store_op list" where
  "run_ops env [] s = (s, [])"
| "run_ops env (x # xs) s = (case run_op env x s of
      (s', Inl e) \<Rightarrow> run_ops env xs s'
    | (s', Inr _) \<Rightarrow> (case run_ops env xs s' of (s'', ok_ops) \<Rightarrow> (s'', x # ok_ops)))"


section \<open>The abstraction\<close>

definition shelf_of :: "store_env \<Rightarrow> fs \<Rightarrow> string \<Rightarrow> shelf" where
  "shelf_of env s u =
     ((case load_all env s u of Inr ts \<Rightarrow> ts | Inl _ \<Rightarrow> []),
      (case stored_next_id s (path_for env u) of Inr n \<Rightarrow> n | Inl _ \<Rightarrow> 0))"

text \<open>Only users whose names are one path component are named by a file of their own.\<close>

definition plain_user :: "string \<Rightarrow> bool" where
  "plain_user u \<longleftrightarrow> CHR ''/'' \<notin> set u"

definition repo_of :: "store_env \<Rightarrow> fs \<Rightarrow> repository" where
  "repo_of env s u = (if plain_user u then shelf_of env s u else ([], 0))"

lemma plain_apart: "plain_user u \<Longrightarrow> plain_user v \<Longrightarrow> u \<noteq> v \<Longrightarrow> path_for env u \<noteq> path_for env v"
  by (simp add: plain_user_def path_for_def user_model_path_inj)

lemma shelf_files: "files s (path_for env u) = files s' (path_for env u) \<Longrightarrow> shelf_of env s u = shelf_of env s' u"
  by (simp add: shelf_of_def load_all_def stored_next_id_def read_payload_def)

text \<open>One file of a plain user changed: the other shelves stand as they are.\<close>

lemma repo_update:
  assumes "files s' = (files s)(path_for env u := x)" and "plain_user u"
  shows "repo_of env s' = (repo_of env s)(u := shelf_of env s' u)"
proof
  fix v
  show "repo_of env s' v = ((repo_of env s)(u := shelf_of env s' u)) v"
  proof (cases "plain_user v \<and> v \<noteq> u")
    case True
    then have "path_for env u \<noteq> path_for env v" using plain_apart assms(2) by blast
    with assms(1) have "shelf_of env s' v = shelf_of env s v" by (intro shelf_files) simp
    with True show ?thesis by (simp add: repo_of_def)
  next
    case False
    with assms(2) show ?thesis by (cases "v = u") (simp_all add: repo_of_def)
  qed
qed

lemma repo_same:
  assumes "files s' = files s"
  shows "repo_of env s' = repo_of env s"
proof
  fix v
  show "repo_of env s' v = repo_of env s v"
    using shelf_files [of s' env v s] assms by (simp add: repo_of_def)
qed

lemma saved_repo:
  assumes "save env u ts s = (s', Inr ())" and "store_inv env s" and "plain_user u" and "ts \<noteq> []"
    and "\<forall>t \<in> set ts. wf_template env t"
  shows "repo_of env s' = (repo_of env s)(u := (ts, max (next_id ts) (snd (shelf_of env s u))))"
proof -
  have "load_all env s' u = Inr ts" by (rule repo.put_fetch [OF assms(2,4,5,1)])
  moreover obtain n where "stored_next_id s (path_for env u) = Inr n" "stored_next_id s' (path_for env u) = Inr (max (next_id ts) n)"
    using stored_after_save [OF assms(1,2)] by blast
  ultimately have "shelf_of env s' u = (ts, max (next_id ts) (snd (shelf_of env s u)))"
    by (simp add: shelf_of_def)
  moreover obtain x where "files s' = (files s)(path_for env u := x)"
    using save_Inr [OF assms(1,2)] by metis
  ultimately show ?thesis using repo_update assms(3) by metis
qed

lemma deleted_repo:
  assumes "delete env u s = (s', Inr ())" and "plain_user u"
  shows "repo_of env s' = (repo_of env s)(u := ([], 0))"
proof -
  have f: "files s' = (files s)(path_for env u := None)" using delete_cases [OF assms(1)] by auto
  then have "shelf_of env s' u = ([], 0)"
    by (simp add: shelf_of_def load_all_def stored_next_id_def read_payload_def)
  with repo_update [OF f assms(2)] show ?thesis by simp
qed

lemma next_id_new: "(\<forall>x \<in> set ts. t_id x < t_id t) \<Longrightarrow> next_id (ts @ [t]) = t_id t + 1"
proof -
  assume *: "\<forall>x \<in> set ts. t_id x < t_id t"
  have "Max (set (map t_id (ts @ [t]))) = t_id t"
    using * by (intro Max_eqI) (auto intro: less_imp_le)
  then show ?thesis by (cases ts) (simp_all add: next_id_def)
qed

text \<open>What \<open>append\<close> and \<open>replace_space\<close> share.\<close>

lemma prepared:
  assumes "prepare_template env u m l (vec xs) None now s = Inr (existing, t)" and "np_exact env xs" and "m \<noteq> []"
    and "store_inv env s"
  shows "fst (shelf_of env s u) = existing" and "t = new_template (fresh_id (shelf_of env s u)) m l xs now"
    and "wf_template env t" and "\<forall>x \<in> set existing. wf_template env x \<and> t_id x < t_id t"
    and "snd (shelf_of env s u) \<le> t_id t"
proof -
  note p = prepare_Inr [OF assms(1-3)]
  show ex: "fst (shelf_of env s u) = existing"
    using p(1) by (auto simp: shelf_of_def load_or_empty_def split: sum.splits if_splits)
  obtain i where i: "peek_next_id env s u existing = Inr i" "build_template i m l (vec xs) None now = Inr t"
    using assms(1) by (auto simp: prepare_template_def flow_simps)
  obtain n where n: "stored_next_id s (path_for env u) = Inr n" "i = max (next_id existing) n"
    using i(1) by (auto simp: peek_next_id_def flow_simps)
  have "fresh_id (shelf_of env s u) = i" using ex n by (simp add: fresh_id_def shelf_of_def)
  then show "t = new_template (fresh_id (shelf_of env s u)) m l xs now"
    using build_vec(1) [OF i(2) assms(2,3)] by (simp add: new_template_def)
  show "wf_template env t" by (rule p(3))
  have "\<forall>x \<in> set existing. wf_template env x"
    using load_or_empty_cases [OF p(1)] repo.fetch_good [OF assms(4)] by auto
  then show "\<forall>x \<in> set existing. wf_template env x \<and> t_id x < t_id t"
    using peek_next_id_above(1) [OF p(2)] by blast
  show "snd (shelf_of env s u) \<le> t_id t"
    using peek_next_id_above(3) [OF p(2)] by (auto simp: shelf_of_def)
qed

lemma extended_repo:
  assumes "prepare_template env u m l (vec xs) None now s = Inr (existing, t)" and "np_exact env xs" and "m \<noteq> []"
    and "store_inv env s" and "plain_user u" and "save env u (filter P existing @ [t]) s = (s', Inr ())"
  shows "repo_of env s' = (repo_of env s)(u :=
    (filter P (fst (shelf_of env s u)) @ [new_template (fresh_id (shelf_of env s u)) m l xs now], fresh_id (shelf_of env s u) + 1))"
proof -
  note p = prepared [OF assms(1-4)]
  have "\<forall>x \<in> set (filter P existing @ [t]). wf_template env x" using p by auto
  from saved_repo [OF assms(6,4,5) _ this] have
    "repo_of env s' = (repo_of env s)(u := (filter P existing @ [t], max (next_id (filter P existing @ [t])) (snd (shelf_of env s u))))"
    by simp
  also have "next_id (filter P existing @ [t]) = t_id t + 1" using p(4) by (intro next_id_new) auto
  also have "max (t_id t + 1) (snd (shelf_of env s u)) = t_id t + 1" using p(5) by simp
  also have "t_id t + 1 = fresh_id (shelf_of env s u) + 1" by (simp add: p(2) new_template_def)
  finally show ?thesis unfolding p(1) p(2) [symmetric] .
qed

text \<open>
  The common shape of both: the templates that satisfy \<open>P\<close> are kept and the new one added, or
  an exception leaves every shelf alone.
\<close>

lemma extend_refines:
  assumes "thenS (s, prepare_template env u m l (vec xs) None now s)
      (\<lambda>s (existing, t). thenS (save env u (filter P existing @ [t]) s) (\<lambda>s' _. (s', Inr ()))) = (s', r)"
    and "store_inv env s" and "plain_user u" and "m \<noteq> []" and "np_exact env xs"
  shows "store_inv env s' \<and> repo_of env s' = (case r of Inl _ \<Rightarrow> repo_of env s
    | Inr _ \<Rightarrow> (repo_of env s)(u := (filter P (fst (shelf_of env s u)) @
          [new_template (fresh_id (shelf_of env s u)) m l xs now], fresh_id (shelf_of env s u) + 1)))"
proof (cases "prepare_template env u m l (vec xs) None now s")
  case (Inl e)
  then show ?thesis using assms(1,2) by auto
next
  case (Inr p)
  obtain existing t where p: "prepare_template env u m l (vec xs) None now s = Inr (existing, t)"
    using Inr by (cases p) simp
  obtain s1 y where sv: "save env u (filter P existing @ [t]) s = (s1, y)" by fastforce
  have inv: "store_inv env s1" by (rule save_invar [OF assms(2) sv])
  show ?thesis
  proof (cases y)
    case (Inl e)
    with sv have "files s1 = files s" using save_Inl assms(2) by blast
    from repo_same [OF this] show ?thesis using assms(1) p sv inv Inl by auto
  next
    case (Inr z)
    with sv have sv': "save env u (filter P existing @ [t]) s = (s1, Inr ())" by simp
    have "s' = s1" "r = Inr ()" using assms(1) p sv' by auto
    with extended_repo [OF p assms(5,4,2,3) sv'] inv show ?thesis by simp
  qed
qed


section \<open>The refinement\<close>

text \<open>What the operations ask of their arguments: the space has a name and numpy keeps the numbers.\<close>

fun op_ok :: "store_env \<Rightarrow> store_op \<Rightarrow> bool" where
  "op_ok env (Add u m l xs now) \<longleftrightarrow> plain_user u \<and> m \<noteq> [] \<and> np_exact env xs"
| "op_ok env (Renew u m l xs now) \<longleftrightarrow> plain_user u \<and> m \<noteq> [] \<and> np_exact env xs"
| "op_ok env x \<longleftrightarrow> plain_user (op_user x)"

text \<open>One operation takes effect as specified, or raises and leaves every shelf alone.\<close>

lemma remove_refines:
  assumes run: "remove_one env u i s = (s', r)" and inv: "store_inv env s" and u: "plain_user u"
  shows "store_inv env s' \<and> repo_of env s' = (case r of Inl _ \<Rightarrow> repo_of env s | Inr _ \<Rightarrow> spec_op (Remove u i) (repo_of env s))"
proof (cases "load_all env s u")
  case (Inl e)
  with run inv show ?thesis by (auto simp: remove_one_def)
next
  case (Inr ts)
  then have sh: "fst (repo_of env s u) = ts" "snd (repo_of env s u) = snd (shelf_of env s u)"
    using u by (simp_all add: repo_of_def shelf_of_def)
  show ?thesis
  proof (cases "find_template ts i")
    case None
    with run Inr inv sh(1) show ?thesis
      by (auto simp: remove_one_def spec_op_def without_first_def)
  next
    case (Some t)
    show ?thesis
    proof (cases "remove1 t ts = []")
      case True
      with run Inr Some have d: "delete env u s = (s', r)" by (simp add: remove_one_def)
      have "repo_of env s' = (repo_of env s)(u := ([], 0))" if "r = Inr ()"
        using deleted_repo d that u by blast
      then show ?thesis
        using delete_cases [OF d] repo.drop_invar [OF inv d] Some True sh(1)
        by (auto simp: spec_op_def without_first_def Let_def)
    next
      case False
      with run Inr Some have d: "save env u (remove1 t ts) s = (s', r)" by (simp add: remove_one_def)
      have good: "\<forall>x \<in> set (remove1 t ts). wf_template env x"
        using repo.fetch_good [OF inv Inr] by (meson notin_set_remove1)
      have "repo_of env s' = (repo_of env s)(u := (remove1 t ts, fresh_id (remove1 t ts, snd (repo_of env s u))))"
        if "r = Inr ()"
        using saved_repo [OF d [unfolded that] inv u False good] sh(2) by (simp add: fresh_id_def)
      moreover have "repo_of env s' = repo_of env s" if "r = Inl e" for e
        using repo_same [OF save_Inl [OF d [unfolded that] inv]] .
      ultimately show ?thesis
        using save_invar [OF inv d] Some False sh(1)
        by (cases r) (auto simp: spec_op_def without_first_def Let_def)
    qed
  qed
qed

lemma forget_refines:
  assumes d: "delete env u s = (s', r)" and inv: "store_inv env s" and u: "plain_user u"
  shows "store_inv env s' \<and> repo_of env s' = (case r of Inl _ \<Rightarrow> repo_of env s | Inr _ \<Rightarrow> spec_op (Forget u) (repo_of env s))"
proof -
  have "repo_of env s' = (repo_of env s)(u := ([], 0))" if "r = Inr ()"
    using deleted_repo d that u by blast
  then show ?thesis
    using delete_cases [OF d] repo.drop_invar [OF inv d] by (auto simp: spec_op_def)
qed

lemma run_op_refines:
  assumes "run_op env x s = (s', r)" and "store_inv env s" and "op_ok env x"
  shows "store_inv env s' \<and> repo_of env s' = (case r of Inl _ \<Rightarrow> repo_of env s | Inr _ \<Rightarrow> spec_op x (repo_of env s))"
proof (cases x)
  case (Add u m l xs now)
  then have "thenS (s, prepare_template env u m l (vec xs) None now s)
      (\<lambda>s (existing, t). thenS (save env u (filter (\<lambda>_. True) existing @ [t]) s) (\<lambda>s' _. (s', Inr ()))) = (s', r)"
    using assms(1) by (auto simp: append_def thenS_assoc case_prod_unfold)
  from extend_refines [OF this assms(2)] Add assms(3) show ?thesis
    by (auto simp: spec_op_def repo_of_def [of env s u] split: sum.split)
next
  case (Renew u m l xs now)
  then have "thenS (s, prepare_template env u m l (vec xs) None now s)
      (\<lambda>s (existing, t). thenS (save env u (filter (\<lambda>x. t_model_id x \<noteq> m) existing @ [t]) s) (\<lambda>s' _. (s', Inr ()))) = (s', r)"
    using assms(1) by (auto simp: replace_space_def thenS_assoc case_prod_unfold)
  from extend_refines [OF this assms(2)] Renew assms(3) show ?thesis
    by (auto simp: spec_op_def repo_of_def [of env s u] split: sum.split)
next
  case (Remove u i)
  then show ?thesis using remove_refines [of env u i s s' r] assms by (simp split: sum.split)
next
  case (Forget u)
  then show ?thesis using forget_refines [of env u s s' r] assms by (simp split: sum.split)
qed


text \<open>A session on the sample store: one template more, one removed, a removal that finds nothing.\<close>

definition sample_ops :: "store_op list" where
  "sample_ops = [Add ''al'' ''m'' ''b'' [Fin 2] 9, Remove ''al'' 3, Remove ''al'' 8, Forget ''bo'']"


end
