(* ===== verification/Cli_Store.thy ===== *)
theory Cli_Store
  imports Cli_Samples Store_Refine Manage_Props
begin

text \<open>
  The command line over the template store: enrolling at the terminal leaves one template the
  daemon can read, and removing one does what the daemon does.
\<close>

section \<open>Enrolling\<close>

lemma make_models_dir_files [simp]: "files (make_models_dir pr d s) = files s"
  by (simp add: make_models_dir_def Let_def)

lemma hand_to_daemon_files:
  "files (hand_to_daemon pr daemon d s) p = None \<longleftrightarrow> files s p = None"
  "map_option f_content (files (hand_to_daemon pr daemon d s) p) = map_option f_content (files s p)"
  by (auto simp: hand_to_daemon_def option.map_comp comp_def split: option.splits)

text \<open>\<open>ensure_models_dir\<close> changes owners and modes, never what a file says.\<close>

lemma ensure_files:
  assumes "\<not> cl_redirected s"
  shows "map_option f_content (files (cl_fs (ensure_models_dir env w s)) p) = map_option f_content (files (cl_fs s) p)"
  using assms by (simp add: ensure_models_dir_def Let_def hand_to_daemon_files)

lemma read_payload_content:
  "map_option f_content (files s p) = map_option f_content (files s' p) \<Longrightarrow> read_payload s p = read_payload s' p"
  by (auto simp: read_payload_def split: option.splits)

lemma ensure_store:
  assumes "\<not> cl_redirected s"
  shows "load_all (ce_store env) (cl_fs (ensure_models_dir env w s)) u = load_all (ce_store env) (cl_fs s) u"
    and "store_inv (ce_store env) (cl_fs s) \<Longrightarrow> store_inv (ce_store env) (cl_fs (ensure_models_dir env w s))"
  using read_payload_content [OF ensure_files [OF assms]] ensure_files [OF assms, of env w]
  by (simp_all add: load_all_def store_inv_def tmp_free_def) (metis option.map_disc_iff)

lemma models_dir_owner:
  assumes "euid (se_process (ce_store env)) = 0" and "cw_daemon w = Some (uid, gid)"
  shows "\<exists>i. dirs (cl_fs (ensure_models_dir env w s)) (user_models_dir (se_paths (ce_store env))) = Some i \<and> d_uid i = uid"
proof -
  have "dirs (make_models_dir pr d fs) d \<noteq> None" for pr d fs
    using mkdir_parents_self by (simp add: make_models_dir_def Let_def)
  then show ?thesis
    using assms by (auto simp: ensure_models_dir_def Let_def hand_to_daemon_def models_dir_exists_def split: option.splits)
qed

lemma ask_label_keeps:
  assumes "ask_label env d s = (s', r)" and "\<not> cl_redirected s"
  shows "cl_fs s' = cl_fs s" and "\<not> cl_redirected s'" and "r = Inr l \<Longrightarrow> CHR '','' \<notin> set l"
  using assms by (auto simp: ask_label_def ask_def emit_def Let_def split: if_splits list.splits)

lemma add_label_keeps:
  assumes "add_label env s = (s', Inr l)" and "\<not> cl_redirected s"
  shows "cl_fs s' = cl_fs s \<and> \<not> cl_redirected s' \<and> CHR '','' \<notin> set l"
proof -
  obtain s1 i where "ask_label env (label_argument env i) s1 = (s', Inr l)" "cl_fs s1 = cl_fs s" "\<not> cl_redirected s1"
    using assms by (auto simp: add_label_def flow_simps emit_def Let_def give_up_def leave_with_def split: sum.splits if_splits)
  with ask_label_keeps [OF this(1,3)] show ?thesis by simp
qed

text \<open>What a success of the last step says, for either command.\<close>

definition store_step :: "cli_env \<Rightarrow> cli_world \<Rightarrow> config \<Rightarrow> bool \<Rightarrow> string \<Rightarrow> embedding \<Rightarrow> fs \<Rightarrow> fs \<times> (exn + template)" where
  "store_step env w c replace label e =
     (if replace then replace_space else append) (ce_store env) (ca_user (ce_args env)) (active_model_id c) label
       (e_vector e) None (cw_now w)"

definition seen_face :: "cli_env \<Rightarrow> cli_world \<Rightarrow> config \<Rightarrow> pipeline_bundle \<Rightarrow> embedding \<Rightarrow> bool" where
  "seen_face env w c b e \<longleftrightarrow> (let ee = \<lparr>ee_config = c, ee_bundle = b, ee_cv = cw_cv w, ee_camera = cw_camera w,
       ee_observed = False, ee_max_frames = MAX_FRAMES, ee_store = ce_store env\<rparr> in
     \<exists>k f fr. k < MAX_FRAMES \<and> k < length (cw_ticks w) \<and> frame_shows ee (cw_ticks w ! k) [f] fr \<and> b_embed b fr f = Inr e)"

lemma scan_and_store_Inr:
  assumes "scan_and_store env w c b replace label s = Some (s', Inr ())" and "\<not> cl_redirected s"
  obtains e t where "seen_face env w c b e" "store_step env w c replace label e (cl_fs s) = (cl_fs s', Inr t)"
proof -
  let ?ee = "\<lparr>ee_config = c, ee_bundle = b, ee_cv = cw_cv w, ee_camera = cw_camera w, ee_observed = False,
    ee_max_frames = MAX_FRAMES, ee_store = ce_store env\<rparr>"
  obtain s1 e where cap: "capture_embedding env w c b s = Some (s1, Inr e)"
    and st: "thenS (with_fs (store_step env w c replace label e) s1) (\<lambda>s _. (emit env Said s, Inr ())) = (s', Inr ())"
    using assms(1)
    by (auto simp: scan_and_store_def store_step_def flow_simps split: option.splits)
  obtain ss out where ec: "enroll_capture ?ee 2 False (cw_ticks w) new_session = (ss, Some (Inr out))"
    and out: "eo_result out = E_SUCCESS" "e = the (eo_embedding out)" and s1: "cl_fs s1 = cl_fs s" "\<not> cl_redirected s1"
    using cap assms(2)
    by (cases "enroll_capture ?ee 2 False (cw_ticks w) new_session")
      (auto simp: capture_embedding_def emit_def give_up_def leave_with_def Let_def split: option.splits sum.splits if_splits)
  have "fresh new_session" by simp
  from enroll_capture_sound [OF ec this] out have "\<exists>k f fr. k < MAX_FRAMES \<and> k < length (cw_ticks w) \<and>
      frame_shows ?ee (cw_ticks w ! k) [f] fr \<and> b_embed b fr f = Inr e"
    by fastforce
  then have "seen_face env w c b e" unfolding seen_face_def Let_def .
  moreover obtain t where "store_step env w c replace label e (cl_fs s) = (cl_fs s', Inr t)"
    using st s1 by (auto simp: flow_simps with_fs_def emit_def split: prod.splits)
  ultimately show ?thesis by (rule that)
qed

lemma load_pipeline_keeps:
  assumes "load_pipeline env w c s = (s', Inr b)"
  shows "s' = s" and "b_model_id b = active_model_id c"
  using assms by (auto simp: load_pipeline_def give_up_def leave_with_def split: sum.splits if_splits)

text \<open>How both commands succeed: the label, the folder, then one scan and one write.\<close>

lemma cmd_add_Inr:
  assumes "cmd_add env w s = Some (s', Inr ())" and "\<not> cl_redirected s"
  obtains c b e t label where "parse_config env s = Inr c" "b_model_id b = active_model_id c" "CHR '','' \<notin> set label"
    "seen_face env w c b e" "store_step env w c False label e (cl_fs (ensure_models_dir env w s)) = (cl_fs s', Inr t)"
proof -
  obtain c s1 b where c: "parse_config env s = Inr c" "load_pipeline env w c s = (s1, Inr b)"
    using assms(1) by (auto simp: cmd_add_def split: sum.splits prod.splits)
  note b = load_pipeline_keeps [OF c(2)]
  have en: "\<not> cl_redirected (ensure_models_dir env w s)"
    using assms(2) by (auto simp: ensure_models_dir_def Let_def emit_def)
  obtain s2 label where l: "add_label env (ensure_models_dir env w s) = (s2, Inr label)"
    and sc: "scan_and_store env w c b False label s2 = Some (s', Inr ())"
    using assms(1) c b(1) by (auto simp: cmd_add_def split: sum.splits prod.splits)
  note k = add_label_keeps [OF l en]
  obtain e t where e: "seen_face env w c b e" "store_step env w c False label e (cl_fs s2) = (cl_fs s', Inr t)"
    using scan_and_store_Inr [OF sc] k by blast
  show ?thesis by (rule that [OF c(1) b(2) _ e(1), of label t]) (use k e(2) in simp_all)
qed

lemma confirm_replace_keeps:
  assumes "confirm_replace env c templates s = (s', Inr ())" and "\<not> cl_redirected s"
  shows "cl_fs s' = cl_fs s \<and> \<not> cl_redirected s'"
  using assms
  by (auto simp: confirm_replace_def confirm_def ask_def emit_def Let_def give_up_def leave_with_def flow_simps
      split: if_splits list.splits)

lemma cmd_re_enroll_Inr:
  assumes "cmd_re_enroll env w s = Some (s', Inr ())" and "\<not> cl_redirected s"
  obtains c b e t label where "parse_config env s = Inr c" "b_model_id b = active_model_id c" "CHR '','' \<notin> set label"
    "seen_face env w c b e" "store_step env w c True label e (cl_fs (ensure_models_dir env w s)) = (cl_fs s', Inr t)"
proof -
  obtain c templates where c: "parse_config env s = Inr c"
    "load_all (ce_store env) (cl_fs s) (ca_user (ce_args env)) = Inr templates" "model_id_known c = Inr ()"
    using assms(1) by (auto simp: cmd_re_enroll_def give_up_def leave_with_def bindE_Inr_iff split: sum.splits if_splits)
  let ?s = "if ca_plain (ce_args env) then s else emit env Said s"
  obtain s1 b where lp: "thenS (confirm_replace env c templates ?s) (\<lambda>s _. load_pipeline env w c s) = (s1, Inr b)"
    using assms(1) c by (auto simp: cmd_re_enroll_def Let_def split: sum.splits prod.splits)
  then obtain s0 where cf: "confirm_replace env c templates ?s = (s0, Inr ())" and ld: "load_pipeline env w c s0 = (s1, Inr b)"
    by (auto simp: flow_simps)
  note b = load_pipeline_keeps [OF ld]
  have s0: "cl_fs s0 = cl_fs s \<and> \<not> cl_redirected s0"
    using confirm_replace_keeps [OF cf] assms(2) by (auto simp: emit_def split: if_splits)
  have en: "\<not> cl_redirected (ensure_models_dir env w s0)" "cl_fs (ensure_models_dir env w s0) = cl_fs (ensure_models_dir env w s)"
    using s0 assms(2) by (auto simp: ensure_models_dir_def Let_def emit_def models_dir_exists_def)
  let ?e = "ensure_models_dir env w s0"
  obtain s2 label where l: "thenS (?e, peek_next_id (ce_store env) (cl_fs ?e) (ca_user (ce_args env)) templates)
      (\<lambda>s i. ask_label env (default_label env i) s) = (s2, Inr label)"
    and sc: "scan_and_store env w c b True label s2 = Some (s', Inr ())"
    using assms(1) c lp b(1) by (auto simp: cmd_re_enroll_def Let_def split: sum.splits prod.splits)
  have k: "cl_fs s2 = cl_fs ?e \<and> \<not> cl_redirected s2 \<and> CHR '','' \<notin> set label"
    using l ask_label_keeps en(1) by (auto simp: flow_simps)
  obtain e t where e: "seen_face env w c b e" "store_step env w c True label e (cl_fs s2) = (cl_fs s', Inr t)"
    using scan_and_store_Inr [OF sc] k by blast
  show ?thesis by (rule that [OF c(1) b(2) _ e(1), of label t]) (use k en(2) e(2) in simp_all)
qed

lemma build_template_tags:
  "build_template i m l v c now = Inr t \<Longrightarrow> t_label t = l \<and> t_model_id t = m"
  by (auto simp: build_template_def Let_def split: list.splits if_splits)

lemma prepare_template_tags:
  "prepare_template env u m l v c now s = Inr (existing, t) \<Longrightarrow> t_label t = l \<and> t_model_id t = m"
  using build_template_tags by (fastforce simp: prepare_template_def flow_simps)

lemma store_step_save:
  assumes "store_step env w c replace label e fs = (fs', Inr t)"
  shows "t_label t = label \<and> t_model_id t = active_model_id c \<and>
    (\<exists>ts. save (ce_store env) (ca_user (ce_args env)) ts fs = (fs', Inr ()) \<and> t \<in> set ts)"
proof -
  obtain existing P where p: "prepare_template (ce_store env) (ca_user (ce_args env)) (active_model_id c) label
      (e_vector e) None (cw_now w) fs = Inr (existing, t)"
    and sv: "save (ce_store env) (ca_user (ce_args env)) (filter P existing @ [t]) fs = (fs', Inr ())"
  proof (cases replace)
    case True
    then show thesis using assms that by (fastforce simp: store_step_def replace_space_def flow_simps Let_def)
  next
    case False
    then show thesis using assms that [of _ "\<lambda>_. True"] by (fastforce simp: store_step_def append_def flow_simps)
  qed
  from prepare_template_tags [OF p] sv show ?thesis by (intro conjI exI) auto
qed

text \<open>The owner of a file written by root into a folder.\<close>

lemma saved_owner:
  assumes "save env u ts s = (s', Inr ())" and "store_inv env s" and "euid (se_process env) = 0"
    and "dirs s (parent (path_for env u)) = Some i"
  shows "\<exists>f. files s' (path_for env u) = Some f \<and> f_uid f = d_uid i \<and> f_mode f = 384"
  by (rule save_Inr [OF assms(1,2)]) (simp add: written_file_def mkdir_parents_keeps [OF assms(4)] assms(3))

text \<open>
  C14: enrolling at the terminal leaves a model the daemon can read. When \<open>add\<close> or
  \<open>re-enroll\<close> succeeds as root, the camera saw a frame with exactly one face whose embedding
  was stored under a label without commas, tagged with the active space, by the store operation of
  the command, and the user's file belongs to the daemon's user with mode 600, even if the folder
  was missing or belonged to root before.
\<close>

theorem enrolled_for_daemon:
  assumes "(if replace then cmd_re_enroll env w s else cmd_add env w s) = Some (s', Inr ())"
    and "\<not> cl_redirected s" and "store_inv (ce_store env) (cl_fs s)" and "euid (se_process (ce_store env)) = 0"
    and "cw_daemon w = Some (uid, gid)" and "plain_user (ca_user (ce_args env))"
  shows "\<exists>c b e t label fs f. parse_config env s = Inr c \<and> b_model_id b = active_model_id c \<and> seen_face env w c b e
    \<and> (\<forall>u. load_all (ce_store env) fs u = load_all (ce_store env) (cl_fs s) u)
    \<and> (if replace then replace_space else append) (ce_store env) (ca_user (ce_args env)) (active_model_id c) label
         (e_vector e) None (cw_now w) fs = (cl_fs s', Inr t)
    \<and> t_label t = label \<and> t_model_id t = active_model_id c \<and> CHR '','' \<notin> set label
    \<and> files (cl_fs s') (path_for (ce_store env) (ca_user (ce_args env))) = Some f \<and> f_uid f = uid \<and> f_mode f = 384"
proof -
  let ?fs = "cl_fs (ensure_models_dir env w s)" and ?u = "ca_user (ce_args env)"
  obtain c b e t label where c: "parse_config env s = Inr c" "b_model_id b = active_model_id c" "CHR '','' \<notin> set label"
    "seen_face env w c b e" and st: "store_step env w c replace label e ?fs = (cl_fs s', Inr t)"
  proof (cases replace)
    case True
    then have "cmd_re_enroll env w s = Some (s', Inr ())" using assms(1) by simp
    from cmd_re_enroll_Inr [OF this assms(2)] show thesis using that True by metis
  next
    case False
    then have "cmd_add env w s = Some (s', Inr ())" using assms(1) by simp
    from cmd_add_Inr [OF this assms(2)] show thesis using that False by metis
  qed
  note sv = store_step_save [OF st]
  then obtain ts where ts: "save (ce_store env) ?u ts ?fs = (cl_fs s', Inr ())" by blast
  obtain i where i: "dirs ?fs (user_models_dir (se_paths (ce_store env))) = Some i" "d_uid i = uid"
    using models_dir_owner [OF assms(4,5)] by blast
  have "parent (path_for (ce_store env) ?u) = user_models_dir (se_paths (ce_store env))"
    using assms(6) by (simp add: plain_user_def path_for_def user_model_path_plain parent_def)
  with saved_owner [OF ts ensure_store(2) [OF assms(2,3)] assms(4), of i] i obtain f where
    "files (cl_fs s') (path_for (ce_store env) ?u) = Some f" "f_uid f = uid" "f_mode f = 384" by auto
  then show ?thesis
    using c sv st ensure_store(1) [OF assms(2)] unfolding store_step_def by metis
qed


section \<open>Removing\<close>

lemma find_target: "remove_target (show_int m) ts = find_template ts m"
  by (simp add: remove_target_def find_template_def show_int_inj)

lemma last_one: "t \<in> set ts \<Longrightarrow> remove1 t ts = [] \<longleftrightarrow> length ts = 1"
  by (cases ts) (auto simp: length_remove1)

lemma find_template_in: "find_template ts m = Some t \<Longrightarrow> t \<in> set ts"
  unfolding find_template_def by (metis find_Some_iff nth_mem)


section \<open>Witnesses\<close>

text \<open>One face in front of the camera, and a models folder that still belongs to root.\<close>

definition enroll_world :: cli_world where
  "enroll_world = (sample_cli_world [sample_tick 1 sample_frame])\<lparr>cw_loaders := sample_loaders\<lparr>ld_dlib := (\<lambda>_. Inr (sample_dlib\<lparr>
     dl_detector := (\<lambda>_. Inr [(\<lparr>r_left = 0, r_top = 0, r_width = 2, r_height = 2\<rparr>, Some (Fin 1))])\<rparr>))\<rparr>,
     cw_daemon := Some (7, 7)\<rparr>"

definition enroll_cli :: cli_env where
  "enroll_cli = sample_cli ((sample_args ''add'' [''desk,lamp''])\<lparr>ca_y := True\<rparr>)"

lemma add_runs:
  "(case cmd_add enroll_cli enroll_world ((sample_state [] [])\<lparr>cl_fs := empty_fs\<rparr>) of Some (_, Inr _) \<Rightarrow> True | _ \<Rightarrow> False) = True"
  by code_simp

theorem enrolled_for_daemon_witness:
  "\<exists>s' f. cmd_add enroll_cli enroll_world ((sample_state [] [])\<lparr>cl_fs := empty_fs\<rparr>) = Some (s', Inr ()) \<and>
     files (cl_fs s') (path_for sample_env ''al'') = Some f \<and> f_uid f = 7 \<and> f_mode f = 384"
proof -
  let ?s = "(sample_state [] [])\<lparr>cl_fs := empty_fs\<rparr>"
  obtain s' where run: "cmd_add enroll_cli enroll_world ?s = Some (s', Inr ())"
    using add_runs by (auto split: option.splits sum.splits)
  have e: "ce_store enroll_cli = sample_env" "ca_user (ce_args enroll_cli) = ''al''"
    by (simp_all add: enroll_cli_def sample_cli_def sample_args_def)
  have r: "(if False then cmd_re_enroll enroll_cli enroll_world ?s else cmd_add enroll_cli enroll_world ?s) = Some (s', Inr ())"
    using run by simp
  have i: "store_inv (ce_store enroll_cli) (cl_fs ?s)" by (simp add: e sample_fs_inv)
  have z: "euid (se_process (ce_store enroll_cli)) = 0" by (simp add: e sample_env_def)
  have d: "cw_daemon enroll_world = Some (7, 7)" by (simp add: enroll_world_def)
  have p: "plain_user (ca_user (ce_args enroll_cli))" by (simp add: e plain_user_def)
  from enrolled_for_daemon [OF r _ i z d p] run show ?thesis
    by (auto simp: e sample_state_def)
qed


end
