(* ===== verification/V4l2.thy ===== *)
theory V4l2
  imports Recorders "HOL-Library.Word"
begin

unbundle bit_operations_syntax

text \<open>
  \<open>recorders/v4l2.py\<close>: the layout \<open>ctypes\<close> gives the structures of the video API on 64-bit
  Linux, the ioctl request numbers computed from their sizes, and the four-character codes of
  pixel formats.
\<close>

section \<open>ctypes\<close>

text \<open>
  The types \<open>v4l2.py\<close> uses. A structure is packed (\<open>_pack_\<close>) or not; a pointer is as wide as the
  machine, whatever it points to.
\<close>

datatype ctype =
    C_char | C_uint8 | C_uint16 | C_int | C_uint | C_int32 | C_uint32 | C_int64 | C_uint64 | C_long | C_ulong | C_void_p
  | Pointer
  | Array ctype nat
  | Struct bool "(string \<times> ctype) list"
  | Union "(string \<times> ctype) list"

type_synonym fields = "(string \<times> ctype) list"

fun prim_size :: "ctype \<Rightarrow> nat" where
  "prim_size C_char = 1"
| "prim_size C_uint8 = 1"
| "prim_size C_uint16 = 2"
| "prim_size C_int = 4"
| "prim_size C_uint = 4"
| "prim_size C_int32 = 4"
| "prim_size C_uint32 = 4"
| "prim_size _ = 8"

text \<open>The alignment of a type; a packed structure has none.\<close>

fun alignof :: "ctype \<Rightarrow> nat" and align_fields :: "fields \<Rightarrow> nat" where
  "alignof (Array t n) = alignof t"
| "alignof (Struct packed fs) = (if packed then 1 else align_fields fs)"
| "alignof (Union fs) = align_fields fs"
| "alignof t = prim_size t"
| "align_fields [] = 1"
| "align_fields ((name, t) # fs) = max (alignof t) (align_fields fs)"

definition align_up :: "nat \<Rightarrow> nat \<Rightarrow> nat" where
  "align_up a n = (n + (a - 1)) div a * a"

text \<open>\<open>ctypes.sizeof\<close>; \<open>end_of\<close> is where the last of the fields ends when the first may begin at \<open>off\<close>.\<close>

fun sizeof :: "ctype \<Rightarrow> nat" and end_of :: "bool \<Rightarrow> nat \<Rightarrow> fields \<Rightarrow> nat" and widest :: "fields \<Rightarrow> nat" where
  "sizeof (Array t n) = sizeof t * n"
| "sizeof (Struct packed fs) = align_up (alignof (Struct packed fs)) (end_of packed 0 fs)"
| "sizeof (Union fs) = align_up (align_fields fs) (widest fs)"
| "sizeof t = prim_size t"
| "end_of packed off [] = off"
| "end_of packed off ((name, t) # fs) =
     end_of packed (align_up (if packed then 1 else alignof t) off + sizeof t) fs"
| "widest [] = 0"
| "widest ((name, t) # fs) = max (sizeof t) (widest fs)"

text \<open>The fields with their offsets.\<close>

fun offsets :: "bool \<Rightarrow> nat \<Rightarrow> fields \<Rightarrow> (string \<times> nat \<times> ctype) list" where
  "offsets packed off [] = []"
| "offsets packed off ((name, t) # fs) =
     (let o1 = align_up (if packed then 1 else alignof t) off
      in (name, o1, t) # offsets packed (o1 + sizeof t) fs)"

text \<open>Attribute access: of two fields with one name the later one hides the earlier.\<close>

fun field_at :: "ctype \<Rightarrow> string \<Rightarrow> (nat \<times> ctype) option" where
  "field_at (Struct packed fs) name = map_of (rev (offsets packed 0 fs)) name"
| "field_at (Union fs) name = map_option (\<lambda>t. (0, t)) (map_of (rev fs) name)"
| "field_at _ name = None"


section \<open>Request numbers\<close>

definition IOC_NONE :: int where "IOC_NONE = 0"
definition IOC_WRITE :: int where "IOC_WRITE = 1"
definition IOC_READ :: int where "IOC_READ = 2"

definition IOC_NRSHIFT :: nat where "IOC_NRSHIFT = 0"
definition IOC_TYPESHIFT :: nat where "IOC_TYPESHIFT = IOC_NRSHIFT + 8"
definition IOC_SIZESHIFT :: nat where "IOC_SIZESHIFT = IOC_TYPESHIFT + 8"
definition IOC_DIRSHIFT :: nat where "IOC_DIRSHIFT = IOC_SIZESHIFT + 14"

text \<open>\<open>ctypes.c_int32(n).value\<close>: the low 32 bits, read as a signed number.\<close>

definition c_int32 :: "int \<Rightarrow> int" where
  "c_int32 n = sint (word_of_int n :: 32 word)"

definition ord_of :: "char \<Rightarrow> int" where
  "ord_of ch = of_char ch"

definition IOC :: "int \<Rightarrow> char \<Rightarrow> int \<Rightarrow> int \<Rightarrow> int" where
  "IOC dir ty nr sz =
     c_int32 (push_bit IOC_DIRSHIFT dir) OR c_int32 (push_bit IOC_TYPESHIFT (ord_of ty)) OR
     c_int32 (push_bit IOC_NRSHIFT nr) OR c_int32 (push_bit IOC_SIZESHIFT sz)"

definition IO :: "char \<Rightarrow> int \<Rightarrow> int" where
  "IO ty nr = IOC IOC_NONE ty nr 0"

definition IOW :: "char \<Rightarrow> int \<Rightarrow> ctype \<Rightarrow> int" where
  "IOW ty nr t = IOC IOC_WRITE ty nr (int (sizeof t))"

definition IOR :: "char \<Rightarrow> int \<Rightarrow> ctype \<Rightarrow> int" where
  "IOR ty nr t = IOC IOC_READ ty nr (int (sizeof t))"

definition IOWR :: "char \<Rightarrow> int \<Rightarrow> ctype \<Rightarrow> int" where
  "IOWR ty nr t = IOC (IOC_READ OR IOC_WRITE) ty nr (int (sizeof t))"


section \<open>Four-character codes\<close>

definition v4l2_fourcc :: "char \<Rightarrow> char \<Rightarrow> char \<Rightarrow> char \<Rightarrow> int" where
  "v4l2_fourcc a b c d =
     ord_of a OR push_bit 8 (ord_of b) OR push_bit 16 (ord_of c) OR push_bit 24 (ord_of d)"

definition fourcc_text :: "string \<Rightarrow> int" where
  "fourcc_text s = v4l2_fourcc (s ! 0) (s ! 1) (s ! 2) (s ! 3)"

definition pixel_formats :: "(string \<times> int) list" where
  "pixel_formats =
    [(''V4L2_PIX_FMT_RGB332'', fourcc_text ''RGB1''),
     (''V4L2_PIX_FMT_RGB444'', fourcc_text ''R444''),
     (''V4L2_PIX_FMT_RGB555'', fourcc_text ''RGBO''),
     (''V4L2_PIX_FMT_RGB565'', fourcc_text ''RGBP''),
     (''V4L2_PIX_FMT_RGB555X'', fourcc_text ''RGBQ''),
     (''V4L2_PIX_FMT_RGB565X'', fourcc_text ''RGBR''),
     (''V4L2_PIX_FMT_BGR24'', fourcc_text ''BGR3''),
     (''V4L2_PIX_FMT_RGB24'', fourcc_text ''RGB3''),
     (''V4L2_PIX_FMT_BGR32'', fourcc_text ''BGR4''),
     (''V4L2_PIX_FMT_RGB32'', fourcc_text ''RGB4''),
     (''V4L2_PIX_FMT_GREY'', fourcc_text ''GREY''),
     (''V4L2_PIX_FMT_Y10'', fourcc_text ''Y10 ''),
     (''V4L2_PIX_FMT_Y16'', fourcc_text ''Y16 ''),
     (''V4L2_PIX_FMT_PAL8'', fourcc_text ''PAL8''),
     (''V4L2_PIX_FMT_YVU410'', fourcc_text ''YVU9''),
     (''V4L2_PIX_FMT_YVU420'', fourcc_text ''YV12''),
     (''V4L2_PIX_FMT_YUYV'', fourcc_text ''YUYV''),
     (''V4L2_PIX_FMT_YYUV'', fourcc_text ''YYUV''),
     (''V4L2_PIX_FMT_YVYU'', fourcc_text ''YVYU''),
     (''V4L2_PIX_FMT_UYVY'', fourcc_text ''UYVY''),
     (''V4L2_PIX_FMT_VYUY'', fourcc_text ''VYUY''),
     (''V4L2_PIX_FMT_YUV422P'', fourcc_text ''422P''),
     (''V4L2_PIX_FMT_YUV411P'', fourcc_text ''411P''),
     (''V4L2_PIX_FMT_Y41P'', fourcc_text ''Y41P''),
     (''V4L2_PIX_FMT_YUV444'', fourcc_text ''Y444''),
     (''V4L2_PIX_FMT_YUV555'', fourcc_text ''YUVO''),
     (''V4L2_PIX_FMT_YUV565'', fourcc_text ''YUVP''),
     (''V4L2_PIX_FMT_YUV32'', fourcc_text ''YUV4''),
     (''V4L2_PIX_FMT_YUV410'', fourcc_text ''YUV9''),
     (''V4L2_PIX_FMT_YUV420'', fourcc_text ''YU12''),
     (''V4L2_PIX_FMT_HI240'', fourcc_text ''HI24''),
     (''V4L2_PIX_FMT_HM12'', fourcc_text ''HM12''),
     (''V4L2_PIX_FMT_NV12'', fourcc_text ''NV12''),
     (''V4L2_PIX_FMT_NV21'', fourcc_text ''NV21''),
     (''V4L2_PIX_FMT_NV16'', fourcc_text ''NV16''),
     (''V4L2_PIX_FMT_NV61'', fourcc_text ''NV61''),
     (''V4L2_PIX_FMT_SBGGR8'', fourcc_text ''BA81''),
     (''V4L2_PIX_FMT_SGBRG8'', fourcc_text ''GBRG''),
     (''V4L2_PIX_FMT_SGRBG8'', fourcc_text ''GRBG''),
     (''V4L2_PIX_FMT_SRGGB8'', fourcc_text ''RGGB''),
     (''V4L2_PIX_FMT_SBGGR10'', fourcc_text ''BG10''),
     (''V4L2_PIX_FMT_SGBRG10'', fourcc_text ''GB10''),
     (''V4L2_PIX_FMT_SGRBG10'', fourcc_text ''BA10''),
     (''V4L2_PIX_FMT_SRGGB10'', fourcc_text ''RG10''),
     (''V4L2_PIX_FMT_SGRBG10DPCM8'', fourcc_text ''BD10''),
     (''V4L2_PIX_FMT_SBGGR16'', fourcc_text ''BYR2''),
     (''V4L2_PIX_FMT_MJPEG'', fourcc_text ''MJPG''),
     (''V4L2_PIX_FMT_JPEG'', fourcc_text ''JPEG''),
     (''V4L2_PIX_FMT_DV'', fourcc_text ''dvsd''),
     (''V4L2_PIX_FMT_MPEG'', fourcc_text ''MPEG''),
     (''V4L2_PIX_FMT_CPIA1'', fourcc_text ''CPIA''),
     (''V4L2_PIX_FMT_WNVA'', fourcc_text ''WNVA''),
     (''V4L2_PIX_FMT_SN9C10X'', fourcc_text ''S910''),
     (''V4L2_PIX_FMT_SN9C20X_I420'', fourcc_text ''S920''),
     (''V4L2_PIX_FMT_PWC1'', fourcc_text ''PWC1''),
     (''V4L2_PIX_FMT_PWC2'', fourcc_text ''PWC2''),
     (''V4L2_PIX_FMT_ET61X251'', fourcc_text ''E625''),
     (''V4L2_PIX_FMT_SPCA501'', fourcc_text ''S501''),
     (''V4L2_PIX_FMT_SPCA505'', fourcc_text ''S505''),
     (''V4L2_PIX_FMT_SPCA508'', fourcc_text ''S508''),
     (''V4L2_PIX_FMT_SPCA561'', fourcc_text ''S561''),
     (''V4L2_PIX_FMT_PAC207'', fourcc_text ''P207''),
     (''V4L2_PIX_FMT_MR97310A'', fourcc_text ''M310''),
     (''V4L2_PIX_FMT_SN9C2028'', fourcc_text ''SONX''),
     (''V4L2_PIX_FMT_SQ905C'', fourcc_text ''905C''),
     (''V4L2_PIX_FMT_PJPG'', fourcc_text ''PJPG''),
     (''V4L2_PIX_FMT_OV511'', fourcc_text ''O511''),
     (''V4L2_PIX_FMT_OV518'', fourcc_text ''O518''),
     (''V4L2_PIX_FMT_STV0680'', fourcc_text ''S680'')]"


section \<open>Enumerations\<close>

definition v4l2_enum :: ctype where "v4l2_enum = C_uint"
definition v4l2_std_id :: ctype where "v4l2_std_id = C_uint64"

datatype v4l2_field = FIELD_ANY | FIELD_NONE | FIELD_TOP | FIELD_BOTTOM | FIELD_INTERLACED | FIELD_SEQ_TB
  | FIELD_SEQ_BT | FIELD_ALTERNATE | FIELD_INTERLACED_TB | FIELD_INTERLACED_BT

definition V4L2_FIELD_HAS_TOP :: "v4l2_field \<Rightarrow> bool" where
  "V4L2_FIELD_HAS_TOP f \<longleftrightarrow> f \<in> {FIELD_TOP, FIELD_INTERLACED, FIELD_INTERLACED_TB, FIELD_INTERLACED_BT,
     FIELD_SEQ_TB, FIELD_SEQ_BT}"

definition V4L2_FIELD_HAS_BOTTOM :: "v4l2_field \<Rightarrow> bool" where
  "V4L2_FIELD_HAS_BOTTOM f \<longleftrightarrow> f \<in> {FIELD_BOTTOM, FIELD_INTERLACED, FIELD_INTERLACED_TB, FIELD_INTERLACED_BT,
     FIELD_SEQ_TB, FIELD_SEQ_BT}"

definition V4L2_FIELD_HAS_BOTH :: "v4l2_field \<Rightarrow> bool" where
  "V4L2_FIELD_HAS_BOTH f \<longleftrightarrow> f \<in> {FIELD_INTERLACED, FIELD_INTERLACED_TB, FIELD_INTERLACED_BT,
     FIELD_SEQ_TB, FIELD_SEQ_BT}"


section \<open>Structures\<close>

definition timeval :: ctype where
  "timeval =
    Struct False [(''secs'', C_long), (''usecs'', C_long)]"

definition v4l2_rect :: ctype where
  "v4l2_rect =
    Struct False [(''left'', C_int32), (''top'', C_int32), (''width'', C_int32), (''height'', C_int32)]"

definition v4l2_fract :: ctype where
  "v4l2_fract =
    Struct False [(''numerator'', C_uint32), (''denominator'', C_uint32)]"

definition v4l2_capability :: ctype where
  "v4l2_capability =
    Struct False [(''driver'', (Array C_char 16)), (''card'', (Array C_char 32)), (''bus_info'',
      (Array C_char 32)), (''version'', C_uint32), (''capabilities'', C_uint32), (''reserved'',
      (Array C_uint32 4))]"

definition v4l2_pix_format :: ctype where
  "v4l2_pix_format =
    Struct False [(''width'', C_uint32), (''height'', C_uint32), (''pixelformat'', C_uint32),
      (''field'', v4l2_enum), (''bytesperline'', C_uint32), (''sizeimage'', C_uint32),
      (''colorspace'', v4l2_enum), (''priv'', C_uint32)]"

definition v4l2_fmtdesc :: ctype where
  "v4l2_fmtdesc =
    Struct False [(''index'', C_uint32), (''type'', C_int), (''flags'', C_uint32), (''description'',
      (Array C_char 32)), (''pixelformat'', C_uint32), (''reserved'', (Array C_uint32 4))]"

definition v4l2_frmsize_discrete :: ctype where
  "v4l2_frmsize_discrete =
    Struct False [(''width'', C_uint32), (''height'', C_uint32)]"

definition v4l2_frmsize_stepwise :: ctype where
  "v4l2_frmsize_stepwise =
    Struct False [(''min_width'', C_uint32), (''min_height'', C_uint32), (''step_width'', C_uint32),
      (''min_height'', C_uint32), (''max_height'', C_uint32), (''step_height'', C_uint32)]"

definition v4l2_frmsizeenum :: ctype where
  "v4l2_frmsizeenum =
    Struct False [(''index'', C_uint32), (''pixel_format'', C_uint32), (''type'', C_uint32), (''_u'',
      (Union [(''discrete'', v4l2_frmsize_discrete), (''stepwise'', v4l2_frmsize_stepwise)])),
      (''reserved'', (Array C_uint32 2))]"

definition v4l2_frmival_stepwise :: ctype where
  "v4l2_frmival_stepwise =
    Struct False [(''min'', v4l2_fract), (''max'', v4l2_fract), (''step'', v4l2_fract)]"

definition v4l2_frmivalenum :: ctype where
  "v4l2_frmivalenum =
    Struct False [(''index'', C_uint32), (''pixel_format'', C_uint32), (''width'', C_uint32),
      (''height'', C_uint32), (''type'', C_uint32), (''_u'', (Union [(''discrete'', v4l2_fract),
      (''stepwise'', v4l2_frmival_stepwise)])), (''reserved'', (Array C_uint32 2))]"

definition v4l2_timecode :: ctype where
  "v4l2_timecode =
    Struct False [(''type'', C_uint32), (''flags'', C_uint32), (''frames'', C_uint8),
      (''seconds'', C_uint8), (''minutes'', C_uint8), (''hours'', C_uint8), (''userbits'',
      (Array C_uint8 4))]"

definition v4l2_jpegcompression :: ctype where
  "v4l2_jpegcompression =
    Struct False [(''quality'', C_int), (''APPn'', C_int), (''APP_len'', C_int), (''APP_data'',
      (Array C_char 60)), (''COM_len'', C_int), (''COM_data'', (Array C_char 60)),
      (''jpeg_markers'', C_uint32)]"

definition v4l2_requestbuffers :: ctype where
  "v4l2_requestbuffers =
    Struct False [(''count'', C_uint32), (''type'', v4l2_enum), (''memory'', v4l2_enum), (''reserved'',
      (Array C_uint32 2))]"

definition v4l2_buffer :: ctype where
  "v4l2_buffer =
    Struct False [(''index'', C_uint32), (''type'', v4l2_enum), (''bytesused'', C_uint32),
      (''flags'', C_uint32), (''field'', v4l2_enum), (''timestamp'', timeval),
      (''timecode'', v4l2_timecode), (''sequence'', C_uint32), (''memory'', v4l2_enum), (''m'',
      (Union [(''offset'', C_uint32), (''userptr'', C_ulong)])), (''length'', C_uint32),
      (''input'', C_uint32), (''reserved'', C_uint32)]"

definition v4l2_framebuffer :: ctype where
  "v4l2_framebuffer =
    Struct False [(''capability'', C_uint32), (''flags'', C_uint32), (''base'', C_void_p),
      (''fmt'', v4l2_pix_format)]"

definition v4l2_clip :: ctype where
  "v4l2_clip =
    Struct False [(''c'', v4l2_rect), (''next'', Pointer)]"

definition v4l2_window :: ctype where
  "v4l2_window =
    Struct False [(''w'', v4l2_rect), (''field'', v4l2_enum), (''chromakey'', C_uint32),
      (''clips'', Pointer), (''clipcount'', C_uint32), (''bitmap'', C_void_p),
      (''global_alpha'', C_uint8)]"

definition v4l2_captureparm :: ctype where
  "v4l2_captureparm =
    Struct False [(''capability'', C_uint32), (''capturemode'', C_uint32),
      (''timeperframe'', v4l2_fract), (''extendedmode'', C_uint32), (''readbuffers'', C_uint32),
      (''reserved'', (Array C_uint32 4))]"

definition v4l2_outputparm :: ctype where
  "v4l2_outputparm =
    Struct False [(''capability'', C_uint32), (''outputmode'', C_uint32), (''timeperframe'', v4l2_fract),
      (''extendedmode'', C_uint32), (''writebuffers'', C_uint32), (''reserved'', (Array C_uint32 4))]"

definition v4l2_cropcap :: ctype where
  "v4l2_cropcap =
    Struct False [(''type'', v4l2_enum), (''bounds'', v4l2_rect), (''defrect'', v4l2_rect),
      (''pixelaspect'', v4l2_fract)]"

definition v4l2_crop :: ctype where
  "v4l2_crop =
    Struct False [(''type'', C_int), (''c'', v4l2_rect)]"

definition v4l2_standard :: ctype where
  "v4l2_standard =
    Struct False [(''index'', C_uint32), (''id'', v4l2_std_id), (''name'', (Array C_char 24)),
      (''frameperiod'', v4l2_fract), (''framelines'', C_uint32), (''reserved'', (Array C_uint32 4))]"

definition v4l2_dv_preset :: ctype where
  "v4l2_dv_preset =
    Struct False [(''preset'', C_uint32), (''reserved'', (Array C_uint32 4))]"

definition v4l2_dv_enum_preset :: ctype where
  "v4l2_dv_enum_preset =
    Struct False [(''index'', C_uint32), (''preset'', C_uint32), (''name'', (Array C_char 32)),
      (''width'', C_uint32), (''height'', C_uint32), (''reserved'', (Array C_uint32 4))]"

definition v4l2_bt_timings :: ctype where
  "v4l2_bt_timings =
    Struct True [(''width'', C_uint32), (''height'', C_uint32), (''interlaced'', C_uint32),
      (''polarities'', C_uint32), (''pixelclock'', C_uint64), (''hfrontporch'', C_uint32),
      (''hsync'', C_uint32), (''hbackporch'', C_uint32), (''vfrontporch'', C_uint32),
      (''vsync'', C_uint32), (''vbackporch'', C_uint32), (''il_vfrontporch'', C_uint32),
      (''il_vsync'', C_uint32), (''il_vbackporch'', C_uint32), (''reserved'', (Array C_uint32 16))]"

definition v4l2_dv_timings :: ctype where
  "v4l2_dv_timings =
    Struct True [(''type'', C_uint32), (''_u'', (Union [(''bt'', v4l2_bt_timings), (''reserved'',
      (Array C_uint32 32))]))]"

definition v4l2_input :: ctype where
  "v4l2_input =
    Struct False [(''index'', C_uint32), (''name'', (Array C_char 32)), (''type'', C_uint32),
      (''audioset'', C_uint32), (''tuner'', C_uint32), (''std'', v4l2_std_id), (''status'', C_uint32),
      (''reserved'', (Array C_uint32 4))]"

definition v4l2_output :: ctype where
  "v4l2_output =
    Struct False [(''index'', C_uint32), (''name'', (Array C_char 32)), (''type'', C_uint32),
      (''audioset'', C_uint32), (''modulator'', C_uint32), (''std'', v4l2_std_id), (''reserved'',
      (Array C_uint32 4))]"

definition v4l2_control :: ctype where
  "v4l2_control =
    Struct False [(''id'', C_uint32), (''value'', C_int32)]"

definition v4l2_ext_control :: ctype where
  "v4l2_ext_control =
    Struct True [(''id'', C_uint32), (''reserved2'', (Array C_uint32 2)), (''_u'',
      (Union [(''value'', C_int32), (''value64'', C_int64), (''reserved'', C_void_p)]))]"

definition v4l2_ext_controls :: ctype where
  "v4l2_ext_controls =
    Struct False [(''ctrl_class'', C_uint32), (''count'', C_uint32), (''error_idx'', C_uint32),
      (''reserved'', (Array C_uint32 2)), (''controls'', Pointer)]"

definition v4l2_queryctrl :: ctype where
  "v4l2_queryctrl =
    Struct False [(''id'', C_uint32), (''type'', v4l2_enum), (''name'', (Array C_char 32)),
      (''minimum'', C_int32), (''maximum'', C_int32), (''step'', C_int32), (''default'', C_int32),
      (''flags'', C_uint32), (''reserved'', (Array C_uint32 2))]"

definition v4l2_querymenu :: ctype where
  "v4l2_querymenu =
    Struct False [(''id'', C_uint32), (''index'', C_uint32), (''name'', (Array C_char 32)),
      (''reserved'', C_uint32)]"

definition v4l2_tuner :: ctype where
  "v4l2_tuner =
    Struct False [(''index'', C_uint32), (''name'', (Array C_char 32)), (''type'', v4l2_enum),
      (''capability'', C_uint32), (''rangelow'', C_uint32), (''rangehigh'', C_uint32),
      (''rxsubchans'', C_uint32), (''audmode'', C_uint32), (''signal'', C_int32), (''afc'', C_int32),
      (''reserved'', (Array C_uint32 4))]"

definition v4l2_modulator :: ctype where
  "v4l2_modulator =
    Struct False [(''index'', C_uint32), (''name'', (Array C_char 32)), (''capability'', C_uint32),
      (''rangelow'', C_uint32), (''rangehigh'', C_uint32), (''txsubchans'', C_uint32), (''reserved'',
      (Array C_uint32 4))]"

definition v4l2_frequency :: ctype where
  "v4l2_frequency =
    Struct False [(''tuner'', C_uint32), (''type'', v4l2_enum), (''frequency'', C_uint32), (''reserved'',
      (Array C_uint32 8))]"

definition v4l2_hw_freq_seek :: ctype where
  "v4l2_hw_freq_seek =
    Struct False [(''tuner'', C_uint32), (''type'', v4l2_enum), (''seek_upward'', C_uint32),
      (''wrap_around'', C_uint32), (''reserved'', (Array C_uint32 8))]"

definition v4l2_rds_data :: ctype where
  "v4l2_rds_data =
    Struct True [(''lsb'', C_char), (''msb'', C_char), (''block'', C_char)]"

definition v4l2_audio :: ctype where
  "v4l2_audio =
    Struct False [(''index'', C_uint32), (''name'', (Array C_char 32)), (''capability'', C_uint32),
      (''mode'', C_uint32), (''reserved'', (Array C_uint32 2))]"

definition v4l2_audioout :: ctype where
  "v4l2_audioout =
    Struct False [(''index'', C_uint32), (''name'', (Array C_char 32)), (''capability'', C_uint32),
      (''mode'', C_uint32), (''reserved'', (Array C_uint32 2))]"

definition v4l2_enc_idx_entry :: ctype where
  "v4l2_enc_idx_entry =
    Struct False [(''offset'', C_uint64), (''pts'', C_uint64), (''length'', C_uint32),
      (''flags'', C_uint32), (''reserved'', (Array C_uint32 2))]"

definition v4l2_enc_idx :: ctype where
  "v4l2_enc_idx =
    Struct False [(''entries'', C_uint32), (''entries_cap'', C_uint32), (''reserved'',
      (Array C_uint32 4)), (''entry'', (Array v4l2_enc_idx_entry 64))]"

definition v4l2_encoder_cmd :: ctype where
  "v4l2_encoder_cmd =
    Struct False [(''cmd'', C_uint32), (''flags'', C_uint32), (''_u'', (Union [(''raw'',
      (Struct False [(''data'', (Array C_uint32 8))]))]))]"

definition v4l2_vbi_format :: ctype where
  "v4l2_vbi_format =
    Struct False [(''sampling_rate'', C_uint32), (''offset'', C_uint32),
      (''samples_per_line'', C_uint32), (''sample_format'', C_uint32), (''start'', (Array C_int32 2)),
      (''count'', (Array C_uint32 2)), (''flags'', C_uint32), (''reserved'', (Array C_uint32 2))]"

definition v4l2_sliced_vbi_format :: ctype where
  "v4l2_sliced_vbi_format =
    Struct False [(''service_set'', C_uint16), (''service_lines'', (Array (Array C_uint16 2) 24)),
      (''io_size'', C_uint32), (''reserved'', (Array C_uint32 2))]"

definition v4l2_sliced_vbi_cap :: ctype where
  "v4l2_sliced_vbi_cap =
    Struct False [(''service_set'', C_uint16), (''service_lines'', (Array (Array C_uint16 2) 24)),
      (''type'', v4l2_enum), (''reserved'', (Array C_uint32 3))]"

definition v4l2_sliced_vbi_data :: ctype where
  "v4l2_sliced_vbi_data =
    Struct False [(''id'', C_uint32), (''field'', C_uint32), (''line'', C_uint32),
      (''reserved'', C_uint32), (''data'', (Array C_char 48))]"

definition v4l2_mpeg_vbi_itv0_line :: ctype where
  "v4l2_mpeg_vbi_itv0_line =
    Struct True [(''id'', C_char), (''data'', (Array C_char 42))]"

definition v4l2_mpeg_vbi_itv0 :: ctype where
  "v4l2_mpeg_vbi_itv0 =
    Struct True [(''linemask'', (Array C_uint32 2)), (''line'', (Array v4l2_mpeg_vbi_itv0_line 35))]"

definition v4l2_mpeg_vbi_ITV0 :: ctype where
  "v4l2_mpeg_vbi_ITV0 =
    Struct True [(''line'', (Array v4l2_mpeg_vbi_itv0_line 36))]"

definition v4l2_mpeg_vbi_fmt_ivtv :: ctype where
  "v4l2_mpeg_vbi_fmt_ivtv =
    Struct True [(''magic'', (Array C_char 4)), (''_u'', (Union [(''itv0'', v4l2_mpeg_vbi_itv0),
      (''ITV0'', v4l2_mpeg_vbi_ITV0)]))]"

definition v4l2_format :: ctype where
  "v4l2_format =
    Struct False [(''type'', v4l2_enum), (''fmt'', (Union [(''pix'', v4l2_pix_format),
      (''win'', v4l2_window), (''vbi'', v4l2_vbi_format), (''sliced'', v4l2_sliced_vbi_format),
      (''raw_data'', (Array C_char 200))]))]"

definition v4l2_streamparm :: ctype where
  "v4l2_streamparm =
    Struct False [(''type'', v4l2_enum), (''parm'', (Union [(''capture'', v4l2_captureparm),
      (''output'', v4l2_outputparm), (''raw_data'', (Array C_char 200))]))]"

definition v4l2_dbg_match :: ctype where
  "v4l2_dbg_match =
    Struct True [(''type'', C_uint32), (''_u'', (Union [(''addr'', C_uint32), (''name'',
      (Array C_char 32))]))]"

definition v4l2_dbg_register :: ctype where
  "v4l2_dbg_register =
    Struct True [(''match'', v4l2_dbg_match), (''size'', C_uint32), (''reg'', C_uint64),
      (''val'', C_uint64)]"

definition v4l2_dbg_chip_ident :: ctype where
  "v4l2_dbg_chip_ident =
    Struct True [(''match'', v4l2_dbg_match), (''ident'', C_uint32), (''revision'', C_uint32)]"


section \<open>The requests\<close>

text \<open>Each request with its number.\<close>

definition requests :: "(string \<times> int) list" where
  "requests =
    [(''VIDIOC_QUERYCAP'', IOR (CHR ''V'') 0 v4l2_capability),
     (''VIDIOC_RESERVED'', IO (CHR ''V'') 1),
     (''VIDIOC_ENUM_FMT'', IOWR (CHR ''V'') 2 v4l2_fmtdesc),
     (''VIDIOC_G_FMT'', IOWR (CHR ''V'') 4 v4l2_format),
     (''VIDIOC_S_FMT'', IOWR (CHR ''V'') 5 v4l2_format),
     (''VIDIOC_REQBUFS'', IOWR (CHR ''V'') 8 v4l2_requestbuffers),
     (''VIDIOC_QUERYBUF'', IOWR (CHR ''V'') 9 v4l2_buffer),
     (''VIDIOC_G_FBUF'', IOR (CHR ''V'') 10 v4l2_framebuffer),
     (''VIDIOC_S_FBUF'', IOW (CHR ''V'') 11 v4l2_framebuffer),
     (''VIDIOC_OVERLAY'', IOW (CHR ''V'') 14 C_int),
     (''VIDIOC_QBUF'', IOWR (CHR ''V'') 15 v4l2_buffer),
     (''VIDIOC_DQBUF'', IOWR (CHR ''V'') 17 v4l2_buffer),
     (''VIDIOC_STREAMON'', IOW (CHR ''V'') 18 C_int),
     (''VIDIOC_STREAMOFF'', IOW (CHR ''V'') 19 C_int),
     (''VIDIOC_G_PARM'', IOWR (CHR ''V'') 21 v4l2_streamparm),
     (''VIDIOC_S_PARM'', IOWR (CHR ''V'') 22 v4l2_streamparm),
     (''VIDIOC_G_STD'', IOR (CHR ''V'') 23 v4l2_std_id),
     (''VIDIOC_S_STD'', IOW (CHR ''V'') 24 v4l2_std_id),
     (''VIDIOC_ENUMSTD'', IOWR (CHR ''V'') 25 v4l2_standard),
     (''VIDIOC_ENUMINPUT'', IOWR (CHR ''V'') 26 v4l2_input),
     (''VIDIOC_G_CTRL'', IOWR (CHR ''V'') 27 v4l2_control),
     (''VIDIOC_S_CTRL'', IOWR (CHR ''V'') 28 v4l2_control),
     (''VIDIOC_G_TUNER'', IOWR (CHR ''V'') 29 v4l2_tuner),
     (''VIDIOC_S_TUNER'', IOW (CHR ''V'') 30 v4l2_tuner),
     (''VIDIOC_G_AUDIO'', IOR (CHR ''V'') 33 v4l2_audio),
     (''VIDIOC_S_AUDIO'', IOW (CHR ''V'') 34 v4l2_audio),
     (''VIDIOC_QUERYCTRL'', IOWR (CHR ''V'') 36 v4l2_queryctrl),
     (''VIDIOC_QUERYMENU'', IOWR (CHR ''V'') 37 v4l2_querymenu),
     (''VIDIOC_G_INPUT'', IOR (CHR ''V'') 38 C_int),
     (''VIDIOC_S_INPUT'', IOWR (CHR ''V'') 39 C_int),
     (''VIDIOC_G_OUTPUT'', IOR (CHR ''V'') 46 C_int),
     (''VIDIOC_S_OUTPUT'', IOWR (CHR ''V'') 47 C_int),
     (''VIDIOC_ENUMOUTPUT'', IOWR (CHR ''V'') 48 v4l2_output),
     (''VIDIOC_G_AUDOUT'', IOR (CHR ''V'') 49 v4l2_audioout),
     (''VIDIOC_S_AUDOUT'', IOW (CHR ''V'') 50 v4l2_audioout),
     (''VIDIOC_G_MODULATOR'', IOWR (CHR ''V'') 54 v4l2_modulator),
     (''VIDIOC_S_MODULATOR'', IOW (CHR ''V'') 55 v4l2_modulator),
     (''VIDIOC_G_FREQUENCY'', IOWR (CHR ''V'') 56 v4l2_frequency),
     (''VIDIOC_S_FREQUENCY'', IOW (CHR ''V'') 57 v4l2_frequency),
     (''VIDIOC_CROPCAP'', IOWR (CHR ''V'') 58 v4l2_cropcap),
     (''VIDIOC_G_CROP'', IOWR (CHR ''V'') 59 v4l2_crop),
     (''VIDIOC_S_CROP'', IOW (CHR ''V'') 60 v4l2_crop),
     (''VIDIOC_G_JPEGCOMP'', IOR (CHR ''V'') 61 v4l2_jpegcompression),
     (''VIDIOC_S_JPEGCOMP'', IOW (CHR ''V'') 62 v4l2_jpegcompression),
     (''VIDIOC_QUERYSTD'', IOR (CHR ''V'') 63 v4l2_std_id),
     (''VIDIOC_TRY_FMT'', IOWR (CHR ''V'') 64 v4l2_format),
     (''VIDIOC_ENUMAUDIO'', IOWR (CHR ''V'') 65 v4l2_audio),
     (''VIDIOC_ENUMAUDOUT'', IOWR (CHR ''V'') 66 v4l2_audioout),
     (''VIDIOC_G_PRIORITY'', IOR (CHR ''V'') 67 v4l2_enum),
     (''VIDIOC_S_PRIORITY'', IOW (CHR ''V'') 68 v4l2_enum),
     (''VIDIOC_G_SLICED_VBI_CAP'', IOWR (CHR ''V'') 69 v4l2_sliced_vbi_cap),
     (''VIDIOC_LOG_STATUS'', IO (CHR ''V'') 70),
     (''VIDIOC_G_EXT_CTRLS'', IOWR (CHR ''V'') 71 v4l2_ext_controls),
     (''VIDIOC_S_EXT_CTRLS'', IOWR (CHR ''V'') 72 v4l2_ext_controls),
     (''VIDIOC_TRY_EXT_CTRLS'', IOWR (CHR ''V'') 73 v4l2_ext_controls),
     (''VIDIOC_ENUM_FRAMESIZES'', IOWR (CHR ''V'') 74 v4l2_frmsizeenum),
     (''VIDIOC_ENUM_FRAMEINTERVALS'', IOWR (CHR ''V'') 75 v4l2_frmivalenum),
     (''VIDIOC_G_ENC_INDEX'', IOR (CHR ''V'') 76 v4l2_enc_idx),
     (''VIDIOC_ENCODER_CMD'', IOWR (CHR ''V'') 77 v4l2_encoder_cmd),
     (''VIDIOC_TRY_ENCODER_CMD'', IOWR (CHR ''V'') 78 v4l2_encoder_cmd),
     (''VIDIOC_DBG_S_REGISTER'', IOW (CHR ''V'') 79 v4l2_dbg_register),
     (''VIDIOC_DBG_G_REGISTER'', IOWR (CHR ''V'') 80 v4l2_dbg_register),
     (''VIDIOC_DBG_G_CHIP_IDENT'', IOWR (CHR ''V'') 81 v4l2_dbg_chip_ident),
     (''VIDIOC_S_HW_FREQ_SEEK'', IOW (CHR ''V'') 82 v4l2_hw_freq_seek),
     (''VIDIOC_ENUM_DV_PRESETS'', IOWR (CHR ''V'') 83 v4l2_dv_enum_preset),
     (''VIDIOC_S_DV_PRESET'', IOWR (CHR ''V'') 84 v4l2_dv_preset),
     (''VIDIOC_G_DV_PRESET'', IOWR (CHR ''V'') 85 v4l2_dv_preset),
     (''VIDIOC_QUERY_DV_PRESET'', IOR (CHR ''V'') 86 v4l2_dv_preset),
     (''VIDIOC_S_DV_TIMINGS'', IOWR (CHR ''V'') 87 v4l2_dv_timings),
     (''VIDIOC_G_DV_TIMINGS'', IOWR (CHR ''V'') 88 v4l2_dv_timings),
     (''VIDIOC_OVERLAY_OLD'', IOWR (CHR ''V'') 14 C_int),
     (''VIDIOC_S_PARM_OLD'', IOW (CHR ''V'') 22 v4l2_streamparm),
     (''VIDIOC_S_CTRL_OLD'', IOW (CHR ''V'') 28 v4l2_control),
     (''VIDIOC_G_AUDIO_OLD'', IOWR (CHR ''V'') 33 v4l2_audio),
     (''VIDIOC_G_AUDOUT_OLD'', IOWR (CHR ''V'') 49 v4l2_audioout),
     (''VIDIOC_CROPCAP_OLD'', IOR (CHR ''V'') 58 v4l2_cropcap)]"

end
