(* ===== verification/V4l2_Props.thy ===== *)
theory V4l2_Props
  imports V4l2
begin

unbundle bit_operations_syntax

text \<open>
  The layouts are sound, the request numbers say what they were built from, and the one request
  the program makes is the one of the kernel.
\<close>

section \<open>Layout\<close>

lemma prim_size_pos: "0 < prim_size t"
  by (cases t) auto

lemma align_pos: "0 < alignof t" "0 < align_fields fs"
  by (induction t and fs rule: alignof_align_fields.induct) (auto simp: prim_size_pos)

lemma align_up:
  assumes "0 < a"
  shows "n \<le> align_up a n" and "a dvd align_up a n" and "align_up a n < n + a"
proof -
  have m: "(n + (a - 1)) div a * a = n + (a - 1) - (n + (a - 1)) mod a"
    by (simp add: minus_mod_eq_div_mult)
  have "(n + (a - 1)) mod a < a" using assms by simp
  then show "n \<le> align_up a n" "align_up a n < n + a" unfolding align_up_def m using assms by linarith+
  show "a dvd align_up a n" by (simp add: align_up_def)
qed

lemma end_of_mono: "off \<le> end_of packed off fs"
proof (induction fs arbitrary: off)
  case (Cons f fs)
  obtain name t where f: "f = (name, t)" by (cases f)
  let ?a = "if packed then 1 else alignof t"
  have "off \<le> align_up ?a off + sizeof t" using align_up(1) [of ?a off] align_pos by (simp add: trans_le_add1)
  also have "\<dots> \<le> end_of packed (align_up ?a off + sizeof t) fs" by (rule Cons.IH)
  finally show ?case by (simp add: f)
qed simp

text \<open>Each field lies behind the earlier ones, aligned unless the structure is packed.\<close>

lemma offsets_sound:
  assumes "(name, p, t) \<in> set (offsets packed off fs)"
  shows "off \<le> p \<and> p + sizeof t \<le> end_of packed off fs \<and> (\<not> packed \<longrightarrow> alignof t dvd p)"
  using assms
proof (induction fs arbitrary: off)
  case (Cons f fs)
  obtain name' t' where f: "f = (name', t')" by (cases f)
  let ?a = "if packed then 1 else alignof t'"
  let ?p = "align_up ?a off"
  have a: "0 < ?a" using align_pos by simp
  have le: "off \<le> ?p" "?p + sizeof t' \<le> end_of packed (?p + sizeof t') fs" using align_up(1) [OF a] end_of_mono by auto
  show ?case
  proof (cases "(name, p, t) = (name', ?p, t')")
    case True
    then show ?thesis using le align_up(2) [OF a, of off] by (auto simp: f)
  next
    case False
    then have "(name, p, t) \<in> set (offsets packed (?p + sizeof t') fs)" using Cons.prems by (auto simp: f Let_def)
    from Cons.IH [OF this] le show ?thesis by (auto simp: f)
  qed
qed simp

lemma offsets_ordered: "sorted_wrt (\<lambda>x y. fst (snd x) + sizeof (snd (snd x)) \<le> fst (snd y)) (offsets packed off fs)"
proof (induction fs arbitrary: off)
  case (Cons f fs)
  obtain name t where f: "f = (name, t)" by (cases f)
  show ?case using Cons.IH offsets_sound by (fastforce simp: f Let_def)
qed simp

text \<open>
  No two fields of a structure overlap, all of them lie inside it, and in one that is not packed
  every field and the size of the whole are aligned.
\<close>

theorem struct_layout:
  "sorted_wrt (\<lambda>x y. fst (snd x) + sizeof (snd (snd x)) \<le> fst (snd y)) (offsets packed 0 fs)
    \<and> list_all (\<lambda>(name, p, t). p + sizeof t \<le> sizeof (Struct packed fs) \<and> (packed \<or> alignof t dvd p)) (offsets packed 0 fs)
    \<and> alignof (Struct packed fs) dvd sizeof (Struct packed fs)"
proof -
  have a: "0 < alignof (Struct packed fs)" by (rule align_pos)
  have "end_of packed 0 fs \<le> sizeof (Struct packed fs)" "alignof (Struct packed fs) dvd sizeof (Struct packed fs)"
    using align_up [OF a] by simp_all
  then show ?thesis
    using offsets_ordered offsets_sound by (fastforce simp: list_all_iff)
qed


section \<open>Request numbers\<close>

lemma c_int32_word [simp]: "word_of_int (c_int32 n) = (word_of_int n :: 32 word)"
  by (simp add: c_int32_def)

lemma c_int32_range: "- (2 ^ 31) \<le> c_int32 n \<and> c_int32 n < 2 ^ 31"
  using sint_range_size [of "word_of_int n :: 32 word"] by (simp add: c_int32_def word_size)

lemma IOC_sint:
  "IOC dir ty nr sz = sint (word_of_int (push_bit 30 dir OR push_bit 8 (ord_of ty) OR nr OR push_bit 16 sz) :: 32 word)"
proof -
  have "sint (word_of_int x :: 32 word) OR sint (word_of_int y :: 32 word) = sint (word_of_int (x OR y) :: 32 word)" for x y
    by (simp add: signed_or_eq [symmetric] word_wi_log_defs)
  then show ?thesis
    by (simp add: IOC_def c_int32_def IOC_DIRSHIFT_def IOC_TYPESHIFT_def IOC_NRSHIFT_def IOC_SIZESHIFT_def or.assoc)
qed

lemma bit_below: "0 \<le> x \<Longrightarrow> x < 2 ^ n \<Longrightarrow> bit x m \<Longrightarrow> m < n" for x :: int
  by (metis bit_take_bit_iff take_bit_int_eq_self)

lemma ord_range: "0 \<le> ord_of ch" "ord_of ch < 2 ^ 8"
proof -
  have "ord_of ch = int (of_char ch)" by (simp add: ord_of_def of_nat_of_char)
  moreover have "(of_char ch :: nat) < 256" by simp
  ultimately show "0 \<le> ord_of ch" "ord_of ch < 2 ^ 8" by simp_all
qed

text \<open>
  A request number can be read back. For a direction of two bits, a type character, a number
  of eight bits and a size of fourteen, the 32-bit word that reaches \<open>ioctl\<close> holds exactly these
  four at the positions the kernel reads them from, although Python computes with a signed number.
\<close>

theorem ioc_roundtrip:
  assumes "0 \<le> dir" "dir < 4" "0 \<le> nr" "nr < 256" "0 \<le> sz" "sz < 16384"
  shows "let w = (word_of_int (IOC dir ty nr sz) :: 32 word) in
      uint (drop_bit 30 w) = dir \<and> uint (take_bit 14 (drop_bit 16 w)) = sz
      \<and> uint (take_bit 8 (drop_bit 8 w)) = ord_of ty \<and> uint (take_bit 8 w) = nr
      \<and> - (2 ^ 31) \<le> IOC dir ty nr sz \<and> IOC dir ty nr sz < 2 ^ 31"
proof -
  let ?n = "push_bit 30 dir OR push_bit 8 (ord_of ty) OR nr OR push_bit 16 sz"
  let ?w = "word_of_int ?n :: 32 word"
  have w: "word_of_int (IOC dir ty nr sz) = ?w" by (simp add: IOC_sint)
  have d: "bit dir m \<Longrightarrow> m < 2" for m using bit_below [of dir 2] assms by simp
  have t: "bit (ord_of ty) m \<Longrightarrow> m < 8" for m using bit_below [of "ord_of ty" 8] ord_range by blast
  have r: "bit nr m \<Longrightarrow> m < 8" for m using bit_below [of nr 8] assms by simp
  have s: "bit sz m \<Longrightarrow> m < 14" for m using bit_below [of sz 14] assms by simp
  have 1: "uint (drop_bit 30 ?w) = dir"
    by (rule bit_eqI) (use d t r s in \<open>fastforce simp: bit_simps\<close>)
  have 2: "uint (take_bit 14 (drop_bit 16 ?w)) = sz"
    by (rule bit_eqI) (use d t r s in \<open>fastforce simp: bit_simps\<close>)
  have 3: "uint (take_bit 8 (drop_bit 8 ?w)) = ord_of ty"
    by (rule bit_eqI) (use d t r s in \<open>fastforce simp: bit_simps\<close>)
  have 4: "uint (take_bit 8 ?w) = nr"
    by (rule bit_eqI) (use d t r s in \<open>fastforce simp: bit_simps\<close>)
  have 5: "- (2 ^ 31) \<le> IOC dir ty nr sz \<and> IOC dir ty nr sz < 2 ^ 31"
    using sint_range_size [of ?w] by (simp add: IOC_sint word_size)
  from 1 2 3 4 5 show ?thesis by (simp add: w Let_def)
qed

theorem ioc_roundtrip_witness:
  "uint (take_bit 14 (drop_bit 16 (word_of_int (IOC 3 (CHR ''V'') 4 208) :: 32 word))) = 208"
  using ioc_roundtrip [of 3 4 208 "CHR ''V''"] by (simp add: Let_def)

text \<open>
  The requests have different names and different numbers, all of the type of the video API.
\<close>

theorem requests_distinct:
  "distinct (map fst requests) \<and> distinct (map snd requests)
    \<and> list_all (\<lambda>(name, n). take_bit 8 (drop_bit 8 (word_of_int n :: 32 word)) = 86) requests"
proof (intro conjI)
  show "distinct (map fst requests)" by code_simp
  show "distinct (map snd requests)" by code_simp
  show "list_all (\<lambda>(name, n). take_bit 8 (drop_bit 8 (word_of_int n :: 32 word)) = 86) requests" by code_simp
qed


section \<open>The request the program makes\<close>

text \<open>The offset and the type of a field of a field.\<close>

fun locate :: "ctype \<Rightarrow> string list \<Rightarrow> (nat \<times> ctype) option" where
  "locate t [] = Some (0, t)"
| "locate t (name # rest) = (case field_at t name of
     None \<Rightarrow> None
   | Some (off, u) \<Rightarrow> map_option (\<lambda>(p, v). (off + p, v)) (locate u rest))"

text \<open>
  The format request of \<open>pyv4l2_reader\<close> is the one of the kernel. \<open>VIDIOC_G_FMT\<close> is the word
  \<open>0xC0D05604\<close>, for a structure of 208 bytes, in which the width and the height the reader takes
  stand at the offsets 8 and 12, behind the type and four bytes of padding.
\<close>

theorem get_format_abi:
  "map_of requests ''VIDIOC_G_FMT'' = Some (sint (0xC0D05604 :: 32 word)) \<and> sizeof v4l2_format = 208
    \<and> locate v4l2_format [''type''] = Some (0, C_uint)
    \<and> locate v4l2_format [''fmt'', ''pix'', ''width''] = Some (8, C_uint32)
    \<and> locate v4l2_format [''fmt'', ''pix'', ''height''] = Some (12, C_uint32)"
proof (intro conjI)
  show "map_of requests ''VIDIOC_G_FMT'' = Some (sint (0xC0D05604 :: 32 word))" by code_simp
  show "sizeof v4l2_format = 208" by code_simp
  show "locate v4l2_format [''type''] = Some (0, C_uint)" by code_simp
  show "locate v4l2_format [''fmt'', ''pix'', ''width''] = Some (8, C_uint32)" by code_simp
  show "locate v4l2_format [''fmt'', ''pix'', ''height''] = Some (12, C_uint32)" by code_simp
qed

text \<open>
  The stepwise frame size has no \<open>max_width\<close>: the field at its place, offset 4, is called
  \<open>min_height\<close> too, and hidden behind the real minimal height at offset 12.
\<close>

theorem stepwise_names:
  "locate v4l2_frmsize_stepwise [''max_width''] = None
    \<and> locate v4l2_frmsize_stepwise [''min_height''] = Some (12, C_uint32) \<and> sizeof v4l2_frmsize_stepwise = 24"
  by code_simp


section \<open>Codes and fields\<close>

text \<open>
  The number \<open>force_mjpeg\<close> sets is the code of MJPEG, and no two pixel formats share a code.
\<close>

theorem mjpeg_code:
  "v4l2_fourcc (CHR ''M'') (CHR ''J'') (CHR ''P'') (CHR ''G'') = MJPEG
    \<and> map_of pixel_formats ''V4L2_PIX_FMT_MJPEG'' = Some MJPEG \<and> distinct (map snd pixel_formats)"
proof (intro conjI)
  show "v4l2_fourcc (CHR ''M'') (CHR ''J'') (CHR ''P'') (CHR ''G'') = MJPEG" by code_simp
  show "map_of pixel_formats ''V4L2_PIX_FMT_MJPEG'' = Some MJPEG" by code_simp
  show "distinct (map snd pixel_formats)" by code_simp
qed

text \<open>A code can be read back: its bytes are the four characters.\<close>

theorem fourcc_roundtrip:
  "take_bit 8 (v4l2_fourcc a b c d) = ord_of a \<and> take_bit 8 (drop_bit 8 (v4l2_fourcc a b c d)) = ord_of b
    \<and> take_bit 8 (drop_bit 16 (v4l2_fourcc a b c d)) = ord_of c \<and> drop_bit 24 (v4l2_fourcc a b c d) = ord_of d"
proof -
  have t: "bit (ord_of x) m \<Longrightarrow> m < 8" for x m using bit_below [of "ord_of x" 8] ord_range by blast
  have 1: "take_bit 8 (v4l2_fourcc a b c d) = ord_of a"
    by (rule bit_eqI) (use t in \<open>fastforce simp: v4l2_fourcc_def bit_simps\<close>)
  have 2: "take_bit 8 (drop_bit 8 (v4l2_fourcc a b c d)) = ord_of b"
    by (rule bit_eqI) (use t in \<open>fastforce simp: v4l2_fourcc_def bit_simps\<close>)
  have 3: "take_bit 8 (drop_bit 16 (v4l2_fourcc a b c d)) = ord_of c"
    by (rule bit_eqI) (use t in \<open>fastforce simp: v4l2_fourcc_def bit_simps\<close>)
  have 4: "drop_bit 24 (v4l2_fourcc a b c d) = ord_of d"
    by (rule bit_eqI) (use t in \<open>fastforce simp: v4l2_fourcc_def bit_simps\<close>)
  from 1 2 3 4 show ?thesis by simp
qed

theorem both_fields: "V4L2_FIELD_HAS_BOTH f \<longleftrightarrow> V4L2_FIELD_HAS_TOP f \<and> V4L2_FIELD_HAS_BOTTOM f"
  by (cases f) (simp_all add: V4L2_FIELD_HAS_BOTH_def V4L2_FIELD_HAS_TOP_def V4L2_FIELD_HAS_BOTTOM_def)

end
