(* ===== verification/Daemon.thy ===== *)
theory Daemon
  imports Authd Recorders
begin

text \<open>
  \<open>authd/main.py\<close>: the life of the daemon around its connections. It warms the detector up,
  prepares the socket, accepts clients until a signal stops it, waits for the handlers that still
  run, and takes the socket away again.
\<close>

definition SHUTDOWN_GRACE_MS :: nat where "SHUTDOWN_GRACE_MS = 2000"
definition SOCKET_MODE :: nat where "SOCKET_MODE = 438"


section \<open>The accept loop\<close>

text \<open>
  What happens while the loop waits in \<open>accept\<close>: a signal handler sets the event, a client's
  thread ends, or \<open>accept\<close> returns: with its timeout, with an \<open>OSError\<close>, or with connection
  \<open>k\<close>, for which a thread can be started or not.
\<close>

datatype accept_event =
    Stop_signal
  | Client_ends nat
  | Accept_timeout
  | Accept_error
  | Accepted nat bool

text \<open>\<open>sv_known\<close> is the local variable \<open>workers\<close>; the threads that really run are in \<open>sv_server\<close>.\<close>

record serving =
  sv_server :: server
  sv_known :: "nat set"
  sv_stop :: bool

definition start_serving :: "bool \<Rightarrow> serving" where
  "start_serving stop = \<lparr>sv_server = init_server, sv_known = {}, sv_stop = stop\<rparr>"

text \<open>A new connection: no slot closes it, no thread ends the loop with a \<open>RuntimeError\<close>.\<close>

definition take_client :: "nat \<Rightarrow> bool \<Rightarrow> serving \<Rightarrow> serving \<times> (exn + unit)" where
  "take_client k startable s =
     (let srv = sv_server s in
      if slots srv = 0 then (s\<lparr>sv_server := accept_client k srv\<rparr>, Inr ())
      else if \<not> startable then (s\<lparr>sv_server := srv\<lparr>slots := slots srv - 1\<rparr>\<rparr>, Inl RuntimeError)
      else
        let srv = accept_client k srv;
            known = sv_known s \<inter> workers srv
        in (s\<lparr>sv_server := srv, sv_known := insert k known\<rparr>, Inr ()))"

text \<open>
  The loop, from inside \<open>accept\<close>; \<open>None\<close> while it has not ended. The event is looked at
  only after \<open>accept\<close> has returned. An exception of \<open>BoundedSemaphore.release\<close> would end the
  client's thread, not the loop.
\<close>

fun serve_loop :: "accept_event list \<Rightarrow> serving \<Rightarrow> serving \<times> (exn + unit) option" where
  "serve_loop [] s = (s, None)"
| "serve_loop (Stop_signal # es) s = serve_loop es (s\<lparr>sv_stop := True\<rparr>)"
| "serve_loop (Client_ends k # es) s =
     (if k \<in> workers (sv_server s) then
        serve_loop es (case worker_ends k (sv_server s) of
            Inl _ \<Rightarrow> s\<lparr>sv_server := (sv_server s)\<lparr>workers := workers (sv_server s) - {k}\<rparr>\<rparr>
          | Inr srv \<Rightarrow> s\<lparr>sv_server := srv\<rparr>)
      else serve_loop es s)"
| "serve_loop (Accept_timeout # es) s = (if sv_stop s then (s, Some (Inr ())) else serve_loop es s)"
| "serve_loop (Accept_error # es) s = (s, Some (Inr ()))"
| "serve_loop (Accepted k startable # es) s = (case take_client k startable s of
      (s, Inl e) \<Rightarrow> (s, Some (Inl e))
    | (s, Inr _) \<Rightarrow> if sv_stop s then (s, Some (Inr ())) else serve_loop es s)"

text \<open>
  \<open>worker.join(timeout)\<close> and the loop over the workers. \<open>ends w\<close> is the time at which a client's
  thread ends, \<open>None\<close> for one that hangs.
\<close>

definition joined :: "nat option \<Rightarrow> nat \<Rightarrow> nat \<Rightarrow> nat" where
  "joined ending timeout now = (case ending of
      None \<Rightarrow> now + timeout
    | Some t \<Rightarrow> max now (min t (now + timeout)))"

fun join_workers :: "(nat \<Rightarrow> nat option) \<Rightarrow> nat list \<Rightarrow> nat \<Rightarrow> nat \<Rightarrow> nat" where
  "join_workers ends [] grace_end now = now"
| "join_workers ends (w # ws) grace_end now =
     join_workers ends ws grace_end (joined (ends w) (grace_end - now) now)"

text \<open>
  What the daemon meets: the events, the time at which the loop ends, when the clients' threads
  end, and the order in which Python walks through the set of workers.
\<close>

record serve_world =
  sw_events :: "accept_event list"
  sw_now :: nat
  sw_ends :: "nat \<Rightarrow> nat option"
  sw_order :: "nat set \<Rightarrow> nat list"

text \<open>\<open>serve\<close>, with the time at which it returns or raises.\<close>

definition serve :: "serve_world \<Rightarrow> bool \<Rightarrow> serving \<times> (nat \<times> (exn + unit)) option" where
  "serve w stop =
     (let s = start_serving stop in
      case (if sv_stop s then (s, Some (Inr ())) else serve_loop (sw_events w) s) of
        (s, None) \<Rightarrow> (s, None)
      | (s, Some r) \<Rightarrow>
          (s, Some (join_workers (sw_ends w) (sw_order w (sv_known s)) (sw_now w + SHUTDOWN_GRACE_MS) (sw_now w), r)))"


section \<open>The socket\<close>

datatype socket_call =
  MakeDirs | UnlinkOld | OpenSocket | Bind | Chmod | Listen | CloseSocket | UnlinkOwn

text \<open>
  The mode of the file at \<open>SOCKET_PATH\<close>, whether the daemon's socket is open and listens.
  \<open>pe_fails\<close> says which call the operating system refuses, \<open>pe_bind_mode\<close> which mode a bound
  socket gets under the umask.
\<close>

record daemon_state =
  ds_path :: "nat option"
  ds_open :: bool
  ds_listening :: bool

record socket_env =
  pe_fails :: "socket_call \<Rightarrow> exn option"
  pe_bind_mode :: nat

type_synonym daemon_step = "daemon_state \<Rightarrow> daemon_state \<times> (exn + unit)"

definition socket_step :: "socket_env \<Rightarrow> socket_call \<Rightarrow> (daemon_state \<Rightarrow> daemon_state) \<Rightarrow> daemon_step" where
  "socket_step env call f s = (case pe_fails env call of Some e \<Rightarrow> (s, Inl e) | None \<Rightarrow> (f s, Inr ()))"

text \<open>\<open>os.unlink\<close> in a handler that lets a missing file pass.\<close>

definition unlink_socket :: "socket_env \<Rightarrow> socket_call \<Rightarrow> daemon_step" where
  "unlink_socket env call s =
     (case (if pe_fails env call = None \<and> ds_path s = None then (s, Inl FileNotFoundError)
            else socket_step env call (\<lambda>s. s\<lparr>ds_path := None\<rparr>) s) of
        (s, Inl FileNotFoundError) \<Rightarrow> (s, Inr ())
      | r \<Rightarrow> r)"

text \<open>\<open>bind\<close> makes the file; an address in use is an \<open>OSError\<close>.\<close>

definition bind_socket :: "socket_env \<Rightarrow> daemon_step" where
  "bind_socket env s =
     (if ds_path s \<noteq> None \<and> pe_fails env Bind = None then (s, Inl OSError)
      else socket_step env Bind (\<lambda>s. s\<lparr>ds_path := Some (pe_bind_mode env)\<rparr>) s)"

definition prepare_socket :: "socket_env \<Rightarrow> daemon_step" where
  "prepare_socket env s =
     thenS (socket_step env MakeDirs (\<lambda>s. s) s) (\<lambda>s _.
     thenS (unlink_socket env UnlinkOld s) (\<lambda>s _.
     thenS (socket_step env OpenSocket (\<lambda>s. s\<lparr>ds_open := True\<rparr>) s) (\<lambda>s _.
     thenS (bind_socket env s) (\<lambda>s _.
     thenS (socket_step env Chmod (\<lambda>s. s\<lparr>ds_path := Some SOCKET_MODE\<rparr>) s) (\<lambda>s _.
       socket_step env Listen (\<lambda>s. s\<lparr>ds_listening := True\<rparr>) s)))))"


section \<open>The whole run\<close>

text \<open>
  \<open>_warm_detector\<close>: the detector of the configuration lands in the cache, or a warning is
  logged.
\<close>

definition warm_detector :: "loaders \<Rightarrow> exn + config \<Rightarrow> pipeline_cache \<Rightarrow> pipeline_cache \<times> (exn + bool)" where
  "warm_detector ld read_config cache =
     (case thenS (cache, read_config) (\<lambda>cache c. create_pipeline ld c cache) of
        (cache, Inr _) \<Rightarrow> (cache, Inr True)
      | (cache, Inl e) \<Rightarrow> (cache, if is_exception e then Inr False else Inl e))"

text \<open>\<open>try: ... finally: ...\<close>: an exception of the last part replaces the outcome of the first.\<close>

definition finallyS :: "'s \<times> (exn + 'a) \<Rightarrow> ('s \<Rightarrow> 's \<times> (exn + unit)) \<Rightarrow> 's \<times> (exn + 'a)" where
  "finallyS m f = (case m of (s, r) \<Rightarrow> (case f s of (s', Inl e) \<Rightarrow> (s', Inl e) | (s', Inr _) \<Rightarrow> (s', r)))"

definition close_socket :: "socket_env \<Rightarrow> daemon_step" where
  "close_socket env s =
     finallyS (socket_step env CloseSocket (\<lambda>s. s\<lparr>ds_open := False, ds_listening := False\<rparr>) s)
       (unlink_socket env UnlinkOwn)"

record daemon_world =
  dw_loaders :: loaders
  dw_config :: "exn + config"
  dw_socket :: socket_env
  dw_stop_early :: bool
  dw_serve :: serve_world

text \<open>
  \<open>main\<close>: \<open>None\<close> while it serves; \<open>dw_stop_early\<close> is a signal that comes before the loop.
\<close>

definition daemon_main :: "daemon_world \<Rightarrow> pipeline_cache \<Rightarrow> daemon_state \<Rightarrow> daemon_state \<times> (exn + int) option" where
  "daemon_main w cache s =
     (case snd (warm_detector (dw_loaders w) (dw_config w) cache) of
        Inl e \<Rightarrow> (s, Some (Inl e))
      | Inr _ \<Rightarrow>
          (case prepare_socket (dw_socket w) s of
             (s, Inl e) \<Rightarrow> (s, Some (Inl e))
           | (s, Inr _) \<Rightarrow>
               (case snd (serve (dw_serve w) (dw_stop_early w)) of
                  None \<Rightarrow> (s, None)
                | Some (_, r) \<Rightarrow>
                    (case finallyS (s, r) (close_socket (dw_socket w)) of
                       (s, Inl e) \<Rightarrow> (s, Some (Inl e))
                     | (s, Inr _) \<Rightarrow> (s, Some (Inr 0))))))"

end
