(* ===== verification/Daemon_Props.thy ===== *)
theory Daemon_Props
  imports Daemon Authd_Props
begin

text \<open>
  The accept loop keeps to the steps of \<open>Authd\<close>, the wait at shutdown is bounded and long enough,
  and the daemon leaves no socket behind.
\<close>

section \<open>The loop and its slots\<close>

text \<open>The connections of a schedule; each is numbered once.\<close>

fun accepted_ids :: "accept_event list \<Rightarrow> nat list" where
  "accepted_ids [] = []"
| "accepted_ids (Accepted k b # es) = k # accepted_ids es"
| "accepted_ids (_ # es) = accepted_ids es"

definition serving_inv :: "serving \<Rightarrow> bool" where
  "serving_inv s \<longleftrightarrow> srv_inv (sv_server s) \<and> accepting (sv_server s) \<and> workers (sv_server s) \<subseteq> sv_known s"

lemma start_serving_inv: "serving_inv (start_serving stop)"
  using srv.inv_init by (simp add: serving_inv_def start_serving_def) (simp add: init_server_def)

lemma take_client_step:
  assumes "serving_inv s" "k \<notin> workers (sv_server s)" "take_client k b s = (s', Inr ())"
  shows "serving_inv s' \<and> srv_step (sv_server s) (sv_server s') \<and> workers (sv_server s') \<subseteq> insert k (workers (sv_server s))"
proof -
  have a: "accepting (sv_server s)" using assms(1) by (simp add: serving_inv_def)
  have srv: "sv_server s' = accept_client k (sv_server s)"
    using assms(3) by (auto simp: take_client_def Let_def split: if_splits)
  have st: "srv_step (sv_server s) (sv_server s')" unfolding srv by (rule srv_accept) (use a assms(2) in auto)
  have "srv_inv (sv_server s')" using srv.inv_step [OF _ st] assms(1) by (simp add: serving_inv_def)
  moreover have "accepting (sv_server s')" using a by (simp add: srv accept_client_def)
  moreover have "workers (sv_server s') \<subseteq> sv_known s'"
    using assms(1,3) by (auto simp: serving_inv_def take_client_def Let_def accept_client_def split: if_splits)
  ultimately show ?thesis using st by (auto simp: serving_inv_def srv accept_client_def)
qed

lemma client_ends_step:
  assumes "serving_inv s" "k \<in> workers (sv_server s)"
  obtains srv where "worker_ends k (sv_server s) = Inr srv" "serving_inv (s\<lparr>sv_server := srv\<rparr>)"
    "srv_step (sv_server s) srv" "workers srv = workers (sv_server s) - {k}"
proof -
  let ?s = "sv_server s"
  let ?t = "?s\<lparr>workers := workers ?s - {k}, slots := slots ?s + 1\<rparr>"
  have e: "worker_ends k ?s = Inr ?t"
    using worker_ends_inv [of ?s k] assms by (auto simp: serving_inv_def)
  have st: "srv_step ?s ?t" by (rule srv_end [OF assms(2) e])
  have "srv_inv ?t" using srv.inv_step [OF _ st] assms(1) by (simp add: serving_inv_def)
  then have "serving_inv (s\<lparr>sv_server := ?t\<rparr>)" using assms(1) by (auto simp: serving_inv_def)
  with e st show ?thesis using that [of ?t] by simp
qed

lemma serve_loop_inv:
  assumes "serve_loop es s = (s', r)" "serving_inv s" "distinct (accepted_ids es)"
    "set (accepted_ids es) \<inter> workers (sv_server s) = {}" "\<forall>e. r \<noteq> Some (Inl e)"
  shows "serving_inv s' \<and> rtranclp srv_step (sv_server s) (sv_server s')"
  using assms
proof (induction es s rule: serve_loop.induct)
  case (2 es s)
  then show ?case by (simp add: serving_inv_def)
next
  case (3 k es s)
  show ?case
  proof (cases "k \<in> workers (sv_server s)")
    case True
    obtain srv where srv: "worker_ends k (sv_server s) = Inr srv" "serving_inv (s\<lparr>sv_server := srv\<rparr>)"
      "srv_step (sv_server s) srv" "workers srv = workers (sv_server s) - {k}"
      using client_ends_step [OF 3(4) True] .
    from 3(1) [OF True] 3(3,5-) srv True have "serving_inv s' \<and> rtranclp srv_step srv (sv_server s')" by auto
    with srv(3) show ?thesis by (meson converse_rtranclp_into_rtranclp)
  qed (use 3 in simp)
next
  case (6 k b es s)
  obtain s1 o1 where t: "take_client k b s = (s1, o1)" by fastforce
  show ?case
  proof (cases o1)
    case (Inl e)
    then have "r = Some (Inl e)" using 6(2) t by auto
    with 6(6) show ?thesis by blast
  next
    case (Inr u)
    have k: "k \<notin> workers (sv_server s)" using 6(5) by simp
    from take_client_step [OF 6(3) k] t Inr
    have step: "serving_inv s1" "srv_step (sv_server s) (sv_server s1)"
      "workers (sv_server s1) \<subseteq> insert k (workers (sv_server s))" by auto
    show ?thesis
    proof (cases "sv_stop s1")
      case True
      then show ?thesis using 6(2) t Inr step by auto
    next
      case False
      have "set (accepted_ids es) \<inter> workers (sv_server s1) = {}" using 6(4,5) step(3) by auto
      moreover have "serve_loop es s1 = (s', r)" "distinct (accepted_ids es)" using 6(2,4) t Inr False by auto
      ultimately have "serving_inv s' \<and> rtranclp srv_step (sv_server s1) (sv_server s')"
        using 6(1) [OF t [symmetric] Inr False _ step(1)] 6(6) by blast
      with step(2) show ?thesis by (meson converse_rtranclp_into_rtranclp)
    qed
  qed
qed (auto split: if_splits)

text \<open>
  C22: at most eight clients are served at once. However connections arrive, threads end and the
  timeouts of \<open>accept\<close> fall, as long as threads can be started: the semaphore counts exactly the
  threads that are missing from eight, each of which is known for the wait at shutdown; a
  connection beyond the eighth is closed and changes nothing else; and a thread that ends always
  gives its slot back, for the release of the bounded semaphore never raises.
\<close>

theorem serve_bounded:
  assumes "serve_loop es (start_serving False) = (s, r)" and "distinct (accepted_ids es)" and "\<forall>e. r \<noteq> Some (Inl e)"
  shows "finite (workers (sv_server s)) \<and> slots (sv_server s) + card (workers (sv_server s)) = 8
    \<and> workers (sv_server s) \<subseteq> sv_known s
    \<and> (card (workers (sv_server s)) = 8 \<longrightarrow> take_client k b s =
        (s\<lparr>sv_server := (sv_server s)\<lparr>rejected := rejected (sv_server s) @ [k]\<rparr>\<rparr>, Inr ()))
    \<and> (k \<in> workers (sv_server s) \<longrightarrow> (\<exists>srv. worker_ends k (sv_server s) = Inr srv))"
proof -
  have "serving_inv s"
    using serve_loop_inv [OF assms(1) start_serving_inv assms(2) _ assms(3)] by (simp add: start_serving_def init_server_def)
  then show ?thesis using worker_ends_inv [of "sv_server s" k]
    by (auto simp: serving_inv_def srv_inv_def MAX_CLIENTS_def take_client_def accept_client_def Let_def)
qed

theorem serve_bounded_witness:
  "slots (sv_server (fst (serve_loop [Accepted 1 True, Accepted 2 True, Client_ends 1, Accept_timeout] (start_serving False))))
    + card (workers (sv_server (fst (serve_loop [Accepted 1 True, Accepted 2 True, Client_ends 1, Accept_timeout]
        (start_serving False))))) = 8"
proof -
  let ?es = "[Accepted 1 True, Accepted 2 True, Client_ends 1, Accept_timeout]"
  obtain s r where s: "serve_loop ?es (start_serving False) = (s, r)" by fastforce
  have "snd (serve_loop ?es (start_serving False)) = None" by code_simp
  with s serve_bounded [OF s, of 1 True] show ?thesis by simp
qed


section \<open>The wait at shutdown\<close>

lemma joined_bounds:
  "now \<le> joined e (g - now) now \<and> joined e (g - now) now \<le> max now g
    \<and> ((\<exists>t. e = Some t \<and> t \<le> joined e (g - now) now) \<or> g \<le> joined e (g - now) now)"
  by (cases e) (auto simp: joined_def max_def min_def)

lemma join_workers_bounds:
  "now \<le> join_workers ends ws g now \<and> join_workers ends ws g now \<le> max now g
    \<and> (\<forall>w\<in>set ws. (\<exists>t. ends w = Some t \<and> t \<le> join_workers ends ws g now) \<or> g \<le> join_workers ends ws g now)"
proof (induction ws arbitrary: now)
  case (Cons w ws)
  let ?n = "joined (ends w) (g - now) now"
  let ?r = "join_workers ends ws g ?n"
  have j: "now \<le> ?n" "?n \<le> max now g" "(\<exists>t. ends w = Some t \<and> t \<le> ?n) \<or> g \<le> ?n"
    using joined_bounds [of now "ends w" g] by blast+
  have i: "?n \<le> ?r" "?r \<le> max ?n g" "\<forall>v\<in>set ws. (\<exists>t. ends v = Some t \<and> t \<le> ?r) \<or> g \<le> ?r"
    using Cons.IH [of ?n] by blast+
  have "now \<le> ?r" "?r \<le> max now g" using j(1,2) i(1,2) by linarith+
  moreover have "(\<exists>t. ends w = Some t \<and> t \<le> ?r) \<or> g \<le> ?r" using j(3) i(1) le_trans by blast
  ultimately show ?case using i(3) by (cases "g \<le> ?r") auto
qed simp

lemma serve_loop_known:
  "serve_loop es s = (s', r) \<Longrightarrow> workers (sv_server s) \<subseteq> sv_known s \<Longrightarrow> workers (sv_server s') \<subseteq> sv_known s'"
proof (induction es s rule: serve_loop.induct)
  case (3 k es s)
  have "workers srv = workers (sv_server s) - {k}" if "worker_ends k (sv_server s) = Inr srv" for srv
    using that by (auto simp: worker_ends_def release_slot_def split: if_splits)
  then have sub: "workers (sv_server (case worker_ends k (sv_server s) of
        Inl _ \<Rightarrow> s\<lparr>sv_server := (sv_server s)\<lparr>workers := workers (sv_server s) - {k}\<rparr>\<rparr>
      | Inr srv \<Rightarrow> s\<lparr>sv_server := srv\<rparr>)) \<subseteq> sv_known (case worker_ends k (sv_server s) of
        Inl _ \<Rightarrow> s\<lparr>sv_server := (sv_server s)\<lparr>workers := workers (sv_server s) - {k}\<rparr>\<rparr>
      | Inr srv \<Rightarrow> s\<lparr>sv_server := srv\<rparr>)"
    using 3(4) by (cases "worker_ends k (sv_server s)") auto
  show ?case
  proof (cases "k \<in> workers (sv_server s)")
    case True
    from 3(3) True show ?thesis by (intro 3(1) [OF True _ sub]) simp
  qed (use 3 in simp)
next
  case (6 k b es s)
  have "workers (sv_server s1) \<subseteq> sv_known s1" if "take_client k b s = (s1, x)" for s1 x
    using that 6(3) by (auto simp: take_client_def accept_client_def Let_def split: if_splits)
  with 6 show ?case by (fastforce split: prod.splits sum.splits if_splits)
qed (auto split: if_splits)

text \<open>
  C23: the daemon waits for its clients, but not forever. When the loop has ended, \<open>serve\<close> returns
  or raises within the two seconds of grace, in whatever order the set of threads is walked
  through; and it does so earlier only when every thread that was still running has ended.
\<close>

theorem shutdown_waits:
  assumes "serve w stop = (s, Some (t, r))" and "set (sw_order w (sv_known s)) = sv_known s"
  shows "sw_now w \<le> t \<and> t \<le> sw_now w + 2000
    \<and> (t < sw_now w + 2000 \<longrightarrow> (\<forall>k\<in>workers (sv_server s). \<exists>e. sw_ends w k = Some e \<and> e \<le> t))"
proof -
  have k: "workers (sv_server s) \<subseteq> sv_known s"
    using assms(1) serve_loop_known [of "sw_events w" "start_serving stop" s "Some r"]
    by (auto simp: serve_def Let_def start_serving_def init_server_def split: prod.splits option.splits if_splits)
  have t: "t = join_workers (sw_ends w) (sw_order w (sv_known s)) (sw_now w + 2000) (sw_now w)"
    using assms(1) by (auto simp: serve_def Let_def SHUTDOWN_GRACE_MS_def split: prod.splits option.splits)
  show ?thesis
    using join_workers_bounds [where now = "sw_now w" and ends = "sw_ends w" and ws = "sw_order w (sv_known s)"
        and g = "sw_now w + 2000"] assms(2) k
    unfolding t by fastforce
qed

text \<open>Two clients when the signal comes: one ends after half a second, the other hangs.\<close>

definition stopping_sample :: serve_world where
  "stopping_sample = \<lparr>sw_events = [Accepted 1 True, Accepted 2 True, Stop_signal, Accept_timeout], sw_now = 9000,
     sw_ends = (\<lambda>k. if k = 1 then Some 9500 else None), sw_order = (\<lambda>A. filter (\<lambda>k. k \<in> A) [2, 1])\<rparr>"

lemma stopping_sample_known: "sv_known (fst (serve stopping_sample False)) = {1, 2}"
  by code_simp

theorem shutdown_waits_witness:
  "\<exists>t. map_option fst (snd (serve stopping_sample False)) = Some t \<and> t \<le> 11000"
proof -
  obtain s x where s: "serve stopping_sample False = (s, x)" by fastforce
  have "map_option fst (snd (serve stopping_sample False)) = Some 11000" by code_simp
  then obtain t r where x: "x = Some (t, r)" using s by auto
  have "set (sw_order stopping_sample (sv_known s)) = sv_known s"
    using stopping_sample_known s by (auto simp: stopping_sample_def)
  from shutdown_waits [OF s [unfolded x] this] s x show ?thesis by (auto simp: stopping_sample_def)
qed


section \<open>The socket\<close>

lemma finallyS_iff: "finallyS m f = (s', x) \<longleftrightarrow>
    (\<exists>e. f (fst m) = (s', Inl e) \<and> x = Inl e) \<or> (\<exists>u. f (fst m) = (s', Inr u) \<and> x = snd m)"
  by (auto simp: finallyS_def split: prod.splits sum.splits)

text \<open>A socket that is prepared can be reached by everyone, whatever lay at its path before.\<close>

lemma socket_prepared:
  assumes "prepare_socket env s = (s', Inr ())"
  shows "ds_path s' = Some SOCKET_MODE \<and> ds_open s' \<and> ds_listening s'"
  using assms by (auto simp: prepare_socket_def socket_step_def bind_socket_def flow_simps split: option.splits if_splits)

text \<open>An old file at the path never keeps the daemon from starting.\<close>

lemma prepare_total:
  assumes "\<And>call. pe_fails env call = None"
  shows "snd (prepare_socket env s) = Inr ()"
  using assms by (auto simp: prepare_socket_def socket_step_def bind_socket_def unlink_socket_def)

lemma unlinked:
  assumes "pe_fails env call = None"
  shows "unlink_socket env call s = (s\<lparr>ds_path := None\<rparr>, Inr ())"
  using assms by (cases s; cases "ds_path s") (auto simp: unlink_socket_def socket_step_def)

text \<open>
  C24: the daemon takes its socket away. While it serves, the socket listens and everyone may
  connect; once it has been prepared, every end of the loop, also one by an exception, closes the
  socket as far as the system allows and removes the file. The exit status is 0 exactly when
  neither the loop nor the closing raised; a failing \<open>close\<close> does not keep the file from going.
\<close>

theorem daemon_cleans_up:
  assumes "snd (warm_detector (dw_loaders w) (dw_config w) cache) = Inr b"
    and "snd (prepare_socket (dw_socket w) s) = Inr ()" and "pe_fails (dw_socket w) UnlinkOwn = None"
    and "daemon_main w cache s = (s', r)"
  shows "case r of
      None \<Rightarrow> ds_path s' = Some SOCKET_MODE \<and> ds_open s' \<and> ds_listening s'
    | Some x \<Rightarrow> ds_path s' = None \<and> ds_open s' = (pe_fails (dw_socket w) CloseSocket \<noteq> None)
        \<and> x = (case pe_fails (dw_socket w) CloseSocket of
              Some e \<Rightarrow> Inl e
            | None \<Rightarrow> (case snd (serve (dw_serve w) (dw_stop_early w)) of
                Some (t, Inl e) \<Rightarrow> Inl e | _ \<Rightarrow> Inr 0))"
proof -
  obtain s1 where p: "prepare_socket (dw_socket w) s = (s1, Inr ())"
    using assms(2) by (cases "prepare_socket (dw_socket w) s") auto
  from socket_prepared [OF p] have s1: "ds_path s1 = Some SOCKET_MODE" "ds_open s1" "ds_listening s1" by auto
  show ?thesis
  proof (cases "snd (serve (dw_serve w) (dw_stop_early w))")
    case None
    then show ?thesis using assms(1,4) p s1 by (auto simp: daemon_main_def)
  next
    case (Some tr)
    obtain t x where tr: "tr = (t, x)" by fastforce
    have "unlink_socket (dw_socket w) UnlinkOwn u = (u\<lparr>ds_path := None\<rparr>, Inr ())" for u by (rule unlinked) (rule assms(3))
    then show ?thesis using assms(1,4) p s1 Some tr
      by (cases "pe_fails (dw_socket w) CloseSocket"; cases x)
        (auto simp: daemon_main_def close_socket_def finallyS_def socket_step_def)
  qed
qed

text \<open>A daemon whose configuration cannot be parsed, stopped while one client is served.\<close>

definition daemon_sample :: daemon_world where
  "daemon_sample = \<lparr>dw_loaders = \<lparr>ld_is_file = (\<lambda>_. False), ld_data_dir = [], ld_dlib = (\<lambda>_. Inl OSError), ld_mediapipe = Inl OSError\<rparr>,
     dw_config = Inl (OtherError ''ParsingError''), dw_socket = \<lparr>pe_fails = (\<lambda>_. None), pe_bind_mode = 493\<rparr>,
     dw_stop_early = False, dw_serve = stopping_sample\<rparr>"

theorem daemon_cleans_up_witness:
  "ds_path (fst (daemon_main daemon_sample (\<lambda>_. None) \<lparr>ds_path = Some 420, ds_open = False, ds_listening = False\<rparr>)) = None"
proof -
  let ?s = "\<lparr>ds_path = Some 420, ds_open = False, ds_listening = False\<rparr>"
  obtain s' r where m: "daemon_main daemon_sample (\<lambda>_. None) ?s = (s', r)" by fastforce
  have w: "snd (warm_detector (dw_loaders daemon_sample) (dw_config daemon_sample) (\<lambda>_. None)) = Inr False"
    by (simp add: warm_detector_def daemon_sample_def)
  have p: "snd (prepare_socket (dw_socket daemon_sample) ?s) = Inr ()"
    by (rule prepare_total) (simp add: daemon_sample_def)
  have "r = Some (Inr 0)"
  proof -
    have "snd (daemon_main daemon_sample (\<lambda>_. None) ?s) = Some (Inr 0)" by code_simp
    then show ?thesis using m by simp
  qed
  moreover have "pe_fails (dw_socket daemon_sample) UnlinkOwn = None" by (simp add: daemon_sample_def)
  ultimately have "ds_path s' = None" using daemon_cleans_up [OF w p _ m] by simp
  then show ?thesis by (simp add: m)
qed


section \<open>The warm detector\<close>

text \<open>
  What the warm-up loaded is what the first login gets, without touching a model file, as long as
  the options that choose the detector stay the same.
\<close>

lemma warm_up_used:
  assumes "warm_detector ld (Inr c) cache = (cache', Inr True)" and "cache_key c' = cache_key c"
  shows "\<exists>b. create_pipeline ld' c' cache' = (cache', Inr b) \<and> snd (create_pipeline ld c cache) = Inr b"
proof -
  obtain b where b: "create_pipeline ld c cache = (cache', Inr b)"
    using assms(1) by (cases "create_pipeline ld c cache"; cases "snd (create_pipeline ld c cache)")
      (auto simp: warm_detector_def split: if_splits)
  then show ?thesis
    by (auto simp: create_pipeline_def assms(2) split: sum.splits option.splits)
qed

end
