(* ===== verification/Json_Text.thy ===== *)
theory Json_Text
  imports Protocol Config
begin

text \<open>
  The text of JSON as Python's \<open>json\<close> module writes and reads it, and the codec of the daemon
  made of it: \<open>json.dumps\<close> with ASCII output only and \<open>json.loads\<close>, a descent over the text.
\<close>

section \<open>Writing\<close>

definition hex_char :: "nat \<Rightarrow> char" where
  "hex_char d = (if d < 10 then digit_char d else char_of (87 + d))"

text \<open>\<open>ensure_ascii\<close>: everything outside of the printable ASCII characters is escaped.\<close>

definition escape_char :: "char \<Rightarrow> string" where
  "escape_char c =
     (let n = (of_char c :: nat) in
      if n = 34 \<or> n = 92 then [CHR 0x5C, c]
      else if n = 10 then [CHR 0x5C, CHR ''n'']
      else if n = 13 then [CHR 0x5C, CHR ''r'']
      else if n = 9 then [CHR 0x5C, CHR ''t'']
      else if n = 12 then [CHR 0x5C, CHR ''f'']
      else if n = 8 then [CHR 0x5C, CHR ''b'']
      else if 32 \<le> n \<and> n \<le> 126 then [c]
      else [CHR 0x5C, CHR ''u'', CHR ''0'', CHR ''0'', hex_char (n div 16), hex_char (n mod 16)])"

definition quote :: "string \<Rightarrow> string" where
  "quote s = CHR 0x22 # concat (map escape_char s) @ [CHR 0x22]"

text \<open>The text of a value; \<open>fr\<close> is \<open>float.__repr__\<close>, \<open>isep\<close> and \<open>ksep\<close> are the separators.\<close>

fun json_text :: "(rat \<Rightarrow> string) \<Rightarrow> string \<Rightarrow> string \<Rightarrow> json \<Rightarrow> string"
  and items_text :: "(rat \<Rightarrow> string) \<Rightarrow> string \<Rightarrow> string \<Rightarrow> json list \<Rightarrow> string"
  and fields_text :: "(rat \<Rightarrow> string) \<Rightarrow> string \<Rightarrow> string \<Rightarrow> (string \<times> json) list \<Rightarrow> string" where
  "json_text fr isep ksep JNull = ''null''"
| "json_text fr isep ksep (JBool b) = (if b then ''true'' else ''false'')"
| "json_text fr isep ksep (JInt i) = show_int i"
| "json_text fr isep ksep (JFloat (Fin q)) = fr q"
| "json_text fr isep ksep (JFloat PInf) = ''Infinity''"
| "json_text fr isep ksep (JFloat NInf) = ''-Infinity''"
| "json_text fr isep ksep (JFloat NaN) = ''NaN''"
| "json_text fr isep ksep (JStr s) = quote s"
| "json_text fr isep ksep (JList vs) = CHR ''['' # items_text fr isep ksep vs @ '']''"
| "json_text fr isep ksep (JObj fs) = CHR ''{'' # fields_text fr isep ksep fs @ ''}''"
| "items_text fr isep ksep [] = []"
| "items_text fr isep ksep (v # vs) =
     json_text fr isep ksep v @ (if vs = [] then [] else isep @ items_text fr isep ksep vs)"
| "fields_text fr isep ksep [] = []"
| "fields_text fr isep ksep ((k, v) # fs) =
     quote k @ ksep @ json_text fr isep ksep v @ (if fs = [] then [] else isep @ fields_text fr isep ksep fs)"

text \<open>
  \<open>repr\<close> of a float that is a decimal fraction of at most sixteen digits between a ten-thousandth
  and ten to the sixteenth, or zero; others are written with an exponent or cut to the shortest text.
\<close>

fun frac_digits :: "nat \<Rightarrow> rat \<Rightarrow> string" where
  "frac_digits 0 r = []"
| "frac_digits (Suc n) r =
     (if r = 0 then [] else digit_char (nat \<lfloor>10 * r\<rfloor>) # frac_digits n (10 * r - of_int \<lfloor>10 * r\<rfloor>))"

definition float_repr :: "rat \<Rightarrow> string" where
  "float_repr q =
     (let a = \<bar>q\<bar>; f = frac_digits 17 (a - of_int \<lfloor>a\<rfloor>)
      in (if q < 0 then ''-'' else []) @ show_nat (nat \<lfloor>a\<rfloor>) @ ''.'' @ (if f = [] then ''0'' else f))"


section \<open>Reading\<close>

definition is_ws :: "char \<Rightarrow> bool" where
  "is_ws c \<longleftrightarrow> c \<in> {CHR 0x20, CHR 0x09, CHR 0x0A, CHR 0x0D}"

definition skip_ws :: "string \<Rightarrow> string" where
  "skip_ws s = dropWhile is_ws s"

definition hex_digit :: "char \<Rightarrow> nat option" where
  "hex_digit c =
     (let n = (of_char c :: nat) in
      if 48 \<le> n \<and> n \<le> 57 then Some (n - 48)
      else if 97 \<le> n \<and> n \<le> 102 then Some (n - 87)
      else if 65 \<le> n \<and> n \<le> 70 then Some (n - 55)
      else None)"

fun hex_number :: "nat \<Rightarrow> string \<Rightarrow> nat option" where
  "hex_number acc [] = Some acc"
| "hex_number acc (c # cs) = (case hex_digit c of None \<Rightarrow> None | Some d \<Rightarrow> hex_number (16 * acc + d) cs)"

definition short_escape :: "char \<Rightarrow> char option" where
  "short_escape c =
     map_of [(CHR 0x22, CHR 0x22), (CHR 0x5C, CHR 0x5C), (CHR ''/'', CHR ''/''), (CHR ''b'', CHR 0x08),
       (CHR ''f'', CHR 0x0C), (CHR ''n'', CHR 0x0A), (CHR ''r'', CHR 0x0D), (CHR ''t'', CHR 0x09)] c"

definition cons_char :: "char \<Rightarrow> (string \<times> string) option \<Rightarrow> (string \<times> string) option" where
  "cons_char c x = map_option (\<lambda>(s, rest). (c # s, rest)) x"

text \<open>
  A string behind its opening quote, with the text that follows its closing one. Control
  characters have to be escaped. Escapes beyond code point 255 are outside of the model.
\<close>

fun scan_string :: "string \<Rightarrow> (string \<times> string) option" where
  "scan_string [] = None"
| "scan_string (c # cs) =
     (if c = CHR 0x22 then Some ([], cs)
      else if c = CHR 0x5C then
        (case cs of
           [] \<Rightarrow> None
         | e # es \<Rightarrow>
             if e = CHR ''u'' then
               (case es of
                  h1 # h2 # h3 # h4 # rest \<Rightarrow>
                    (case hex_number 0 [h1, h2, h3, h4] of
                       None \<Rightarrow> None
                     | Some n \<Rightarrow> if n < 256 then cons_char (char_of n) (scan_string rest) else None)
                | _ \<Rightarrow> None)
             else (case short_escape e of None \<Rightarrow> None | Some d \<Rightarrow> cons_char d (scan_string es)))
      else if (of_char c :: nat) < 32 then None
      else cons_char c (scan_string cs))"

definition scan_sign :: "char set \<Rightarrow> string \<Rightarrow> string \<times> string" where
  "scan_sign signs s = (case s of [] \<Rightarrow> ([], []) | c # cs \<Rightarrow> if c \<in> signs then ([c], cs) else ([], s))"

definition scan_fraction :: "string \<Rightarrow> string" where
  "scan_fraction s = (case s of
      [] \<Rightarrow> []
    | c # cs \<Rightarrow> if c = CHR ''.'' \<and> takeWhile is_digit cs \<noteq> [] then c # takeWhile is_digit cs else [])"

definition scan_exponent :: "string \<Rightarrow> string" where
  "scan_exponent s = (case s of
      [] \<Rightarrow> []
    | c # cs \<Rightarrow>
        (let (sg, t) = scan_sign {CHR ''-'', CHR ''+''} cs; ds = takeWhile is_digit t
         in if c \<in> {CHR ''e'', CHR ''E''} \<and> ds \<noteq> [] then c # sg @ ds else []))"

text \<open>The digits before the point: a leading zero stands alone.\<close>

definition scan_whole :: "string \<Rightarrow> string" where
  "scan_whole s =
     (let ds = takeWhile is_digit s in if ds \<noteq> [] \<and> hd ds = CHR ''0'' then [CHR ''0''] else ds)"

definition scan_number :: "string \<Rightarrow> (json \<times> string) option" where
  "scan_number s =
     (let (sg, t) = scan_sign {CHR ''-''} s; w = scan_whole t; t = drop (length w) t;
          f = scan_fraction t; t = drop (length f) t;
          x = scan_exponent t; t = drop (length x) t
      in if w = [] then None
         else if f = [] \<and> x = [] then
           (case parse_int (sg @ w) of Inl _ \<Rightarrow> None | Inr i \<Rightarrow> Some (JInt i, t))
         else (case parse_float (sg @ w @ f @ x) of Inl _ \<Rightarrow> None | Inr v \<Rightarrow> Some (JFloat v, t)))"

fun scan_literal :: "(string \<times> json) list \<Rightarrow> string \<Rightarrow> (json \<times> string) option" where
  "scan_literal [] s = None"
| "scan_literal ((name, v) # others) s =
     (if take (length name) s = name then Some (v, drop (length name) s) else scan_literal others s)"

definition literals :: "(string \<times> json) list" where
  "literals = [(''null'', JNull), (''true'', JBool True), (''false'', JBool False), (''NaN'', JFloat NaN),
     (''Infinity'', JFloat PInf), (''-Infinity'', JFloat NInf)]"

text \<open>
  A value, the values of an array and the fields of an object. The first argument bounds the
  calls: \<open>json_loads\<close> gives more than there can be.
\<close>

fun scan_value :: "nat \<Rightarrow> string \<Rightarrow> (json \<times> string) option"
  and scan_items :: "nat \<Rightarrow> string \<Rightarrow> (json list \<times> string) option"
  and scan_fields :: "nat \<Rightarrow> string \<Rightarrow> ((string \<times> json) list \<times> string) option" where
  "scan_value 0 s = None"
| "scan_value (Suc n) s = (case s of
      [] \<Rightarrow> None
    | c # cs \<Rightarrow>
        if c = CHR 0x22 then map_option (\<lambda>(t, r). (JStr t, r)) (scan_string cs)
        else if c = CHR ''['' then
          (case skip_ws cs of
             [] \<Rightarrow> None
           | d # ds \<Rightarrow>
               if d = CHR '']'' then Some (JList [], ds)
               else map_option (\<lambda>(vs, r). (JList vs, r)) (scan_items n (d # ds)))
        else if c = CHR ''{'' then
          (case skip_ws cs of
             [] \<Rightarrow> None
           | d # ds \<Rightarrow>
               if d = CHR ''}'' then Some (JObj [], ds)
               else map_option (\<lambda>(fs, r). (JObj (dict_of fs), r)) (scan_fields n (d # ds)))
        else (case scan_number s of None \<Rightarrow> scan_literal literals s | Some x \<Rightarrow> Some x))"
| "scan_items 0 s = None"
| "scan_items (Suc n) s = (case scan_value n s of
      None \<Rightarrow> None
    | Some (v, r) \<Rightarrow>
        (case skip_ws r of
           [] \<Rightarrow> None
         | c # cs \<Rightarrow>
             if c = CHR '']'' then Some ([v], cs)
             else if c = CHR '','' then map_option (\<lambda>(vs, r). (v # vs, r)) (scan_items n (skip_ws cs))
             else None))"
| "scan_fields 0 s = None"
| "scan_fields (Suc n) s = (case s of
      [] \<Rightarrow> None
    | q # cs \<Rightarrow>
        if q \<noteq> CHR 0x22 then None
        else (case scan_string cs of
           None \<Rightarrow> None
         | Some (k, r) \<Rightarrow>
             (case skip_ws r of
                [] \<Rightarrow> None
              | c # cs \<Rightarrow>
                  if c \<noteq> CHR '':'' then None
                  else (case scan_value n (skip_ws cs) of
                     None \<Rightarrow> None
                   | Some (v, r) \<Rightarrow>
                       (case skip_ws r of
                          [] \<Rightarrow> None
                        | c # cs \<Rightarrow>
                            if c = CHR ''}'' then Some ([(k, v)], cs)
                            else if c = CHR '','' then
                              map_option (\<lambda>(fs, r). ((k, v) # fs, r)) (scan_fields n (skip_ws cs))
                            else None)))))"

text \<open>\<open>json.loads\<close> of a text: one value, and nothing but white space around it.\<close>

definition json_loads :: "string \<Rightarrow> json option" where
  "json_loads s = (case scan_value (2 * length s + 2) (skip_ws s) of
      None \<Rightarrow> None
    | Some (v, r) \<Rightarrow> if skip_ws r = [] then Some v else None)"


section \<open>The codec of the daemon\<close>

text \<open>\<open>bytes.decode("utf-8")\<close>, for the code points of the model.\<close>

fun utf8_decode :: "byte list \<Rightarrow> string option" where
  "utf8_decode [] = Some []"
| "utf8_decode (b # bs) =
     (if b < 0x80 then map_option (Cons (char_of (unat b))) (utf8_decode bs)
      else case bs of
        [] \<Rightarrow> None
      | b2 # rest \<Rightarrow>
          if b \<in> {0xC2, 0xC3} \<and> 0x80 \<le> b2 \<and> b2 < 0xC0
          then map_option (Cons (char_of ((unat b - 192) * 64 + (unat b2 - 128)))) (utf8_decode rest)
          else None)"

definition ascii_bytes :: "string \<Rightarrow> byte list" where
  "ascii_bytes s = map (\<lambda>c. word_of_nat (of_char c)) s"

definition wire_codec :: codec where
  "wire_codec = \<lparr>dumps = (\<lambda>v. ascii_bytes (json_text float_repr '','' '':'' v)),
     loads = (\<lambda>bs. case utf8_decode bs of None \<Rightarrow> None | Some s \<Rightarrow> json_loads s)\<rparr>"

end
