(* ===== verification/Json_Text_Props.thy ===== *)
theory Json_Text_Props
  imports Json_Text Protocol_Props
begin

text \<open>
  What \<open>json.dumps\<close> writes, \<open>json.loads\<close> reads back, with either pair of separators and whatever
  follows the text; and what of it holds of the frames of the daemon.
\<close>

section \<open>Characters\<close>

lemma char_codes:
  "c = CHR 0x22 \<longleftrightarrow> (of_char c :: nat) = 34" "c = CHR 0x5C \<longleftrightarrow> (of_char c :: nat) = 92"
  by (simp_all flip: of_char_eq_iff [where ?'a = nat])

lemma hex_char_digit: "d < 16 \<Longrightarrow> hex_digit (hex_char d) = Some d"
  by (auto simp: hex_char_def hex_digit_def digit_char_def of_char_of)

lemma scan_escape: "scan_string (escape_char c @ t) = cons_char c (scan_string t)"
proof -
  let ?n = "of_char c :: nat"
  have n: "?n < 256" by simp
  have c: "char_of ?n = c" by simp
  have s: "short_escape (CHR ''n'') = Some (CHR 0x0A)" "short_escape (CHR ''r'') = Some (CHR 0x0D)"
    "short_escape (CHR ''t'') = Some (CHR 0x09)" "short_escape (CHR ''f'') = Some (CHR 0x0C)"
    "short_escape (CHR ''b'') = Some (CHR 0x08)" "short_escape (CHR 0x22) = Some (CHR 0x22)"
    "short_escape (CHR 0x5C) = Some (CHR 0x5C)" by (simp_all add: short_escape_def)
  have x: "?n = 10 \<Longrightarrow> c = CHR 0x0A" "?n = 13 \<Longrightarrow> c = CHR 0x0D" "?n = 9 \<Longrightarrow> c = CHR 0x09"
    "?n = 12 \<Longrightarrow> c = CHR 0x0C" "?n = 8 \<Longrightarrow> c = CHR 0x08" "?n = 34 \<Longrightarrow> c = CHR 0x22" "?n = 92 \<Longrightarrow> c = CHR 0x5C"
    by (simp_all flip: of_char_eq_iff [where ?'a = nat])
  have h: "hex_digit (CHR ''0'') = Some 0" by (simp add: hex_digit_def)
  consider "?n = 34 \<or> ?n = 92" | "?n = 10" | "?n = 13" | "?n = 9" | "?n = 12" | "?n = 8"
    | "?n \<notin> {34, 92, 10, 13, 9, 12, 8}" "32 \<le> ?n" "?n \<le> 126" | "?n \<notin> {34, 92, 10, 13, 9, 12, 8}" "?n < 32 \<or> 126 < ?n"
    by fastforce
  then show ?thesis
  proof cases
    case 8
    then have e: "escape_char c = [CHR 0x5C, CHR ''u'', CHR ''0'', CHR ''0'', hex_char (?n div 16), hex_char (?n mod 16)]"
      by (auto simp: escape_char_def Let_def)
    have "hex_number 0 [CHR ''0'', CHR ''0'', hex_char (?n div 16), hex_char (?n mod 16)] = Some ?n"
      using n hex_char_digit [of "?n div 16"] hex_char_digit [of "?n mod 16"] by (simp add: h less_mult_imp_div_less)
    then show ?thesis using n unfolding e by (simp add: c)
  next
    case 7
    then show ?thesis by (simp add: escape_char_def char_codes)
  qed (use s x in \<open>auto simp: escape_char_def\<close>)
qed

lemma scan_quoted: "scan_string (concat (map escape_char s) @ CHR 0x22 # rest) = Some (s, rest)"
  by (induction s) (simp_all add: scan_escape cons_char_def)



section \<open>Numbers\<close>

text \<open>What may follow a number without becoming part of it.\<close>

definition stops :: "string \<Rightarrow> bool" where
  "stops s \<longleftrightarrow> (case s of [] \<Rightarrow> True | c # cs \<Rightarrow> \<not> is_digit c \<and> c \<notin> {CHR ''.'', CHR ''e'', CHR ''E''})"

lemma stops_takeWhile: "stops s \<Longrightarrow> takeWhile is_digit s = []"
  by (cases s) (auto simp: stops_def)

lemma takeWhile_digits:
  assumes "\<forall>c\<in>set ds. is_digit c" "takeWhile is_digit rest = []"
  shows "takeWhile is_digit (ds @ rest) = ds"
  using assms by (simp add: takeWhile_append)

lemma show_nat_all_digits: "\<forall>c\<in>set (show_nat n). is_digit c"
  using show_nat_digits digit_char_props(1) by metis

lemma digit_char_zero: "d < 10 \<Longrightarrow> digit_char d = CHR ''0'' \<longleftrightarrow> d = 0"
proof -
  assume d: "d < 10"
  have "digit_char d = CHR ''0'' \<longleftrightarrow> (of_char (digit_char d) :: nat) = of_char (CHR ''0'')" by (simp only: of_char_eq_iff)
  also have "\<dots> \<longleftrightarrow> d = 0" using d by (simp add: digit_char_def of_char_of)
  finally show ?thesis .
qed

lemma show_nat_leading: "hd (show_nat n) = CHR ''0'' \<Longrightarrow> n = 0"
proof (induction n rule: show_nat.induct)
  case (1 n)
  show ?case
  proof (cases "n < 10")
    case True
    with 1(2) show ?thesis by (subst (asm) show_nat.simps) (simp add: digit_char_zero)
  next
    case False
    have "show_nat (n div 10) \<noteq> []" using show_nat_digits by blast
    with 1(2) False have "hd (show_nat (n div 10)) = CHR ''0''" by (subst (asm) show_nat.simps) simp
    then have "n div 10 = 0" by (rule "1.IH" [OF False])
    with False show ?thesis by simp
  qed
qed

lemma show_nat_0: "show_nat 0 = [CHR ''0'']"
  by (subst show_nat.simps) (simp add: digit_char_zero)

lemma scan_whole_nat:
  assumes "takeWhile is_digit rest = []"
  shows "scan_whole (show_nat n @ rest) = show_nat n"
proof -
  have t: "takeWhile is_digit (show_nat n @ rest) = show_nat n"
    using show_nat_all_digits assms by (rule takeWhile_digits)
  have "hd (show_nat n) = CHR ''0'' \<Longrightarrow> show_nat n = [CHR ''0'']"
    using show_nat_leading [of n] show_nat_0 by auto
  then show ?thesis by (auto simp: scan_whole_def t Let_def)
qed

lemma show_nat_Cons: obtains c cs where "show_nat n = c # cs" "is_digit c"
  using show_nat_digits [of n] show_nat_all_digits [of n] by (cases "show_nat n") auto

lemma digit_not_sign: "is_digit c \<Longrightarrow> c \<noteq> CHR ''-''" "is_digit c \<Longrightarrow> c \<noteq> CHR ''+''"
  by (auto simp: is_digit_def)

lemma sign_of_nat: "scan_sign {CHR ''-''} (show_nat n @ rest) = ([], show_nat n @ rest)"
  using show_nat_Cons [of n] digit_not_sign by (fastforce simp: scan_sign_def)

lemma scan_nothing: "stops rest \<Longrightarrow> scan_fraction rest = [] \<and> scan_exponent rest = []"
  by (cases rest) (auto simp: stops_def scan_fraction_def scan_exponent_def Let_def split: prod.splits)

lemma scan_int:
  assumes "stops rest"
  shows "scan_number (show_int i @ rest) = Some (JInt i, rest)"
proof -
  obtain sg n where i: "show_int i = sg @ show_nat n" "sg = [] \<or> sg = ''-''"
    using that [of "''-''" "nat (- i)"] that [of "[]" "nat i"] by (cases "i < 0") (simp_all add: show_int_def)
  have sg: "scan_sign {CHR ''-''} (show_int i @ rest) = (sg, show_nat n @ rest)"
    using i sign_of_nat [of n rest] by (elim disjE) (simp_all, simp add: scan_sign_def)
  have w: "scan_whole (show_nat n @ rest) = show_nat n" using assms by (intro scan_whole_nat stops_takeWhile)
  have p: "parse_int (sg @ show_nat n) = Inr i" using parse_int_show_int [of i] i by simp
  show ?thesis using show_nat_digits [of n] scan_nothing [OF assms]
    by (simp add: scan_number_def sg w p Let_def)
qed


section \<open>Floats\<close>

text \<open>The floats whose \<open>repr\<close> the model gives: decimal fractions of at most 17 places.\<close>

definition decimal :: "rat \<Rightarrow> bool" where
  "decimal q \<longleftrightarrow> of_int \<lfloor>q * 10 ^ 17\<rfloor> = q * 10 ^ 17"

lemma frac_digits_value:
  assumes "0 \<le> r" "r < 1" "r * 10 ^ n \<in> \<int>"
  shows "(\<forall>c\<in>set (frac_digits n r). is_digit c) \<and> (\<exists>m. parse_digits acc True (frac_digits n r) = Some m
    \<and> of_int m = (of_int acc + r) * 10 ^ length (frac_digits n r))"
  using assms
proof (induction n arbitrary: r acc)
  case 0
  then have "r = 0" by (auto elim!: Ints_cases)
  then show ?case by simp
next
  case (Suc n)
  show ?case
  proof (cases "r = 0")
    case False
    let ?d = "nat \<lfloor>10 * r\<rfloor>" and ?r = "10 * r - of_int \<lfloor>10 * r\<rfloor>"
    have fl: "0 \<le> \<lfloor>10 * r\<rfloor>" "\<lfloor>10 * r\<rfloor> < 10" using Suc.prems by (auto simp: floor_less_iff)
    then have d: "?d < 10" "int ?d = \<lfloor>10 * r\<rfloor>" by linarith+
    have r: "0 \<le> ?r" "?r < 1" by (simp_all, linarith)
    have "?r * 10 ^ n = r * 10 ^ Suc n - of_int (\<lfloor>10 * r\<rfloor> * 10 ^ n)" by (simp add: algebra_simps)
    then have z: "?r * 10 ^ n \<in> \<int>" using Suc.prems(3) by (metis Ints_diff Ints_of_int)
    obtain m where m: "parse_digits (10 * acc + int ?d) True (frac_digits n ?r) = Some m"
      "of_int m = (of_int (10 * acc + int ?d) + ?r) * 10 ^ length (frac_digits n ?r)"
      using Suc.IH [OF r z] by blast
    have "of_int m = (of_int acc + r) * 10 ^ Suc (length (frac_digits n ?r))"
      unfolding m(2) d(2) by (simp add: algebra_simps)
    then show ?thesis using False m(1) d(1) Suc.IH [OF r z] by (simp add: digit_char_props)
  qed simp
qed

text \<open>The digits behind the point, never empty.\<close>

definition fraction_text :: "rat \<Rightarrow> string" where
  "fraction_text r = (let f = frac_digits 17 r in if f = [] then ''0'' else f)"

lemma fraction_value:
  assumes "0 \<le> r" "r < 1" "r * 10 ^ 17 \<in> \<int>"
  shows "fraction_text r \<noteq> [] \<and> (\<forall>c\<in>set (fraction_text r). is_digit c) \<and>
    (\<exists>m. parse_digits 0 False (fraction_text r) = Some m \<and> of_int m / 10 ^ length (fraction_text r) = r)"
proof (cases "frac_digits 17 r = []")
  case True
  then have "r = 0" by (simp add: eval_nat_numeral split: if_splits)
  then show ?thesis using True by (simp add: fraction_text_def is_digit_def digit_val_def)
next
  case False
  let ?f = "frac_digits 17 r"
  from frac_digits_value [OF assms, of 0] obtain m where
    f: "\<forall>c\<in>set ?f. is_digit c" "parse_digits 0 True ?f = Some m" "of_int m = r * 10 ^ length ?f" by auto
  have "parse_digits 0 False ?f = Some m" using False f(1,2) by (cases ?f) auto
  then show ?thesis using False f by (auto simp: fraction_text_def)
qed

lemma plain_text:
  assumes "\<forall>c\<in>set s. is_digit c \<or> c \<in> {CHR ''-'', CHR ''.''}"
  shows "py_lower s = s" "py_strip s = s"
proof -
  have c: "lower_char c = c \<and> \<not> is_py_space c" if "c \<in> set s" for c
    using assms that by (auto simp: lower_char_def is_py_space_def is_digit_def Let_def)
  show "py_lower s = s" using c by (simp add: py_lower_def map_idI)
  have "dropWhile is_py_space t = t" if "set t \<subseteq> set s" for t using that c by (cases t) auto
  from this [of s] this [of "rev s"] show "py_strip s = s" by (simp add: py_strip_def)
qed

lemma digits_plain: "is_digit c \<Longrightarrow> c \<noteq> CHR ''.'' \<and> c \<noteq> CHR ''e'' \<and> c \<noteq> CHR ''_'' \<and> c \<noteq> CHR ''E''"
  by (auto simp: is_digit_def)

lemma mantissa_decimal:
  assumes "w \<noteq> []" "\<forall>c\<in>set w. is_digit c" "parse_digits 0 False w = Some a"
    "f \<noteq> []" "\<forall>c\<in>set f. is_digit c" "parse_digits 0 False f = Some b"
  shows "mantissa (w @ CHR ''.'' # f) = Some (of_int a + of_int b / 10 ^ length f)"
proof -
  have "split_at (\<lambda>c. c = CHR ''.'') (w @ CHR ''.'' # f) = (w, Some f)"
    using assms(2) digits_plain by (intro split_at_first) auto
  moreover have "filter (\<lambda>c. c \<noteq> CHR ''_'') f = f" using assms(5) digits_plain by (auto simp: filter_id_conv)
  ultimately show ?thesis using assms by (simp add: mantissa_def)
qed

lemma parse_decimal:
  assumes "sg \<in> {[], ''-''}" "w \<noteq> []" "\<forall>c\<in>set w. is_digit c" "f \<noteq> []" "\<forall>c\<in>set f. is_digit c"
    and "mantissa (w @ CHR ''.'' # f) = Some q"
  shows "parse_float (sg @ w @ CHR ''.'' # f) = Inr (Fin (if sg = [] then q else - q))"
proof -
  let ?t = "w @ CHR ''.'' # f"
  have "\<forall>c\<in>set (sg @ ?t). is_digit c \<or> c \<in> {CHR ''-'', CHR ''.''}" using assms(1,3,5) by auto
  from plain_text [OF this] have "py_lower (py_strip (sg @ ?t)) = sg @ ?t" by simp
  moreover have "signed (sg @ ?t) = (sg \<noteq> [], ?t)"
    using assms(1-3) digit_not_sign by (cases w) (auto simp: signed_def)
  moreover have "split_at (\<lambda>c. c = CHR ''e'') ?t = (?t, None)"
    using assms(3,5) digits_plain by (intro split_at_none) auto
  moreover have "?t \<notin> {''inf'', ''infinity'', ''nan''}"
    using assms(2,3) by (cases w) (auto simp: is_digit_def)
  ultimately show ?thesis using assms(1,6) by (auto simp: parse_float_def Let_def)
qed


lemma decimal_fraction:
  assumes "decimal q"
  defines "r \<equiv> \<bar>q\<bar> - of_int \<lfloor>\<bar>q\<bar>\<rfloor>"
  shows "fraction_text r \<noteq> [] \<and> (\<forall>c\<in>set (fraction_text r). is_digit c) \<and>
    (\<exists>m. parse_digits 0 False (fraction_text r) = Some m \<and> of_int m / 10 ^ length (fraction_text r) = r)"
proof -
  have "q * 10 ^ 17 \<in> \<int>" using assms(1) unfolding decimal_def by (metis Ints_of_int)
  then have "\<bar>q\<bar> * 10 ^ 17 \<in> \<int>" by (auto simp: abs_if)
  then have z: "r * 10 ^ 17 \<in> \<int>" by (simp add: r_def left_diff_distrib)
  have "0 \<le> r" "r < 1" unfolding r_def by linarith+
  from fraction_value [OF this z] show ?thesis .
qed

lemma float_repr_parts:
  assumes "decimal q"
  obtains sg where "sg \<in> {[], ''-''}" "float_repr q = sg @ show_nat (nat \<lfloor>\<bar>q\<bar>\<rfloor>) @ CHR ''.'' # fraction_text (\<bar>q\<bar> - of_int \<lfloor>\<bar>q\<bar>\<rfloor>)"
    "parse_float (float_repr q) = Inr (Fin q)"
proof -
  let ?a = "\<bar>q\<bar>" and ?sg = "if q < 0 then ''-'' else []"
  let ?w = "show_nat (nat \<lfloor>?a\<rfloor>)" and ?r = "?a - of_int \<lfloor>?a\<rfloor>"
  let ?f = "fraction_text ?r"
  have txt_eq: "float_repr q = ?sg @ ?w @ CHR ''.'' # ?f"
    by (simp add: float_repr_def fraction_text_def Let_def)
  obtain m where f: "?f \<noteq> []" "\<forall>c\<in>set ?f. is_digit c" "parse_digits 0 False ?f = Some m" "of_int m / 10 ^ length ?f = ?r"
    using decimal_fraction [OF assms] by blast
  have w: "?w \<noteq> []" "\<forall>c\<in>set ?w. is_digit c" "parse_digits 0 False ?w = Some (int (nat \<lfloor>?a\<rfloor>))"
    using show_nat_digits show_nat_all_digits parse_digits_show_nat by blast+
  have "mantissa (?w @ CHR ''.'' # ?f) = Some (of_int (int (nat \<lfloor>?a\<rfloor>)) + of_int m / 10 ^ length ?f)"
    using w f(1-3) by (intro mantissa_decimal)
  also have "of_int (int (nat \<lfloor>?a\<rfloor>)) + of_int m / 10 ^ length ?f = ?a" unfolding f(4) by simp
  finally have "parse_float (?sg @ ?w @ CHR ''.'' # ?f) = Inr (Fin (if ?sg = [] then ?a else - ?a))"
    using w(1,2) f(1,2) by (intro parse_decimal) auto
  then have "parse_float (float_repr q) = Inr (Fin q)" unfolding txt_eq by (auto split: if_splits)
  with txt_eq show ?thesis by (intro that [of ?sg]) auto
qed

lemma scan_decimal:
  assumes "decimal q" "stops rest"
  shows "scan_number (float_repr q @ rest) = Some (JFloat (Fin q), rest)"
proof -
  obtain sg where sg: "sg \<in> {[], ''-''}"
    and txt_eq: "float_repr q = sg @ show_nat (nat \<lfloor>\<bar>q\<bar>\<rfloor>) @ CHR ''.'' # fraction_text (\<bar>q\<bar> - of_int \<lfloor>\<bar>q\<bar>\<rfloor>)"
    and v: "parse_float (float_repr q) = Inr (Fin q)"
    using assms(1) by (rule float_repr_parts)
  define w where "w = show_nat (nat \<lfloor>\<bar>q\<bar>\<rfloor>)"
  define f where "f = fraction_text (\<bar>q\<bar> - of_int \<lfloor>\<bar>q\<bar>\<rfloor>)"
  have f: "f \<noteq> []" "\<forall>c\<in>set f. is_digit c" unfolding f_def using decimal_fraction [OF assms(1)] by blast+
  have w: "w \<noteq> []" unfolding w_def using show_nat_digits by blast
  let ?s = "w @ (CHR ''.'' # f) @ rest"
  have 1: "scan_sign {CHR ''-''} (sg @ ?s) = (sg, ?s)"
    using sg sign_of_nat [of "nat \<lfloor>\<bar>q\<bar>\<rfloor>" "(CHR ''.'' # f) @ rest"] unfolding w_def
    by (elim insertE emptyE) (simp_all, simp add: scan_sign_def)
  have 2: "scan_whole ?s = w" unfolding w_def by (rule scan_whole_nat) (simp add: is_digit_def)
  have "takeWhile is_digit (f @ rest) = f" using f(2) stops_takeWhile [OF assms(2)] by (rule takeWhile_digits)
  then have 3: "scan_fraction ((CHR ''.'' # f) @ rest) = CHR ''.'' # f" using f(1) by (simp add: scan_fraction_def)
  have 4: "scan_exponent rest = []" using scan_nothing [OF assms(2)] by simp
  have v: "parse_float (sg @ w @ CHR ''.'' # f) = Inr (Fin q)" using v txt_eq unfolding w_def f_def by simp
  have "float_repr q @ rest = sg @ ?s" unfolding txt_eq w_def f_def by simp
  then show ?thesis using w 1 2 3 4 v by (simp add: scan_number_def Let_def)
qed


section \<open>Values\<close>

text \<open>A value the codec carries: floats with a text, and no key twice in an object.\<close>

fun json_ok :: "(rat \<Rightarrow> bool) \<Rightarrow> json \<Rightarrow> bool" where
  "json_ok D (JFloat (Fin q)) = D q"
| "json_ok D (JList vs) = list_all (json_ok D) vs"
| "json_ok D (JObj fs) = (distinct (map fst fs) \<and> list_all (\<lambda>(k, v). json_ok D v) fs)"
| "json_ok D _ = True"

lemma scan_number_None: "\<not> is_digit c \<Longrightarrow> c \<noteq> CHR ''-'' \<Longrightarrow> scan_number (c # cs) = None"
  by (simp add: scan_number_def scan_sign_def scan_whole_def Let_def)

lemma scan_number_head:
  assumes "scan_number s = Some x"
  obtains c cs where "s = c # cs" "is_digit c \<or> c = CHR ''-''"
proof (cases s)
  case Nil
  then show ?thesis using assms by (simp add: scan_number_def scan_sign_def scan_whole_def Let_def)
qed (use assms that scan_number_None in fastforce)

lemma skip_ws_simps [simp]:
  "skip_ws [] = []" "\<not> is_ws c \<Longrightarrow> skip_ws (c # cs) = c # cs" "is_ws c \<Longrightarrow> skip_ws (c # cs) = skip_ws cs"
  by (simp_all add: skip_ws_def)

lemma skip_ws_append: "\<forall>c\<in>set ws. is_ws c \<Longrightarrow> skip_ws (ws @ s) = skip_ws s"
  by (simp add: skip_ws_def dropWhile_append)

lemma quote_Cons: "quote s @ rest = CHR 0x22 # (concat (map escape_char s) @ CHR 0x22 # rest)"
  by (simp add: quote_def)

lemma digit_not_special: "is_digit c \<or> c = CHR ''-'' \<Longrightarrow>
    \<not> is_ws c \<and> c \<noteq> CHR 0x22 \<and> c \<noteq> CHR ''['' \<and> c \<noteq> CHR ''{'' \<and> c \<noteq> CHR '']'' \<and> c \<noteq> CHR ''}''"
  by (auto simp: is_digit_def is_ws_def)

lemma scan_value_number:
  assumes "scan_number s = Some x"
  shows "scan_value (Suc m) s = Some x"
proof -
  obtain c cs where c: "s = c # cs" "is_digit c \<or> c = CHR ''-''" using assms by (rule scan_number_head)
  from digit_not_special [OF c(2)] assms show ?thesis by (simp add: c(1))
qed

lemma minus_infinity_no_number: "scan_number (CHR ''-'' # CHR ''I'' # cs) = None"
  by (simp add: scan_number_def scan_sign_def scan_whole_def is_digit_def Let_def)

lemma scan_value_literal:
  assumes "(name, v) \<in> set literals"
  shows "scan_value (Suc m) (name @ rest) = Some (v, rest)"
  using assms by (auto simp: literals_def scan_number_None minus_infinity_no_number is_digit_def)

text \<open>
  A style of writing: the text of the floats in \<open>D\<close> is read as the same number, whatever may
  follow a number, and the separators are the punctuation with white space behind it.
\<close>

locale json_style =
  fixes fr :: "rat \<Rightarrow> string" and isep ksep :: string and D :: "rat \<Rightarrow> bool"
  assumes number_law: "D q \<Longrightarrow> stops rest \<Longrightarrow> scan_number (fr q @ rest) = Some (JFloat (Fin q), rest)"
    and isep_law: "\<exists>ws. isep = CHR '','' # ws \<and> (\<forall>c\<in>set ws. is_ws c)"
    and ksep_law: "\<exists>ws. ksep = CHR '':'' # ws \<and> (\<forall>c\<in>set ws. is_ws c)"
begin

lemma text_head:
  assumes "json_ok D v"
  obtains c cs where "json_text fr isep ksep v = c # cs" "\<not> is_ws c" "c \<noteq> CHR '']''" "c \<noteq> CHR ''}''"
proof -
  have num: "\<exists>c cs. s = c # cs \<and> \<not> is_ws c \<and> c \<noteq> CHR '']'' \<and> c \<noteq> CHR ''}''" if "scan_number s = Some x" for s x
    using scan_number_head [OF that] digit_not_special by metis
  have nil: "stops []" by (simp add: stops_def)
  show ?thesis
  proof (cases v)
    case (JInt i)
    then show ?thesis using num [OF scan_int [OF nil, of i]] that by auto
  next
    case (JFloat x)
    show ?thesis
    proof (cases x)
      case (Fin q)
      then show ?thesis using num [of "fr q"] number_law [OF _ nil, of q] assms JFloat that by auto
    qed (use JFloat that in \<open>auto simp: is_ws_def\<close>)
  next
    case (JBool b)
    then show ?thesis using that by (cases b) (auto simp: is_ws_def)
  qed (use that in \<open>auto simp: is_ws_def quote_def\<close>)
qed

lemma text_skip: "json_ok D v \<Longrightarrow> skip_ws (json_text fr isep ksep v @ rest) = json_text fr isep ksep v @ rest"
  by (rule text_head) auto

definition reads_back :: "json \<Rightarrow> bool" where
  "reads_back v \<longleftrightarrow> (\<forall>n rest. stops rest \<longrightarrow> 2 * length (json_text fr isep ksep v) \<le> n \<longrightarrow>
     scan_value n (json_text fr isep ksep v @ rest) = Some (v, rest))"

lemma stops_special: "stops (CHR '','' # s)" "stops (CHR '']'' # s)" "stops (CHR ''}'' # s)"
  by (simp_all add: stops_def is_digit_def)

lemma not_ws: "\<not> is_ws (CHR '','')" "\<not> is_ws (CHR '']'')" "\<not> is_ws (CHR ''}'')" "\<not> is_ws (CHR '':'')" "\<not> is_ws (CHR 0x22)"
  by (simp_all add: is_ws_def)

lemma scan_items_text:
  assumes "vs \<noteq> []" "\<forall>v\<in>set vs. json_ok D v \<and> reads_back v" "2 * length (items_text fr isep ksep vs) + 1 \<le> n"
  shows "scan_items n (items_text fr isep ksep vs @ CHR '']'' # rest) = Some (vs, rest)"
  using assms
proof (induction vs arbitrary: n)
  case (Cons v vs)
  obtain m where n: "n = Suc m" using Cons.prems(3) by (cases n) auto
  have v: "json_ok D v" "reads_back v" using Cons.prems(2) by auto
  obtain c cs where cc: "json_text fr isep ksep v = c # cs" using text_head [OF v(1)] by metis
  obtain ws where ws: "isep = CHR '','' # ws" "\<forall>c\<in>set ws. is_ws c" using isep_law by blast
  show ?case
  proof (cases vs)
    case Nil
    have "scan_value m (json_text fr isep ksep v @ CHR '']'' # rest) = Some (v, CHR '']'' # rest)"
      using v(2) Cons.prems(3) n Nil stops_special unfolding reads_back_def by simp
    then show ?thesis using n Nil not_ws by simp
  next
    case (Cons w us)
    have w: "json_ok D w" using Cons.prems(2) Cons by simp
    let ?r = "items_text fr isep ksep vs @ CHR '']'' # rest"
    have "scan_value m (json_text fr isep ksep v @ isep @ ?r) = Some (v, isep @ ?r)"
      using v(2) Cons.prems(3) n stops_special ws unfolding reads_back_def by simp
    moreover have "skip_ws (ws @ ?r) = ?r" using text_skip [OF w] skip_ws_append [OF ws(2)] Cons by simp
    moreover have "scan_items m ?r = Some (vs, rest)"
      using Cons.IH [of m] Cons.prems(2,3) n Cons cc ws by simp
    ultimately show ?thesis using n Cons ws not_ws by simp
  qed
qed simp

lemma scan_fields_text:
  assumes "fs \<noteq> []" "\<forall>(k, v)\<in>set fs. json_ok D v \<and> reads_back v" "2 * length (fields_text fr isep ksep fs) + 1 \<le> n"
  shows "scan_fields n (fields_text fr isep ksep fs @ CHR ''}'' # rest) = Some (fs, rest)"
  using assms
proof (induction fs arbitrary: n)
  case (Cons f fs)
  obtain k v where f: "f = (k, v)" by (cases f)
  obtain m where n: "n = Suc m" using Cons.prems(3) by (cases n) auto
  have v: "json_ok D v" "reads_back v" using Cons.prems(2) f by auto
  obtain ws where ws: "isep = CHR '','' # ws" "\<forall>c\<in>set ws. is_ws c" using isep_law by blast
  obtain us where us: "ksep = CHR '':'' # us" "\<forall>c\<in>set us. is_ws c" using ksep_law by blast
  have key: "skip_ws (us @ json_text fr isep ksep v @ s) = json_text fr isep ksep v @ s" for s
    using text_skip [OF v(1)] skip_ws_append [OF us(2)] by simp
  show ?case
  proof (cases fs)
    case Nil
    have "scan_value m (json_text fr isep ksep v @ CHR ''}'' # rest) = Some (v, CHR ''}'' # rest)"
      using v(2) Cons.prems(3) n Nil f stops_special unfolding reads_back_def by simp
    then show ?thesis using n Nil f us not_ws key by (simp add: quote_Cons scan_quoted)
  next
    case (Cons g gs)
    let ?r = "fields_text fr isep ksep fs @ CHR ''}'' # rest"
    obtain k' v' where g: "g = (k', v')" by (cases g)
    have "scan_value m (json_text fr isep ksep v @ isep @ ?r) = Some (v, isep @ ?r)"
      using v(2) Cons.prems(3) n f stops_special ws unfolding reads_back_def by simp
    moreover have "skip_ws (ws @ ?r) = ?r" using skip_ws_append [OF ws(2)] Cons g not_ws by (simp add: quote_Cons)
    moreover have "scan_fields m ?r = Some (fs, rest)"
      using Cons.IH [of m] Cons.prems(2,3) n Cons f ws us by simp
    ultimately show ?thesis using n Cons f ws us not_ws key by (simp add: quote_Cons scan_quoted)
  qed
qed simp

lemma reads_backI:
  assumes "\<And>m rest. stops rest \<Longrightarrow> scan_value (Suc m) (json_text fr isep ksep v @ rest) = Some (v, rest)"
    and "json_text fr isep ksep v \<noteq> []"
  shows "reads_back v"
  unfolding reads_back_def
proof (intro allI impI)
  fix n rest assume *: "stops rest" "2 * length (json_text fr isep ksep v) \<le> n"
  with assms(2) obtain m where "n = Suc m" by (cases n) auto
  with assms(1) *(1) show "scan_value n (json_text fr isep ksep v @ rest) = Some (v, rest)" by blast
qed

lemma list_reads_back:
  assumes "\<forall>v\<in>set vs. json_ok D v \<and> reads_back v"
  shows "reads_back (JList vs)"
  unfolding reads_back_def
proof (intro allI impI)
  fix n rest assume n: "2 * length (json_text fr isep ksep (JList vs)) \<le> n"
  then obtain m where m: "n = Suc m" by (cases n) auto
  show "scan_value n (json_text fr isep ksep (JList vs) @ rest) = Some (JList vs, rest)"
  proof (cases vs)
    case Nil
    then show ?thesis using m not_ws by (simp add: dict_of_def)
  next
    case (Cons w us)
    obtain c cs where c: "json_text fr isep ksep w = c # cs" "\<not> is_ws c" "c \<noteq> CHR '']''"
      using text_head [of w] assms Cons by (metis list.set_intros(1))
    have "scan_items m (items_text fr isep ksep vs @ CHR '']'' # rest) = Some (vs, rest)"
      using scan_items_text [OF _ assms] Cons n m by simp
    then show ?thesis using m c Cons by simp
  qed
qed

lemma object_reads_back:
  assumes "\<forall>(k, v)\<in>set fs. json_ok D v \<and> reads_back v" and "dict_of fs = fs"
  shows "reads_back (JObj fs)"
  unfolding reads_back_def
proof (intro allI impI)
  fix n rest assume n: "2 * length (json_text fr isep ksep (JObj fs)) \<le> n"
  then obtain m where m: "n = Suc m" by (cases n) auto
  show "scan_value n (json_text fr isep ksep (JObj fs) @ rest) = Some (JObj fs, rest)"
  proof (cases fs)
    case Nil
    then show ?thesis using m not_ws by (simp add: dict_of_def)
  next
    case (Cons f us)
    have "scan_fields m (fields_text fr isep ksep fs @ CHR ''}'' # rest) = Some (fs, rest)"
      using scan_fields_text [OF _ assms(1)] Cons n m by simp
    then show ?thesis using m Cons assms(2) not_ws by (cases f) (simp add: quote_Cons)
  qed
qed

lemma float_reads_back:
  assumes "json_ok D (JFloat x)"
  shows "reads_back (JFloat x)"
proof (cases x)
  case (Fin q)
  then have q: "D q" using assms by simp
  have "scan_number (fr q) = Some (JFloat (Fin q), [])" using number_law [OF q, of "[]"] by (simp add: stops_def)
  then obtain c cs where "fr q = c # cs" by (rule scan_number_head)
  then show ?thesis using scan_value_number [OF number_law [OF q]] Fin
    by (intro reads_backI) (simp_all del: scan_value.simps)
next
  case PInf
  then show ?thesis by (intro reads_backI) (use scan_value_literal [of "''Infinity''" "JFloat PInf"] in
      \<open>simp_all del: scan_value.simps add: literals_def\<close>)
next
  case NInf
  then show ?thesis by (intro reads_backI) (use scan_value_literal [of "''-Infinity''" "JFloat NInf"] in
      \<open>simp_all del: scan_value.simps add: literals_def\<close>)
next
  case NaN
  then show ?thesis by (intro reads_backI) (use scan_value_literal [of "''NaN''" "JFloat NaN"] in
      \<open>simp_all del: scan_value.simps add: literals_def\<close>)
qed

lemma value_reads_back: "json_ok D v \<Longrightarrow> reads_back v"
proof (induction v)
  case (JList vs)
  then show ?case by (intro list_reads_back) (auto simp: list_all_iff)
next
  case (JObj fs)
  have "\<forall>(k, v)\<in>set fs. json_ok D v \<and> reads_back v" using JObj by (fastforce simp: list_all_iff)
  moreover have "dict_of fs = fs" using JObj.prems by (intro dict_of_distinct) simp
  ultimately show ?case by (rule object_reads_back)
next
  case JNull
  show ?case by (rule reads_backI) (use scan_value_literal [of "''null''" JNull] in
      \<open>simp_all del: scan_value.simps add: literals_def\<close>)
next
  case (JBool b)
  show ?case by (rule reads_backI) (use scan_value_literal [of "''true''" "JBool True"]
      scan_value_literal [of "''false''" "JBool False"] in \<open>cases b; simp del: scan_value.simps add: literals_def\<close>)+
next
  case (JInt i)
  have "show_int i \<noteq> []" using show_nat_digits by (auto simp: show_int_def)
  then show ?case using scan_value_number [OF scan_int] by (intro reads_backI) (simp_all del: scan_value.simps)
next
  case (JFloat x)
  then show ?case by (rule float_reads_back)
next
  case (JStr t)
  show ?case by (rule reads_backI) (simp_all add: quote_Cons scan_quoted, simp add: quote_def)
qed

lemma text_fuel: "2 * length t \<le> 2 * length (w1 @ t @ w2) + 2"
  by simp

text \<open>\<open>loads(dumps(v)) == v\<close>, also with white space around the text.\<close>

lemma loads_text:
  assumes "json_ok D v" and "\<forall>c\<in>set (w1 @ w2). is_ws c"
  shows "json_loads (w1 @ json_text fr isep ksep v @ w2) = Some v"
proof -
  have "stops w2"
  proof (cases w2)
    case (Cons c cs)
    then have "is_ws c" using assms(2) by simp
    then show ?thesis by (auto simp: Cons stops_def is_ws_def is_digit_def)
  qed (simp add: stops_def)
  have read: "scan_value n (json_text fr isep ksep v @ rest) = Some (v, rest)"
    if "stops rest" "2 * length (json_text fr isep ksep v) \<le> n" for n rest
    using value_reads_back [OF assms(1)] that unfolding reads_back_def by blast
  have s: "skip_ws (w1 @ json_text fr isep ksep v @ w2) = json_text fr isep ksep v @ w2"
    using assms(2) text_skip [OF assms(1)] skip_ws_append [of w1] by simp
  have "skip_ws w2 = []" using assms(2) skip_ws_append [of w2 "[]"] by simp
  then show ?thesis
    unfolding json_loads_def s read [OF \<open>stops w2\<close> text_fuel] by (simp only: option.case prod.case simp_thms if_True)
qed

end


text \<open>A style whose text is ASCII, so that it is its own encoding.\<close>

definition ascii :: "string \<Rightarrow> bool" where
  "ascii s \<longleftrightarrow> (\<forall>c\<in>set s. (of_char c :: nat) < 128)"

lemma ascii_simps [simp]:
  "ascii []" "ascii (c # s) \<longleftrightarrow> (of_char c :: nat) < 128 \<and> ascii s" "ascii (s @ t) \<longleftrightarrow> ascii s \<and> ascii t"
  by (auto simp: ascii_def)

lemma ascii_digits: "\<forall>c\<in>set s. is_digit c \<Longrightarrow> ascii s"
  by (auto simp: ascii_def is_digit_def)

lemma ascii_quote: "ascii (quote s)"
proof -
  have h: "(of_char (hex_char d) :: nat) < 128" if "d < 16" for d
    using that by (auto simp: hex_char_def digit_char_def of_char_of)
  have "ascii (escape_char c)" for c
    using h [of "of_char c div 16"] h [of "of_char c mod 16"]
    by (auto simp: escape_char_def Let_def less_mult_imp_div_less)
  then show ?thesis by (auto simp: quote_def ascii_def)
qed

lemma ascii_int: "ascii (show_int i)"
  using ascii_digits [OF show_nat_all_digits] by (simp add: show_int_def)

lemma ascii_float:
  assumes "decimal q"
  shows "ascii (float_repr q)"
proof -
  obtain sg where "sg \<in> {[], ''-''}"
    "float_repr q = sg @ show_nat (nat \<lfloor>\<bar>q\<bar>\<rfloor>) @ CHR ''.'' # fraction_text (\<bar>q\<bar> - of_int \<lfloor>\<bar>q\<bar>\<rfloor>)"
    using assms by (rule float_repr_parts)
  then show ?thesis
    using ascii_digits [OF show_nat_all_digits] ascii_digits decimal_fraction [OF assms] by auto
qed

locale ascii_style = json_style +
  assumes fr_ascii: "D q \<Longrightarrow> ascii (fr q)"
    and separators_ascii: "ascii isep" "ascii ksep"
begin

lemma text_ascii: "json_ok D v \<Longrightarrow> ascii (json_text fr isep ksep v)"
proof (induction v)
  case (JFloat x)
  then show ?case using fr_ascii by (cases x) auto
next
  case (JList vs)
  have "ascii (items_text fr isep ksep us)" if "set us \<subseteq> set vs" for us
    using that JList separators_ascii by (induction us) (auto simp: list_all_iff)
  then show ?case by simp
next
  case (JObj fs)
  have v: "ascii (json_text fr isep ksep v)" if "(k, v) \<in> set fs" for k v
    using JObj.IH [of "(k, v)" v] JObj.prems that by (auto simp: list_all_iff snds.simps)
  have "ascii (fields_text fr isep ksep us)" if "set us \<subseteq> set fs" for us
    using that
  proof (induction us)
    case (Cons u us)
    then show ?case using v separators_ascii ascii_quote by (cases u) auto
  qed simp
  then show ?case by simp
qed (simp_all add: ascii_int ascii_quote)

end

text \<open>The separators of the frames and those of the files and of the command line.\<close>

interpretation compact: ascii_style float_repr "'',''" "'':''" decimal
proof unfold_locales
  show "scan_number (float_repr q @ rest) = Some (JFloat (Fin q), rest)" if "decimal q" "stops rest" for q rest
    using that by (rule scan_decimal)
qed (simp_all add: ascii_float)

interpretation spaced: ascii_style float_repr "'', ''" "'': ''" decimal
proof unfold_locales
  show "scan_number (float_repr q @ rest) = Some (JFloat (Fin q), rest)" if "decimal q" "stops rest" for q rest
    using that by (rule scan_decimal)
qed (simp_all add: ascii_float is_ws_def)


section \<open>The bound on the calls\<close>

lemma skip_ws_length: "length (skip_ws s) \<le> length s"
  by (simp add: skip_ws_def length_dropWhile_le)

lemma scan_string_shorter: "scan_string s = Some (t, r) \<Longrightarrow> length r < length s"
proof (induction s arbitrary: t rule: scan_string.induct)
  case (2 c cs)
  then show ?case
    by (auto simp: cons_char_def split: if_splits list.splits option.splits) (fastforce intro: less_SucI)+
qed simp

lemma scan_number_shorter: "scan_number s = Some (v, r) \<Longrightarrow> length r < length s"
proof -
  assume s: "scan_number s = Some (v, r)"
  obtain sg t where t: "scan_sign {CHR ''-''} s = (sg, t)" by fastforce
  have "length t \<le> length s" using t by (auto simp: scan_sign_def split: list.splits if_splits)
  moreover have "length r < length t"
  proof -
    have w: "scan_whole t \<noteq> []" using s t by (auto simp: scan_number_def)
    then have "t \<noteq> []" by (auto simp: scan_whole_def)
    moreover have "length r \<le> length t - length (scan_whole t)"
      using s t by (auto simp: scan_number_def Let_def split: if_splits sum.splits)
    ultimately show ?thesis using w by (cases t; cases "scan_whole t") auto
  qed
  ultimately show ?thesis by simp
qed

lemma scan_literal_shorter:
  "scan_literal ls s = Some (v, r) \<Longrightarrow> \<forall>(name, v)\<in>set ls. name \<noteq> [] \<Longrightarrow> length r < length s"
proof (induction ls s rule: scan_literal.induct)
  case (2 name w others s)
  then show ?case by (cases s) (auto split: if_splits)
qed simp

lemma scan_shorter:
  "scan_value n s = Some (v, r) \<Longrightarrow> length r < length s"
  "scan_items n s = Some (vs, r) \<Longrightarrow> length r < length s"
  "scan_fields n s = Some (fs, r) \<Longrightarrow> length r < length s"
proof (induction n s and n s and n s arbitrary: v r and vs r and fs r rule: scan_value_scan_items_scan_fields.induct)
  case (2 n s)
  obtain c cs where s: "s = c # cs" using 2(3) by (cases s) auto
  have ws: "length (d # ds) \<le> length cs" if "skip_ws cs = d # ds" for d ds
    using skip_ws_length [of cs] that by simp
  consider "c = CHR 0x22" | "c = CHR ''[''" | "c = CHR ''{''" | "c \<notin> {CHR 0x22, CHR ''['', CHR ''{''}" by blast
  then show ?case
  proof cases
    case 1
    then show ?thesis using 2(3) scan_string_shorter by (fastforce simp: s)
  next
    case 2
    then show ?thesis using "2.IH"(1) "2.prems" ws s by (fastforce split: list.splits if_splits)
  next
    case 3
    then show ?thesis using "2.IH"(2) "2.prems" ws s by (fastforce split: list.splits if_splits)
  next
    case 4
    then show ?thesis using "2.prems" scan_number_shorter [of s] scan_literal_shorter [of literals s]
      by (auto simp: s literals_def split: option.splits)
  qed
next
  case (4 n s)
  obtain v r1 where v: "scan_value n s = Some (v, r1)" using "4.prems" by (auto split: option.splits)
  obtain c cs where c: "skip_ws r1 = c # cs" using "4.prems" v by (cases "skip_ws r1") auto
  have l: "length r1 < length s" "length cs < length r1" "length (skip_ws cs) \<le> length cs"
    using "4.IH"(1) [OF v] skip_ws_length [of r1] c skip_ws_length by auto
  show ?case
  proof (cases "c = CHR '']''")
    case False
    then obtain us where "c = CHR '',''" "scan_items n (skip_ws cs) = Some (us, r)"
      using "4.prems" v c by (auto split: if_splits)
    then have "length r < length (skip_ws cs)" using "4.IH"(2) [OF v refl c] by auto
    then show ?thesis using l by linarith
  qed (use "4.prems" v c l in auto)
next
  case (6 n s)
  obtain cs0 where s: "s = CHR 0x22 # cs0" using "6.prems" by (auto split: list.splits if_splits)
  obtain k r0 where k: "scan_string cs0 = Some (k, r0)" using "6.prems" s by (auto split: option.splits)
  obtain cs1 where c1: "skip_ws r0 = CHR '':'' # cs1" using "6.prems" s k by (auto split: list.splits if_splits)
  obtain v r1 where v: "scan_value n (skip_ws cs1) = Some (v, r1)" using "6.prems" s k c1 by (auto split: option.splits)
  obtain c cs where c: "skip_ws r1 = c # cs" using "6.prems" s k c1 v by (cases "skip_ws r1") auto
  have l: "length r1 < length s" "length cs < length r1" "length (skip_ws cs) \<le> length cs"
    using "6.IH"(1) [OF s _ k refl c1 _ v] scan_string_shorter [OF k] skip_ws_length [of r0] skip_ws_length [of cs1]
      skip_ws_length [of r1] skip_ws_length [of cs] c1 c s by simp_all
  show ?case
  proof (cases "c = CHR ''}''")
    case False
    then obtain us where us: "c = CHR '',''" "scan_fields n (skip_ws cs) = Some (us, r)"
      using "6.prems" s k c1 v c by (auto split: if_splits)
    then have "length r < length (skip_ws cs)" using "6.IH"(2) [OF s _ k refl c1 _ v refl c] False by simp
    then show ?thesis using l by linarith
  qed (use "6.prems" s k c1 v c l in auto)
qed simp_all


text \<open>
  More than twice the length of the text is never used up: every further allowance of calls gives
  the same result, so the bound \<open>json_loads\<close> takes does not show.
\<close>

lemma scan_fuel:
  "2 * length s < n \<Longrightarrow> scan_value (Suc n) s = scan_value n s"
  "2 * length s + 1 < n \<Longrightarrow> scan_items (Suc n) s = scan_items n s"
  "2 * length s + 1 < n \<Longrightarrow> scan_fields (Suc n) s = scan_fields n s"
proof (induction n s and n s and n s rule: scan_value_scan_items_scan_fields.induct)
  case (2 n s)
  show ?case
  proof (cases s)
    case (Cons c cs)
    have "2 * length (d # ds) + 1 < n" if "skip_ws cs = d # ds" for d ds
      using "2.prems" skip_ws_length [of cs] that Cons by simp
    then show ?thesis using "2.IH" unfolding Cons by (auto split: list.split simp del: scan_items.simps scan_fields.simps)
  qed simp
next
  case (4 n s)
  have v: "scan_value (Suc n) s = scan_value n s" using "4.IH"(1) "4.prems" by simp
  have "scan_items (Suc n) (skip_ws cs) = scan_items n (skip_ws cs)"
    if "scan_value n s = Some (v, r)" "skip_ws r = c # cs" "c \<noteq> CHR '']''" "c = CHR '',''" for v r c cs
  proof (rule "4.IH"(2) [OF that(1) refl that(2-4)])
    show "2 * length (skip_ws cs) + 1 < n"
      using "4.prems" scan_shorter(1) [OF that(1)] skip_ws_length [of r] skip_ws_length [of cs] that(2) by simp
  qed
  then show ?case unfolding scan_items.simps(2) v by (auto split: option.split prod.split list.split)
next
  case (6 n s)
  have v: "scan_value (Suc n) (skip_ws cs1) = scan_value n (skip_ws cs1)"
    if "s = CHR 0x22 # cs" "scan_string cs = Some (k, r0)" "skip_ws r0 = CHR '':'' # cs1" for cs k r0 cs1
  proof (rule "6.IH"(1) [OF that(1) _ that(2) refl that(3)])
    show "2 * length (skip_ws cs1) < n"
      using "6.prems" scan_string_shorter [OF that(2)] skip_ws_length [of r0] skip_ws_length [of cs1] that by simp
  qed simp_all
  have w: "scan_fields (Suc n) (skip_ws cs2) = scan_fields n (skip_ws cs2)"
    if "s = CHR 0x22 # cs" "scan_string cs = Some (k, r0)" "skip_ws r0 = CHR '':'' # cs1"
      "scan_value n (skip_ws cs1) = Some (v, r1)" "skip_ws r1 = CHR '','' # cs2" for cs k r0 cs1 v r1 cs2
  proof (rule "6.IH"(2) [OF that(1) _ that(2) refl that(3) _ that(4) refl that(5)])
    show "2 * length (skip_ws cs2) + 1 < n"
      using "6.prems" scan_string_shorter [OF that(2)] scan_shorter(1) [OF that(4)] skip_ws_length [of r0]
        skip_ws_length [of cs1] skip_ws_length [of r1] skip_ws_length [of cs2] that(1,3,5) by simp
  qed simp_all
  show ?case unfolding scan_fields.simps(2) using v w by (auto split: option.split prod.split list.split)
qed simp_all

lemma fuel_enough: "2 * length s < n \<Longrightarrow> scan_value (n + k) s = scan_value n s"
proof (induction k)
  case (Suc k)
  then show ?case using scan_fuel(1) [of s "n + k"] by simp
qed simp

end
