(* ===== verification/Wire_Props.thy ===== *)
theory Wire_Props
  imports Json_Text_Props Authd_Props Capture_Props
begin

text \<open>
  The daemon over its own codec: \<open>Protocol\<close>, \<open>Authd\<close> and \<open>Manage\<close> take the text of JSON as a
  parameter; here it is the one of \<open>Json_Text\<close>, and what they asked of it is proved.
\<close>

section \<open>Encoded values\<close>

lemma utf8_ascii: "ascii s \<Longrightarrow> utf8_decode (ascii_bytes s) = Some s"
proof (induction s)
  case (Cons c s)
  let ?n = "of_char c :: nat"
  have n: "?n < 128" using Cons.prems by simp
  then have "(word_of_nat ?n :: byte) < 0x80" "unat (word_of_nat ?n :: byte) = ?n"
    by (simp_all add: word_less_nat_alt unat_of_nat)
  with Cons show ?case by (simp add: ascii_bytes_def)
qed (simp add: ascii_bytes_def)

lemma wire_law: "json_ok decimal (JObj d) \<Longrightarrow> codec_law wire_codec d"
proof -
  assume ok: "json_ok decimal (JObj d)"
  have "json_loads (json_text float_repr '','' '':'' (JObj d)) = Some (JObj d)"
    using compact.loads_text [OF ok, of "[]" "[]"] by simp
  then show ?thesis
    using utf8_ascii [OF compact.text_ascii [OF ok]] by (simp add: codec_law_def wire_codec_def ascii_bytes_def)
qed

text \<open>
  What the daemon writes, a Python peer reads back: \<open>json.loads\<close> of the UTF-8 text of
  \<open>json.dumps\<close> is the same value, for every value without a repeated key whose floats are
  decimal fractions, infinities or NaN, whatever its strings hold; the text is never empty.
\<close>

theorem wire_roundtrip:
  assumes "json_ok decimal v"
  shows "loads wire_codec (dumps wire_codec v) = Some v \<and> dumps wire_codec v \<noteq> []"
proof -
  have "json_text float_repr '','' '':'' v \<noteq> []" using assms by (rule compact.text_head) simp
  moreover have "json_loads (json_text float_repr '','' '':'' v) = Some v"
    using compact.loads_text [OF assms, of "[]" "[]"] by simp
  ultimately show ?thesis
    using utf8_ascii [OF compact.text_ascii [OF assms]] by (simp add: wire_codec_def ascii_bytes_def)
qed

definition sample_message :: json where
  "sample_message = JObj [(''v'', JInt (- 2)), (''label'', JStr [CHR 0x22, CHR 0xE9, CHR 0x0A]),
     (''faces'', JList [JFloat (Fin (5 / 8)), JFloat NaN, JNull]), (''none'', JObj [])]"

theorem wire_roundtrip_witness: "loads wire_codec (dumps wire_codec sample_message) = Some sample_message"
proof -
  have "json_ok decimal sample_message" by code_simp
  from wire_roundtrip [OF this] show ?thesis by blast
qed

text \<open>The same of the files and of the command line, which leave a space after a separator.\<close>

lemma spaced_roundtrip:
  "json_ok decimal v \<Longrightarrow> json_loads (json_text float_repr '', '' '': '' v) = Some v"
  using spaced.loads_text [of v "[]" "[]"] by simp


section \<open>Frames\<close>

text \<open>
  C34: a frame reaches its reader as it was sent. If the bytes of an encoded payload arrive before
  the deadline, in whatever chunks and with whatever after them, \<open>read_frame\<close> returns exactly
  the payload and leaves exactly what follows the frame.
\<close>

theorem frame_over_wire:
  assumes "json_ok decimal (JObj payload)" and "frame_bytes wire_codec payload MAX_PAYLOAD = Inr bytes"
    and "clock c < d" and "arriving d (arrivals c) = bytes @ rest"
  shows "\<exists>c'. read_frame wire_codec (Some d) c = (c', Inr payload) \<and> arriving d (arrivals c') = rest"
  by (rule frame_roundtrip [OF assms(2) wire_law [OF assms(1)] assms(3,4)])

definition chunked_conn :: conn where
  "chunked_conn = \<lparr>clock = 0, arrivals = [(10, Inr [0, 0]), (20, Inr [0, 7, 123]), (30, Inr [34, 118, 34, 58, 50, 125, 0])],
     so_timeout = 1000, wire = [], sent = [], writes = 0, send_fails = (\<lambda>_. None)\<rparr>"

theorem frame_over_wire_witness:
  "\<exists>c'. read_frame wire_codec (Some 1000) chunked_conn = (c', Inr [(''v'', JInt 2)])
     \<and> arriving 1000 (arrivals c') = [0]"
proof (rule frame_over_wire)
  show "json_ok decimal (JObj [(''v'', JInt 2)])" by simp
  show "frame_bytes wire_codec [(''v'', JInt 2)] MAX_PAYLOAD = Inr [0, 0, 0, 7, 123, 34, 118, 34, 58, 50, 125]"
    by (simp add: frame_bytes_def wire_codec_def ascii_bytes_def pack_be32_def MAX_PAYLOAD_def quote_def escape_char_def
        show_int_def show_nat.simps [of 2] digit_char_def of_char_of)
  show "clock chunked_conn < 1000" "arriving 1000 (arrivals chunked_conn) =
      [0, 0, 0, 7, 123, 34, 118, 34, 58, 50, 125] @ [0]" by (simp_all add: chunked_conn_def)
qed


section \<open>Answers\<close>

lemma quote_length: "length (quote s) \<le> 6 * length s + 2"
proof -
  have "length (escape_char c) \<le> 6" for c by (simp add: escape_char_def Let_def)
  then have "length (concat (map escape_char s)) \<le> 6 * length s"
    by (induction s) (auto simp: add_le_mono)
  then show ?thesis by (simp add: quote_def)
qed

text \<open>An answer to an accepted request never exceeds the limit of a frame.\<close>

lemma answer_fits:
  assumes "length i \<le> 64" and "length (show_int n) \<le> 100" and "w \<in> {''ok'', ''auth_failed'', ''forbidden''}"
  shows "length (dumps wire_codec (JObj (auth_response (JStr i) n w))) \<le> MAX_PAYLOAD"
proof -
  have "length (quote w) \<le> 100" using quote_length [of w] assms(3) by auto
  moreover have "length (quote i) \<le> 400" using quote_length [of i] assms(1) by simp
  moreover have "length (quote ''v'') + length (quote ''type'') + length (quote ''request_id'') + length (quote ''result_code'')
      + length (quote ''detail'') + length (quote ''auth_response'') + length (show_int PROTO_VERSION) \<le> 200" by code_simp
  ultimately show ?thesis using assms(2)
    by (simp add: wire_codec_def ascii_bytes_def auth_response_def MAX_PAYLOAD_def)
qed

lemma refusal_fits_wire: "me_codec (ce_manage env) = wire_codec \<Longrightarrow> refusal_fits env"
proof -
  have "length (dumps wire_codec (JObj (auth_response JNull INTERNAL_ERROR_CODE ''auth_failed''))) \<le> MAX_PAYLOAD" by code_simp
  then show "me_codec (ce_manage env) = wire_codec \<Longrightarrow> refusal_fits env" by (simp add: refusal_fits_def)
qed


text \<open>
  C19: a connection that does not speak v2 gets its answer. Whatever it sends (nothing, garbage, an
  invalid or forbidden request, a login), exactly one message goes out if the writes succeed, an
  \<open>auth_response\<close>; and no exception leaves the handler.
\<close>

theorem v1_always_answered:
  assumes "handle_client env ms = (ms', r)" and "me_codec (ce_manage env) = wire_codec"
    and "\<forall>c payload. read_frame wire_codec (Some (clock (ms_conn ms) + READ_TIMEOUT_MS)) (ms_conn ms)
      = (c, Inr payload) \<longrightarrow> \<not> eq_int (jget payload ''v'') MANAGE_VERSION"
    and "\<forall>n. send_fails (ms_conn ms) n = None"
  shows "r = Some (Inr ()) \<and> (\<exists>i n w. sent (ms_conn ms') = sent (ms_conn ms) @ [auth_response i n w])"
  using v1_answered_once [OF assms(1)] assms(2-4) refusal_fits_wire [OF assms(2)] by auto

text \<open>A client that never sends anything.\<close>

definition silent_client :: client_env where
  "silent_client = login_client\<lparr>ce_manage := (ce_manage login_client)\<lparr>me_codec := wire_codec\<rparr>\<rparr>"

definition silent_conn :: conn where
  "silent_conn = \<lparr>clock = 0, arrivals = [], so_timeout = 1000, wire = [], sent = [], writes = 0, send_fails = (\<lambda>_. None)\<rparr>"

lemma silent_read: "snd (read_frame cd (Some READ_TIMEOUT_MS) silent_conn) = Inl TimeoutError"
  by (simp add: read_frame_def silent_conn_def read_exact.simps expired_def recv_def READ_TIMEOUT_MS_def)

theorem v1_always_answered_witness:
  "\<exists>i n w. sent (ms_conn (fst (handle_client silent_client ((manage_idle empty_fs)\<lparr>ms_conn := silent_conn\<rparr>))))
     = [auth_response i n w]"
proof -
  let ?ms = "(manage_idle empty_fs)\<lparr>ms_conn := silent_conn\<rparr>"
  have 1: "handle_client silent_client ?ms = (fst (handle_client silent_client ?ms), snd (handle_client silent_client ?ms))"
    by simp
  have "me_codec (ce_manage silent_client) = wire_codec" by (simp add: silent_client_def)
  moreover have "\<forall>c payload. read_frame wire_codec (Some (clock (ms_conn ?ms) + READ_TIMEOUT_MS)) (ms_conn ?ms)
      = (c, Inr payload) \<longrightarrow> \<not> eq_int (jget payload ''v'') MANAGE_VERSION"
    using silent_read [of wire_codec] by (auto simp: silent_conn_def)
  moreover have "\<forall>n. send_fails (ms_conn ?ms) n = None" by (simp add: silent_conn_def)
  ultimately show ?thesis using v1_always_answered [OF 1] by (simp add: silent_conn_def)
qed

end
