(* ===== verification/Window_Props.thy ===== *)
theory Window_Props
  imports Window Pipeline_Props Recorders_Props
begin

text \<open>What the window of the \<open>test\<close> command shows agrees with what the login would accept.\<close>

text \<open>The circles of a picture, in order, and whether they are green.\<close>

fun circles :: "mark list \<Rightarrow> ((point \<times> int) \<times> bool) list" where
  "circles [] = []"
| "circles (Circle c r col # ds) = ((c, r), col = MATCHED) # circles ds"
| "circles (_ # ds) = circles ds"

lemma circles_append [simp]: "circles (ds @ es) = circles ds @ circles es"
  by (induction ds rule: circles.induct) auto

lemma circles_concat: "circles (concat dss) = concat (map circles dss)"
  by (induction dss) auto

lemma circles_panel: "circles (panel gs perc w) = []"
proof -
  have "circles (map (\<lambda>(i, v). Bar (f i) (g i v)) xs) = []" for f g and xs :: "(nat \<times> rat) list"
    by (induction xs) auto
  from this [of "\<lambda>i. (20 + 10 * int i, 10)" "\<lambda>i v. (10 + 10 * int i, trunc (v / 2 + 10))"]
  show ?thesis by (simp add: panel_def bars_def print_text_def)
qed

definition recognised :: "numeric \<Rightarrow> pipeline option \<Rightarrow> frame \<Rightarrow> face \<Rightarrow> bool" where
  "recognised np po fr f = (case po of
      None \<Rightarrow> False
    | Some p \<Rightarrow> (case pl_match np p fr f of Inl _ \<Rightarrow> False | Inr m \<Rightarrow> fm_accepted m \<and> pl_owner_of p m \<noteq> None))"

lemma draw_face_circles:
  assumes "draw_face np po fr f = Inr ds"
  shows "circles ds = [(circle_of f, recognised np po fr f)]"
proof -
  have c: "UNMATCHED \<noteq> MATCHED" by (simp add: MATCHED_def UNMATCHED_def)
  then show ?thesis using assms
    by (cases "circle_of f")
      (auto simp: draw_face_def Let_def recognised_def flow_simps split: option.splits prod.splits if_splits)
qed

lemma draw_faces_circles:
  "mapE (draw_face np po fr) faces = Inr dss \<Longrightarrow>
    circles (concat dss) = map (\<lambda>f. (circle_of f, recognised np po fr f)) faces"
  by (induction faces arbitrary: dss) (auto simp: flow_simps draw_face_circles)

lemma overlay_circles:
  assumes "overlay ww wo tk fr gs w = (w', Inr ds)"
  shows "circles ds = [] \<or> (\<exists>faces. b_detect (wo_bundle wo) gs = Inr faces
    \<and> circles ds = map (\<lambda>f. (circle_of f, recognised (ww_numeric ww) (wo_pipeline wo) fr f)) faces)"
  using assms by (auto simp: overlay_def Let_def circles_panel flow_simps draw_faces_circles split: sum.splits if_splits)

lemma mouse_shown: "wn_shown ((mouse ^^ n) w) = wn_shown w"
  by (induction n) (auto simp: mouse_def)

lemma count_frame_shown: "wn_shown (count_frame now w) = wn_shown w"
  by (simp add: count_frame_def Let_def)

lemma overlay_shown: "overlay ww wo tk fr gs w = (w', r) \<Longrightarrow> wn_shown w' = wn_shown w"
  by (auto simp: overlay_def Let_def split: sum.splits if_splits)

lemma show_frame_shown: "show_frame wo tk ds w = (w', r) \<Longrightarrow> wn_shown w' = wn_shown w @ [ds]"
  by (auto simp: show_frame_def Let_def mouse_shown split: if_splits)

lemma window_turn_shown:
  assumes "window_turn ww wo tk w = (w', r)" and "wn_shown w' = wn_shown w @ [ds]"
  obtains fr gs w1 w2 where "overlay ww wo tk fr gs w1 = (w2, Inr ds)"
proof -
  obtain rd x where x: "read_picture (ww_device ww) (wn_reader (count_frame (wt_now tk) w)) = (rd, x)" by fastforce
  let ?w = "(count_frame (wt_now tk) w)\<lparr>wn_reader := rd\<rparr>"
  show ?thesis
  proof (cases "bindE x (\<lambda>(orig_frame, gs). bindE (ww_clahe ww gs) (\<lambda>gs. Inr (orig_frame, gs)))")
    case (Inl e)
    then show ?thesis using assms by (simp add: window_turn_def Let_def x, auto simp: count_frame_shown)
  next
    case (Inr y)
    obtain fr gs where y: "y = (fr, gs)" by (cases y)
    obtain w2 o2 where o: "overlay ww wo tk fr gs ?w = (w2, o2)" by fastforce
    show ?thesis
    proof (cases o2)
      case (Inl e)
      then show ?thesis using assms Inr y o overlay_shown [OF o]
        by (simp add: window_turn_def Let_def x, auto simp: count_frame_shown)
    next
      case (Inr ds')
      with assms \<open>bindE x _ = Inr y\<close> y o have "show_frame wo tk ds' w2 = (w', r)" by (simp add: window_turn_def Let_def x)
      then have "ds' = ds" using show_frame_shown overlay_shown [OF o] assms(2) by (fastforce simp: count_frame_shown)
      then show ?thesis using that o Inr by blast
    qed
  qed
qed


text \<open>A camera that sees one face, near the stored one.\<close>

definition sample_opening :: window_world where
  "sample_opening = \<lparr>ww_device = sample_device, ww_loaders = \<lparr>ld_is_file = (\<lambda>_. False), ld_data_dir = [],
     ld_dlib = (\<lambda>_. Inl OSError), ld_mediapipe = Inl OSError\<rparr>, ww_numeric = sample_numeric, ww_clahe = Inr,
     ww_start = 5, ww_ticks = []\<rparr>"

definition sample_setup :: window_setup where
  "sample_setup = \<lparr>wo_bundle = sample_bundle (5/4), wo_pipeline = Some (sample_pipeline (5/4)),
     wo_dark_threshold = Fin 60, wo_exposure = -1\<rparr>"

definition sample_moment :: window_tick where
  "sample_moment = \<lparr>wt_now = 6, wt_detect = 1/5, wt_clicks = 1, wt_key = False, wt_took = 1/4\<rparr>"

definition seen_window :: "window \<times> (exn + unit)" where
  "seen_window = window_turn sample_opening sample_setup sample_moment
     (new_window sample_opening (OpenCV \<lparr>oc_settings = [], oc_reads = 0, oc_releases = 0\<rparr>))"

lemma seen_circles: "map circles (wn_shown (fst seen_window)) = [[(((2, 2), 1), True)]]"
  by code_simp


text \<open>The command looks and does not touch: no file, no configuration, no snapshot.\<close>

definition untouched :: "cli_state \<Rightarrow> cli_state \<Rightarrow> bool" where
  "untouched s s' \<longleftrightarrow> cl_fs s' = cl_fs s \<and> cl_config s' = cl_config s \<and> cl_conf_tmp s' = cl_conf_tmp s
     \<and> cl_data s' = cl_data s \<and> cl_snaps s' = cl_snaps s \<and> \<not> cl_redirected s'"

lemma untouched_refl: "\<not> cl_redirected s \<Longrightarrow> untouched s s"
  by (simp add: untouched_def)

lemma untouched_emit: "untouched s s1 \<Longrightarrow> untouched s (emit env x s1)"
  by (simp add: untouched_def emit_def)

lemma untouched_thenS:
  assumes "untouched s (fst m)" and "\<And>s1 x. untouched s s1 \<Longrightarrow> untouched s (fst (f s1 x))"
  shows "untouched s (fst (thenS m f))"
  using assms by (cases m; cases "snd m") auto

lemma window_templates_untouched: "untouched s s1 \<Longrightarrow> untouched s (fst (window_templates env c s1))"
  by (simp add: window_templates_def untouched_emit split: sum.split)

lemma window_pipeline_untouched: "untouched s s1 \<Longrightarrow> untouched s (fst (window_pipeline env b ts thr s1))"
  by (simp add: window_pipeline_def untouched_emit split: sum.split option.split)

lemma open_window_untouched: "\<not> cl_redirected s \<Longrightarrow> untouched s (fst (open_window env ww s))"
  using window_pipeline_untouched
  by (auto simp: open_window_def leave_with_def Let_def untouched_emit untouched_refl window_templates_untouched
      split: sum.split prod.split intro!: untouched_thenS) (metis fst_conv untouched_emit)?

lemma test_reads_only:
  assumes "cmd_test env ww s = Some (s', r)" and "\<not> cl_redirected s"
  shows "untouched s s'"
proof -
  obtain s1 x where o: "open_window env ww s = (s1, x)" by fastforce
  from open_window_untouched [OF assms(2), of env ww] o have "untouched s s1" by simp
  then show ?thesis using assms(1) o
    by (auto simp: cmd_test_def untouched_emit split: sum.splits option.splits exn.splits)
qed

end
