(* ===== verification/Session_Text.thy ===== *)
theory Session_Text
  imports Session Snapshot
begin

text \<open>
  What a login attempt tells: the status texts of \<open>auth/ui_bridge.py\<close>, the snapshot with its
  caption and the end report of \<open>auth/session.py\<close>. \<open>Session\<close> knows of them only whether they raise.
\<close>

section \<open>Status texts\<close>

record ui_bridge =
  ub_enabled_stdout :: bool
  ub_printed :: "(string \<times> string) list"

definition ui_send :: "string \<Rightarrow> string \<Rightarrow> ui_bridge \<Rightarrow> ui_bridge" where
  "ui_send kind message ui = (if ub_enabled_stdout ui then ui\<lparr>ub_printed := ub_printed ui @ [(kind, message)]\<rparr> else ui)"

text \<open>\<open>_send_ui\<close>: there may be no bridge.\<close>

definition send_ui :: "string \<Rightarrow> string \<Rightarrow> ui_bridge option \<Rightarrow> ui_bridge option" where
  "send_ui kind message ui = map_option (ui_send kind message) ui"

definition ui_subtext :: "stats \<Rightarrow> string" where
  "ui_subtext st =
     ''Scanned '' @ show_int (int (st_valid_frames st) - int (st_dark_tries st)) @ '' frames'' @
     (if 1 < st_dark_tries st then '' (skipped '' @ show_int (int (st_dark_tries st)) @ '' dark frames)'' else [])"


section \<open>The snapshot\<close>

text \<open>
  The moment of the snapshot: the date as text, the seconds since the loop began (the clock is
  read once for the scan time and again for the rate), the name of the host, \<open>str\<close> of a float, and the translation of a message.
\<close>

record snapshot_moment =
  sn_date :: string
  sn_elapsed :: rat
  sn_elapsed_rate :: rat
  sn_nodename :: string
  sn_str :: "pyfloat \<Rightarrow> string"
  sn_message :: "string \<Rightarrow> string"

text \<open>The caption; frames per second in no time is a division by zero.\<close>

definition snapshot_caption :: "snapshot_moment \<Rightarrow> string \<Rightarrow> stats \<Rightarrow> exn + string list" where
  "snapshot_caption mo state st =
     (if sn_elapsed_rate mo = 0 then Inl (OtherError ''ZeroDivisionError'')
      else Inr
        [state @ sn_message mo '' LOGIN'',
         sn_message mo ''Date: '' @ sn_date mo,
         sn_message mo ''Scan time: '' @ sn_str mo (Fin (round_to 2 (sn_elapsed mo))) @ ''s'',
         sn_message mo ''Frames: '' @ show_int (int (st_frames st)) @ '' ('' @
           sn_str mo (Fin (round_to 2 (of_nat (st_frames st) / sn_elapsed_rate mo))) @ ''FPS)'',
         sn_message mo ''Hostname: '' @ sn_nodename mo,
         sn_message mo ''Best certainty value: '' @ sn_str mo (fround 1 (fscale 10 (st_lowest_certainty st)))])"

definition make_snapshot ::
    "snap_env \<Rightarrow> snapshot_moment \<Rightarrow> string \<Rightarrow> frame list \<Rightarrow> stats \<Rightarrow> fs \<times> snapshots \<Rightarrow> (fs \<times> snapshots) \<times> (exn + unit)" where
  "make_snapshot env mo state snapframes st disk =
     (case snapshot_caption mo state st of
        Inl e \<Rightarrow> (disk, Inl e)
      | Inr lines \<Rightarrow> thenS (generate env snapframes lines disk) (\<lambda>disk _. (disk, Inr ())))"


section \<open>The end report\<close>

text \<open>The durations a successful attempt has measured, in seconds.\<close>

record timings =
  tm_in :: rat
  tm_ll :: rat
  tm_ic :: rat
  tm_fl :: rat
  tm_tt :: rat

text \<open>The lines of the report with their values.\<close>

datatype report_line =
    Starting_up int
  | Open_and_load int
  | Opening_camera int
  | Importing_libs int
  | Searching int
  | Total int
  | Native rat int
  | Used nat nat
  | Frames_searched nat rat
  | Black_ignored nat
  | Dark_ignored nat
  | Certainty pyfloat
  | Winning_model int string
  | Winning_index int

definition milliseconds :: "rat \<Rightarrow> int" where
  "milliseconds t = round_half_even (t * 1000)"

text \<open>
  \<open>_print_end_report\<close>; \<open>fw\<close> is the configured width of the camera, \<open>fw or 1\<close> what is shown. The
  lines before a division by zero are printed.
\<close>

definition end_report ::
    "timings \<Rightarrow> template_set \<Rightarrow> int \<Rightarrow> pyfloat \<Rightarrow> stats \<Rightarrow> int \<Rightarrow> frame \<Rightarrow> rat \<Rightarrow> report_line list \<times> (exn + unit)" where
  "end_report tm templates match_index match st fw fr height =
     (let head =
        [Starting_up (milliseconds (tm_in tm)),
         Open_and_load (milliseconds (max (tm_ll tm) (tm_ic tm))),
         Opening_camera (milliseconds (tm_ic tm)),
         Importing_libs (milliseconds (tm_ll tm)),
         Searching (milliseconds (tm_fl tm)),
         Total (milliseconds (tm_tt tm)),
         Native height (if fw = 0 then 1 else fw),
         Used (fr_height fr) (fr_width fr)]
      in if tm_fl tm = 0 then (head, Inl (OtherError ''ZeroDivisionError''))
         else (head @
           [Frames_searched (st_frames st) (of_nat (st_frames st) / tm_fl tm),
            Black_ignored (st_black_tries st),
            Dark_ignored (st_dark_tries st),
            Certainty (fscale 10 match),
            (case owner_of templates match_index of
               Some owner \<Rightarrow> Winning_model (t_id owner) (if t_label owner = [] then ''?'' else t_label owner)
             | None \<Rightarrow> Winning_index match_index)], Inr ()))"


section \<open>In the session\<close>

text \<open>A session whose snapshots and report are these.\<close>

definition telling :: "snap_env \<Rightarrow> snapshot_moment \<Rightarrow> fs \<times> snapshots \<Rightarrow> timings \<Rightarrow> auth_env \<Rightarrow> auth_env" where
  "telling env mo disk tm ae =
     ae\<lparr>ae_snapshot := (\<lambda>state frames st. snd (make_snapshot env mo state frames st disk)),
        ae_end_report := (if tm_fl tm = 0 then Inl (OtherError ''ZeroDivisionError'') else Inr ())\<rparr>"

lemma end_report_raises:
  "snd (end_report tm ts i m st fw fr h) =
     (if tm_fl tm = 0 then Inl (OtherError ''ZeroDivisionError'') else Inr ())"
  by (simp add: end_report_def Let_def)

text \<open>
  The report of an accepted face names the template it was matched with: the line of the winning
  model has the id and the label of the owner of the row.
\<close>

theorem report_names_owner:
  assumes "owner_of ts i = Some t" and "tm_fl tm \<noteq> 0"
  shows "last (fst (end_report tm ts i m st fw fr h)) = Winning_model (t_id t) (if t_label t = [] then ''?'' else t_label t)"
  using assms by (simp add: end_report_def Let_def)

text \<open>
  Telling can undo a login. After a face was accepted, an attempt that takes no measurable time
  or cannot write its snapshot ends with the exception of the report or of the snapshot, and the
  rubber stamps are not even asked.
\<close>

theorem telling_undoes_login:
  assumes "ao_end_report ao \<and> tm_fl tm = 0 \<or>
      \<not> (ao_end_report ao \<and> tm_fl tm = 0) \<and> ao_save_successful ao
        \<and> snd (make_snapshot env mo ''SUCCESSFUL'' (lp_snapframes lp) (lp_stats lp) disk) = Inl e"
  shows "\<exists>x. accept (telling env mo disk tm ae) c ao b lp = Raise x"
  using assms by (auto simp: accept_def telling_def)

text \<open>A snapshot of nothing is no file; otherwise the caption has six lines, in the picture in order.\<close>

theorem snapshot_caption_painted:
  assumes "make_snapshot env mo state frames st (s, snaps) = ((s', snaps'), Inr ())" and "frames \<noteq> []" and "sv_written env"
  shows "\<exists>d lines. snaps' (snapshot_path (sv_paths env) (sv_filename env)) = Some d \<and> snapshot_caption mo state st = Inr lines
    \<and> length lines = 6 \<and> map fst (dw_texts d) = lines \<and> dw_frames d = frames"
proof -
  obtain lines where l: "snapshot_caption mo state st = Inr lines"
    using assms(1) by (auto simp: make_snapshot_def split: sum.splits)
  then obtain p where g: "generate env frames lines (s, snaps) = ((s', snaps'), Inr p)"
    using assms(1) by (auto simp: make_snapshot_def flow_simps)
  then obtain d where d: "paint env frames lines = Inr d" "snaps' = snaps(snapshot_path (sv_paths env) (sv_filename env) \<mapsto> d)"
    using assms(2,3) by (auto simp: generate_def Let_def split: sum.splits if_splits)
  have "map fst (text_lines (fr_height (hd frames)) lines) = lines"
    by (rule nth_equalityI) (simp_all add: text_lines_nth)
  then have "map fst (dw_texts d) = lines \<and> dw_frames d = frames"
    using d(1) by (auto simp: paint_def Let_def split: option.splits if_splits)
  moreover have "length lines = 6" using l by (auto simp: snapshot_caption_def split: if_splits)
  ultimately show ?thesis using d(2) l by auto
qed

end
