(* ===== verification/Ini_Props.thy ===== *)
theory Ini_Props
  imports Cli_Samples
begin

text \<open>
  What \<open>cli/set.py\<close> writes is what \<open>configparser\<close> reads back: the rewritten file parses exactly
  when the old one did, to the same sections and options, and a given option has its new value,
  except for the further lines of its old one.
\<close>

section \<open>White space\<close>

lemma rstrip_Cons: "py_rstrip (c # s) = (if py_rstrip s = [] \<and> is_py_space c then [] else c # py_rstrip s)"
proof -
  have "dropWhile is_py_space (rev s @ [c]) =
      (if dropWhile is_py_space (rev s) = [] then (if is_py_space c then [] else [c]) else dropWhile is_py_space (rev s) @ [c])"
    by (induction "rev s" arbitrary: s) (auto simp: dropWhile_append)
  then show ?thesis by (auto simp: py_rstrip_def)
qed

lemma rstrip_Nil [simp]: "py_rstrip [] = []"
  by (simp add: py_rstrip_def)

lemma rstrip_space: "py_rstrip s = [] \<longleftrightarrow> (\<forall>c \<in> set s. is_py_space c)"
  by (induction s) (auto simp: rstrip_Cons)

lemma rstrip_append_solid: "\<not> is_py_space c \<Longrightarrow> py_rstrip (s @ c # t) = s @ c # py_rstrip t"
  by (induction s) (auto simp: rstrip_Cons)

lemma rstrip_append_space: "\<forall>c \<in> set t. is_py_space c \<Longrightarrow> py_rstrip (s @ t) = py_rstrip s"
  by (induction s) (auto simp: rstrip_Cons rstrip_space)

lemma rstrip_solid: "s = [] \<or> \<not> is_py_space (last s) \<Longrightarrow> py_rstrip s = s"
  by (induction s) (auto simp: rstrip_Cons split: if_splits)

lemma strip_rstrip: "py_strip s = py_rstrip (dropWhile is_py_space s)"
  by (simp add: py_strip_def py_rstrip_def)

lemma strip_of_rstrip: "py_strip (py_rstrip s) = py_strip s"
  unfolding strip_rstrip
proof (induction s)
  case (Cons c s)
  have idem: "py_rstrip (py_rstrip s) = py_rstrip s" for s
    by (induction s) (auto simp: rstrip_Cons)
  have nil: "\<forall>x \<in> set s. is_py_space x \<Longrightarrow> dropWhile is_py_space s = []" by simp
  from Cons show ?case by (auto simp: rstrip_Cons idem rstrip_space nil)
qed simp

lemma strip_space_Cons: "is_py_space c \<Longrightarrow> py_strip (c # s) = py_strip s"
  by (simp add: py_strip_def)

lemma strip_space_end: "\<forall>c \<in> set t. is_py_space c \<Longrightarrow> py_strip (s @ t) = py_strip s"
  using strip_of_rstrip [of "s @ t"] strip_of_rstrip [of s] by (simp add: rstrip_append_space)

lemma strip_solid_Cons: "\<not> is_py_space c \<Longrightarrow> py_strip (c # s) = c # py_rstrip s"
  by (simp add: strip_rstrip rstrip_Cons)

lemma space_chars [simp]: "is_py_space CHR '' ''" "is_py_space CHR 0x0A" "\<not> is_py_space CHR ''=''"
  by (simp_all add: is_py_space_def)


section \<open>Option lines\<close>

text \<open>A name that can stand at the beginning of a line.\<close>

definition plain_key :: "string \<Rightarrow> bool" where
  "plain_key k \<longleftrightarrow> k \<noteq> [] \<and> py_lower k = k \<and> (\<forall>ch \<in> set k. \<not> is_delimiter ch) \<and> \<not> is_py_space (hd k) \<and>
     \<not> is_py_space (last k) \<and> hd k \<notin> {CHR ''['', CHR ''#'', CHR '';''}"

text \<open>Every line that sets the option spells it the way \<open>set\<close> looks for it.\<close>

definition spelled :: "string list \<Rightarrow> string \<Rightarrow> bool" where
  "spelled lines k \<longleftrightarrow>
     (\<forall>line \<in> set lines. map_option fst (option_line (py_strip line)) = Some k \<longleftrightarrow> starts_with line (k @ '' ''))"

lemma key_line:
  assumes "plain_key k" and "starts_with line (k @ '' '')"
  obtains c rest where "line = c # rest" "\<not> is_py_space c" "c \<notin> {CHR ''['', CHR ''#'', CHR '';''}"
proof -
  obtain c k' where k: "k = c # k'" using assms(1) by (cases k) (auto simp: plain_key_def)
  have "take (length (k @ '' '')) line = c # k' @ '' ''" using assms(2) k by (simp add: starts_with_def)
  then obtain rest where "line = c # rest" by (cases line) auto
  then show ?thesis using assms(1) k by (intro that) (auto simp: plain_key_def)
qed

text \<open>Such a line is an option line, whatever the parser is in.\<close>

lemma key_line_step:
  assumes "plain_key k" and "starts_with line (k @ '' '')"
  shows "ini_line line st = option_step (py_strip line) (st\<lparr>in_indent := 0\<rparr>)"
proof -
  obtain c rest where l: "line = c # rest" "\<not> is_py_space c" "c \<notin> {CHR ''['', CHR ''#'', CHR '';''}"
    using assms by (rule key_line)
  then have "py_strip line = c # py_rstrip rest" "\<not> is_comment line" "takeWhile is_py_space line = []"
    by (simp_all add: strip_solid_Cons is_comment_def)
  then show ?thesis using l(3) by (simp add: ini_line_def section_header_def)
qed

lemma written_line:
  assumes "plain_key k"
  shows "starts_with (k @ '' = '' @ v @ newline) (k @ '' '')"
    and "option_line (py_strip (k @ '' = '' @ v @ newline)) = Some (k, py_strip v)"
proof -
  show "starts_with (k @ '' = '' @ v @ newline) (k @ '' '')" by (simp add: starts_with_def)
  obtain c k' where k: "k = c # k'" "\<not> is_py_space c" using assms by (cases k) (auto simp: plain_key_def)
  let ?v = "CHR '' '' # v @ newline"
  have "py_strip (k @ '' = '' @ v @ newline) = c # py_rstrip ((k' @ '' '') @ CHR ''='' # ?v)"
    using k by (simp add: strip_solid_Cons)
  also have "\<dots> = (k @ '' '') @ CHR ''='' # py_rstrip ?v"
    by (subst rstrip_append_solid) (simp_all add: k)
  finally have "split_at is_delimiter (py_strip (k @ '' = '' @ v @ newline)) = (k @ '' '', Some (py_rstrip ?v))"
    using assms by (simp only:) (rule split_at_first, auto simp: plain_key_def is_delimiter_def)
  moreover have "py_rstrip (k @ '' '') = k" "py_lower k = k"
    using assms rstrip_append_space [of "'' ''" k] rstrip_solid [of k] by (simp_all add: plain_key_def)
  moreover have "py_strip (py_rstrip ?v) = py_strip v"
    by (simp add: strip_of_rstrip strip_space_Cons newline_def strip_space_end)
  ultimately show "option_line (py_strip (k @ '' = '' @ v @ newline)) = Some (k, py_strip v)"
    by (simp add: option_line_def)
qed


section \<open>The rewritten file\<close>

text \<open>The values of the updated options begin with the new text.\<close>

definition first_value :: "(string \<times> string) list \<Rightarrow> string \<Rightarrow> string list \<Rightarrow> string list" where
  "first_value updates opt vs = (case map_of updates opt of None \<Rightarrow> vs | Some v \<Rightarrow> py_strip v # tl vs)"

definition retouch :: "(string \<times> string) list \<Rightarrow> ini \<Rightarrow> ini" where
  "retouch updates = map (\<lambda>(s, d). (s, map (\<lambda>(opt, vs). (opt, first_value updates opt vs)) d))"

definition retouch_state :: "(string \<times> string) list \<Rightarrow> ini_state \<Rightarrow> ini_state" where
  "retouch_state updates st = st\<lparr>in_sections := retouch updates (in_sections st)\<rparr>"

text \<open>Every option that was read has a first line.\<close>

definition filled :: "ini \<Rightarrow> bool" where
  "filled ini \<longleftrightarrow> (\<forall>(s, d) \<in> set ini. \<forall>(opt, vs) \<in> set d. vs \<noteq> [])"

lemma map_of_map_snd: "map_of (map (\<lambda>(k, v). (k, f k v)) xs) k = map_option (f k) (map_of xs k)"
  by (induction xs) auto

lemma retouch_sections [simp]: "map fst (retouch u ini) = map fst ini"
  by (auto simp: retouch_def)

lemma retouch_of: "map_of (retouch u ini) sec = map_option (map (\<lambda>(opt, vs). (opt, first_value u opt vs))) (map_of ini sec)"
  unfolding retouch_def using map_of_map_snd [of "\<lambda>s d. map (\<lambda>(opt, vs). (opt, first_value u opt vs)) d" ini sec] by simp

lemma retouch_options: "map fst (the (map_of (retouch u ini) sec)) = map fst (the (map_of ini sec))"
  by (cases "map_of ini sec") (auto simp: retouch_of)

lemma retouch_append:
  assumes "filled ini"
  shows "retouch u (on_value sec opt (\<lambda>vs. vs @ [v]) ini) = on_value sec opt (\<lambda>vs. vs @ [v]) (retouch u ini)"
proof -
  have "first_value u k (vs @ [v]) = first_value u k vs @ [v]" if "vs \<noteq> []" for k vs
    using that by (cases "map_of u k") (auto simp: first_value_def)
  then show ?thesis
    using assms unfolding retouch_def on_value_def filled_def by (fastforce split: prod.splits)
qed

lemma retouch_new_option:
  "retouch u (add_option sec k v ini) = add_option sec k (case map_of u k of None \<Rightarrow> v | Some w \<Rightarrow> py_strip w) (retouch u ini)"
  by (auto simp: retouch_def add_option_def first_value_def split: option.splits)

lemma filled_step:
  "filled ini \<Longrightarrow> filled (on_value sec opt (\<lambda>vs. vs @ [v]) ini)"
  "filled ini \<Longrightarrow> filled (add_option sec opt v ini)"
  "filled ini \<Longrightarrow> filled (ini @ [(sec, [])])"
  by (fastforce simp: filled_def on_value_def add_option_def split: if_splits)+

lemma ini_line_filled:
  assumes "filled (in_sections st)" and "ini_line line st = Inr st'"
  shows "filled (in_sections st')"
  using assms
  by (auto simp: ini_line_def Let_def append_value_def section_step_def option_step_def filled_step
      split: if_splits option.splits)

text \<open>A line that is kept, and one that is rewritten.\<close>

lemma kept_line:
  assumes "filled (in_sections st)"
    and "\<And>k w. option_line (py_strip line) = Some (k, w) \<Longrightarrow> map_of u k = None"
  shows "ini_line line (retouch_state u st) = map_sum id (retouch_state u) (ini_line line st)"
proof -
  have add: "retouch u (add_option sec k w (in_sections st)) = add_option sec k w (retouch u (in_sections st))"
    if "option_line (py_strip line) = Some (k, w)" for sec k w
    using assms(2) [OF that] by (simp add: retouch_new_option)
  have sections: "retouch u (ini @ [(name, [])]) = retouch u ini @ [(name, [])]" for ini name
    by (simp add: retouch_def)
  have names: "fst ` set (retouch u ini) = fst ` set ini" for ini
    using retouch_sections [of u ini] by (metis list.set_map)
  have options: "fst ` set (the (map_of (retouch u ini) sec)) = fst ` set (the (map_of ini sec))" for ini sec
    using retouch_options [of u ini sec] by (metis list.set_map)
  show ?thesis
    using assms(1)
    by (auto simp: ini_line_def Let_def append_value_def section_step_def option_step_def in_a_value_def
        retouch_state_def retouch_append add sections names options split: option.splits)
qed

lemma rewritten_line:
  assumes "plain_key k" and "map_of u k = Some v" and "starts_with line (k @ '' '')"
    and "option_line (py_strip line) = Some (k, w)"
  shows "ini_line (k @ '' = '' @ v @ newline) (retouch_state u st) = map_sum id (retouch_state u) (ini_line line st)"
proof -
  have options: "fst ` set (the (map_of (retouch u ini) sec)) = fst ` set (the (map_of ini sec))" for ini sec
    using retouch_options [of u ini sec] by (metis list.set_map)
  define new where "new = k @ '' = '' @ v @ newline"
  have "starts_with new (k @ '' '')" "option_line (py_strip new) = Some (k, py_strip v)"
    using written_line [OF assms(1)] by (simp_all add: new_def)
  then have "ini_line new (retouch_state u st) = map_sum id (retouch_state u) (ini_line line st)"
    using assms(2,4) key_line_step [OF assms(1)] key_line_step [OF assms(1,3)]
    by (auto simp: option_step_def retouch_state_def retouch_new_option options split: option.splits)
  then show ?thesis by (simp add: new_def)
qed

lemma rewritten_lines:
  assumes "\<forall>k \<in> set (map fst u). plain_key k \<and> spelled all k" and "set lines \<subseteq> set all" and "filled (in_sections st)"
  shows "ini_lines (map (new_line u) lines) (retouch_state u st) = map_sum id (retouch_state u) (ini_lines lines st)"
  using assms(2,3)
proof (induction lines arbitrary: st)
  case (Cons line lines)
  have step: "ini_line (new_line u line) (retouch_state u st) = map_sum id (retouch_state u) (ini_line line st)"
  proof (cases "option_name u line")
    case None
    then have n: "\<forall>k \<in> set (map fst u). \<not> starts_with line (k @ '' '')"
      unfolding option_name_def find_None_iff_all .
    have "map_of u k = None" if "option_line (py_strip line) = Some (k, w)" for k w
    proof (rule ccontr)
      assume "map_of u k \<noteq> None"
      then have k: "k \<in> set (map fst u)" by (metis map_of_eq_None_iff list.set_map)
      with assms(1) Cons.prems(1) that have "starts_with line (k @ '' '')" by (auto simp: spelled_def)
      with n k show False by blast
    qed
    with Cons.prems(2) None show ?thesis by (auto simp: new_line_def intro!: kept_line)
  next
    case (Some k)
    then have k: "k \<in> set (map fst u)" "starts_with line (k @ '' '')"
      unfolding option_name_def by (auto dest: find_Some_mem)
    then have "spelled all k" using assms(1) by blast
    then have "map_option fst (option_line (py_strip line)) = Some k"
      using k(2) Cons.prems(1) unfolding spelled_def by simp
    then obtain w where "option_line (py_strip line) = Some (k, w)" by auto
    moreover obtain v where "map_of u k = Some v" using k(1) by (cases "map_of u k") (auto simp: map_of_eq_None_iff)
    moreover have "plain_key k" using assms(1) k(1) by blast
    ultimately show ?thesis using k(2) Some by (simp add: new_line_def rewritten_line [simplified])
  qed
  show ?case
  proof (cases "ini_line line st")
    case (Inr st1)
    with Cons.prems(2) have "filled (in_sections st1)" by (rule ini_line_filled)
    with Cons Inr step show ?thesis by simp
  qed (use step in simp)
qed simp

text \<open>\<open>set\<close> and \<open>configparser\<close> agree, also on what is malformed.\<close>

lemma rewritten_file:
  assumes "\<forall>k \<in> set (map fst u). plain_key k \<and> spelled lines k"
  shows "ini_read (map (new_line u) lines) = map_sum id (retouch u) (ini_read lines)"
proof -
  have "filled (in_sections init_ini)" "retouch_state u init_ini = init_ini"
    by (simp_all add: init_ini_def filled_def retouch_state_def retouch_def)
  with rewritten_lines [OF assms subset_refl, of init_ini]
  have "ini_lines (map (new_line u) lines) init_ini = map_sum id (retouch_state u) (ini_lines lines init_ini)" by simp
  then show ?thesis by (cases "ini_lines lines init_ini") (auto simp: ini_read_def retouch_state_def)
qed

lemma retouch_values:
  "ini_values (retouch u ini) sec opt = map_option (first_value u opt) (ini_values ini sec opt)"
  by (cases "map_of ini sec"; cases "map_of ini DEFAULT")
    (auto simp: ini_values_def retouch_of map_of_map_snd split: option.splits)


section \<open>Reading back what was set\<close>

lemma strip_strip [simp]: "py_strip (py_strip s) = py_strip s"
  by (metis strip_of_rstrip strip_rstrip dropWhile_idem)

lemma rstrip_strip: "py_rstrip (py_strip s) = py_strip s"
proof -
  have "py_rstrip (py_rstrip s) = py_rstrip s" for s by (induction s) (auto simp: rstrip_Cons)
  then show ?thesis by (simp add: strip_rstrip)
qed

lemma interpolate_char [simp]:
  "interpolate n m [] = Inr []"
  "ch \<noteq> CHR ''%'' \<Longrightarrow> interpolate n m (ch # rest) = bindE (interpolate n m rest) (\<lambda>t. Inr (ch # t))"
  by (subst interpolate.simps, simp)+

lemma interpolate_plain: "CHR ''%'' \<notin> set v \<Longrightarrow> interpolate n m v = Inr v"
  by (induction v) auto

lemma interpolate_lone: "CHR ''%'' \<notin> set v \<Longrightarrow> interpolate n m (v @ ''%'') = Inl (OtherError ''InterpolationSyntaxError'')"
proof (induction v)
  case Nil
  show ?case by (subst interpolate.simps) simp
qed auto

lemma strip_subset: "set (py_strip s) \<subseteq> set s"
  unfolding py_strip_def by (auto dest!: set_dropWhileD)

lemma get_plain:
  "ini_values ini sec k = Some [py_strip v] \<Longrightarrow> py_lower k = k \<Longrightarrow> CHR ''%'' \<notin> set v \<Longrightarrow>
     ini_get ini sec k = Inr (Some (py_strip v))"
  using interpolate_plain [OF contra_subsetD [OF strip_subset [of v]]]
  by (simp add: ini_get_def ini_raw_def option_value_def rstrip_strip)

lemma set_rewrites:
  assumes "cmd_set env s = (s', Inr ())" and "\<not> cl_redirected s" and "cl_config s = Some lines"
    and "\<forall>k \<in> set (map fst (dict_of (pairs_of (ca_arguments (ce_args env))))). plain_key k \<and> spelled lines k"
  shows "\<exists>new. cl_config s' = Some new \<and>
    (case ini_read lines of
       Inl e \<Rightarrow> ini_read new = Inl e
     | Inr ini \<Rightarrow> \<exists>ini'. ini_read new = Inr ini' \<and> map fst ini' = map fst ini
         \<and> (\<forall>sec opt. ini_values ini' sec opt = map_option
              (\<lambda>vs. case given (ca_arguments (ce_args env)) opt of None \<Rightarrow> vs | Some v \<Rightarrow> py_strip v # tl vs)
              (ini_values ini sec opt))
         \<and> (\<forall>sec k v w. given (ca_arguments (ce_args env)) k = Some v \<longrightarrow> ini_values ini sec k = Some [w] \<longrightarrow>
              CHR ''%'' \<notin> set v \<longrightarrow> ini_get ini' sec k = Inr (Some (py_strip v))))"
proof -
  let ?args = "ca_arguments (ce_args env)"
  let ?u = "dict_of (pairs_of ?args)"
  have u: "map_of ?u k = given ?args k" for k by (simp add: given_def map_of_dict_of)
  obtain s1 where "swap_config env (map (new_line ?u) lines) s = (s1, Inr ())"
    and s': "s' = ok env (JObj [(''updated'', JObj (map (\<lambda>(k, v). (k, JStr v)) ?u))]) s1"
    using assms(1,3) by (auto simp: cmd_set_def Let_def flow_simps fail_def read_config_def split: if_splits sum.splits option.splits)
  then have new: "cl_config s' = Some (map (new_line ?u) lines)"
    using swap_config_cases assms(2) by (fastforce simp: s')
  have r: "ini_read (map (new_line ?u) lines) = map_sum id (retouch ?u) (ini_read lines)"
    using assms(4) by (rule rewritten_file)
  have lower: "py_lower k = k" if "given ?args k = Some v" for k v
  proof -
    have "k \<in> set (map fst ?u)" using that u by (metis map_of_eq_None_iff list.set_map option.distinct(1))
    then show ?thesis using assms(4) by (auto simp: plain_key_def)
  qed
  show ?thesis
  proof (cases "ini_read lines")
    case (Inr ini)
    have v: "ini_values (retouch ?u ini) sec opt = map_option
        (\<lambda>vs. case given ?args opt of None \<Rightarrow> vs | Some v \<Rightarrow> py_strip v # tl vs) (ini_values ini sec opt)" for sec opt
      by (simp add: retouch_values first_value_def [abs_def] u)
    moreover have "ini_get (retouch ?u ini) sec k = Inr (Some (py_strip v))"
      if "given ?args k = Some v" "ini_values ini sec k = Some [w]" "CHR ''%'' \<notin> set v" for sec k v w
      using that lower by (intro get_plain) (simp_all add: v)
    ultimately show ?thesis using new r Inr by auto
  qed (use new r in auto)
qed

text \<open>
  C16: what \<open>set\<close> writes is what the daemon reads. If every line of \<open>config.ini\<close> that sets a given
  option spells it \<open>name = ...\<close>, the new file is malformed exactly when the old one was; else it
  has the same sections and options, each option that was not given has the lines it had, each
  given one has the new value in place of its first line, and reading one whose value was a
  single line gives the new value.
\<close>

theorem set_then_read:
  assumes "cmd_set env s = (s', Inr ())" and "\<not> cl_redirected s" and "cl_config s = Some lines"
    and "\<forall>k \<in> set (map fst (dict_of (pairs_of (ca_arguments (ce_args env))))). plain_key k \<and> spelled lines k"
  shows "\<exists>new. cl_config s' = Some new \<and>
    (case ini_read lines of
       Inl e \<Rightarrow> ini_read new = Inl e
     | Inr ini \<Rightarrow> \<exists>ini'. ini_read new = Inr ini' \<and> map fst ini' = map fst ini
         \<and> (\<forall>sec opt. ini_values ini' sec opt = map_option
              (\<lambda>vs. case given (ca_arguments (ce_args env)) opt of None \<Rightarrow> vs | Some v \<Rightarrow> py_strip v # tl vs)
              (ini_values ini sec opt))
         \<and> (\<forall>sec k v w. given (ca_arguments (ce_args env)) k = Some v \<longrightarrow> ini_values ini sec k = Some [w] \<longrightarrow>
              CHR ''%'' \<notin> set v \<longrightarrow> ini_get ini' sec k = Inr (Some (py_strip v))))"
  by (rule set_rewrites [OF assms])

text \<open>\<open>secureEye set timeout 6\<close>\<close>

theorem set_then_read_witness:
  "\<exists>new ini'. cl_config (fst (cmd_set set_cli (sample_state set_lines []))) = Some new \<and> ini_read new = Inr ini' \<and>
     ini_get ini' ''video'' ''timeout'' = Inr (Some ''6'')"
proof -
  have args: "ca_arguments (ce_args set_cli) = [''timeout'', ''5'', ''timeout'', ''6'']"
    by (simp add: set_cli_def sample_cli_def sample_args_def)
  have k: "\<forall>k \<in> set (map fst (dict_of (pairs_of (ca_arguments (ce_args set_cli))))). plain_key k \<and> spelled set_lines k"
    by code_simp
  have g: "given (ca_arguments (ce_args set_cli)) ''timeout'' = Some ''6''" by (simp add: args given_sample)
  obtain ini where ini: "ini_read set_lines = Inr ini" "ini_values ini ''video'' ''timeout'' = Some [''4'']"
  proof -
    have "bindE (ini_read set_lines) (\<lambda>ini. Inr (ini_values ini ''video'' ''timeout'')) = Inr (Some [''4''])" by code_simp
    then show ?thesis using that by (auto simp: bindE_Inr_iff)
  qed
  have v: "py_strip ''6'' = ''6''" "CHR ''%'' \<notin> set ''6''" by code_simp+
  have c: "\<not> cl_redirected (sample_state set_lines [])" "cl_config (sample_state set_lines []) = Some set_lines"
    by (simp_all add: sample_state_def)
  from set_then_read [OF pair_of_snd [OF set_runs(1)] c k] ini g v show ?thesis by fastforce
qed

text \<open>
  Only the first line of an option is replaced: the rules that follow \<open>stamp_rules =\<close> stay. And a
  value with a single \<open>%\<close> is accepted, after which the option cannot be read.
\<close>

definition stamp_lines :: "string list" where
  "stamp_lines = [''[rubberstamps]'' @ newline, ''# one rule in a line'' @ newline, ''stamp_rules ='' @ newline,
     [CHR 0x09] @ ''nod 5s failsafe'' @ newline, newline, ''[debug]'' @ newline, ''end_report = false'' @ newline]"

definition setting :: "string list \<Rightarrow> string list \<Rightarrow> exn + ini" where
  "setting args lines = (case cl_config (fst (cmd_set (sample_cli (sample_args ''set'' args)) (sample_state lines []))) of
     None \<Rightarrow> Inl FileNotFoundError | Some new \<Rightarrow> ini_read new)"

lemma set_keeps_later_lines:
  "bindE (setting [''stamp_rules'', ''hotkey 9s faildeadly''] stamp_lines) (\<lambda>ini. ini_get ini ''rubberstamps'' ''stamp_rules'') =
     Inr (Some (''hotkey 9s faildeadly'' @ newline @ ''nod 5s failsafe''))"
  by code_simp

lemma set_accepts_percent:
  "bindE (setting [''timeout'', ''5%''] set_lines) (\<lambda>ini. ini_get ini ''video'' ''timeout'') =
     Inl (OtherError ''InterpolationSyntaxError'')"
  by code_simp

end
