(* ===== verification/Mediapipe.thy ===== *)
theory Mediapipe
  imports Pipeline_Props
begin

text \<open>
  \<open>detectors/mediapipe_detector.py\<close>: fetching the two models of MediaPipe into the user's cache,
  loading them, and the embedding they make; \<open>detectors/dlib_detector.py\<close> as a detector of its
  own. What is in the models is MediaPipe's.
\<close>

section \<open>The cache of models\<close>

type_synonym model_cache = "string \<Rightarrow> nat list option"

text \<open>
  The directory, the network, writing a file (what is left of it, and the exception), and loading
  a file into a detector or a landmarker.
\<close>

record mp_world =
  mpw_mkdir :: "exn option"
  mpw_urlopen :: "string \<Rightarrow> exn + nat list"
  mpw_write :: "string \<Rightarrow> nat list \<Rightarrow> nat list option \<times> exn option"
  mpw_detector :: "nat list \<Rightarrow> exn + (frame \<Rightarrow> exn + (int \<times> int \<times> int \<times> int) list)"
  mpw_landmarker :: "nat list \<Rightarrow> exn + (frame \<Rightarrow> exn + landmark list list)"
  mpw_gray2rgb :: "frame \<Rightarrow> exn + frame"
  mpw_bgr2rgb :: "frame \<Rightarrow> exn + frame"
  mpw_kernels :: mp_kernels

definition FACE_DETECTOR_MODEL_URL :: string where
  "FACE_DETECTOR_MODEL_URL = ''https://storage.googleapis.com/mediapipe-models/face_detector/'' @
     ''blaze_face_short_range/float16/latest/blaze_face_short_range.tflite''"

definition FACE_LANDMARKER_MODEL_URL :: string where
  "FACE_LANDMARKER_MODEL_URL = ''https://storage.googleapis.com/mediapipe-models/face_landmarker/'' @
     ''face_landmarker/float16/latest/face_landmarker.task''"

text \<open>An \<open>Exception\<close> of the download or of the write becomes a \<open>RuntimeError\<close>.\<close>

definition download_failed :: "exn \<Rightarrow> exn" where
  "download_failed e = (if is_exception e then OtherError ''RuntimeError'' else e)"

definition ensure_model :: "mp_world \<Rightarrow> string \<Rightarrow> string \<Rightarrow> model_cache \<Rightarrow> model_cache \<times> (exn + string)" where
  "ensure_model w url destination cache =
     (if cache destination \<noteq> None then (cache, Inr destination)
      else case mpw_mkdir w of
        Some e \<Rightarrow> (cache, Inl e)
      | None \<Rightarrow>
          (case mpw_urlopen w url of
             Inl e \<Rightarrow> (cache, Inl (download_failed e))
           | Inr response \<Rightarrow>
               (case mpw_write w destination response of
                  (left, Some e) \<Rightarrow> (cache(destination := left), Inl (download_failed e))
                | (_, None) \<Rightarrow> (cache(destination \<mapsto> response), Inr destination))))"

text \<open>\<open>MediaPipeDetector.__init__\<close>\<close>

definition load_mediapipe :: "mp_world \<Rightarrow> model_cache \<Rightarrow> model_cache \<times> (exn + mp_models)" where
  "load_mediapipe w cache =
     thenS (ensure_model w FACE_DETECTOR_MODEL_URL ''blaze_face_short_range.tflite'' cache) (\<lambda>cache detector_path.
     thenS (ensure_model w FACE_LANDMARKER_MODEL_URL ''face_landmarker.task'' cache) (\<lambda>cache landmarker_path.
       (cache,
        bindE (mpw_detector w (the (cache detector_path))) (\<lambda>detector.
        bindE (mpw_landmarker w (the (cache landmarker_path))) (\<lambda>landmarker.
          Inr \<lparr>mp_detector = detector, mp_landmarker = landmarker, mp_gray2rgb = mpw_gray2rgb w,
               mp_bgr2rgb = mpw_bgr2rgb w, mp_kernels = mpw_kernels w\<rparr>)))))"


section \<open>The dlib detector by itself\<close>

definition dlib_rects :: "dlib_models \<Rightarrow> frame \<Rightarrow> exn + rect list" where
  "dlib_rects m fr = bindE (dl_detector m fr) (\<lambda>faces. Inr (map fst faces))"

definition dlib_encode :: "dlib_models \<Rightarrow> frame \<Rightarrow> int \<times> int \<times> int \<times> int \<Rightarrow> exn + ndarray" where
  "dlib_encode m fr face_box = bindE (dl_pose m fr face_box) (dl_descriptor m fr)"

text \<open>The recognizer of the pipeline is this encoding of the box of the face.\<close>

lemma dlib_embed_encodes:
  "dlib_embed m fr f = bindE (dlib_encode m fr (bbox_to_rect (f_bbox f))) (\<lambda>d.
     make_embedding (ravel d) LEGACY_MODEL_ID DLIB_DESCRIPTOR_DIM)"
  by (simp add: dlib_embed_def dlib_encode_def bindE_assoc)


section \<open>Models are fetched once\<close>

lemma ensure_model_cases:
  assumes "ensure_model w url d c = (c', r)"
  shows "(\<forall>p. p \<noteq> d \<longrightarrow> c' p = c p) \<and> (c d \<noteq> None \<longrightarrow> c' = c \<and> r = Inr d) \<and> (\<forall>p. r = Inr p \<longrightarrow> p = d \<and> c' d \<noteq> None)"
  using assms by (auto simp: ensure_model_def split: option.splits sum.splits prod.splits if_splits)

text \<open>Once loaded, the models are loaded from the cache, whatever the network does.\<close>

theorem mediapipe_loads_again:
  assumes "load_mediapipe w c = (c', Inr m)"
    and "mpw_detector w' = mpw_detector w" "mpw_landmarker w' = mpw_landmarker w" "mpw_gray2rgb w' = mpw_gray2rgb w"
      "mpw_bgr2rgb w' = mpw_bgr2rgb w" "mpw_kernels w' = mpw_kernels w"
  shows "load_mediapipe w' c' = (c', Inr m)"
proof -
  let ?d = "''blaze_face_short_range.tflite''" and ?l = "''face_landmarker.task''"
  obtain c1 p q where e: "ensure_model w FACE_DETECTOR_MODEL_URL ?d c = (c1, Inr p)"
    "ensure_model w FACE_LANDMARKER_MODEL_URL ?l c1 = (c', Inr q)"
    using assms(1) by (auto simp: load_mediapipe_def flow_simps)
  have "p = ?d" "c1 ?d \<noteq> None" "q = ?l" "c' ?l \<noteq> None" "c' ?d = c1 ?d"
    using ensure_model_cases [OF e(1)] ensure_model_cases [OF e(2)] by auto
  then have "c' ?d \<noteq> None" "c' ?l \<noteq> None" "p = ?d" "q = ?l" by auto
  then show ?thesis
    using assms(1) e by (simp add: load_mediapipe_def ensure_model_def [of w'] assms(2-6))
qed

text \<open>
  A write that fails half way leaves a file that the next start takes for the model: nothing
  checks its contents.
\<close>

theorem broken_model_kept:
  assumes "c d = None" and "mpw_mkdir w = None" and "mpw_urlopen w url = Inr response"
    and "mpw_write w d response = (Some part, Some e)"
  shows "\<exists>c' x. ensure_model w url d c = (c', Inl x) \<and> ensure_model w' url d c' = (c', Inr d) \<and> c' d = Some part"
  using assms by (simp add: ensure_model_def)


section \<open>Embeddings\<close>

text \<open>What numpy documents of the kernels: the number of points, and one value for each.\<close>

definition kernel_law :: "mp_kernels \<Rightarrow> bool" where
  "kernel_law mk \<longleftrightarrow> (\<forall>stop n. length (mk_linspace mk stop n) = n) \<and>
     (\<forall>x xp fp v. mk_interp mk x xp fp = Inr v \<longrightarrow> length v = length x)"

lemma landmarks_embedding_size:
  assumes "kernel_law mk" and "landmarks_to_embedding mk ls = Inr v"
  shows "nd_shape v = [EMBEDDING_SIZE] \<and> length (nd_data v) = EMBEDDING_SIZE"
  using assms by (auto simp: landmarks_to_embedding_def Let_def flow_simps kernel_law_def split: if_splits)

lemma mp_encode_size:
  assumes "kernel_law (mp_kernels m)" and "mp_encode m fr box = Inr v"
  shows "length (nd_data v) = EMBEDDING_SIZE"
proof -
  have z: "length (nd_data zero_embedding) = EMBEDDING_SIZE" by (simp add: zero_embedding_def)
  then have "length (nd_data v) = EMBEDDING_SIZE"
    if "(case faces of [] \<Rightarrow> Inr zero_embedding | ls # _ \<Rightarrow> landmarks_to_embedding (mp_kernels m) ls) = Inr v" for faces
    using that landmarks_embedding_size [OF assms(1)] by (cases faces) auto
  with z show ?thesis
    using assms(2) by (auto simp: mp_encode_def Let_def flow_simps split: prod.splits if_splits)
qed

text \<open>
  The recognizer never fails on a vector of the wrong size: whatever number of landmarks
  MediaPipe finds, and in a box that misses the frame, the embedding has 128 values in the space
  of the backend; only OpenCV, MediaPipe and \<open>interp\<close> may raise.
\<close>

theorem mediapipe_embeds:
  assumes "kernel_law (mp_kernels m)"
  shows "(\<forall>e. mediapipe_embed m fr f = Inl e \<longleftrightarrow> mp_encode m fr (f_bbox f) = Inl e) \<and>
    (\<forall>em. mediapipe_embed m fr f = Inr em \<longrightarrow> e_dim em = 128 \<and> length (nd_data (e_vector em)) = 128)"
proof -
  have "make_embedding (ravel v) MEDIAPIPE_MODEL_ID MEDIAPIPE_EMBEDDING_DIM =
      Inr \<lparr>e_vector = ravel v, e_model_id = MEDIAPIPE_MODEL_ID, e_dim = MEDIAPIPE_EMBEDDING_DIM\<rparr>"
    if "mp_encode m fr (f_bbox f) = Inr v" for v
    using mp_encode_size [OF assms that] by (simp add: make_embedding_def ravel_def MEDIAPIPE_EMBEDDING_DIM_def EMBEDDING_SIZE_def)
  then show ?thesis
    using mp_encode_size [OF assms, of fr "f_bbox f"]
    by (auto simp: mediapipe_embed_def flow_simps ravel_def MEDIAPIPE_EMBEDDING_DIM_def EMBEDDING_SIZE_def
        make_embedding_def split: sum.splits)
qed

text \<open>A slice of an array has the pixels of its rows.\<close>

definition channels :: "frame \<Rightarrow> nat" where
  "channels fr = (case fr_channels fr of None \<Rightarrow> 1 | Some n \<Rightarrow> n)"

definition whole :: "frame \<Rightarrow> bool" where
  "whole fr \<longleftrightarrow> length (fr_pixels fr) = fr_height fr * fr_width fr * channels fr"

lemma slice_whole:
  assumes "whole fr" and "x2 \<le> fr_width fr" and "y2 \<le> fr_height fr"
  shows "whole (face_slice fr x1 y1 x2 y2)"
proof -
  let ?ch = "channels fr" and ?w = "fr_width fr"
  have row: "length (take ((x2 - x1) * ?ch) (drop ((y * ?w + x1) * ?ch) (fr_pixels fr))) = (x2 - x1) * ?ch"
    if "y < y2" for y
  proof (cases "x1 \<le> x2")
    case True
    have "(y * ?w + x1) * ?ch + (x2 - x1) * ?ch = (y * ?w + x2) * ?ch" using True by (simp flip: add_mult_distrib)
    also have "\<dots> \<le> (Suc y * ?w) * ?ch" using assms(2) by (intro mult_le_mono1) simp
    also have "\<dots> \<le> (fr_height fr * ?w) * ?ch" using that assms(3) by (intro mult_le_mono1) simp
    finally have "(y * ?w + x1) * ?ch + (x2 - x1) * ?ch \<le> length (fr_pixels fr)"
      using assms(1) by (simp add: whole_def)
    then show ?thesis by simp
  qed simp
  have "length (concat (map (\<lambda>y. take ((x2 - x1) * ?ch) (drop ((y * ?w + x1) * ?ch) (fr_pixels fr))) [y1..<y2])) =
      (y2 - y1) * ((x2 - x1) * ?ch)"
  proof -
    have m: "map (length \<circ> (\<lambda>y. take ((x2 - x1) * ?ch) (drop ((y * ?w + x1) * ?ch) (fr_pixels fr)))) [y1..<y2] =
        map (\<lambda>_. (x2 - x1) * ?ch) [y1..<y2]"
      using row by (intro map_cong) auto
    show ?thesis by (simp only: length_concat map_map m sum_list_triv length_map length_upt of_nat_id map_replicate_const sum_list_replicate)
  qed
  then show ?thesis by (simp add: whole_def face_slice_def channels_def Let_def)
qed

end
