(* ===== verification/Watch.thy ===== *)
theory Watch
  imports Manage Transitions
begin

text \<open>
  The threads around a camera session of \<open>authd/manage.py\<close>: the session itself, the watcher that
  reads what the client still sends (\<open>_watch_client\<close>), and a login that takes the camera away
  through \<open>_Holder\<close>. \<open>Manage\<close> sees of them only the cancels they cause.
\<close>

section \<open>The watcher\<close>

text \<open>One turn of its loop: whether \<open>done\<close> is set, and what \<open>select\<close> said.\<close>

type_synonym poll = "bool \<times> (exn + bool)"

text \<open>\<open>None\<close>: nothing to do about it, go on. An exception of any kind means the client is gone.\<close>

definition watch_poll :: "codec \<Rightarrow> exn + bool \<Rightarrow> conn \<Rightarrow> conn \<times> bool option" where
  "watch_poll cd readable c = (case readable of
      Inl e \<Rightarrow> (c, Some (is_exception e))
    | Inr False \<Rightarrow> (c, None)
    | Inr True \<Rightarrow>
        (case read_frame cd None c of
           (c, Inl e) \<Rightarrow> (c, Some (is_exception e))
         | (c, Inr message) \<Rightarrow> (c, if jget message ''type'' = Some (JStr ''cancel'') then Some True else None)))"

text \<open>Whether the watcher has cancelled the session when it ends; \<open>None\<close> while it watches.\<close>

fun watch_client :: "codec \<Rightarrow> poll list \<Rightarrow> conn \<Rightarrow> conn \<times> bool option" where
  "watch_client cd [] c = (c, None)"
| "watch_client cd ((stop, readable) # polls) c =
     (if stop then (c, Some False)
      else case watch_poll cd readable c of
        (c, None) \<Rightarrow> watch_client cd polls c
      | (c, Some b) \<Rightarrow> (c, Some b))"

text \<open>Once \<open>done\<close> is set nothing is cancelled any more, and the watcher is gone at its next turn.\<close>

lemma watch_ends:
  "watch_client cd (map (Pair False) ps @ (True, x) # rest) c = (c', r) \<Longrightarrow> r \<noteq> None"
  by (induction ps arbitrary: c) (auto split: prod.splits option.splits)

lemma watch_done: "watch_client cd ((True, x) # polls) c = (c, Some False)"
  by simp

text \<open>While the client is silent or says anything else, the session goes on.\<close>

lemma watch_quiet: "watch_client cd (replicate n (False, Inr False) @ polls) c = watch_client cd polls c"
  by (induction n) (auto simp: watch_poll_def)

text \<open>A client that hangs up or sends garbage is as good as one that asks to stop.\<close>

lemma watch_garbage:
  assumes "read_frame cd None c = (c', Inl e)" and "is_exception e"
  shows "watch_client cd (replicate n (False, Inr False) @ (False, Inr True) # polls) c = (c', Some True)"
  using assms by (simp add: watch_quiet watch_poll_def)


section \<open>The threads together\<close>

text \<open>
  The session thread runs the session, sets \<open>done\<close>, gives the camera back and answers.
  \<open>th_asked\<close> and \<open>th_lost\<close> remember why: the watcher cancelled, or sending a frame failed.
\<close>

datatype session_at = Running | Ended string | Stopping string | Released string | Answered string

record threads =
  th_at :: session_at
  th_cancelled :: bool
  th_done :: bool
  th_watching :: bool
  th_preempted :: bool
  th_held :: bool
  th_asked :: bool
  th_lost :: bool

definition started_threads :: threads where
  "started_threads = \<lparr>th_at = Running, th_cancelled = False, th_done = False, th_watching = True, th_preempted = False,
     th_held = True, th_asked = False, th_lost = False\<rparr>"

definition final_result :: "bool \<Rightarrow> string \<Rightarrow> string" where
  "final_result preempted result = (if result = ''cancelled'' \<and> preempted then ''preempted'' else result)"

text \<open>
  \<open>_Holder.cancel\<close> is two steps of the login, and the arbiter calls it while the camera is held.
  A session ends as cancelled only when it was cancelled or could not send a frame.
\<close>

inductive thread_step :: "threads \<Rightarrow> threads \<Rightarrow> bool" where
  client_cancels: "th_watching t \<Longrightarrow> \<not> th_done t \<Longrightarrow> watch_poll cd readable c = (c', Some True) \<Longrightarrow>
    thread_step t (t\<lparr>th_cancelled := True, th_watching := False, th_asked := True\<rparr>)"
| watcher_ends: "th_watching t \<Longrightarrow> th_done t \<Longrightarrow> thread_step t (t\<lparr>th_watching := False\<rparr>)"
| login_preempts_holder: "th_held t \<Longrightarrow> thread_step t (t\<lparr>th_preempted := True\<rparr>)"
| login_cancels: "th_preempted t \<Longrightarrow> thread_step t (t\<lparr>th_cancelled := True\<rparr>)"
| frame_lost: "th_at t = Running \<Longrightarrow> thread_step t (t\<lparr>th_lost := True\<rparr>)"
| session_ends: "th_at t = Running \<Longrightarrow> (r = ''cancelled'' \<Longrightarrow> th_cancelled t \<or> th_lost t) \<Longrightarrow>
    thread_step t (t\<lparr>th_at := Ended r\<rparr>)"
| sets_done: "th_at t = Ended r \<Longrightarrow> thread_step t (t\<lparr>th_at := Stopping r, th_done := True\<rparr>)"
| gives_back: "th_at t = Stopping r \<Longrightarrow> thread_step t (t\<lparr>th_at := Released r, th_held := False\<rparr>)"
| answers: "th_at t = Released r \<Longrightarrow> thread_step t (t\<lparr>th_at := Answered (final_result (th_preempted t) r)\<rparr>)"

inductive_cases thread_stepE [elim]: "thread_step t t'"

definition thread_inv :: "threads \<Rightarrow> bool" where
  "thread_inv t \<longleftrightarrow>
     (th_cancelled t \<longrightarrow> th_asked t \<or> th_preempted t) \<and>
     (case th_at t of
        Running \<Rightarrow> th_held t \<and> \<not> th_done t
      | Ended r \<Rightarrow> th_held t \<and> \<not> th_done t \<and> (r = ''cancelled'' \<longrightarrow> th_cancelled t \<or> th_lost t)
      | Stopping r \<Rightarrow> th_held t \<and> th_done t \<and> (r = ''cancelled'' \<longrightarrow> th_cancelled t \<or> th_lost t)
      | Released r \<Rightarrow> \<not> th_held t \<and> th_done t \<and> (r = ''cancelled'' \<longrightarrow> th_cancelled t \<or> th_lost t)
      | Answered r \<Rightarrow> \<not> th_held t \<and> th_done t \<and> (r = ''cancelled'' \<longrightarrow> (th_asked t \<or> th_lost t) \<and> \<not> th_preempted t))"

lemma thread_inv_step: "thread_inv t \<Longrightarrow> thread_step t t' \<Longrightarrow> thread_inv t'"
  by (erule thread_stepE) (auto simp: thread_inv_def final_result_def split: session_at.splits)

interpretation thr: inductive_invariant started_threads thread_step thread_inv
  by unfold_locales (simp add: thread_inv_def started_threads_def, rule thread_inv_step)

text \<open>
  However the threads interleave: the client is told \<open>cancelled\<close> only if it asked for it, left,
  or could not be sent a frame, and no login had taken the camera; and by then the camera is
  free for the login that waits.
\<close>

theorem cancelled_was_asked:
  assumes "rtranclp thread_step started_threads t" and "th_at t = Answered r"
  shows "\<not> th_held t \<and> th_done t \<and> (r = ''cancelled'' \<longrightarrow> (th_asked t \<or> th_lost t) \<and> \<not> th_preempted t)"
  using thr.reachable_inv [OF assms(1)] assms(2) by (simp add: thread_inv_def)

text \<open>A session that a login cancels is answered as preempted.\<close>

lemma preempted_stays: "rtranclp thread_step t t' \<Longrightarrow> th_preempted t \<Longrightarrow> th_preempted t'"
  by (induction rule: rtranclp_induct) auto

theorem preempted_is_told:
  assumes "rtranclp thread_step started_threads t" and "th_preempted t"
    and "rtranclp thread_step t t'" and "th_at t' = Answered r"
  shows "r \<noteq> ''cancelled''"
proof -
  have "rtranclp thread_step started_threads t'" using assms(1,3) by (rule rtranclp_trans)
  then show ?thesis
    using thr.reachable_inv [of t'] preempted_stays [OF assms(3,2)] assms(4) by (auto simp: thread_inv_def)
qed

end
