(* ===== verification/Glue.thy ===== *)
theory Glue
  imports Session_Text
begin

text \<open>
  The small parts: the paths of an installation (\<open>paths_factory.py\<close>), \<open>compare.py\<close>, the deprecated
  \<open>auth/model_store.py\<close>, and the pipe to the former GTK window of \<open>rubberstamps/__init__.py\<close>.
\<close>

section \<open>Paths\<close>

text \<open>
  The build writes \<open>paths.py\<close> (\<open>generated\<close>); a source checkout has none. The environment
  overrides either.
\<close>

definition resolved_paths :: "(string \<Rightarrow> string option) \<Rightarrow> path_config option \<Rightarrow> path \<Rightarrow> path_config" where
  "resolved_paths environ generated src_dir =
     apply_env_overrides environ (case generated of Some p \<Rightarrow> p | None \<Rightarrow> default_paths src_dir)"

definition dlib_data_file :: "path_config \<Rightarrow> nat \<Rightarrow> path" where
  "dlib_data_file ps i = join_path (dlib_data_dir ps) (dlib_model_files ! i)"

definition shape_predictor_path :: "path_config \<Rightarrow> path" where
  "shape_predictor_path ps = dlib_data_file ps 0"

definition mmod_detector_path :: "path_config \<Rightarrow> path" where
  "mmod_detector_path ps = dlib_data_file ps 1"

definition recognition_resnet_path :: "path_config \<Rightarrow> path" where
  "recognition_resnet_path ps = dlib_data_file ps 2"

definition user_models_dir_path :: "path_config \<Rightarrow> path" where
  "user_models_dir_path ps = user_models_dir ps"

definition logo_path :: "path_config \<Rightarrow> path" where
  "logo_path ps = join_path (data_dir ps) ''logo.png''"

text \<open>The three files are where \<open>DlibDetector\<close> looks for them before it loads them.\<close>

lemma dlib_files_checked:
  assumes "load_dlib ld cnn = Inr m" and "ld_data_dir ld = dlib_data_dir ps"
  shows "ld_is_file ld (shape_predictor_path ps) \<and> ld_is_file ld (mmod_detector_path ps) \<and> ld_is_file ld (recognition_resnet_path ps)"
proof -
  have "dlib_data_file ps i = dlib_data_dir ps @ [dlib_model_files ! i]" if "i < 3" for i
  proof -
    have "i = 0 \<or> i = 1 \<or> i = 2" using that by auto
    then have "CHR ''/'' \<notin> set (dlib_model_files ! i)" "dlib_model_files ! i \<noteq> []" "dlib_model_files ! i \<noteq> ''.''"
      by (auto simp: dlib_model_files_def)
    then show ?thesis unfolding dlib_data_file_def by (rule join_path_plain)
  qed
  moreover have "ld_is_file ld (dlib_data_dir ps @ [dlib_model_files ! i])" if "i < 3" for i
    using assms that by (auto simp: load_dlib_def dlib_model_files_def less_Suc_eq numeral_3_eq_3 split: if_splits)
  ultimately show ?thesis
    by (simp add: shape_predictor_path_def mmod_detector_path_def recognition_resnet_path_def)
qed

text \<open>A variable that is set decides alone where the models are.\<close>

lemma override_decides:
  assumes "environ ''SECUREEYE_MODELS_DIR'' = Some d" and "d \<noteq> []"
  shows "user_models_dir (resolved_paths environ g src) = path_parts d"
  using assms by (simp add: resolved_paths_def apply_env_overrides_def override_dir_def)


section \<open>compare\<close>

definition compare_main :: "auth_env \<Rightarrow> string list \<Rightarrow> tick list \<Rightarrow> session \<Rightarrow> session \<times> (exn + int) option" where
  "compare_main env argv tks s =
     (if length argv < 2 then (s, Some (Inr (code ABORT))) else run env (argv ! 1) tks s)"


section \<open>The old model store\<close>

record legacy_model =
  lm_id :: int
  lm_label :: string
  lm_time :: int
  lm_data :: vectors

definition load_user_models :: "store_env \<Rightarrow> fs \<Rightarrow> string \<Rightarrow> exn + (legacy_model list \<times> vectors)" where
  "load_user_models env s user = (case load env s user LEGACY_MODEL_ID of
      Inl e \<Rightarrow> Inl (if e = TemplateSpaceMismatch then EmptyTemplateStore else e)
    | Inr templates \<Rightarrow>
        Inr (map (\<lambda>t. \<lparr>lm_id = t_id t, lm_label = t_label t, lm_time = t_created t, lm_data = t_embeddings t\<rparr>)
               (ts_templates templates), ts_matrix templates))"

text \<open>Callers of the old interface never see the exception it did not have.\<close>

lemma old_exceptions: "load_user_models env s user = Inl e \<Longrightarrow> e \<noteq> TemplateSpaceMismatch"
  by (auto simp: load_user_models_def split: sum.splits if_splits)


section \<open>The GTK window of the stamps\<close>

text \<open>What was written to the window, if there is one, and what was printed.\<close>

record stamp_ui =
  su_gtk_proc :: "string list option"
  su_printed :: "string list"

definition gtk_write :: "string \<Rightarrow> stamp_ui \<Rightarrow> stamp_ui" where
  "gtk_write t ui = ui\<lparr>su_gtk_proc := map_option (\<lambda>ts. ts @ [t]) (su_gtk_proc ui)\<rparr>"

definition send_ui_raw :: "config \<Rightarrow> string \<Rightarrow> stamp_ui \<Rightarrow> stamp_ui \<times> (exn + unit)" where
  "send_ui_raw c command ui =
     thenS (ui, cfg_boolean c ''debug'' ''verbose_stamps'' False) (\<lambda>ui verbose.
       let ui = (if verbose then ui\<lparr>su_printed := su_printed ui @ [''Sending command to secureEye-gtk: '' @ command]\<rparr> else ui) in
       (if su_gtk_proc ui \<noteq> None
        then gtk_write (''P=_PADDING '' @ [CHR 0x0A]) (gtk_write (command @ '' '' @ [CHR 0x0A]) ui) else ui, Inr ()))"

definition set_ui_text :: "config \<Rightarrow> string \<Rightarrow> bool \<Rightarrow> stamp_ui \<Rightarrow> stamp_ui \<times> (exn + unit)" where
  "set_ui_text c txt subtext ui = send_ui_raw c ((if subtext then ''S'' else ''M'') @ ''='' @ txt) ui"

text \<open>The daemon starts the stamps without a window; then a text goes nowhere.\<close>

lemma no_window:
  "su_gtk_proc ui = None \<Longrightarrow> su_gtk_proc (fst (set_ui_text c txt b ui)) = None"
  by (auto simp: set_ui_text_def send_ui_raw_def thenS_pair Let_def split: sum.splits)


section \<open>Translations, the old detector interface and an unused helper\<close>

text \<open>
  \<open>i18n.py\<close>: the messages of the catalogue found for the locale; with \<open>fallback=True\<close> a text without
  one stands for itself.
\<close>

definition translate :: "(string \<Rightarrow> string option) option \<Rightarrow> string \<Rightarrow> string" where
  "translate catalogue text = (case catalogue of
      None \<Rightarrow> text
    | Some messages \<Rightarrow> (case messages text of None \<Rightarrow> text | Some t \<Rightarrow> t))"

text \<open>
  \<open>detectors/base.py\<close>: a detector that does not override the two methods. \<open>fd_detect\<close> and
  \<open>fd_encode\<close> are what the class of the object defines itself.
\<close>

record face_detector =
  fd_detect :: "(frame \<Rightarrow> exn + bbox list) option"
  fd_encode :: "(frame \<Rightarrow> bbox \<Rightarrow> exn + pyfloat list) option"

definition base_detect :: "face_detector \<Rightarrow> frame \<Rightarrow> exn + bbox list" where
  "base_detect d fr = (case fd_detect d of None \<Rightarrow> Inl (OtherError ''NotImplementedError'') | Some f \<Rightarrow> f fr)"

definition base_encode :: "face_detector \<Rightarrow> frame \<Rightarrow> bbox \<Rightarrow> exn + pyfloat list" where
  "base_encode d fr box = (case fd_encode d of None \<Rightarrow> Inl (OtherError ''NotImplementedError'') | Some f \<Rightarrow> f fr box)"

text \<open>\<open>detectors/utils.py\<close>: one image scaled, in RGB, its bytes around zero, as a batch of one.\<close>

definition preprocess_face ::
  "(nat \<times> nat \<Rightarrow> frame \<Rightarrow> exn + frame) \<Rightarrow> (frame \<Rightarrow> exn + frame) \<Rightarrow> nat \<times> nat \<Rightarrow> frame \<Rightarrow> exn + ndarray" where
  "preprocess_face resize bgr2rgb wh img =
     bindE (resize wh img) (\<lambda>small. bindE (bgr2rgb small) (\<lambda>rgb.
       Inr \<lparr>nd_shape = [1, fr_height rgb, fr_width rgb] @ (case fr_channels rgb of None \<Rightarrow> [] | Some c \<Rightarrow> [c]),
            nd_data = map (\<lambda>b. Fin ((of_nat b - 255/2) / 128)) (fr_pixels rgb)\<rparr>))"

lemma preprocess_bounds:
  assumes "preprocess_face resize bgr2rgb wh img = Inr a" and "x \<in> set (nd_data a)"
    and "\<And>f g. bgr2rgb f = Inr g \<Longrightarrow> \<forall>b \<in> set (fr_pixels g). b \<le> 255"
  shows "\<exists>q. x = Fin q \<and> -1 < q \<and> q < 1"
proof -
  obtain f g b where g: "bgr2rgb f = Inr g" "b \<in> set (fr_pixels g)" "x = Fin ((of_nat b - 255/2) / 128)"
    using assms(1,2) by (auto simp: preprocess_face_def bindE_Inr_iff)
  have "b \<le> 255" using assms(3) [OF g(1)] g(2) by blast
  then have "(of_nat b :: rat) \<le> 255" by (metis of_nat_le_iff of_nat_numeral)
  then have "-1 < (of_nat b - 255/2) / (128 :: rat)" "(of_nat b - 255/2) / (128 :: rat) < 1"
    by (simp_all add: field_simps)
  then show ?thesis using g(3) by blast
qed

end
