(* ===== verification/V4l2_Constants.thy ===== *)
theory V4l2_Constants
  imports V4l2
begin

text \<open>
  The constants of \<open>recorders/v4l2.py\<close>: the enumerations, the flags, the video standards and the
  ids of the controls, in tables of names and values, with what the API promises of them.
\<close>

section \<open>Enumerations\<close>

definition v4l2_buf_type_values :: "(string \<times> int) list" where
  "v4l2_buf_type_values = zip
    [''V4L2_BUF_TYPE_VIDEO_CAPTURE'', ''V4L2_BUF_TYPE_VIDEO_OUTPUT'', ''V4L2_BUF_TYPE_VIDEO_OVERLAY'',
     ''V4L2_BUF_TYPE_VBI_CAPTURE'', ''V4L2_BUF_TYPE_VBI_OUTPUT'', ''V4L2_BUF_TYPE_SLICED_VBI_CAPTURE'',
     ''V4L2_BUF_TYPE_SLICED_VBI_OUTPUT'', ''V4L2_BUF_TYPE_VIDEO_OUTPUT_OVERLAY'', ''V4L2_BUF_TYPE_PRIVATE'']
    ([1..8] @ [128])"

definition v4l2_ctrl_type_values :: "(string \<times> int) list" where
  "v4l2_ctrl_type_values = zip
    [''V4L2_CTRL_TYPE_INTEGER'', ''V4L2_CTRL_TYPE_BOOLEAN'', ''V4L2_CTRL_TYPE_MENU'', ''V4L2_CTRL_TYPE_BUTTON'',
     ''V4L2_CTRL_TYPE_INTEGER64'', ''V4L2_CTRL_TYPE_CTRL_CLASS'', ''V4L2_CTRL_TYPE_STRING'']
    [1..7]"

definition v4l2_tuner_type_values :: "(string \<times> int) list" where
  "v4l2_tuner_type_values = zip
    [''V4L2_TUNER_RADIO'', ''V4L2_TUNER_ANALOG_TV'', ''V4L2_TUNER_DIGITAL_TV'']
    [1..3]"

definition v4l2_memory_values :: "(string \<times> int) list" where
  "v4l2_memory_values = zip
    [''V4L2_MEMORY_MMAP'', ''V4L2_MEMORY_USERPTR'', ''V4L2_MEMORY_OVERLAY'']
    [1..3]"

definition v4l2_colorspace_values :: "(string \<times> int) list" where
  "v4l2_colorspace_values = zip
    [''V4L2_COLORSPACE_SMPTE170M'', ''V4L2_COLORSPACE_SMPTE240M'', ''V4L2_COLORSPACE_REC709'',
     ''V4L2_COLORSPACE_BT878'', ''V4L2_COLORSPACE_470_SYSTEM_M'', ''V4L2_COLORSPACE_470_SYSTEM_BG'',
     ''V4L2_COLORSPACE_JPEG'', ''V4L2_COLORSPACE_SRGB'']
    [1..8]"

definition v4l2_priority_values :: "(string \<times> int) list" where
  "v4l2_priority_values = zip
    [''V4L2_PRIORITY_UNSET'', ''V4L2_PRIORITY_BACKGROUND'', ''V4L2_PRIORITY_INTERACTIVE'', ''V4L2_PRIORITY_RECORD'',
     ''V4L2_PRIORITY_DEFAULT'']
    ([0..3] @ [2])"

definition v4l2_frmsizetypes_values :: "(string \<times> int) list" where
  "v4l2_frmsizetypes_values = zip
    [''V4L2_FRMSIZE_TYPE_DISCRETE'', ''V4L2_FRMSIZE_TYPE_CONTINUOUS'', ''V4L2_FRMSIZE_TYPE_STEPWISE'']
    [1..3]"

definition v4l2_frmivaltypes_values :: "(string \<times> int) list" where
  "v4l2_frmivaltypes_values = zip
    [''V4L2_FRMIVAL_TYPE_DISCRETE'', ''V4L2_FRMIVAL_TYPE_CONTINUOUS'', ''V4L2_FRMIVAL_TYPE_STEPWISE'']
    [1..3]"

definition v4l2_power_line_frequency_values :: "(string \<times> int) list" where
  "v4l2_power_line_frequency_values = zip
    [''V4L2_CID_POWER_LINE_FREQUENCY_DISABLED'', ''V4L2_CID_POWER_LINE_FREQUENCY_50HZ'',
     ''V4L2_CID_POWER_LINE_FREQUENCY_60HZ'']
    [0..2]"

definition v4l2_colorfx_values :: "(string \<times> int) list" where
  "v4l2_colorfx_values = zip
    [''V4L2_COLORFX_NONE'', ''V4L2_COLORFX_BW'', ''V4L2_COLORFX_SEPIA'']
    [0..2]"

definition v4l2_mpeg_stream_type_values :: "(string \<times> int) list" where
  "v4l2_mpeg_stream_type_values = zip
    [''V4L2_MPEG_STREAM_TYPE_MPEG2_PS'', ''V4L2_MPEG_STREAM_TYPE_MPEG2_TS'', ''V4L2_MPEG_STREAM_TYPE_MPEG1_SS'',
     ''V4L2_MPEG_STREAM_TYPE_MPEG2_DVD'', ''V4L2_MPEG_STREAM_TYPE_MPEG1_VCD'', ''V4L2_MPEG_STREAM_TYPE_MPEG2_SVCD'']
    [0..5]"

definition v4l2_mpeg_stream_vbi_fmt_values :: "(string \<times> int) list" where
  "v4l2_mpeg_stream_vbi_fmt_values = zip
    [''V4L2_MPEG_STREAM_VBI_FMT_NONE'', ''V4L2_MPEG_STREAM_VBI_FMT_IVTV'']
    [0..1]"

definition v4l2_mpeg_audio_sampling_freq_values :: "(string \<times> int) list" where
  "v4l2_mpeg_audio_sampling_freq_values = zip
    [''V4L2_MPEG_AUDIO_SAMPLING_FREQ_44100'', ''V4L2_MPEG_AUDIO_SAMPLING_FREQ_48000'',
     ''V4L2_MPEG_AUDIO_SAMPLING_FREQ_32000'']
    [0..2]"

definition v4l2_mpeg_audio_encoding_values :: "(string \<times> int) list" where
  "v4l2_mpeg_audio_encoding_values = zip
    [''V4L2_MPEG_AUDIO_ENCODING_LAYER_1'', ''V4L2_MPEG_AUDIO_ENCODING_LAYER_2'', ''V4L2_MPEG_AUDIO_ENCODING_LAYER_3'',
     ''V4L2_MPEG_AUDIO_ENCODING_AAC'', ''V4L2_MPEG_AUDIO_ENCODING_AC3'']
    [0..4]"

definition v4l2_mpeg_audio_l1_bitrate_values :: "(string \<times> int) list" where
  "v4l2_mpeg_audio_l1_bitrate_values = zip
    [''V4L2_MPEG_AUDIO_L1_BITRATE_32K'', ''V4L2_MPEG_AUDIO_L1_BITRATE_64K'', ''V4L2_MPEG_AUDIO_L1_BITRATE_96K'',
     ''V4L2_MPEG_AUDIO_L1_BITRATE_128K'', ''V4L2_MPEG_AUDIO_L1_BITRATE_160K'', ''V4L2_MPEG_AUDIO_L1_BITRATE_192K'',
     ''V4L2_MPEG_AUDIO_L1_BITRATE_224K'', ''V4L2_MPEG_AUDIO_L1_BITRATE_256K'', ''V4L2_MPEG_AUDIO_L1_BITRATE_288K'',
     ''V4L2_MPEG_AUDIO_L1_BITRATE_320K'', ''V4L2_MPEG_AUDIO_L1_BITRATE_352K'', ''V4L2_MPEG_AUDIO_L1_BITRATE_384K'',
     ''V4L2_MPEG_AUDIO_L1_BITRATE_416K'', ''V4L2_MPEG_AUDIO_L1_BITRATE_448K'']
    [0..13]"

definition v4l2_mpeg_audio_l2_bitrate_values :: "(string \<times> int) list" where
  "v4l2_mpeg_audio_l2_bitrate_values = zip
    [''V4L2_MPEG_AUDIO_L2_BITRATE_32K'', ''V4L2_MPEG_AUDIO_L2_BITRATE_48K'', ''V4L2_MPEG_AUDIO_L2_BITRATE_56K'',
     ''V4L2_MPEG_AUDIO_L2_BITRATE_64K'', ''V4L2_MPEG_AUDIO_L2_BITRATE_80K'', ''V4L2_MPEG_AUDIO_L2_BITRATE_96K'',
     ''V4L2_MPEG_AUDIO_L2_BITRATE_112K'', ''V4L2_MPEG_AUDIO_L2_BITRATE_128K'', ''V4L2_MPEG_AUDIO_L2_BITRATE_160K'',
     ''V4L2_MPEG_AUDIO_L2_BITRATE_192K'', ''V4L2_MPEG_AUDIO_L2_BITRATE_224K'', ''V4L2_MPEG_AUDIO_L2_BITRATE_256K'',
     ''V4L2_MPEG_AUDIO_L2_BITRATE_320K'', ''V4L2_MPEG_AUDIO_L2_BITRATE_384K'']
    [0..13]"

definition v4l2_mpeg_audio_l3_bitrate_values :: "(string \<times> int) list" where
  "v4l2_mpeg_audio_l3_bitrate_values = zip
    [''V4L2_MPEG_AUDIO_L3_BITRATE_32K'', ''V4L2_MPEG_AUDIO_L3_BITRATE_40K'', ''V4L2_MPEG_AUDIO_L3_BITRATE_48K'',
     ''V4L2_MPEG_AUDIO_L3_BITRATE_56K'', ''V4L2_MPEG_AUDIO_L3_BITRATE_64K'', ''V4L2_MPEG_AUDIO_L3_BITRATE_80K'',
     ''V4L2_MPEG_AUDIO_L3_BITRATE_96K'', ''V4L2_MPEG_AUDIO_L3_BITRATE_112K'', ''V4L2_MPEG_AUDIO_L3_BITRATE_128K'',
     ''V4L2_MPEG_AUDIO_L3_BITRATE_160K'', ''V4L2_MPEG_AUDIO_L3_BITRATE_192K'', ''V4L2_MPEG_AUDIO_L3_BITRATE_224K'',
     ''V4L2_MPEG_AUDIO_L3_BITRATE_256K'', ''V4L2_MPEG_AUDIO_L3_BITRATE_320K'']
    [0..13]"

definition v4l2_mpeg_audio_mode_values :: "(string \<times> int) list" where
  "v4l2_mpeg_audio_mode_values = zip
    [''V4L2_MPEG_AUDIO_MODE_STEREO'', ''V4L2_MPEG_AUDIO_MODE_JOINT_STEREO'', ''V4L2_MPEG_AUDIO_MODE_DUAL'',
     ''V4L2_MPEG_AUDIO_MODE_MONO'']
    [0..3]"

definition v4l2_mpeg_audio_mode_extension_values :: "(string \<times> int) list" where
  "v4l2_mpeg_audio_mode_extension_values = zip
    [''V4L2_MPEG_AUDIO_MODE_EXTENSION_BOUND_4'', ''V4L2_MPEG_AUDIO_MODE_EXTENSION_BOUND_8'',
     ''V4L2_MPEG_AUDIO_MODE_EXTENSION_BOUND_12'', ''V4L2_MPEG_AUDIO_MODE_EXTENSION_BOUND_16'']
    [0..3]"

definition v4l2_mpeg_audio_emphasis_values :: "(string \<times> int) list" where
  "v4l2_mpeg_audio_emphasis_values = zip
    [''V4L2_MPEG_AUDIO_EMPHASIS_NONE'', ''V4L2_MPEG_AUDIO_EMPHASIS_50_DIV_15_uS'',
     ''V4L2_MPEG_AUDIO_EMPHASIS_CCITT_J17'']
    [0..2]"

definition v4l2_mpeg_audio_crc_values :: "(string \<times> int) list" where
  "v4l2_mpeg_audio_crc_values = zip
    [''V4L2_MPEG_AUDIO_CRC_NONE'', ''V4L2_MPEG_AUDIO_CRC_CRC16'']
    [0..1]"

definition v4l2_mpeg_audio_ac3_bitrate_values :: "(string \<times> int) list" where
  "v4l2_mpeg_audio_ac3_bitrate_values = zip
    [''V4L2_MPEG_AUDIO_AC3_BITRATE_32K'', ''V4L2_MPEG_AUDIO_AC3_BITRATE_40K'', ''V4L2_MPEG_AUDIO_AC3_BITRATE_48K'',
     ''V4L2_MPEG_AUDIO_AC3_BITRATE_56K'', ''V4L2_MPEG_AUDIO_AC3_BITRATE_64K'', ''V4L2_MPEG_AUDIO_AC3_BITRATE_80K'',
     ''V4L2_MPEG_AUDIO_AC3_BITRATE_96K'', ''V4L2_MPEG_AUDIO_AC3_BITRATE_112K'', ''V4L2_MPEG_AUDIO_AC3_BITRATE_128K'',
     ''V4L2_MPEG_AUDIO_AC3_BITRATE_160K'', ''V4L2_MPEG_AUDIO_AC3_BITRATE_192K'', ''V4L2_MPEG_AUDIO_AC3_BITRATE_224K'',
     ''V4L2_MPEG_AUDIO_AC3_BITRATE_256K'', ''V4L2_MPEG_AUDIO_AC3_BITRATE_320K'', ''V4L2_MPEG_AUDIO_AC3_BITRATE_384K'',
     ''V4L2_MPEG_AUDIO_AC3_BITRATE_448K'', ''V4L2_MPEG_AUDIO_AC3_BITRATE_512K'', ''V4L2_MPEG_AUDIO_AC3_BITRATE_576K'',
     ''V4L2_MPEG_AUDIO_AC3_BITRATE_640K'']
    [0..18]"

definition v4l2_mpeg_video_encoding_values :: "(string \<times> int) list" where
  "v4l2_mpeg_video_encoding_values = zip
    [''V4L2_MPEG_VIDEO_ENCODING_MPEG_1'', ''V4L2_MPEG_VIDEO_ENCODING_MPEG_2'',
     ''V4L2_MPEG_VIDEO_ENCODING_MPEG_4_AVC'']
    [0..2]"

definition v4l2_mpeg_video_aspect_values :: "(string \<times> int) list" where
  "v4l2_mpeg_video_aspect_values = zip
    [''V4L2_MPEG_VIDEO_ASPECT_1x1'', ''V4L2_MPEG_VIDEO_ASPECT_4x3'', ''V4L2_MPEG_VIDEO_ASPECT_16x9'',
     ''V4L2_MPEG_VIDEO_ASPECT_221x100'']
    [0..3]"

definition v4l2_mpeg_video_bitrate_mode_values :: "(string \<times> int) list" where
  "v4l2_mpeg_video_bitrate_mode_values = zip
    [''V4L2_MPEG_VIDEO_BITRATE_MODE_VBR'', ''V4L2_MPEG_VIDEO_BITRATE_MODE_CBR'']
    [0..1]"

definition v4l2_mpeg_cx2341x_video_spatial_filter_mode_values :: "(string \<times> int) list" where
  "v4l2_mpeg_cx2341x_video_spatial_filter_mode_values = zip
    [''V4L2_MPEG_CX2341X_VIDEO_SPATIAL_FILTER_MODE_MANUAL'', ''V4L2_MPEG_CX2341X_VIDEO_SPATIAL_FILTER_MODE_AUTO'']
    [0..1]"

definition v4l2_mpeg_cx2341x_video_luma_spatial_filter_type_values :: "(string \<times> int) list" where
  "v4l2_mpeg_cx2341x_video_luma_spatial_filter_type_values = zip
    [''V4L2_MPEG_CX2341X_VIDEO_LUMA_SPATIAL_FILTER_TYPE_OFF'',
     ''V4L2_MPEG_CX2341X_VIDEO_LUMA_SPATIAL_FILTER_TYPE_1D_HOR'',
     ''V4L2_MPEG_CX2341X_VIDEO_LUMA_SPATIAL_FILTER_TYPE_1D_VERT'',
     ''V4L2_MPEG_CX2341X_VIDEO_LUMA_SPATIAL_FILTER_TYPE_2D_HV_SEPARABLE'',
     ''V4L2_MPEG_CX2341X_VIDEO_LUMA_SPATIAL_FILTER_TYPE_2D_SYM_NON_SEPARABLE'']
    [0..4]"

definition v4l2_mpeg_cx2341x_video_chroma_spatial_filter_type_values :: "(string \<times> int) list" where
  "v4l2_mpeg_cx2341x_video_chroma_spatial_filter_type_values = zip
    [''V4L2_MPEG_CX2341X_VIDEO_CHROMA_SPATIAL_FILTER_TYPE_OFF'',
     ''V4L2_MPEG_CX2341X_VIDEO_CHROMA_SPATIAL_FILTER_TYPE_1D_HOR'']
    [0..1]"

definition v4l2_mpeg_cx2341x_video_temporal_filter_mode_values :: "(string \<times> int) list" where
  "v4l2_mpeg_cx2341x_video_temporal_filter_mode_values = zip
    [''V4L2_MPEG_CX2341X_VIDEO_TEMPORAL_FILTER_MODE_MANUAL'', ''V4L2_MPEG_CX2341X_VIDEO_TEMPORAL_FILTER_MODE_AUTO'']
    [0..1]"

definition v4l2_mpeg_cx2341x_video_median_filter_type_values :: "(string \<times> int) list" where
  "v4l2_mpeg_cx2341x_video_median_filter_type_values = zip
    [''V4L2_MPEG_CX2341X_VIDEO_MEDIAN_FILTER_TYPE_OFF'', ''V4L2_MPEG_CX2341X_VIDEO_MEDIAN_FILTER_TYPE_HOR'',
     ''V4L2_MPEG_CX2341X_VIDEO_MEDIAN_FILTER_TYPE_VERT'', ''V4L2_MPEG_CX2341X_VIDEO_MEDIAN_FILTER_TYPE_HOR_VERT'',
     ''V4L2_MPEG_CX2341X_VIDEO_MEDIAN_FILTER_TYPE_DIAG'']
    [0..4]"

definition v4l2_exposure_auto_type_values :: "(string \<times> int) list" where
  "v4l2_exposure_auto_type_values = zip
    [''V4L2_EXPOSURE_AUTO'', ''V4L2_EXPOSURE_MANUAL'', ''V4L2_EXPOSURE_SHUTTER_PRIORITY'',
     ''V4L2_EXPOSURE_APERTURE_PRIORITY'']
    [0..3]"

definition v4l2_preemphasis_values :: "(string \<times> int) list" where
  "v4l2_preemphasis_values = zip
    [''V4L2_PREEMPHASIS_DISABLED'', ''V4L2_PREEMPHASIS_50_uS'', ''V4L2_PREEMPHASIS_75_uS'']
    [0..2]"

section \<open>Flags\<close>

definition VID_TYPE_flags :: "(string \<times> int) list" where
  "VID_TYPE_flags =
    [(''VID_TYPE_CAPTURE'', 1), (''VID_TYPE_TUNER'', 2), (''VID_TYPE_TELETEXT'', 4), (''VID_TYPE_OVERLAY'', 8),
     (''VID_TYPE_CHROMAKEY'', 16), (''VID_TYPE_CLIPPING'', 32), (''VID_TYPE_FRAMERAM'', 64),
     (''VID_TYPE_SCALES'', 128), (''VID_TYPE_MONOCHROME'', 256), (''VID_TYPE_SUBCAPTURE'', 512),
     (''VID_TYPE_MPEG_DECODER'', 1024), (''VID_TYPE_MPEG_ENCODER'', 2048), (''VID_TYPE_MJPEG_DECODER'', 4096),
     (''VID_TYPE_MJPEG_ENCODER'', 8192)]"

definition V4L2_CAP_flags :: "(string \<times> int) list" where
  "V4L2_CAP_flags =
    [(''V4L2_CAP_VIDEO_CAPTURE'', 0x00000001), (''V4L2_CAP_VIDEO_OUTPUT'', 0x00000002),
     (''V4L2_CAP_VIDEO_OVERLAY'', 0x00000004), (''V4L2_CAP_VBI_CAPTURE'', 0x00000010),
     (''V4L2_CAP_VBI_OUTPUT'', 0x00000020), (''V4L2_CAP_SLICED_VBI_CAPTURE'', 0x00000040),
     (''V4L2_CAP_SLICED_VBI_OUTPUT'', 0x00000080), (''V4L2_CAP_RDS_CAPTURE'', 0x00000100),
     (''V4L2_CAP_VIDEO_OUTPUT_OVERLAY'', 0x00000200), (''V4L2_CAP_HW_FREQ_SEEK'', 0x00000400),
     (''V4L2_CAP_RDS_OUTPUT'', 0x00000800), (''V4L2_CAP_TUNER'', 0x00010000), (''V4L2_CAP_AUDIO'', 0x00020000),
     (''V4L2_CAP_RADIO'', 0x00040000), (''V4L2_CAP_MODULATOR'', 0x00080000), (''V4L2_CAP_READWRITE'', 0x01000000),
     (''V4L2_CAP_ASYNCIO'', 0x02000000), (''V4L2_CAP_STREAMING'', 0x04000000)]"

definition V4L2_FMT_FLAG_flags :: "(string \<times> int) list" where
  "V4L2_FMT_FLAG_flags =
    [(''V4L2_FMT_FLAG_COMPRESSED'', 0x0001), (''V4L2_FMT_FLAG_EMULATED'', 0x0002)]"

definition V4L2_TC_constants :: "(string \<times> int) list" where
  "V4L2_TC_constants =
    [(''V4L2_TC_TYPE_24FPS'', 1), (''V4L2_TC_TYPE_25FPS'', 2), (''V4L2_TC_TYPE_30FPS'', 3),
     (''V4L2_TC_TYPE_50FPS'', 4), (''V4L2_TC_TYPE_60FPS'', 5), (''V4L2_TC_FLAG_DROPFRAME'', 0x0001),
     (''V4L2_TC_FLAG_COLORFRAME'', 0x0002), (''V4L2_TC_USERBITS_field'', 0x000c),
     (''V4L2_TC_USERBITS_USERDEFINED'', 0x0000), (''V4L2_TC_USERBITS_8BITCHARS'', 0x0008)]"

definition V4L2_JPEG_MARKER_flags :: "(string \<times> int) list" where
  "V4L2_JPEG_MARKER_flags =
    [(''V4L2_JPEG_MARKER_DHT'', push_bit 3 1), (''V4L2_JPEG_MARKER_DQT'', push_bit 4 1),
     (''V4L2_JPEG_MARKER_DRI'', push_bit 5 1), (''V4L2_JPEG_MARKER_COM'', push_bit 6 1),
     (''V4L2_JPEG_MARKER_APP'', push_bit 7 1)]"

definition V4L2_BUF_FLAG_flags :: "(string \<times> int) list" where
  "V4L2_BUF_FLAG_flags =
    [(''V4L2_BUF_FLAG_MAPPED'', 0x0001), (''V4L2_BUF_FLAG_QUEUED'', 0x0002), (''V4L2_BUF_FLAG_DONE'', 0x0004),
     (''V4L2_BUF_FLAG_KEYFRAME'', 0x0008), (''V4L2_BUF_FLAG_PFRAME'', 0x0010), (''V4L2_BUF_FLAG_BFRAME'', 0x0020),
     (''V4L2_BUF_FLAG_TIMECODE'', 0x0100), (''V4L2_BUF_FLAG_INPUT'', 0x0200)]"

definition V4L2_FBUF_CAP_flags :: "(string \<times> int) list" where
  "V4L2_FBUF_CAP_flags =
    [(''V4L2_FBUF_CAP_EXTERNOVERLAY'', 0x0001), (''V4L2_FBUF_CAP_CHROMAKEY'', 0x0002),
     (''V4L2_FBUF_CAP_LIST_CLIPPING'', 0x0004), (''V4L2_FBUF_CAP_BITMAP_CLIPPING'', 0x0008),
     (''V4L2_FBUF_CAP_LOCAL_ALPHA'', 0x0010), (''V4L2_FBUF_CAP_GLOBAL_ALPHA'', 0x0020),
     (''V4L2_FBUF_CAP_LOCAL_INV_ALPHA'', 0x0040), (''V4L2_FBUF_CAP_SRC_CHROMAKEY'', 0x0080)]"

definition V4L2_FBUF_FLAG_flags :: "(string \<times> int) list" where
  "V4L2_FBUF_FLAG_flags =
    [(''V4L2_FBUF_FLAG_PRIMARY'', 0x0001), (''V4L2_FBUF_FLAG_OVERLAY'', 0x0002),
     (''V4L2_FBUF_FLAG_CHROMAKEY'', 0x0004), (''V4L2_FBUF_FLAG_LOCAL_ALPHA'', 0x0008),
     (''V4L2_FBUF_FLAG_GLOBAL_ALPHA'', 0x0010), (''V4L2_FBUF_FLAG_LOCAL_INV_ALPHA'', 0x0020),
     (''V4L2_FBUF_FLAG_SRC_CHROMAKEY'', 0x0040)]"

definition V4L2_STREAMPARM_constants :: "(string \<times> int) list" where
  "V4L2_STREAMPARM_constants =
    [(''V4L2_MODE_HIGHQUALITY'', 0x0001), (''V4L2_CAP_TIMEPERFRAME'', 0x1000)]"

definition V4L2_DV_presets :: "(string \<times> int) list" where
  "V4L2_DV_presets =
    [(''V4L2_DV_INVALID'', 0), (''V4L2_DV_480P59_94'', 1), (''V4L2_DV_576P50'', 2), (''V4L2_DV_720P24'', 3),
     (''V4L2_DV_720P25'', 4), (''V4L2_DV_720P30'', 5), (''V4L2_DV_720P50'', 6), (''V4L2_DV_720P59_94'', 7),
     (''V4L2_DV_720P60'', 8), (''V4L2_DV_1080I29_97'', 9), (''V4L2_DV_1080I30'', 10), (''V4L2_DV_1080I25'', 11),
     (''V4L2_DV_1080I50'', 12), (''V4L2_DV_1080I60'', 13), (''V4L2_DV_1080P24'', 14), (''V4L2_DV_1080P25'', 15),
     (''V4L2_DV_1080P30'', 16), (''V4L2_DV_1080P50'', 17), (''V4L2_DV_1080P60'', 18)]"

definition V4L2_DV_timings_constants :: "(string \<times> int) list" where
  "V4L2_DV_timings_constants =
    [(''V4L2_DV_PROGRESSIVE'', 0), (''V4L2_DV_INTERLACED'', 1), (''V4L2_DV_VSYNC_POS_POL'', 0x00000001),
     (''V4L2_DV_HSYNC_POS_POL'', 0x00000002)]"

definition V4L2_INPUT_constants :: "(string \<times> int) list" where
  "V4L2_INPUT_constants =
    [(''V4L2_INPUT_TYPE_TUNER'', 1), (''V4L2_INPUT_TYPE_CAMERA'', 2)]"

definition V4L2_IN_ST_flags :: "(string \<times> int) list" where
  "V4L2_IN_ST_flags =
    [(''V4L2_IN_ST_NO_POWER'', 0x00000001), (''V4L2_IN_ST_NO_SIGNAL'', 0x00000002),
     (''V4L2_IN_ST_NO_COLOR'', 0x00000004), (''V4L2_IN_ST_HFLIP'', 0x00000010), (''V4L2_IN_ST_VFLIP'', 0x00000020),
     (''V4L2_IN_ST_NO_H_LOCK'', 0x00000100), (''V4L2_IN_ST_COLOR_KILL'', 0x00000200),
     (''V4L2_IN_ST_NO_SYNC'', 0x00010000), (''V4L2_IN_ST_NO_EQU'', 0x00020000),
     (''V4L2_IN_ST_NO_CARRIER'', 0x00040000), (''V4L2_IN_ST_MACROVISION'', 0x01000000),
     (''V4L2_IN_ST_NO_ACCESS'', 0x02000000), (''V4L2_IN_ST_VTR'', 0x04000000)]"

definition V4L2_IN_CAP_flags :: "(string \<times> int) list" where
  "V4L2_IN_CAP_flags =
    [(''V4L2_IN_CAP_PRESETS'', 0x00000001), (''V4L2_IN_CAP_CUSTOM_TIMINGS'', 0x00000002),
     (''V4L2_IN_CAP_STD'', 0x00000004)]"

definition V4L2_OUTPUT_constants :: "(string \<times> int) list" where
  "V4L2_OUTPUT_constants =
    [(''V4L2_OUTPUT_TYPE_MODULATOR'', 1), (''V4L2_OUTPUT_TYPE_ANALOG'', 2),
     (''V4L2_OUTPUT_TYPE_ANALOGVGAOVERLAY'', 3)]"

definition V4L2_OUT_CAP_flags :: "(string \<times> int) list" where
  "V4L2_OUT_CAP_flags =
    [(''V4L2_OUT_CAP_PRESETS'', 0x00000001), (''V4L2_OUT_CAP_CUSTOM_TIMINGS'', 0x00000002),
     (''V4L2_OUT_CAP_STD'', 0x00000004)]"

definition V4L2_CTRL_FLAG_flags :: "(string \<times> int) list" where
  "V4L2_CTRL_FLAG_flags =
    [(''V4L2_CTRL_FLAG_DISABLED'', 0x0001), (''V4L2_CTRL_FLAG_GRABBED'', 0x0002),
     (''V4L2_CTRL_FLAG_READ_ONLY'', 0x0004), (''V4L2_CTRL_FLAG_UPDATE'', 0x0008),
     (''V4L2_CTRL_FLAG_INACTIVE'', 0x0010), (''V4L2_CTRL_FLAG_SLIDER'', 0x0020),
     (''V4L2_CTRL_FLAG_WRITE_ONLY'', 0x0040), (''V4L2_CTRL_FLAG_NEXT_CTRL'', 0x80000000)]"

definition V4L2_TUNER_CAP_flags :: "(string \<times> int) list" where
  "V4L2_TUNER_CAP_flags =
    [(''V4L2_TUNER_CAP_LOW'', 0x0001), (''V4L2_TUNER_CAP_NORM'', 0x0002), (''V4L2_TUNER_CAP_STEREO'', 0x0010),
     (''V4L2_TUNER_CAP_LANG2'', 0x0020), (''V4L2_TUNER_CAP_SAP'', 0x0020), (''V4L2_TUNER_CAP_LANG1'', 0x0040),
     (''V4L2_TUNER_CAP_RDS'', 0x0080)]"

definition V4L2_TUNER_SUB_flags :: "(string \<times> int) list" where
  "V4L2_TUNER_SUB_flags =
    [(''V4L2_TUNER_SUB_MONO'', 0x0001), (''V4L2_TUNER_SUB_STEREO'', 0x0002), (''V4L2_TUNER_SUB_LANG2'', 0x0004),
     (''V4L2_TUNER_SUB_SAP'', 0x0004), (''V4L2_TUNER_SUB_LANG1'', 0x0008), (''V4L2_TUNER_SUB_RDS'', 0x0010)]"

definition V4L2_TUNER_MODE_constants :: "(string \<times> int) list" where
  "V4L2_TUNER_MODE_constants =
    [(''V4L2_TUNER_MODE_MONO'', 0x0000), (''V4L2_TUNER_MODE_STEREO'', 0x0001), (''V4L2_TUNER_MODE_LANG2'', 0x0002),
     (''V4L2_TUNER_MODE_SAP'', 0x0002), (''V4L2_TUNER_MODE_LANG1'', 0x0003),
     (''V4L2_TUNER_MODE_LANG1_LANG2'', 0x0004)]"

definition V4L2_RDS_BLOCK_constants :: "(string \<times> int) list" where
  "V4L2_RDS_BLOCK_constants =
    [(''V4L2_RDS_BLOCK_MSK'', 0x7), (''V4L2_RDS_BLOCK_A'', 0), (''V4L2_RDS_BLOCK_B'', 1), (''V4L2_RDS_BLOCK_C'', 2),
     (''V4L2_RDS_BLOCK_D'', 3), (''V4L2_RDS_BLOCK_C_ALT'', 4), (''V4L2_RDS_BLOCK_INVALID'', 7),
     (''V4L2_RDS_BLOCK_CORRECTED'', 0x40), (''V4L2_RDS_BLOCK_ERROR'', 0x80)]"

definition V4L2_AUD_constants :: "(string \<times> int) list" where
  "V4L2_AUD_constants =
    [(''V4L2_AUDCAP_STEREO'', 0x00001), (''V4L2_AUDCAP_AVL'', 0x00002), (''V4L2_AUDMODE_AVL'', 0x00001)]"

definition V4L2_ENC_IDX_constants :: "(string \<times> int) list" where
  "V4L2_ENC_IDX_constants =
    [(''V4L2_ENC_IDX_FRAME_I'', 0), (''V4L2_ENC_IDX_FRAME_P'', 1), (''V4L2_ENC_IDX_FRAME_B'', 2),
     (''V4L2_ENC_IDX_FRAME_MASK'', 0xf)]"

definition V4L2_ENC_CMD_constants :: "(string \<times> int) list" where
  "V4L2_ENC_CMD_constants =
    [(''V4L2_ENC_CMD_START'', 0), (''V4L2_ENC_CMD_STOP'', 1), (''V4L2_ENC_CMD_PAUSE'', 2),
     (''V4L2_ENC_CMD_RESUME'', 3), (''V4L2_ENC_CMD_STOP_AT_GOP_END'', push_bit 0 1)]"

definition V4L2_VBI_flags :: "(string \<times> int) list" where
  "V4L2_VBI_flags =
    [(''V4L2_VBI_UNSYNC'', push_bit 0 1), (''V4L2_VBI_INTERLACED'', push_bit 1 1)]"

definition V4L2_MPEG_VBI_constants :: "(string \<times> int) list" where
  "V4L2_MPEG_VBI_constants =
    [(''V4L2_MPEG_VBI_IVTV_TELETEXT_B'', 1), (''V4L2_MPEG_VBI_IVTV_CAPTION_525'', 4),
     (''V4L2_MPEG_VBI_IVTV_WSS_625'', 5), (''V4L2_MPEG_VBI_IVTV_VPS'', 7)]"

definition V4L2_CHIP_MATCH_constants :: "(string \<times> int) list" where
  "V4L2_CHIP_MATCH_constants =
    [(''V4L2_CHIP_MATCH_HOST'', 0), (''V4L2_CHIP_MATCH_I2C_DRIVER'', 1), (''V4L2_CHIP_MATCH_I2C_ADDR'', 2),
     (''V4L2_CHIP_MATCH_AC97'', 3)]"

definition V4L2_DV_BT_656_1120 :: int where "V4L2_DV_BT_656_1120 = 0"
definition VIDEO_MAX_FRAME :: int where "VIDEO_MAX_FRAME = 32"
definition V4L2_ENC_IDX_ENTRIES :: int where "V4L2_ENC_IDX_ENTRIES = 64"
definition BASE_VIDIOC_PRIVATE :: int where "BASE_VIDIOC_PRIVATE = 192"

definition V4L2_SLICED_TELETEXT_B :: int where "V4L2_SLICED_TELETEXT_B = 0x0001"
definition V4L2_SLICED_VPS :: int where "V4L2_SLICED_VPS = 0x0400"
definition V4L2_SLICED_CAPTION_525 :: int where "V4L2_SLICED_CAPTION_525 = 0x1000"
definition V4L2_SLICED_WSS_625 :: int where "V4L2_SLICED_WSS_625 = 0x4000"
definition V4L2_SLICED_VBI_525 :: int where "V4L2_SLICED_VBI_525 = V4L2_SLICED_CAPTION_525"
definition V4L2_SLICED_VBI_625 :: int where
  "V4L2_SLICED_VBI_625 = V4L2_SLICED_TELETEXT_B OR V4L2_SLICED_VPS OR V4L2_SLICED_WSS_625"

section \<open>Video standards\<close>

definition V4L2_STD_PAL_B :: int where "V4L2_STD_PAL_B = 0x00000001"
definition V4L2_STD_PAL_B1 :: int where "V4L2_STD_PAL_B1 = 0x00000002"
definition V4L2_STD_PAL_G :: int where "V4L2_STD_PAL_G = 0x00000004"
definition V4L2_STD_PAL_H :: int where "V4L2_STD_PAL_H = 0x00000008"
definition V4L2_STD_PAL_I :: int where "V4L2_STD_PAL_I = 0x00000010"
definition V4L2_STD_PAL_D :: int where "V4L2_STD_PAL_D = 0x00000020"
definition V4L2_STD_PAL_D1 :: int where "V4L2_STD_PAL_D1 = 0x00000040"
definition V4L2_STD_PAL_K :: int where "V4L2_STD_PAL_K = 0x00000080"
definition V4L2_STD_PAL_M :: int where "V4L2_STD_PAL_M = 0x00000100"
definition V4L2_STD_PAL_N :: int where "V4L2_STD_PAL_N = 0x00000200"
definition V4L2_STD_PAL_Nc :: int where "V4L2_STD_PAL_Nc = 0x00000400"
definition V4L2_STD_PAL_60 :: int where "V4L2_STD_PAL_60 = 0x00000800"
definition V4L2_STD_NTSC_M :: int where "V4L2_STD_NTSC_M = 0x00001000"
definition V4L2_STD_NTSC_M_JP :: int where "V4L2_STD_NTSC_M_JP = 0x00002000"
definition V4L2_STD_NTSC_443 :: int where "V4L2_STD_NTSC_443 = 0x00004000"
definition V4L2_STD_NTSC_M_KR :: int where "V4L2_STD_NTSC_M_KR = 0x00008000"
definition V4L2_STD_SECAM_B :: int where "V4L2_STD_SECAM_B = 0x00010000"
definition V4L2_STD_SECAM_D :: int where "V4L2_STD_SECAM_D = 0x00020000"
definition V4L2_STD_SECAM_G :: int where "V4L2_STD_SECAM_G = 0x00040000"
definition V4L2_STD_SECAM_H :: int where "V4L2_STD_SECAM_H = 0x00080000"
definition V4L2_STD_SECAM_K :: int where "V4L2_STD_SECAM_K = 0x00100000"
definition V4L2_STD_SECAM_K1 :: int where "V4L2_STD_SECAM_K1 = 0x00200000"
definition V4L2_STD_SECAM_L :: int where "V4L2_STD_SECAM_L = 0x00400000"
definition V4L2_STD_SECAM_LC :: int where "V4L2_STD_SECAM_LC = 0x00800000"
definition V4L2_STD_ATSC_8_VSB :: int where "V4L2_STD_ATSC_8_VSB = 0x01000000"
definition V4L2_STD_ATSC_16_VSB :: int where "V4L2_STD_ATSC_16_VSB = 0x02000000"
definition V4L2_STD_PAL_BG :: int where "V4L2_STD_PAL_BG = V4L2_STD_PAL_B OR V4L2_STD_PAL_B1 OR V4L2_STD_PAL_G"
definition V4L2_STD_PAL_DK :: int where "V4L2_STD_PAL_DK = V4L2_STD_PAL_D OR V4L2_STD_PAL_D1 OR V4L2_STD_PAL_K"
definition V4L2_STD_PAL :: int where
  "V4L2_STD_PAL = V4L2_STD_PAL_BG OR V4L2_STD_PAL_DK OR V4L2_STD_PAL_H OR V4L2_STD_PAL_I"
definition V4L2_STD_NTSC :: int where "V4L2_STD_NTSC = V4L2_STD_NTSC_M OR V4L2_STD_NTSC_M_JP OR V4L2_STD_NTSC_M_KR"
definition V4L2_STD_SECAM_DK :: int where
  "V4L2_STD_SECAM_DK = V4L2_STD_SECAM_D OR V4L2_STD_SECAM_K OR V4L2_STD_SECAM_K1"
definition V4L2_STD_SECAM :: int where
  "V4L2_STD_SECAM = V4L2_STD_SECAM_B OR V4L2_STD_SECAM_G OR V4L2_STD_SECAM_H
     OR V4L2_STD_SECAM_DK OR V4L2_STD_SECAM_L OR V4L2_STD_SECAM_LC"
definition V4L2_STD_525_60 :: int where
  "V4L2_STD_525_60 = V4L2_STD_PAL_M OR V4L2_STD_PAL_60 OR V4L2_STD_NTSC OR V4L2_STD_NTSC_443"
definition V4L2_STD_625_50 :: int where
  "V4L2_STD_625_50 = V4L2_STD_PAL OR V4L2_STD_PAL_N OR V4L2_STD_PAL_Nc OR V4L2_STD_SECAM"
definition V4L2_STD_ATSC :: int where "V4L2_STD_ATSC = V4L2_STD_ATSC_8_VSB OR V4L2_STD_ATSC_16_VSB"
definition V4L2_STD_UNKNOWN :: int where "V4L2_STD_UNKNOWN = 0"
definition V4L2_STD_ALL :: int where "V4L2_STD_ALL = V4L2_STD_525_60 OR V4L2_STD_625_50"
definition V4L2_STD_MN :: int where
  "V4L2_STD_MN = V4L2_STD_PAL_M OR V4L2_STD_PAL_N OR V4L2_STD_PAL_Nc OR V4L2_STD_NTSC"
definition V4L2_STD_B :: int where "V4L2_STD_B = V4L2_STD_PAL_B OR V4L2_STD_PAL_B1 OR V4L2_STD_SECAM_B"
definition V4L2_STD_GH :: int where
  "V4L2_STD_GH = V4L2_STD_PAL_G OR V4L2_STD_PAL_H OR V4L2_STD_SECAM_G OR V4L2_STD_SECAM_H"
definition V4L2_STD_DK :: int where "V4L2_STD_DK = V4L2_STD_PAL_DK OR V4L2_STD_SECAM_DK"

section \<open>Controls\<close>

definition V4L2_CTRL_CLASS_USER :: int where "V4L2_CTRL_CLASS_USER = 0x00980000"
definition V4L2_CTRL_CLASS_MPEG :: int where "V4L2_CTRL_CLASS_MPEG = 0x00990000"
definition V4L2_CTRL_CLASS_CAMERA :: int where "V4L2_CTRL_CLASS_CAMERA = 0x009a0000"
definition V4L2_CTRL_CLASS_FM_TX :: int where "V4L2_CTRL_CLASS_FM_TX = 0x009b0000"
definition V4L2_CID_BASE :: int where "V4L2_CID_BASE = V4L2_CTRL_CLASS_USER OR 0x900"
definition V4L2_CID_USER_BASE :: int where "V4L2_CID_USER_BASE = V4L2_CID_BASE"
definition V4L2_CID_PRIVATE_BASE :: int where "V4L2_CID_PRIVATE_BASE = 0x08000000"
definition V4L2_CID_MPEG_BASE :: int where "V4L2_CID_MPEG_BASE = V4L2_CTRL_CLASS_MPEG OR 0x900"
definition V4L2_CID_MPEG_CX2341X_BASE :: int where "V4L2_CID_MPEG_CX2341X_BASE = V4L2_CTRL_CLASS_MPEG OR 0x1000"
definition V4L2_CID_CAMERA_CLASS_BASE :: int where "V4L2_CID_CAMERA_CLASS_BASE = V4L2_CTRL_CLASS_CAMERA OR 0x900"
definition V4L2_CID_FM_TX_CLASS_BASE :: int where "V4L2_CID_FM_TX_CLASS_BASE = V4L2_CTRL_CLASS_FM_TX OR 0x900"
definition V4L2_CID_GAMMA :: int where "V4L2_CID_GAMMA = V4L2_CID_BASE + 16"

definition user_controls :: "(string \<times> int) list" where
  "user_controls =
    [(''V4L2_CID_USER_CLASS'', V4L2_CTRL_CLASS_USER OR 1), (''V4L2_CID_BRIGHTNESS'', V4L2_CID_BASE + 0),
     (''V4L2_CID_CONTRAST'', V4L2_CID_BASE + 1), (''V4L2_CID_SATURATION'', V4L2_CID_BASE + 2),
     (''V4L2_CID_HUE'', V4L2_CID_BASE + 3), (''V4L2_CID_AUDIO_VOLUME'', V4L2_CID_BASE + 5),
     (''V4L2_CID_AUDIO_BALANCE'', V4L2_CID_BASE + 6), (''V4L2_CID_AUDIO_BASS'', V4L2_CID_BASE + 7),
     (''V4L2_CID_AUDIO_TREBLE'', V4L2_CID_BASE + 8), (''V4L2_CID_AUDIO_MUTE'', V4L2_CID_BASE + 9),
     (''V4L2_CID_AUDIO_LOUDNESS'', V4L2_CID_BASE + 10), (''V4L2_CID_BLACK_LEVEL'', V4L2_CID_BASE + 11),
     (''V4L2_CID_AUTO_WHITE_BALANCE'', V4L2_CID_BASE + 12), (''V4L2_CID_DO_WHITE_BALANCE'', V4L2_CID_BASE + 13),
     (''V4L2_CID_RED_BALANCE'', V4L2_CID_BASE + 14), (''V4L2_CID_BLUE_BALANCE'', V4L2_CID_BASE + 15),
     (''V4L2_CID_GAMMA'', V4L2_CID_BASE + 16), (''V4L2_CID_WHITENESS'', V4L2_CID_GAMMA),
     (''V4L2_CID_EXPOSURE'', V4L2_CID_BASE + 17), (''V4L2_CID_AUTOGAIN'', V4L2_CID_BASE + 18),
     (''V4L2_CID_GAIN'', V4L2_CID_BASE + 19), (''V4L2_CID_HFLIP'', V4L2_CID_BASE + 20),
     (''V4L2_CID_VFLIP'', V4L2_CID_BASE + 21), (''V4L2_CID_HCENTER'', V4L2_CID_BASE + 22),
     (''V4L2_CID_VCENTER'', V4L2_CID_BASE + 23), (''V4L2_CID_POWER_LINE_FREQUENCY'', V4L2_CID_BASE + 24),
     (''V4L2_CID_HUE_AUTO'', V4L2_CID_BASE + 25), (''V4L2_CID_WHITE_BALANCE_TEMPERATURE'', V4L2_CID_BASE + 26),
     (''V4L2_CID_SHARPNESS'', V4L2_CID_BASE + 27), (''V4L2_CID_BACKLIGHT_COMPENSATION'', V4L2_CID_BASE + 28),
     (''V4L2_CID_CHROMA_AGC'', V4L2_CID_BASE + 29), (''V4L2_CID_COLOR_KILLER'', V4L2_CID_BASE + 30),
     (''V4L2_CID_COLORFX'', V4L2_CID_BASE + 31), (''V4L2_CID_AUTOBRIGHTNESS'', V4L2_CID_BASE + 32),
     (''V4L2_CID_BAND_STOP_FILTER'', V4L2_CID_BASE + 33), (''V4L2_CID_ROTATE'', V4L2_CID_BASE + 34),
     (''V4L2_CID_BG_COLOR'', V4L2_CID_BASE + 35), (''V4L2_CID_LASTP1'', V4L2_CID_BASE + 36)]"

definition mpeg_stream_controls :: "(string \<times> int) list" where
  "mpeg_stream_controls =
    [(''V4L2_CID_MPEG_CLASS'', V4L2_CTRL_CLASS_MPEG OR 1), (''V4L2_CID_MPEG_STREAM_TYPE'', V4L2_CID_MPEG_BASE + 0),
     (''V4L2_CID_MPEG_STREAM_PID_PMT'', V4L2_CID_MPEG_BASE + 1),
     (''V4L2_CID_MPEG_STREAM_PID_AUDIO'', V4L2_CID_MPEG_BASE + 2),
     (''V4L2_CID_MPEG_STREAM_PID_VIDEO'', V4L2_CID_MPEG_BASE + 3),
     (''V4L2_CID_MPEG_STREAM_PID_PCR'', V4L2_CID_MPEG_BASE + 4),
     (''V4L2_CID_MPEG_STREAM_PES_ID_AUDIO'', V4L2_CID_MPEG_BASE + 5),
     (''V4L2_CID_MPEG_STREAM_PES_ID_VIDEO'', V4L2_CID_MPEG_BASE + 6),
     (''V4L2_CID_MPEG_STREAM_VBI_FMT'', V4L2_CID_MPEG_BASE + 7)]"

definition mpeg_audio_controls :: "(string \<times> int) list" where
  "mpeg_audio_controls =
    [(''V4L2_CID_MPEG_AUDIO_SAMPLING_FREQ'', V4L2_CID_MPEG_BASE + 100),
     (''V4L2_CID_MPEG_AUDIO_ENCODING'', V4L2_CID_MPEG_BASE + 101),
     (''V4L2_CID_MPEG_AUDIO_L1_BITRATE'', V4L2_CID_MPEG_BASE + 102),
     (''V4L2_CID_MPEG_AUDIO_L2_BITRATE'', V4L2_CID_MPEG_BASE + 103),
     (''V4L2_CID_MPEG_AUDIO_L3_BITRATE'', V4L2_CID_MPEG_BASE + 104),
     (''V4L2_CID_MPEG_AUDIO_MODE'', V4L2_CID_MPEG_BASE + 105),
     (''V4L2_CID_MPEG_AUDIO_MODE_EXTENSION'', V4L2_CID_MPEG_BASE + 106),
     (''V4L2_CID_MPEG_AUDIO_EMPHASIS'', V4L2_CID_MPEG_BASE + 107),
     (''V4L2_CID_MPEG_AUDIO_CRC'', V4L2_CID_MPEG_BASE + 108),
     (''V4L2_CID_MPEG_AUDIO_MUTE'', V4L2_CID_MPEG_BASE + 109),
     (''V4L2_CID_MPEG_AUDIO_AAC_BITRATE'', V4L2_CID_MPEG_BASE + 110),
     (''V4L2_CID_MPEG_AUDIO_AC3_BITRATE'', V4L2_CID_MPEG_BASE + 111)]"

definition mpeg_video_controls :: "(string \<times> int) list" where
  "mpeg_video_controls =
    [(''V4L2_CID_MPEG_VIDEO_ENCODING'', V4L2_CID_MPEG_BASE + 200),
     (''V4L2_CID_MPEG_VIDEO_ASPECT'', V4L2_CID_MPEG_BASE + 201),
     (''V4L2_CID_MPEG_VIDEO_B_FRAMES'', V4L2_CID_MPEG_BASE + 202),
     (''V4L2_CID_MPEG_VIDEO_GOP_SIZE'', V4L2_CID_MPEG_BASE + 203),
     (''V4L2_CID_MPEG_VIDEO_GOP_CLOSURE'', V4L2_CID_MPEG_BASE + 204),
     (''V4L2_CID_MPEG_VIDEO_PULLDOWN'', V4L2_CID_MPEG_BASE + 205),
     (''V4L2_CID_MPEG_VIDEO_BITRATE_MODE'', V4L2_CID_MPEG_BASE + 206),
     (''V4L2_CID_MPEG_VIDEO_BITRATE'', V4L2_CID_MPEG_BASE + 207),
     (''V4L2_CID_MPEG_VIDEO_BITRATE_PEAK'', V4L2_CID_MPEG_BASE + 208),
     (''V4L2_CID_MPEG_VIDEO_TEMPORAL_DECIMATION'', V4L2_CID_MPEG_BASE + 209),
     (''V4L2_CID_MPEG_VIDEO_MUTE'', V4L2_CID_MPEG_BASE + 210),
     (''V4L2_CID_MPEG_VIDEO_MUTE_YUV'', V4L2_CID_MPEG_BASE + 211)]"

definition cx2341x_controls :: "(string \<times> int) list" where
  "cx2341x_controls =
    [(''V4L2_CID_MPEG_CX2341X_VIDEO_SPATIAL_FILTER_MODE'', V4L2_CID_MPEG_CX2341X_BASE + 0),
     (''V4L2_CID_MPEG_CX2341X_VIDEO_SPATIAL_FILTER'', V4L2_CID_MPEG_CX2341X_BASE + 1),
     (''V4L2_CID_MPEG_CX2341X_VIDEO_LUMA_SPATIAL_FILTER_TYPE'', V4L2_CID_MPEG_CX2341X_BASE + 2),
     (''V4L2_CID_MPEG_CX2341X_VIDEO_CHROMA_SPATIAL_FILTER_TYPE'', V4L2_CID_MPEG_CX2341X_BASE + 3),
     (''V4L2_CID_MPEG_CX2341X_VIDEO_TEMPORAL_FILTER_MODE'', V4L2_CID_MPEG_CX2341X_BASE + 4),
     (''V4L2_CID_MPEG_CX2341X_VIDEO_TEMPORAL_FILTER'', V4L2_CID_MPEG_CX2341X_BASE + 5),
     (''V4L2_CID_MPEG_CX2341X_VIDEO_MEDIAN_FILTER_TYPE'', V4L2_CID_MPEG_CX2341X_BASE + 6),
     (''V4L2_CID_MPEG_CX2341X_VIDEO_LUMA_MEDIAN_FILTER_BOTTOM'', V4L2_CID_MPEG_CX2341X_BASE + 7),
     (''V4L2_CID_MPEG_CX2341X_VIDEO_LUMA_MEDIAN_FILTER_TOP'', V4L2_CID_MPEG_CX2341X_BASE + 8),
     (''V4L2_CID_MPEG_CX2341X_VIDEO_CHROMA_MEDIAN_FILTER_BOTTOM'', V4L2_CID_MPEG_CX2341X_BASE + 9),
     (''V4L2_CID_MPEG_CX2341X_VIDEO_CHROMA_MEDIAN_FILTER_TOP'', V4L2_CID_MPEG_CX2341X_BASE + 10),
     (''V4L2_CID_MPEG_CX2341X_STREAM_INSERT_NAV_PACKETS'', V4L2_CID_MPEG_CX2341X_BASE + 11)]"

definition camera_controls :: "(string \<times> int) list" where
  "camera_controls =
    [(''V4L2_CID_CAMERA_CLASS'', V4L2_CTRL_CLASS_CAMERA OR 1),
     (''V4L2_CID_EXPOSURE_AUTO'', V4L2_CID_CAMERA_CLASS_BASE + 1),
     (''V4L2_CID_EXPOSURE_ABSOLUTE'', V4L2_CID_CAMERA_CLASS_BASE + 2),
     (''V4L2_CID_EXPOSURE_AUTO_PRIORITY'', V4L2_CID_CAMERA_CLASS_BASE + 3),
     (''V4L2_CID_PAN_RELATIVE'', V4L2_CID_CAMERA_CLASS_BASE + 4),
     (''V4L2_CID_TILT_RELATIVE'', V4L2_CID_CAMERA_CLASS_BASE + 5),
     (''V4L2_CID_PAN_RESET'', V4L2_CID_CAMERA_CLASS_BASE + 6),
     (''V4L2_CID_TILT_RESET'', V4L2_CID_CAMERA_CLASS_BASE + 7),
     (''V4L2_CID_PAN_ABSOLUTE'', V4L2_CID_CAMERA_CLASS_BASE + 8),
     (''V4L2_CID_TILT_ABSOLUTE'', V4L2_CID_CAMERA_CLASS_BASE + 9),
     (''V4L2_CID_FOCUS_ABSOLUTE'', V4L2_CID_CAMERA_CLASS_BASE + 10),
     (''V4L2_CID_FOCUS_RELATIVE'', V4L2_CID_CAMERA_CLASS_BASE + 11),
     (''V4L2_CID_FOCUS_AUTO'', V4L2_CID_CAMERA_CLASS_BASE + 12),
     (''V4L2_CID_ZOOM_ABSOLUTE'', V4L2_CID_CAMERA_CLASS_BASE + 13),
     (''V4L2_CID_ZOOM_RELATIVE'', V4L2_CID_CAMERA_CLASS_BASE + 14),
     (''V4L2_CID_ZOOM_CONTINUOUS'', V4L2_CID_CAMERA_CLASS_BASE + 15),
     (''V4L2_CID_PRIVACY'', V4L2_CID_CAMERA_CLASS_BASE + 16)]"

definition fm_tx_controls :: "(string \<times> int) list" where
  "fm_tx_controls =
    [(''V4L2_CID_FM_TX_CLASS'', V4L2_CTRL_CLASS_FM_TX OR 1),
     (''V4L2_CID_RDS_TX_DEVIATION'', V4L2_CID_FM_TX_CLASS_BASE + 1),
     (''V4L2_CID_RDS_TX_PI'', V4L2_CID_FM_TX_CLASS_BASE + 2),
     (''V4L2_CID_RDS_TX_PTY'', V4L2_CID_FM_TX_CLASS_BASE + 3),
     (''V4L2_CID_RDS_TX_PS_NAME'', V4L2_CID_FM_TX_CLASS_BASE + 5),
     (''V4L2_CID_RDS_TX_RADIO_TEXT'', V4L2_CID_FM_TX_CLASS_BASE + 6),
     (''V4L2_CID_AUDIO_LIMITER_ENABLED'', V4L2_CID_FM_TX_CLASS_BASE + 64),
     (''V4L2_CID_AUDIO_LIMITER_RELEASE_TIME'', V4L2_CID_FM_TX_CLASS_BASE + 65),
     (''V4L2_CID_AUDIO_LIMITER_DEVIATION'', V4L2_CID_FM_TX_CLASS_BASE + 66),
     (''V4L2_CID_AUDIO_COMPRESSION_ENABLED'', V4L2_CID_FM_TX_CLASS_BASE + 80),
     (''V4L2_CID_AUDIO_COMPRESSION_GAIN'', V4L2_CID_FM_TX_CLASS_BASE + 81),
     (''V4L2_CID_AUDIO_COMPRESSION_THRESHOLD'', V4L2_CID_FM_TX_CLASS_BASE + 82),
     (''V4L2_CID_AUDIO_COMPRESSION_ATTACK_TIME'', V4L2_CID_FM_TX_CLASS_BASE + 83),
     (''V4L2_CID_AUDIO_COMPRESSION_RELEASE_TIME'', V4L2_CID_FM_TX_CLASS_BASE + 84),
     (''V4L2_CID_PILOT_TONE_ENABLED'', V4L2_CID_FM_TX_CLASS_BASE + 96),
     (''V4L2_CID_PILOT_TONE_DEVIATION'', V4L2_CID_FM_TX_CLASS_BASE + 97),
     (''V4L2_CID_PILOT_TONE_FREQUENCY'', V4L2_CID_FM_TX_CLASS_BASE + 98),
     (''V4L2_CID_TUNE_PREEMPHASIS'', V4L2_CID_FM_TX_CLASS_BASE + 112),
     (''V4L2_CID_TUNE_POWER_LEVEL'', V4L2_CID_FM_TX_CLASS_BASE + 113),
     (''V4L2_CID_TUNE_ANTENNA_CAPACITOR'', V4L2_CID_FM_TX_CLASS_BASE + 114)]"


definition mpeg_controls :: "(string \<times> int) list" where
  "mpeg_controls = mpeg_stream_controls @ mpeg_audio_controls @ mpeg_video_controls"

definition V4L2_CTRL_ID_MASK :: int where
  "V4L2_CTRL_ID_MASK = 0x0fffffff"

definition V4L2_CTRL_ID2CLASS :: "int \<Rightarrow> int" where
  "V4L2_CTRL_ID2CLASS i = i AND 0x0fff0000"

definition V4L2_CTRL_DRIVER_PRIV :: "int \<Rightarrow> bool" where
  "V4L2_CTRL_DRIVER_PRIV i \<longleftrightarrow> 0x1000 \<le> i AND 0xffff"


section \<open>What the tables promise\<close>

text \<open>Every control is in the class its id names; the ids of one driver alone say so.\<close>

lemma control_classes:
  "list_all (\<lambda>(_, i). V4L2_CTRL_ID2CLASS i = V4L2_CTRL_CLASS_USER) user_controls"
  "list_all (\<lambda>(_, i). V4L2_CTRL_ID2CLASS i = V4L2_CTRL_CLASS_MPEG) (mpeg_controls @ cx2341x_controls)"
  "list_all (\<lambda>(_, i). V4L2_CTRL_ID2CLASS i = V4L2_CTRL_CLASS_CAMERA) camera_controls"
  "list_all (\<lambda>(_, i). V4L2_CTRL_ID2CLASS i = V4L2_CTRL_CLASS_FM_TX) fm_tx_controls"
  by code_simp+

lemma private_controls:
  "list_all (\<lambda>(_, i). V4L2_CTRL_DRIVER_PRIV i) cx2341x_controls"
  "list_all (\<lambda>(_, i). \<not> V4L2_CTRL_DRIVER_PRIV i) (user_controls @ mpeg_controls @ camera_controls @ fm_tx_controls)"
  by code_simp+

text \<open>Two controls share an id only where one is the old name of the other.\<close>

lemma control_ids_distinct:
  "distinct (map snd (filter (\<lambda>(n, _). n \<noteq> ''V4L2_CID_WHITENESS'') (user_controls @ mpeg_controls @ cx2341x_controls @
     camera_controls @ fm_tx_controls)))"
  by code_simp

text \<open>
  The two line systems share no standard, together they are all analogue ones, and the groups
  that are named by their letters are made of these.
\<close>

lemma standards_partition:
  "V4L2_STD_525_60 AND V4L2_STD_625_50 = 0"
  "V4L2_STD_ALL = 0xffffff"
  "V4L2_STD_ALL AND V4L2_STD_ATSC = 0"
  "(V4L2_STD_MN OR V4L2_STD_B OR V4L2_STD_GH OR V4L2_STD_DK) AND V4L2_STD_ALL = V4L2_STD_MN OR V4L2_STD_B OR V4L2_STD_GH OR V4L2_STD_DK"
  by code_simp+

end
