(* ===== verification/Args_Props.thy ===== *)
theory Args_Props
  imports Args
begin

text \<open>
  What the command line means: a line in the order of the usage text is read back as it was built,
  the line the GUI builds is only read by the later releases of \<open>argparse\<close>, and an accepted
  command is one of the twelve.
\<close>

section \<open>Single steps\<close>

lemma parse_loop_option:
  "parse_loop r (st, (s, MarkOption u) # rest) =
     (case consume_optional s u st rest of Inl e \<Rightarrow> Inl e | Inr s' \<Rightarrow> parse_loop r s')"
  by (subst parse_loop.simps) (simp add: parse_round_def take_next_option_def is_option_def)

lemma parse_loop_done: "\<not> (\<exists>t\<in>set ts. is_option t) \<Longrightarrow> parse_loop r (st, ts) = Inr (st, ts)"
  by (subst parse_loop.simps) auto

definition arg_tokens :: "string list \<Rightarrow> token list" where
  "arg_tokens ss = map (\<lambda>s. (s, MarkArg)) ss"

lemma arg_tokens_simps [simp]:
  "arg_tokens [] = []" "arg_tokens (s # ss) = (s, MarkArg) # arg_tokens ss"
  "length (arg_tokens ss) = length ss" "map fst (arg_tokens ss) = ss"
  by (simp_all add: arg_tokens_def comp_def)

lemma arg_tokens_no_option: "t \<in> set (arg_tokens ss) \<Longrightarrow> \<not> is_option t"
  by (auto simp: arg_tokens_def is_option_def)

lemma no_dashes_in_args: "MarkDashes \<notin> snd ` set (arg_tokens ss)"
  by (auto simp: arg_tokens_def)

lemma takeWhile_args [simp]: "takeWhile (\<lambda>t. \<not> is_option t) (arg_tokens ss) = arg_tokens ss"
  using arg_tokens_no_option by (intro takeWhile_eq_all_conv [THEN iffD2]) blast

lemma option_simps [simp]:
  "is_option (s, MarkOption u)" "\<not> is_option (s, MarkArg)" "\<not> is_option (s, MarkDashes)"
  by (simp_all add: is_option_def)

text \<open>Strings that never look like an option.\<close>

definition plain_string :: "string \<Rightarrow> bool" where
  "plain_string s \<longleftrightarrow> s = [] \<or> hd s \<noteq> CHR ''-''"

lemma classify_plain: "plain_string s \<Longrightarrow> classify (s # ss) = (case classify ss of Inl e \<Rightarrow> Inl e | Inr ts \<Rightarrow> Inr ((s, MarkArg) # ts))"
  by (auto simp: plain_string_def parse_optional_def split: sum.splits)

lemma classify_all_plain: "list_all plain_string ss \<Longrightarrow> classify ss = Inr (arg_tokens ss)"
  by (induction ss) (simp_all add: classify_plain del: classify.simps(2))

lemma choice_plain: "c \<in> set command_choices \<Longrightarrow> plain_string c"
  by (auto simp: command_choices_def plain_string_def)

lemma known_options:
  "parse_optional ''-U'' = Inr (Some (no_value (Some OptUser) ''-U''))"
  "parse_optional ''-y'' = Inr (Some (no_value (Some OptYes) ''-y''))"
  "parse_optional ''--plain'' = Inr (Some (no_value (Some OptPlain) ''--plain''))"
  "parse_optional ''--json'' = Inr (Some (no_value (Some OptJson) ''--json''))"
  by (simp_all add: parse_optional_def option_strings_def)

lemma classify_option:
  assumes "parse_optional s = Inr (Some u)" and "s \<noteq> ''--''"
  shows "classify (s # ss) = (case classify ss of Inl e \<Rightarrow> Inl e | Inr ts \<Rightarrow> Inr ((s, MarkOption u) # ts))"
  using assms by (simp split: sum.split)

lemma consume_flag:
  assumes "a = OptYes \<or> a = OptPlain \<or> a = OptJson"
  shows "consume_optional s (no_value (Some a) s) st rest = (case take_option (a, []) st of Inl e \<Rightarrow> Inl e | Inr st \<Rightarrow> Inr (st, rest))"
  using assms by (auto simp: consume_optional_def no_value_def takes_value_def)

lemma consume_user:
  "consume_optional s (no_value (Some OptUser) s) st ((v, MarkArg) # rest) = Inr (st\<lparr>ps_user := v\<rparr>, rest)"
  by (simp add: consume_optional_def no_value_def takes_value_def)

lemmas one_option = parse_loop_option consume_flag consume_user


section \<open>The order of the usage text\<close>

text \<open>\<open>secureEye [-U USER] [--plain] [--json] [-h] [-y] {command} [{arguments}...]\<close>\<close>

definition usage_line :: "cli_args \<Rightarrow> string list" where
  "usage_line a = [''-U'', ca_user a] @ (if ca_plain a then [''--plain''] else []) @ (if ca_json a then [''--json''] else [])
     @ (if ca_y a then [''-y''] else []) @ [ca_command a] @ ca_arguments a"

lemma match_command_args:
  "match_each [PosCommand, PosArguments] (arg_tokens (c # args)) = [1, length args]"
  by (cases args) (simp_all add: match_count_def)

lemma remove1_plain: "list_all plain_string ss \<Longrightarrow> remove1 ''--'' ss = ss"
  by (induction ss) (auto simp: plain_string_def)

lemma finish_args:
  assumes "c \<in> set command_choices" and "list_all plain_string args" and "ps_left st = positionals" and "ps_extras st = []"
  shows "parse_finish r (st, arg_tokens (c # args)) =
    Inr \<lparr>ca_command = c, ca_arguments = args, ca_user = ps_user st, ca_y = ps_yes st, ca_plain = ps_plain st, ca_json = ps_json st\<rparr>"
proof -
  have m: "match_partial r positionals (arg_tokens (c # args)) = [1, length args]"
    using match_command_args [of c args] by (simp add: match_partial_def positionals_def)
  have c: "remove1 ''--'' [c] = [c]" using remove1_plain [of "[c]"] choice_plain [OF assms(1)] by simp
  show ?thesis
    using assms c remove1_plain [OF assms(2)]
    by (simp add: parse_finish_def consume_positionals_def m [unfolded positionals_def, simplified] positionals_def take_positional_def without_dashes_def
        del: remove1.simps)
qed

text \<open>
  A line written in the order of the usage text is read as it was meant, by every release: the
  user, the flags, the command and its arguments come back, as long as the user and the arguments
  do not begin with a dash.
\<close>

lemma usage_roundtrip:
  assumes "ca_command a \<in> set command_choices" and "plain_string (ca_user a)" and "list_all plain_string (ca_arguments a)"
  shows "parse_args r user (usage_line a) = Inr a"
proof -
  obtain c args u y p j where a: "a = \<lparr>ca_command = c, ca_arguments = args, ca_user = u, ca_y = y, ca_plain = p, ca_json = j\<rparr>"
    by (cases a)
  have c: "c \<in> set command_choices" "plain_string u" "list_all plain_string args" using assms a by simp_all
  have rest: "classify (c # args) = Inr ((c, MarkArg) # arg_tokens args)"
    using c choice_plain classify_all_plain [of "c # args"] by simp
  have looped: "parse_loop r (st, (c, MarkArg) # arg_tokens args) = Inr (st, (c, MarkArg) # arg_tokens args)" for st
    using arg_tokens_no_option by (intro parse_loop_done) auto
  have fin: "parse_finish r (st, (c, MarkArg) # arg_tokens args) = Inr \<lparr>ca_command = c, ca_arguments = args,
      ca_user = ps_user st, ca_y = ps_yes st, ca_plain = ps_plain st, ca_json = ps_json st\<rparr>"
    if "ps_left st = positionals" "ps_extras st = []" for st
    using finish_args [OF c(1,3) that] by simp
  show ?thesis
    by (simp add: parse_args_def usage_line_def a classify_option classify_plain known_options rest c(2)
        one_option looped fin parse_start_def del: classify.simps(2))
qed

lemma usage_sample:
  "parse_args \<lparr>rl_defers = False, rl_first_dashes = False\<rparr> ''root''
     [''-U'', ''al'', ''--json'', ''set'', ''certainty'', ''4''] =
     Inr \<lparr>ca_command = ''set'', ca_arguments = [''certainty'', ''4''], ca_user = ''al'', ca_y = False, ca_plain = False, ca_json = True\<rparr>"
  using usage_roundtrip [of "\<lparr>ca_command = ''set'', ca_arguments = [''certainty'', ''4''], ca_user = ''al'', ca_y = False,
      ca_plain = False, ca_json = True\<rparr>"]
  by (simp add: usage_line_def command_choices_def plain_string_def)


section \<open>The line the GUI builds\<close>

text \<open>
  The GUI runs \<open><command> --json -- <values>\<close> (\<open>GuiBackend::run\<close>): the command first, for
  \<open>pkexec\<close>, and the values behind \<open>--\<close>, as a value may begin with a dash.
\<close>

definition gui_line :: "string \<Rightarrow> string list \<Rightarrow> string list" where
  "gui_line c args = [c, ''--json'', ''--''] @ args"

lemma classify_gui_line:
  assumes "c \<in> set command_choices"
  shows "classify (gui_line c args) = Inr ((c, MarkArg) # (''--json'', MarkOption (no_value (Some OptJson) ''--json''))
    # (''--'', MarkDashes) # arg_tokens args)"
proof -
  have "classify (''--json'' # ''--'' # args) = Inr ((''--json'', MarkOption (no_value (Some OptJson) ''--json''))
    # (''--'', MarkDashes) # arg_tokens args)"
    by (simp add: classify_option known_options arg_tokens_def)
  then show ?thesis using classify_plain [OF choice_plain [OF assms]] by (simp add: gui_line_def del: classify.simps(2))
qed

lemma remove1_single: "plain_string s \<Longrightarrow> remove1 ''--'' [s] = [s]"
  by (auto simp: plain_string_def)

text \<open>The command is taken first; its empty list of arguments with it unless that waits for the option.\<close>

lemma gui_first_round:
  assumes "c \<in> set command_choices"
  shows "parse_round r (parse_start user, (c, MarkArg) # (s, MarkOption u) # ts) =
    Inr ((parse_start user)\<lparr>ps_command := Some c, ps_arguments := (if rl_defers r then None else Some []),
           ps_left := (if rl_defers r then [PosArguments] else [])\<rparr>, (s, MarkOption u) # ts)"
proof -
  have "match_partial r positionals ((c, MarkArg) # (s, MarkOption u) # ts) = (if rl_defers r then [1] else [1, 0])"
    by (simp add: match_partial_def positionals_def match_count_def)
  then show ?thesis
    using assms remove1_single [OF choice_plain [OF assms]]
    by (simp add: parse_round_def consume_positionals_def parse_start_def positionals_def take_positional_def
        without_dashes_def image_def remove1.simps(1) del: remove1.simps(2))
qed

lemma dashes_tokens:
  "takeWhile (\<lambda>t. \<not> is_option t) ((''--'', MarkDashes) # arg_tokens args) = (''--'', MarkDashes) # arg_tokens args"
  by simp

lemma finish_deferred:
  assumes "ps_left st = [PosArguments]" and "ps_extras st = []" and "ps_command st = Some c"
  shows "parse_finish r (st, (''--'', MarkDashes) # arg_tokens args) =
    Inr \<lparr>ca_command = c, ca_arguments = args, ca_user = ps_user st, ca_y = ps_yes st, ca_plain = ps_plain st, ca_json = ps_json st\<rparr>"
  using assms
  by (simp add: parse_finish_def consume_positionals_def match_partial_def match_count_def take_positional_def
      without_dashes_def)

lemma finish_leftover:
  assumes "ps_left st = []" and "ts \<noteq> []"
  shows "parse_finish r (st, ts) = Inl UsageError"
  using assms by (cases ts) (auto simp: parse_finish_def consume_positionals_def match_partial_def split: option.splits list.splits)

text \<open>
  Whether the GUI can run a command at all depends on the release of \<open>argparse\<close>. Where an empty
  list of positionals waits for the options behind it, the line is read as meant, whatever the
  values are; where it does not (Python 3.12.3), every such line is a usage error, for all commands
  and even without values, as the \<open>--\<close> itself is left over.
\<close>

lemma gui_line_read:
  assumes "c \<in> set command_choices"
  shows "parse_args r user (gui_line c args) =
    (if rl_defers r then Inr \<lparr>ca_command = c, ca_arguments = args, ca_user = user, ca_y = False, ca_plain = False, ca_json = True\<rparr>
     else Inl UsageError)"
proof -
  let ?json = "(''--json'', MarkOption (no_value (Some OptJson) ''--json''))"
  let ?rest = "(''--'', MarkDashes) # arg_tokens args"
  let ?st = "(parse_start user)\<lparr>ps_command := Some c, ps_arguments := (if rl_defers r then None else Some []),
           ps_left := (if rl_defers r then [PosArguments] else []), ps_json := True\<rparr>"
  have "parse_loop r (parse_start user, (c, MarkArg) # ?json # ?rest) = parse_loop r (?st\<lparr>ps_json := False\<rparr>, ?json # ?rest)"
    by (subst parse_loop.simps) (simp add: gui_first_round [OF assms], simp add: parse_start_def)
  also have "\<dots> = parse_loop r (?st, ?rest)"
    by (simp add: parse_loop_option consume_flag)
  also have "\<dots> = Inr (?st, ?rest)"
    using arg_tokens_no_option by (intro parse_loop_done) auto
  finally have "parse_args r user (gui_line c args) = parse_finish r (?st, ?rest)"
    by (simp add: parse_args_def classify_gui_line [OF assms])
  then show ?thesis
    using finish_deferred [of ?st c r args] finish_leftover [of ?st ?rest r]
    by (cases "rl_defers r") (simp_all add: parse_start_def)
qed


section \<open>Only the twelve commands\<close>

definition known_command :: "parse_state \<Rightarrow> bool" where
  "known_command st \<longleftrightarrow> (\<forall>c. ps_command st = Some c \<longrightarrow> c \<in> set command_choices)"

lemma take_positional_known:
  "known_command st \<Longrightarrow> take_positional r p ts st = Inr st' \<Longrightarrow> known_command st'"
  by (cases p) (auto simp: take_positional_def known_command_def simp del: remove1.simps
      split: list.splits if_splits)

lemma take_positionals_known:
  "known_command (fst s) \<Longrightarrow> take_positionals r ns s = Inr s' \<Longrightarrow> known_command (fst s')"
proof (induction r ns s rule: take_positionals.induct)
  case (2 r n ns st ts)
  show ?case
  proof (cases "ps_left st")
    case Nil
    then show ?thesis using 2 by auto
  next
    case (Cons p ps)
    then obtain st1 where 1: "take_positional r p (take n ts) st = Inr st1"
        "take_positionals r ns (st1\<lparr>ps_left := ps\<rparr>, drop n ts) = Inr s'"
      using 2(3) by (auto split: sum.splits)
    have "known_command st" using 2(2) by simp
    then have "known_command st1" using take_positional_known 1(1) by blast
    then have "known_command (st1\<lparr>ps_left := ps\<rparr>)" by (simp add: known_command_def)
    then show ?thesis using 2(1) [OF Cons 1(1)] 1(2) by simp
  qed
qed auto

lemma take_option_command: "take_option x st = Inr st' \<Longrightarrow> ps_command st' = ps_command st"
  by (induction x st rule: take_option.induct) auto

lemma take_options_command: "take_options xs st = Inr st' \<Longrightarrow> ps_command st' = ps_command st"
proof (induction xs arbitrary: st)
  case (Cons x xs)
  then obtain st1 where "take_option x st = Inr st1" "take_options xs st1 = Inr st'" by (auto split: sum.splits)
  then show ?case using Cons.IH take_option_command by metis
qed simp

lemma consume_optional_known:
  assumes "consume_optional s u st rest = Inr (st', rest')" and "known_command st"
  shows "known_command st'"
proof -
  have "ps_command st' = ps_command st"
    using assms(1) by (auto simp: consume_optional_def dest!: take_options_command
        split: option.splits sum.splits prod.splits)
  then show ?thesis using assms(2) by (simp add: known_command_def)
qed

lemma parse_round_known:
  assumes "parse_round r s = Inr s'" and "known_command (fst s)"
  shows "known_command (fst s')"
proof -
  have next_option: "known_command (fst s')" if "take_next_option s = Inr s'" "known_command (fst s)" for s s'
  proof -
    obtain st ts where s: "s = (st, ts)" by (cases s)
    let ?st = "st\<lparr>ps_extras := ps_extras st @ map fst (takeWhile (\<lambda>t. \<not> is_option t) ts)\<rparr>"
    have k: "known_command ?st" using that(2) s by (simp add: known_command_def)
    show ?thesis
    proof (cases "\<exists>t u rest. drop (length (takeWhile (\<lambda>t. \<not> is_option t) ts)) ts = (t, MarkOption u) # rest")
      case True
      then obtain t u rest where "drop (length (takeWhile (\<lambda>t. \<not> is_option t) ts)) ts = (t, MarkOption u) # rest" by blast
      then have "consume_optional t u ?st rest = Inr s'"
        using that(1) s by (simp add: take_next_option_def Let_def)
      then show ?thesis using consume_optional_known [OF _ k] by (metis prod.collapse)
    next
      case False
      then have "s' = s"
        using that(1) s by (auto simp: take_next_option_def Let_def split: list.splits mark.splits)
      then show ?thesis using that(2) by simp
    qed
  qed
  show ?thesis
  proof (cases "is_option (hd (snd s))")
    case True
    then show ?thesis using assms next_option by (simp add: parse_round_def)
  next
    case False
    then obtain s1 where s1: "consume_positionals r s = Inr s1" "s' = s1 \<or> take_next_option s1 = Inr s'"
      using assms(1) by (auto simp: parse_round_def split: sum.splits if_splits)
    have "known_command (fst s1)"
      using take_positionals_known [OF assms(2)] s1(1) unfolding consume_positionals_def by blast
    then show ?thesis using s1(2) next_option by blast
  qed
qed

lemma parse_loop_known:
  "parse_loop r s = Inr s' \<Longrightarrow> known_command (fst s) \<Longrightarrow> known_command (fst s')"
proof (induction r s rule: parse_loop.induct)
  case (1 r s)
  show ?case
  proof (cases "\<exists>t\<in>set (snd s). is_option t")
    case True
    then obtain s1 where s1: "parse_round r s = Inr s1" "parse_loop r s1 = Inr s'"
      using 1(2) by (subst (asm) parse_loop.simps) (auto split: sum.splits)
    show ?thesis using 1(1) [OF True s1] parse_round_known [OF s1(1) 1(3)] by blast
  next
    case False
    then show ?thesis using 1(2,3) by (subst (asm) parse_loop.simps) simp
  qed
qed

lemma parsed_command:
  assumes "parse_args r user ss = Inr a"
  shows "ca_command a \<in> set command_choices"
proof -
  obtain ts s where ts: "classify ss = Inr ts" "parse_loop r (parse_start user, ts) = Inr s" "parse_finish r s = Inr a"
    using assms by (auto simp: parse_args_def split: sum.splits)
  have "known_command (fst s)"
    using parse_loop_known [OF ts(2)] by (simp add: known_command_def parse_start_def)
  moreover obtain s' where "consume_positionals r s = Inr s'" "ps_command (fst s') = Some (ca_command a)"
    using ts(3) by (auto simp: parse_finish_def split: sum.splits option.splits list.splits)
  ultimately show ?thesis
    using take_positionals_known unfolding consume_positionals_def known_command_def by blast
qed

end
