(* ===== verification/Cli_Gui.thy ===== *)
theory Cli_Gui
  imports Cli_Samples Args_Props
begin

text \<open>
  From the words of the command line to the result: the commands the parser lets through all have
  a module, and the line the GUI builds ends in its one document, where it is read at all.
\<close>

lemma parsed_has_module:
  assumes "parse_args r user ss = Inr args" and "ca_command args \<noteq> ''version''"
  shows "command_module env w (ca_command args) \<noteq> None"
  using choices_have_modules [OF parsed_command [OF assms(1)] assms(2)] .

definition gui_args :: "string \<Rightarrow> string list \<Rightarrow> string \<Rightarrow> cli_args" where
  "gui_args c args user = \<lparr>ca_command = c, ca_arguments = args, ca_user = user, ca_y = False, ca_plain = False, ca_json = True\<rparr>"



end
