(* ===== verification/Cli_Login.thy ===== *)
theory Cli_Login
  imports Cli_Gui Ini_Props
begin

text \<open>
  From one program to the other: what is typed at the terminal is what the next login goes by.
\<close>

lemma set_run:
  assumes "main env w (cli # usage_line a) s = Some (s', Inr ())" and "ca_command a = ''set''"
    and "plain_string (ca_user a)" and "list_all plain_string (ca_arguments a)" and "\<not> cl_redirected s"
  obtains env' where "cmd_set env' s = (s', Inr ())" "ca_arguments (ce_args env') = ca_arguments a"
  using assms(1,5)
proof (cases rule: main_cases)
  case early
  then show ?thesis by simp
next
  case (run user args args')
  have "''set'' \<in> set command_choices" by (simp add: command_choices_def)
  then have "args = a" using usage_roundtrip [of a] assms(2-4) run(2) by simp
  then have a: "ca_command args' = ''set''" "ca_arguments args' = ca_arguments a" using run(3) assms(2) by simp_all
  let ?env = "env\<lparr>ce_args := args'\<rparr>"
  have "run_module ?env w s = Some (s', Inr ())"
    using run(4) a by (auto simp: guarded_run_def Let_def fail_def leave_with_def split: if_splits)
  then have "caught ?env (cmd_set ?env s) = (s', Inr ())"
    using a by (simp add: run_module_def command_module_def Let_def)
  then have "cmd_set ?env s = (s', Inr ())"
    by (auto simp: caught_def fail_def leave_with_def split: prod.splits sum.splits if_splits)
  then show ?thesis using that a by simp
qed

lemma parse_float_strip: "parse_float (py_strip v) = parse_float v"
  by (simp add: parse_float_def)

text \<open>
  C15: the certainty that \<open>secureEye set certainty <v>\<close> accepts is the one the next login asks for.
  When the program ends normally, \<open>config.ini\<close> is read as before but with that number, and the session
  that reads its options from it compares distances with a tenth of it: through \<open>argparse\<close>, the
  rewriting of the file and \<open>configparser\<close>.
\<close>

theorem set_reaches_login:
  assumes "main env w (cli # usage_line a) s = Some (s', Inr ())" and "ca_command a = ''set''"
    and "plain_string (ca_user a)" and "list_all plain_string (ca_arguments a)" and "\<not> cl_redirected s"
    and "cl_config s = Some lines" and "ini_read lines = Inr ini" and "ini_values ini ''video'' ''certainty'' = Some [old]"
    and "\<forall>k \<in> set (map fst (dict_of (pairs_of (ca_arguments a)))). plain_key k \<and> spelled lines k"
    and "given (ca_arguments a) ''certainty'' = Some v" and "CHR ''%'' \<notin> set v" and "parse_float v = Inr certainty"
  shows "\<exists>new c. cl_config s' = Some new \<and> read_ini new = Inr c \<and>
    cfg_float c ''video'' ''certainty'' (Fin (7/2)) = Inr certainty \<and>
    (\<forall>opts. read_options c = Inr opts \<longrightarrow> ao_certainty opts = fscale (1/10) certainty)"
proof -
  obtain env' where set: "cmd_set env' s = (s', Inr ())" "ca_arguments (ce_args env') = ca_arguments a"
    using set_run [OF assms(1-5)] by blast
  obtain new ini' where new: "cl_config s' = Some new" "ini_read new = Inr ini'"
    and get: "ini_get ini' ''video'' ''certainty'' = Inr (Some (py_strip v))"
    using set_rewrites [OF set(1) assms(5,6)] assms(7-11) set(2) by force
  have "config_of ini' ''video'' ''certainty'' = Some (Inr (py_strip v))" using get by (simp add: config_of_def)
  then have c: "cfg_float (config_of ini') ''video'' ''certainty'' (Fin (7/2)) = Inr certainty"
    using assms(12) by (simp add: cfg_float_def parse_float_strip)
  then have "\<forall>opts. read_options (config_of ini') = Inr opts \<longrightarrow> ao_certainty opts = fscale (1/10) certainty"
    by (auto simp: read_options_def bindE_Inr_iff)
  then show ?thesis using new c by (auto simp: read_ini_def)
qed

text \<open>\<open>secureEye -U al set certainty 4.2\<close>: the file is rewritten, and the login asks for 0.42.\<close>

definition certainty_lines :: "string list" where
  "certainty_lines = [''[video]'' @ newline, ''certainty = 3.5'' @ newline]"

definition certainty_args :: cli_args where
  "certainty_args = sample_args ''set'' [''certainty'', ''4.2'']"

theorem set_reaches_login_witness:
  "\<exists>s' new c opts. main (sample_cli certainty_args) sample_main (''secureEye'' # usage_line certainty_args) (sample_state certainty_lines [])
     = Some (s', Inr ()) \<and> cl_config s' = Some new \<and> read_ini new = Inr c \<and> read_options c = Inr opts \<and>
     ao_certainty opts = Fin (21 / 50)"
proof -
  let ?s = "sample_state certainty_lines []"
  let ?m = "main (sample_cli certainty_args) sample_main (''secureEye'' # usage_line certainty_args) ?s"
  have "(case ?m of Some (s', Inr ()) \<Rightarrow> (case cl_config s' of None \<Rightarrow> False | Some new \<Rightarrow>
      (case bindE (read_ini new) read_options of Inl _ \<Rightarrow> False | Inr _ \<Rightarrow> True)) | _ \<Rightarrow> False) = True"
    by code_simp
  then obtain s' new c opts where m: "?m = Some (s', Inr ())" "cl_config s' = Some new" "read_ini new = Inr c" "read_options c = Inr opts"
    by (auto simp: bindE_Inr_iff split: option.splits prod.splits sum.splits unit.splits elim!: bindE.elims)
  obtain ini where ini: "ini_read certainty_lines = Inr ini" "ini_values ini ''video'' ''certainty'' = Some [''3.5'']"
  proof -
    have "bindE (ini_read certainty_lines) (\<lambda>ini. Inr (ini_values ini ''video'' ''certainty'')) = Inr (Some [''3.5''])" by code_simp
    then show ?thesis using that by (auto simp: bindE_Inr_iff)
  qed
  have a: "ca_command certainty_args = ''set''" "plain_string (ca_user certainty_args)"
      "list_all plain_string (ca_arguments certainty_args)"
      "\<forall>k \<in> set (map fst (dict_of (pairs_of (ca_arguments certainty_args)))). plain_key k \<and> spelled certainty_lines k"
      "given (ca_arguments certainty_args) ''certainty'' = Some ''4.2''" "CHR ''%'' \<notin> set ''4.2''"
      "parse_float ''4.2'' = Inr (Fin (21 / 5))"
    by code_simp+
  have s: "\<not> cl_redirected ?s" "cl_config ?s = Some certainty_lines" by (simp_all add: sample_state_def)
  from set_reaches_login [OF m(1) a(1-3) s ini a(4-7)] m show ?thesis by fastforce
qed

end
