(* ===== verification/Packaging.thy ===== *)
theory Packaging
  imports Cli_Props "HOL-Library.Sublist"
begin

text \<open>
  \<open>scripts/debian-without-gui.py\<close>: the packaging files of a series without the GUI. The script
  rewrites \<open>debian/control\<close> and \<open>debian/rules\<close> and removes the install list of the GUI package.
\<close>

definition gui_package :: string where
  "gui_package = ''secure-eye-gui''"

text \<open>\<open>^(qt6-\S+|desktop-file-utils|appstream)$\<close>, on a word without white space.\<close>

definition gui_build_dep :: "string \<Rightarrow> bool" where
  "gui_build_dep w \<longleftrightarrow> starts_with w ''qt6-'' \<and> 4 < length w \<or> w = ''desktop-file-utils'' \<or> w = ''appstream''"


section \<open>Paragraphs\<close>

text \<open>\<open>\n\s*\n\<close> at the start of a text: what follows the last line break of the white space.\<close>

definition after_blank :: "string \<Rightarrow> string option" where
  "after_blank s = (case s of
      [] \<Rightarrow> None
    | c # t \<Rightarrow>
        let ws = takeWhile is_py_space t; indent = length (takeWhile (\<lambda>x. x \<noteq> CHR 0x0A) (rev ws)) in
        if c = CHR 0x0A \<and> CHR 0x0A \<in> set ws then Some (drop (length ws - indent) t) else None)"

lemma after_blank_shorter: "after_blank s = Some r \<Longrightarrow> length r < length s"
  by (auto simp: after_blank_def Let_def split: list.splits if_splits)

text \<open>\<open>re.split\<close> at blank lines.\<close>

function split_blank :: "string \<Rightarrow> string list" where
  "split_blank s =
     (if s = [] then [[]]
      else case after_blank s of
        Some r \<Rightarrow> [] # split_blank r
      | None \<Rightarrow> (case split_blank (tl s) of [] \<Rightarrow> [[hd s]] | p # ps \<Rightarrow> (hd s # p) # ps))"
  by pat_completeness auto
termination by (relation "measure length") (auto dest: after_blank_shorter)

declare split_blank.simps [simp del]

text \<open>\<open>Package:\s*secure-eye-gui\s*$\<close> at the start, where \<open>$\<close> also stands before a line break.\<close>

definition gui_paragraph :: "string \<Rightarrow> bool" where
  "gui_paragraph p \<longleftrightarrow> starts_with p ''Package:'' \<and>
     (let name = dropWhile is_py_space (drop 8 p); rest = drop (length gui_package) name in
      starts_with name gui_package \<and>
      (dropWhile is_py_space rest = [] \<or> CHR 0x0A \<in> set (takeWhile is_py_space rest)))"


section \<open>The source paragraph\<close>

text \<open>\<open>line.strip().rstrip(",").split()[0]\<close>: a line of commas and blanks has no first word.\<close>

definition first_word :: "string \<Rightarrow> string option" where
  "first_word line =
     (let name = rev (dropWhile (\<lambda>c. c = CHR '','') (rev (py_strip line)));
          w = takeWhile (\<lambda>c. \<not> is_py_space c) (dropWhile is_py_space name)
      in if w = [] then None else Some w)"

text \<open>The loop over the lines; the flag says that the line continues \<open>Build-Depends\<close>.\<close>

fun strip_lines :: "bool \<Rightarrow> string list \<Rightarrow> exn + string list" where
  "strip_lines deps [] = Inr []"
| "strip_lines deps (line # ls) =
     (if starts_with line ''Build-Depends:'' then bindE (strip_lines True ls) (\<lambda>out. Inr (line # out))
      else if deps \<and> starts_with line '' '' then
        (case first_word line of
           None \<Rightarrow> Inl IndexError
         | Some w \<Rightarrow> if gui_build_dep w then strip_lines deps ls
                     else bindE (strip_lines deps ls) (\<lambda>out. Inr (line # out)))
      else bindE (strip_lines False ls) (\<lambda>out. Inr (line # out)))"

text \<open>\<open>re.sub(r",(\n(?! ))", r"\1", text)\<close>: a comma before a line that does not continue the field.\<close>

fun drop_commas :: "string \<Rightarrow> string" where
  "drop_commas [] = []"
| "drop_commas (c # s) =
     (if c = CHR '','' \<and> starts_with s [CHR 0x0A] \<and> \<not> starts_with (tl s) '' '' then drop_commas s
      else c # drop_commas s)"

text \<open>\<open>re.sub(r",\Z", "", text)\<close>\<close>

definition drop_last_comma :: "string \<Rightarrow> string" where
  "drop_last_comma s = (if s \<noteq> [] \<and> last s = CHR '','' then butlast s else s)"

fun join_paragraphs :: "string list \<Rightarrow> string" where
  "join_paragraphs [] = []"
| "join_paragraphs [p] = p"
| "join_paragraphs (p # ps) = p @ [CHR 0x0A, CHR 0x0A] @ join_paragraphs ps"

definition strip_source :: "string \<Rightarrow> exn + string" where
  "strip_source p = bindE (strip_lines False (split_on (CHR 0x0A) p))
     (\<lambda>out. Inr (drop_last_comma (drop_commas (join_lines out))))"

text \<open>\<open>sys.exit\<close> with a message is exit status 1.\<close>

definition strip_control :: "string \<Rightarrow> exn + string" where
  "strip_control text =
     (let paragraphs = split_blank (py_strip text); kept = filter (\<lambda>p. \<not> gui_paragraph p) paragraphs in
      if length kept = length paragraphs then Inl (SystemExit (Some 1))
      else case kept of
        [] \<Rightarrow> Inl IndexError
      | source # packages \<Rightarrow> bindE (strip_source source) (\<lambda>s. Inr (join_paragraphs (s # packages) @ [CHR 0x0A])))"


section \<open>The script\<close>

text \<open>The files of the directory, and the calls on them that fail.\<close>

type_synonym debian = "string \<Rightarrow> string option"

record debian_env =
  db_read_fails :: "string \<Rightarrow> exn option"
  db_open_fails :: "string \<Rightarrow> exn option"
  db_write_fails :: "string \<Rightarrow> (nat \<times> exn) option"
  db_unlink_fails :: "exn option"

definition read_text :: "debian_env \<Rightarrow> string \<Rightarrow> debian \<Rightarrow> exn + string" where
  "read_text env f d = (case db_read_fails env f of
      Some e \<Rightarrow> Inl e
    | None \<Rightarrow> (case d f of None \<Rightarrow> Inl FileNotFoundError | Some t \<Rightarrow> Inr t))"

text \<open>\<open>write_text\<close>: opening empties the file, and a write that fails leaves what it had written.\<close>

definition write_text :: "debian_env \<Rightarrow> string \<Rightarrow> string \<Rightarrow> debian \<Rightarrow> debian \<times> (exn + unit)" where
  "write_text env f t d = (case db_open_fails env f of
      Some e \<Rightarrow> (d, Inl e)
    | None \<Rightarrow> (case db_write_fails env f of
        Some (n, e) \<Rightarrow> (d(f \<mapsto> take n t), Inl e)
      | None \<Rightarrow> (d(f \<mapsto> t), Inr ())))"

definition remove_install :: "debian_env \<Rightarrow> debian \<Rightarrow> debian \<times> (exn + unit)" where
  "remove_install env d = (case db_unlink_fails env of
      Some e \<Rightarrow> (d, Inl e)
    | None \<Rightarrow> (d(gui_package @ ''.install'' := None), Inr ()))"

definition gui_on :: string where "gui_on = ''-Dinstall_gui=true''"
definition gui_off :: string where "gui_off = ''-Dinstall_gui=false''"

text \<open>\<open>main\<close>: the control file is written before the rules are looked at.\<close>

definition without_gui :: "debian_env \<Rightarrow> string list \<Rightarrow> debian \<Rightarrow> debian \<times> (exn + unit)" where
  "without_gui env argv d =
     (if length argv \<noteq> 2 then (d, Inl (SystemExit (Some 1)))
      else thenS (d, bindE (read_text env ''control'' d) strip_control) (\<lambda>d control.
           thenS (write_text env ''control'' control d) (\<lambda>d _.
           thenS (d, read_text env ''rules'' d) (\<lambda>d rules.
             if \<not> has_substring gui_on rules then (d, Inl (SystemExit (Some 1)))
             else thenS (write_text env ''rules'' (replace_all gui_on gui_off rules) d) (\<lambda>d _.
                  remove_install env d)))))"


section \<open>What it keeps\<close>

text \<open>No line is added, changed or moved, and only continuation lines are dropped.\<close>

lemma strip_lines_subseq: "strip_lines deps ls = Inr out \<Longrightarrow> subseq out ls"
  by (induction deps ls arbitrary: out rule: strip_lines.induct)
    (auto simp: bindE_Inr_iff split: if_splits option.splits)

lemma strip_lines_fields:
  "strip_lines deps ls = Inr out \<Longrightarrow>
     filter (\<lambda>l. \<not> starts_with l '' '') out = filter (\<lambda>l. \<not> starts_with l '' '') ls"
  by (induction deps ls arbitrary: out rule: strip_lines.induct)
    (auto simp: bindE_Inr_iff starts_with_def split: if_splits option.splits)

text \<open>Of the lines that continue \<open>Build-Depends\<close>, exactly those of the GUI go.\<close>

lemma strip_lines_deps:
  assumes "\<forall>l \<in> set ls. starts_with l '' '' \<and> first_word l \<noteq> None"
  shows "strip_lines True ls = Inr (filter (\<lambda>l. \<not> gui_build_dep (the (first_word l))) ls)"
  using assms
proof (induction ls)
  case (Cons l ls)
  then have "\<not> starts_with l ''Build-Depends:''" by (auto simp: starts_with_def) (cases l; simp)
  then show ?case using Cons by auto
qed simp


section \<open>The flag\<close>

text \<open>A piece without a dash in the rewritten text was there before: what is put in begins with one.\<close>

lemma replace_all_step:
  "replace_all gui_on gui_off s =
     (if s = [] then []
      else if starts_with s gui_on then gui_off @ replace_all gui_on gui_off (drop (length gui_on) s)
      else hd s # replace_all gui_on gui_off (tl s))"
  by (subst replace_all.simps) (simp add: gui_on_def)

lemma starts_with_Cons: "starts_with (c # s) (d # w) \<longleftrightarrow> c = d \<and> starts_with s w"
  by (auto simp: starts_with_def)

lemma replaced_prefix:
  "CHR ''-'' \<notin> set w \<Longrightarrow> starts_with (replace_all gui_on gui_off s) w \<Longrightarrow> starts_with s w"
proof (induction w arbitrary: s)
  case (Cons c w)
  show ?case
  proof (cases "s = [] \<or> starts_with s gui_on")
    case True
    then have "replace_all gui_on gui_off s = [] \<or> hd (replace_all gui_on gui_off s) = CHR ''-''"
      using replace_all_step [of s] by (auto simp: gui_off_def)
    then show ?thesis using Cons.prems by (cases "replace_all gui_on gui_off s") (auto simp: starts_with_def)
  next
    case False
    then obtain d t where s: "s = d # t" by (cases s) auto
    have "replace_all gui_on gui_off s = d # replace_all gui_on gui_off t"
      using replace_all_step [of s] False s by simp
    then show ?thesis using Cons s by (simp add: starts_with_Cons)
  qed
qed (simp add: starts_with_def)

lemma no_flag_in_off: "\<not> has_substring gui_on s \<Longrightarrow> \<not> has_substring gui_on (gui_off @ s)"
  by (simp add: gui_off_def gui_on_def starts_with_Cons)

lemma flag_replaced: "\<not> has_substring gui_on (replace_all gui_on gui_off s)"
proof (induction s rule: measure_induct_rule [of length])
  case (less s)
  show ?case
  proof (cases "s = [] \<or> starts_with s gui_on")
    case True
    show ?thesis
    proof (cases "s = []")
      case True
      then show ?thesis using replace_all_step [of s] by (simp add: gui_on_def)
    next
      case False
      then have "length (drop (length gui_on) s) < length s" by (simp add: gui_on_def)
      then show ?thesis
        using less.IH no_flag_in_off replace_all_step [of s] False True by simp
    qed
  next
    case False
    then obtain d t where s: "s = d # t" by (cases s) auto
    have r: "replace_all gui_on gui_off s = d # replace_all gui_on gui_off t"
      using replace_all_step [of s] False s by simp
    have "\<not> starts_with (d # replace_all gui_on gui_off t) gui_on"
    proof
      assume "starts_with (d # replace_all gui_on gui_off t) gui_on"
      then have "d = CHR ''-''" "starts_with (replace_all gui_on gui_off t) (tl gui_on)"
        by (simp_all add: gui_on_def starts_with_Cons)
      then have "starts_with s gui_on"
        using replaced_prefix [of "tl gui_on" t] s by (simp add: gui_on_def starts_with_Cons)
      then show False using False by simp
    qed
    then show ?thesis using less.IH [of t] s r by simp
  qed
qed

text \<open>
  The script ends normally only when both files are rewritten, the GUI is off in the rules and its
  install list is gone; nothing else is touched. Without the flag in the rules it gives up after the
  control file has been rewritten.
\<close>

lemma without_gui_done:
  assumes "without_gui env argv d = (d', Inr ())"
  obtains control control' rules where
    "d ''control'' = Some control" "strip_control control = Inr control'" "d ''rules'' = Some rules"
    "d' = d(''control'' \<mapsto> control', ''rules'' \<mapsto> replace_all gui_on gui_off rules, gui_package @ ''.install'' := None)"
    "\<not> has_substring gui_on (replace_all gui_on gui_off rules)"
  using assms flag_replaced that
  by (auto simp: without_gui_def read_text_def write_text_def remove_install_def thenS_Inr_iff bindE_Inr_iff
      split: if_splits option.splits)

lemma without_flag:
  assumes "length argv = 2" and "read_text env ''control'' d = Inr c" and "strip_control c = Inr c'"
    and "write_text env ''control'' c' d = (d', Inr ())" and "read_text env ''rules'' d' = Inr r"
    and "\<not> has_substring gui_on r"
  shows "without_gui env argv d = (d', Inl (SystemExit (Some 1)))" and "d' ''control'' = Some c'"
  using assms by (auto simp: without_gui_def write_text_def split: option.splits)

text \<open>A control file with the GUI last and with two of its build dependencies.\<close>

lemma strip_control_sample:
  "strip_control (join_lines [''Source: x'', ''Build-Depends: meson,'', '' qt6-base-dev,'', '' appstream'', [],
      ''Package: secure-eye'', [], ''Package: secure-eye-gui'', ''Section: x'', []]) =
   Inr (join_lines [''Source: x'', ''Build-Depends: meson'', [], ''Package: secure-eye'', []])"
  by code_simp

end
