(* ===== verification/Coverage.thy ===== *)
theory Coverage
  imports Json_Text Capture Cli
begin

text \<open>
  \<open>ci/coverage_summary.py\<close>: the coverage of each category of the sources, a badge for it, and the
  comment on a pull request. The tools it runs, \<open>gcovr\<close> and \<open>coverage\<close>, are given by what they
  leave behind.
\<close>

section \<open>Percentages and colours\<close>

definition thresholds :: "(int \<times> string) list" where
  "thresholds = [(90, ''brightgreen''), (75, ''green''), (60, ''yellow''), (40, ''orange''), (0, ''red'')]"

definition colour_for :: "int option \<Rightarrow> string" where
  "colour_for percent = (case percent of
      None \<Rightarrow> ''lightgrey''
    | Some p \<Rightarrow> (case List.find (\<lambda>(minimum, c). minimum \<le> p) thresholds of None \<Rightarrow> ''red'' | Some (m, c) \<Rightarrow> c))"

text \<open>\<open>round(100 * covered / total)\<close>, the quotient being exact here.\<close>

definition coverage_percent :: "int \<Rightarrow> int \<Rightarrow> int option" where
  "coverage_percent covered tot =
     (if tot = 0 then None else Some (round_half_even (of_int (100 * covered) / of_int tot)))"

definition percent_message :: "int option \<Rightarrow> string" where
  "percent_message p = (case p of None \<Rightarrow> ''n/a'' | Some n \<Rightarrow> show_int n @ ''%'')"


section \<open>Asking the tools\<close>

text \<open>\<open>coverage json\<close>: its status, what it printed, and the report it left.\<close>

record coverage_run =
  cr_status :: int
  cr_stdout :: string
  cr_stderr :: string
  cr_report :: string

text \<open>
  The files there are, the temporary file of a report, the summary \<open>gcovr\<close> leaves (or why it could
  not be run or read), and the run of \<open>coverage\<close>.
\<close>

record tools =
  tl_is_file :: "string \<Rightarrow> bool"
  tl_report :: string
  tl_gcovr :: "string list \<Rightarrow> exn + string"
  tl_coverage :: "string list \<Rightarrow> exn + coverage_run"

definition loads :: "string \<Rightarrow> exn + json" where
  "loads s = (case json_loads s of None \<Rightarrow> Inl ValueError | Some j \<Rightarrow> Inr j)"

definition gcovr_command :: "string \<Rightarrow> string \<Rightarrow> string list \<Rightarrow> string list \<Rightarrow> string list" where
  "gcovr_command rep tracefile filters excludes =
     [''gcovr'', ''--root'', ''.'', ''--add-tracefile'', tracefile]
     @ concat (map (\<lambda>f. [''--filter'', f]) filters) @ concat (map (\<lambda>e. [''--exclude'', e]) excludes)
     @ [''--json-summary'', rep]"

definition cpp_counts :: "tools \<Rightarrow> string \<Rightarrow> string list \<Rightarrow> string list \<Rightarrow> exn + int \<times> int" where
  "cpp_counts t tracefile filters excludes =
     (if filters = [] \<or> \<not> tl_is_file t tracefile then Inr (0, 0)
      else bindE (tl_gcovr t (gcovr_command (tl_report t) tracefile filters excludes)) (\<lambda>text.
           bindE (loads text) (\<lambda>data. case data of
             JObj d \<Rightarrow> bindE (py_int (jget_or d ''line_covered'' (JInt 0))) (\<lambda>covered.
                       bindE (py_int (jget_or d ''line_total'' (JInt 0))) (\<lambda>tot. Inr (covered, tot)))
           | _ \<Rightarrow> Inl AttributeError)))"

fun commas :: "string list \<Rightarrow> string" where
  "commas [] = []"
| "commas [s] = s"
| "commas (s # ss) = s @ '','' @ commas ss"

definition coverage_command :: "string \<Rightarrow> string \<Rightarrow> string list \<Rightarrow> string list \<Rightarrow> string list" where
  "coverage_command rep data_file includes omits =
     [''coverage'', ''json'', ''--data-file='' @ data_file, ''--include='' @ commas includes, ''-o'', rep]
     @ (if omits = [] then [] else [''--omit='' @ commas omits])"

text \<open>\<open>value["key"]\<close>\<close>

definition json_item :: "json \<Rightarrow> string \<Rightarrow> exn + json" where
  "json_item v k = (case v of
      JObj d \<Rightarrow> (case jget d k of None \<Rightarrow> Inl (OtherError ''KeyError'') | Some x \<Rightarrow> Inr x)
    | _ \<Rightarrow> Inl TypeError)"

text \<open>No matching source is no error; any other failure of the tool is.\<close>

definition python_counts :: "tools \<Rightarrow> string \<Rightarrow> string list \<Rightarrow> string list \<Rightarrow> exn + int \<times> int" where
  "python_counts t data_file includes omits =
     (if includes = [] \<or> \<not> tl_is_file t data_file then Inr (0, 0)
      else bindE (tl_coverage t (coverage_command (tl_report t) data_file includes omits)) (\<lambda>r.
        if cr_status r \<noteq> 0 then
          (if has_substring ''No data to report'' (cr_stdout r @ cr_stderr r) then Inr (0, 0)
           else Inl (OtherError ''CalledProcessError''))
        else bindE (loads (cr_report r)) (\<lambda>rep.
             bindE (json_item rep ''totals'') (\<lambda>totals.
             bindE (json_item totals ''covered_lines'') (\<lambda>c. bindE (py_int c) (\<lambda>covered.
             bindE (json_item totals ''num_statements'') (\<lambda>n. bindE (py_int n) (\<lambda>tot.
               Inr (covered, tot)))))))))"


section \<open>Badges\<close>

text \<open>\<open>quote(c, safe="")\<close>: the bytes of UTF-8 in hexadecimal, but for letters, digits and four signs.\<close>

definition upper_hex :: "nat \<Rightarrow> char" where
  "upper_hex d = (if d < 10 then digit_char d else char_of (55 + d))"

definition percent_byte :: "nat \<Rightarrow> string" where
  "percent_byte n = [CHR ''%'', upper_hex (n div 16), upper_hex (n mod 16)]"

definition url_safe :: "char \<Rightarrow> bool" where
  "url_safe c \<longleftrightarrow> (let n = (of_char c :: nat) in
     48 \<le> n \<and> n \<le> 57 \<or> 65 \<le> n \<and> n \<le> 90 \<or> 97 \<le> n \<and> n \<le> 122) \<or> c \<in> set ''_.-~''"

definition url_quote :: "string \<Rightarrow> string" where
  "url_quote s = concat (map (\<lambda>c. if url_safe c then [c] else
     let n = (of_char c :: nat) in
     if n < 128 then percent_byte n else percent_byte (192 + n div 64) @ percent_byte (128 + n mod 64)) s)"

definition badge_esc :: "string \<Rightarrow> string" where
  "badge_esc s = url_quote (replace_all ''_'' ''__'' (replace_all ''-'' ''--'' s))"

definition static_badge :: "string \<Rightarrow> string \<Rightarrow> string \<Rightarrow> string" where
  "static_badge label message colour =
     ''https://img.shields.io/badge/'' @ badge_esc label @ ''-'' @ badge_esc message @ ''-'' @ colour"


section \<open>The report\<close>

record category =
  cat_id :: string
  cat_label :: string
  cat_cpp :: "string list"
  cat_python :: "string list"

text \<open>\<open>coverage_categories.json\<close> as it is read: lists that are missing are empty.\<close>

record categories =
  cs_cpp_exclude :: "string list"
  cs_python_omit :: "string list"
  cs_categories :: "category list"

record summary_args =
  sa_gcovr_json :: string
  sa_coverage_data :: string
  sa_out :: string
  sa_sha :: string
  sa_report_url :: string

type_synonym badge_row = "string \<times> string \<times> string \<times> int \<times> int"

text \<open>The files written, what was printed; \<open>ss_fails\<close> is the call on a path that fails.\<close>

record summary_state =
  ss_files :: "string \<Rightarrow> string option"
  ss_out :: "string list"

definition write_file :: "(string \<Rightarrow> exn option) \<Rightarrow> string \<Rightarrow> string \<Rightarrow> summary_state \<Rightarrow> summary_state \<times> (exn + unit)" where
  "write_file fails path text s = (case fails path of
      Some e \<Rightarrow> (s, Inl e)
    | None \<Rightarrow> (s\<lparr>ss_files := (ss_files s)(path \<mapsto> text)\<rparr>, Inr ()))"

definition badge_json :: "badge_row \<Rightarrow> string" where
  "badge_json row = (case row of (label, message, colour, covered, tot) \<Rightarrow>
     json_text float_repr '', '' '': '' (JObj [(''schemaVersion'', JInt 1), (''label'', JStr label), (''message'', JStr message),
       (''color'', JStr colour)]) @ [CHR 0x0A])"

definition row_of :: "category \<Rightarrow> int \<times> int \<Rightarrow> int \<times> int \<Rightarrow> badge_row" where
  "row_of cat c p = (let covered = fst c + fst p; tot = snd c + snd p; percent = coverage_percent covered tot in
     (cat_label cat, percent_message percent, colour_for percent, covered, tot))"

definition pad :: "nat \<Rightarrow> string" where
  "pad n = replicate n (CHR '' '')"

text \<open>\<open>{label:<10} {message:>5}  ({covered}/{total} lines)\<close>\<close>

definition row_line :: "badge_row \<Rightarrow> string" where
  "row_line row = (case row of (label, message, colour, covered, tot) \<Rightarrow>
     label @ pad (10 - length label) @ '' '' @ pad (5 - length message) @ message @ ''  ('' @ show_int covered @ ''/''
     @ show_int tot @ '' lines)'')"

fun badge_rows ::
  "tools \<Rightarrow> (string \<Rightarrow> exn option) \<Rightarrow> summary_args \<Rightarrow> categories \<Rightarrow> category list \<Rightarrow> summary_state
     \<Rightarrow> summary_state \<times> (exn + badge_row list)" where
  "badge_rows t fails a cs [] s = (s, Inr [])"
| "badge_rows t fails a cs (cat # cats) s =
     thenS (s, bindE (cpp_counts t (sa_gcovr_json a) (cat_cpp cat) (cs_cpp_exclude cs)) (\<lambda>c.
               bindE (python_counts t (sa_coverage_data a) (cat_python cat) (cs_python_omit cs)) (\<lambda>p.
                 Inr (row_of cat c p)))) (\<lambda>s row.
     thenS (write_file fails (sa_out a @ ''/badges/'' @ cat_id cat @ ''.json'') (badge_json row) s) (\<lambda>s _.
     thenS (badge_rows t fails a cs cats (s\<lparr>ss_out := ss_out s @ [row_line row]\<rparr>)) (\<lambda>s rows.
       (s, Inr (row # rows)))))"

definition marker :: string where "marker = ''<!-- coverage-comment -->''"

definition table_line :: "badge_row \<Rightarrow> string" where
  "table_line row = (case row of (label, message, colour, covered, tot) \<Rightarrow>
     ''| '' @ label @ '' | !['' @ label @ ''](''
     @ static_badge label message colour @ '') <sub>'' @ show_int covered @ ''/'' @ show_int tot @ '' lines</sub> |'')"

definition footer :: "summary_args \<Rightarrow> string list" where
  "footer a = (if sa_sha a = [] then [] else [''Line coverage at `'' @ take 7 (sa_sha a) @ ''`.''])
     @ (if sa_report_url a = [] then [] else [''[Full HTML report]('' @ sa_report_url a @ '')''])"

fun words :: "string list \<Rightarrow> string" where
  "words [] = []"
| "words [w] = w"
| "words (w # ws) = w @ '' '' @ words ws"

definition comment_lines :: "summary_args \<Rightarrow> badge_row list \<Rightarrow> string list" where
  "comment_lines a rows =
     [marker, ''## Coverage'', [], ''| Category | Coverage |'', ''| --- | --- |''] @ map table_line rows
     @ (if footer a = [] then [] else [[], ''<sub>'' @ words (footer a) @ ''</sub>''])"

text \<open>\<open>main\<close>, the arguments and the configuration being read.\<close>

definition coverage_main ::
  "tools \<Rightarrow> exn option \<Rightarrow> (string \<Rightarrow> exn option) \<Rightarrow> summary_args \<Rightarrow> categories \<Rightarrow> summary_state \<Rightarrow> summary_state \<times> (exn + unit)" where
  "coverage_main t mkdir fails a cs s = (case mkdir of
      Some e \<Rightarrow> (s, Inl e)
    | None \<Rightarrow> thenS (badge_rows t fails a cs (cs_categories cs) s) (\<lambda>s rows.
        write_file fails (sa_out a @ ''/comment.md'') (join_lines (comment_lines a rows) @ [CHR 0x0A]) s))"


section \<open>What the numbers mean\<close>

lemma round_bounds: "\<lfloor>q\<rfloor> \<le> round_half_even q \<and> round_half_even q \<le> \<lceil>q\<rceil>"
proof -
  have "of_int \<lfloor>q\<rfloor> < q \<Longrightarrow> \<lfloor>q\<rfloor> + 1 \<le> \<lceil>q\<rceil>" by linarith
  then show ?thesis by (auto simp: round_half_even_def Let_def)
qed

text \<open>With counts that make sense the percentage does.\<close>

lemma percent_bounds:
  assumes "0 \<le> covered" and "covered \<le> tot" and "coverage_percent covered tot = Some p"
  shows "0 \<le> p \<and> p \<le> 100"
proof -
  let ?q = "of_int (100 * covered) / of_int tot :: rat"
  have t: "0 < tot" using assms by (auto simp: coverage_percent_def split: if_splits)
  have "0 \<le> ?q" using assms(1) t by simp
  moreover have "?q \<le> 100" using assms(2) t by (simp add: divide_le_eq)
  ultimately have "0 \<le> \<lfloor>?q\<rfloor>" "\<lceil>?q\<rceil> \<le> 100" by linarith+
  moreover have "p = round_half_even ?q" using assms(3) t by (simp add: coverage_percent_def)
  ultimately show ?thesis using round_bounds [of ?q] by linarith
qed

lemma colour_bands:
  "0 \<le> p \<Longrightarrow> colour_for (Some p) = (if 90 \<le> p then ''brightgreen'' else if 75 \<le> p then ''green''
     else if 60 \<le> p then ''yellow'' else if 40 \<le> p then ''orange'' else ''red'')"
  by (simp add: colour_for_def thresholds_def)


section \<open>Badge texts\<close>

text \<open>Escaping works character by character, and no two texts have the same escape.\<close>

definition esc_char :: "char \<Rightarrow> string" where
  "esc_char c = (if c = CHR ''-'' then ''--'' else if c = CHR ''_'' then ''__'' else url_quote [c])"

lemma replace_doubled:
  "replace_all [c] [c, c] s = concat (map (\<lambda>x. if x = c then [c, c] else [x]) s)"
  by (induction s) (subst replace_all.simps, simp add: starts_with_def)+

lemma url_quote_append [simp]: "url_quote [] = []" "url_quote (s @ t) = url_quote s @ url_quote t"
  by (simp_all add: url_quote_def)

lemma badge_esc_chars: "badge_esc s = concat (map esc_char s)"
proof (induction s)
  case (Cons c s)
  have "badge_esc (c # s) = url_quote (replace_all ''_'' ''__'' (replace_all ''-'' ''--'' [c])) @ badge_esc s"
    unfolding badge_esc_def replace_doubled by simp
  also have "url_quote (replace_all ''_'' ''__'' (replace_all ''-'' ''--'' [c])) = esc_char c"
    unfolding replace_doubled by (auto simp: esc_char_def) (simp_all add: url_quote_def url_safe_def)
  finally show ?case using Cons by simp
qed (simp add: badge_esc_def replace_doubled)

lemma of_upper_hex: "d < 16 \<Longrightarrow> (of_char (upper_hex d) :: nat) = (if d < 10 then 48 + d else 55 + d)"
  by (simp add: upper_hex_def digit_char_def)

lemma upper_hex_inj:
  assumes "d < 16" and "e < 16" and "upper_hex d = upper_hex e"
  shows "d = e"
proof -
  have "(of_char (upper_hex d) :: nat) = of_char (upper_hex e)" using assms(3) by simp
  then show ?thesis unfolding of_upper_hex [OF assms(1)] of_upper_hex [OF assms(2)] by (simp split: if_splits)
qed

lemma percent_byte_inj:
  assumes "n < 256" and "m < 256" and "percent_byte n @ x = percent_byte m @ y"
  shows "n = m \<and> x = y"
proof -
  have d: "n div 16 < 16" "m div 16 < 16" "n mod 16 < 16" "m mod 16 < 16" using assms(1,2) by auto
  have e: "upper_hex (n div 16) = upper_hex (m div 16)" "upper_hex (n mod 16) = upper_hex (m mod 16)" "x = y"
    using assms(3) by (simp_all only: percent_byte_def append.simps list.inject)
  have "n div 16 = m div 16" "n mod 16 = m mod 16"
    using upper_hex_inj [OF d(1,2) e(1)] upper_hex_inj [OF d(3,4) e(2)] by auto
  then show ?thesis using e(3) by (metis div_mult_mod_eq)
qed

definition quoted_code :: "nat \<Rightarrow> string" where
  "quoted_code n = (if n < 128 then percent_byte n else percent_byte (192 + n div 64) @ percent_byte (128 + n mod 64))"

lemma quoted_code_simps:
  "n < 128 \<Longrightarrow> quoted_code n = percent_byte n"
  "128 \<le> n \<Longrightarrow> quoted_code n @ x = percent_byte (192 + n div 64) @ percent_byte (128 + n mod 64) @ x"
  by (simp_all add: quoted_code_def)

lemma quoted_code_inj:
  assumes "n < 256" and "m < 256" and "quoted_code n @ x = quoted_code m @ y"
  shows "n = m"
proof -
  have b: "192 + k div 64 < 256" "128 + k mod 64 < 256" if "k < 256" for k :: nat using that by auto
  consider "n < 128" "m < 128" | "n < 128" "128 \<le> m" | "128 \<le> n" "m < 128" | "128 \<le> n" "128 \<le> m" by linarith
  then show ?thesis
  proof cases
    case 1
    then show ?thesis using percent_byte_inj [OF assms(1,2)] assms(3) unfolding quoted_code_simps(1) [OF 1(1)] quoted_code_simps(1) [OF 1(2)]
      by blast
  next
    case 2
    then have "n = 192 + m div 64"
      using percent_byte_inj [OF assms(1) b(1) [OF assms(2)]] assms(3)
      unfolding quoted_code_simps(1) [OF 2(1)] quoted_code_simps(2) [OF 2(2)] by blast
    then show ?thesis using 2 by simp
  next
    case 3
    then have "192 + n div 64 = m"
      using percent_byte_inj [OF b(1) [OF assms(1)] assms(2)] assms(3)
      unfolding quoted_code_simps(2) [OF 3(1)] quoted_code_simps(1) [OF 3(2)] by blast
    then show ?thesis using 3 by simp
  next
    case 4
    have e: "192 + n div 64 = 192 + m div 64" "percent_byte (128 + n mod 64) @ x = percent_byte (128 + m mod 64) @ y"
      using percent_byte_inj [OF b(1) [OF assms(1)] b(1) [OF assms(2)]] assms(3)
      unfolding quoted_code_simps(2) [OF 4(1)] quoted_code_simps(2) [OF 4(2)] by blast+
    have "128 + n mod 64 = 128 + m mod 64"
      using percent_byte_inj [OF b(2) [OF assms(1)] b(2) [OF assms(2)] e(2)] by blast
    then show ?thesis using e(1) by (metis add_left_cancel div_mult_mod_eq)
  qed
qed

lemma quoted_head: "quoted_code n \<noteq> [] \<and> hd (quoted_code n) = CHR ''%''"
  by (simp add: quoted_code_def percent_byte_def)

lemma esc_char_head:
  "esc_char c = quoted_code (of_char c) \<or> (esc_char c \<noteq> [] \<and> hd (esc_char c) = c \<and> c \<noteq> CHR ''%'')"
proof -
  have "\<not> url_safe (CHR ''%'')" by (simp add: url_safe_def)
  then show ?thesis
    by (cases "url_safe c") (auto simp: esc_char_def url_quote_def quoted_code_def Let_def)
qed

lemma esc_char_nonempty: "esc_char c \<noteq> []"
  using esc_char_head [of c] quoted_head [of "of_char c"] by metis

lemma esc_char_prefix_free:
  assumes "esc_char c @ x = esc_char d @ y"
  shows "c = d"
proof (cases "esc_char c = quoted_code (of_char c) \<and> esc_char d = quoted_code (of_char d)")
  case True
  then have "(of_char c :: nat) = of_char d"
    using assms quoted_code_inj [of "of_char c" "of_char d" x y] by simp
  then show ?thesis by simp
next
  case False
  have "hd (esc_char c) = hd (esc_char d)"
    using assms esc_char_nonempty by (metis hd_append2)
  then show ?thesis
    using False esc_char_head [of c] esc_char_head [of d] quoted_head by metis
qed

lemma badge_esc_inj: "badge_esc s = badge_esc t \<Longrightarrow> s = t"
proof (induction s arbitrary: t)
  case Nil
  then show ?case by (cases t) (auto simp: badge_esc_chars esc_char_nonempty)
next
  case (Cons c s)
  then obtain d u where t: "t = d # u" by (cases t) (auto simp: badge_esc_chars esc_char_nonempty)
  have e: "esc_char c @ badge_esc s = esc_char d @ badge_esc u" using Cons.prems t by (simp add: badge_esc_chars)
  then have "c = d" by (rule esc_char_prefix_free)
  then show ?case using e t Cons.IH by simp
qed

text \<open>The dash between the two texts is not told from theirs.\<close>

lemma badge_ambiguous: "static_badge ''a-'' ''b'' col = static_badge ''a'' ''-b'' col"
  by (simp add: static_badge_def badge_esc_chars esc_char_def)

end
